(* ===== verification/Prelude.thy ===== *)
theory Prelude
  imports Main "HOL-Library.Word"
begin

text \<open>
  Shared vocabulary of the development: octets and octet strings, big-endian 16-bit
  fields, sub-ranges of C arrays, writes into fixed C buffers, and the list and word
  lemmas that the component theories rest on.  The collection \<open>buf_simps\<close> holds the
  rewrite rules for sub-ranges of concatenated buffers.
\<close>

unbundle bit_operations_syntax

named_theorems buf_simps \<open>sub-ranges and lengths of concatenated buffers\<close>
named_theorems crypto_sizes \<open>lengths of the results of the cryptographic primitives\<close>

type_synonym byte = "8 word"
type_synonym bytes = "byte list"

section \<open>Sub-ranges of buffers\<close>

text \<open>\<open>slice off n buf\<close> is what \<open>memcpy(dst, buf + off, n)\<close> copies.\<close>

definition slice :: "nat \<Rightarrow> nat \<Rightarrow> 'a list \<Rightarrow> 'a list" where
  "slice off n xs = take n (drop off xs)"

lemma length_slice [simp]: "length (slice off n xs) = min n (length xs - off)"
  by (simp add: slice_def)

lemma slice_0 [simp]: "slice 0 n xs = take n xs"
  by (simp add: slice_def)

lemma slice_append_left [buf_simps]:
  "off + n \<le> length xs \<Longrightarrow> slice off n (xs @ ys) = slice off n xs"
  by (simp add: slice_def)

lemma slice_append_right [buf_simps]:
  "length xs \<le> off \<Longrightarrow> slice off n (xs @ ys) = slice (off - length xs) n ys"
  by (simp add: slice_def)

lemma slice_all [buf_simps]: "length xs \<le> n \<Longrightarrow> slice 0 n xs = xs"
  by simp

lemma slice_full [simp]: "slice 0 (length xs) xs = xs"
  by simp

lemma slice_split: "slice off (m + n) xs = slice off m xs @ slice (off + m) n xs"
  by (simp add: slice_def take_add add.commute)

lemma slice_whole_drop: "off + n = length xs \<Longrightarrow> slice off n xs = drop off xs"
  by (simp add: slice_def)

lemma take_slice_append: "off \<le> length xs \<Longrightarrow> take off xs @ slice off n xs = take (off + n) xs"
  by (simp add: slice_def take_add)

lemma slice_at: "length pre = k \<Longrightarrow> slice k (length xs) (pre @ xs @ ys) = xs"
  by (simp add: slice_def)

lemma take_min_length [simp]:
  "take (min (length xs) n) xs = take n xs" "take (min (length xs - k) n) (drop k xs) = take n (drop k xs)"
  by (simp_all add: min_def)

lemma append_single [simp]: "(@) [x] = (#) x"
  by (rule ext) simp

section \<open>Writes into fixed buffers\<close>

text \<open>\<open>poke buf off data\<close> is \<open>memcpy(buf + off, data, length data)\<close> for a write
  that stays inside \<open>buf\<close>.\<close>

definition poke :: "'a list \<Rightarrow> nat \<Rightarrow> 'a list \<Rightarrow> 'a list" where
  "poke buf off data = take off buf @ data @ drop (off + length data) buf"

lemma length_poke [simp]:
  "off + length data \<le> length buf \<Longrightarrow> length (poke buf off data) = length buf"
  by (simp add: poke_def)

lemma take_poke [simp]: "off \<le> length buf \<Longrightarrow> take off (poke buf off data) = take off buf"
  by (simp add: poke_def)

lemma take_poke_end:
  "off \<le> length buf \<Longrightarrow> take (off + length data) (poke buf off data) = take off buf @ data"
  by (simp add: poke_def)

lemma slice_poke [simp]: "off \<le> length buf \<Longrightarrow> slice off (length data) (poke buf off data) = data"
  by (simp add: poke_def slice_def)

lemma poke_poke_same:
  assumes "length a = length b" and "off + length a \<le> length buf"
  shows "poke (poke buf off a) off b = poke buf off b"
  using assms by (simp add: poke_def)

lemma poke_slice_id: "off + n \<le> length buf \<Longrightarrow> poke buf off (slice off n buf) = buf"
  by (simp add: poke_def slice_def flip: append_assoc)
    (metis append_take_drop_id take_add)

text \<open>The contents of a buffer after \<open>memset(buf, 0, n)\<close>.\<close>

abbreviation zeros :: "nat \<Rightarrow> bytes" where
  "zeros n \<equiv> replicate n 0"

section \<open>Files\<close>

text \<open>
  \<open>files\<close> maps a path to its contents, \<open>writable\<close> says whether \<open>fopen(path, "wb")\<close>
  succeeds and \<open>room\<close> how many octets \<open>fwrite\<close> can write.
\<close>

record fsys =
  files :: "string \<Rightarrow> bytes option"
  writable :: "string \<Rightarrow> bool"
  room :: nat

text \<open>\<open>save_blob\<close> is \<open>fopen\<close>, \<open>fwrite\<close> and \<open>fclose\<close> of an object: whether all of it
  was written, and the files afterwards.\<close>

definition save_blob :: "fsys \<Rightarrow> string \<Rightarrow> bytes \<Rightarrow> bool \<times> fsys" where
  "save_blob fs path b =
     (if \<not> writable fs path then (False, fs)
      else let n = min (length b) (room fs)
           in (n = length b, fs\<lparr>files := (files fs)(path \<mapsto> take n b)\<rparr>))"

text \<open>\<open>load_blob\<close> is \<open>fopen\<close>, \<open>fread\<close> and \<open>fclose\<close> into an object with contents
  \<open>old\<close>: \<open>None\<close> when the file cannot be opened, else whether all of the object was
  read, and its contents.\<close>

definition load_blob :: "fsys \<Rightarrow> string \<Rightarrow> bytes \<Rightarrow> (bool \<times> bytes) option" where
  "load_blob fs path old =
     (case files fs path of
        None \<Rightarrow> None
      | Some f \<Rightarrow> let n = min (length old) (length f) in Some (n = length old, poke old 0 (take n f)))"

lemma save_blob_ok: "fst (save_blob fs p b) \<longleftrightarrow> writable fs p \<and> length b \<le> room fs"
  by (auto simp: save_blob_def Let_def)

lemma save_load_blob:
  "fst (save_blob fs p b) \<Longrightarrow> length old = length b \<Longrightarrow>
   load_blob (snd (save_blob fs p b)) p old = Some (True, b)"
  by (auto simp: save_blob_def load_blob_def poke_def Let_def split: if_splits)

section \<open>Big-endian 16-bit fields\<close>

text \<open>
  \<open>htons((uint16_t)n)\<close> copied to the wire, and its inverse: the C cast keeps the low
  16 bits, which is what \<open>of_nat\<close> into the two octets does.
\<close>

definition be16 :: "nat \<Rightarrow> bytes" where
  "be16 n = [of_nat (n div 256), of_nat (n mod 256)]"

definition get16 :: "bytes \<Rightarrow> nat \<Rightarrow> nat" where
  "get16 bs off = unat (bs ! off) * 256 + unat (bs ! (off + 1))"

lemma length_be16 [simp]: "length (be16 n) = 2"
  by (simp add: be16_def)

lemma unat_byte_of_nat: "unat (of_nat n :: byte) = n mod 256"
  by (simp add: unat_of_nat)

lemma get16_be16_mod: "get16 (be16 n) 0 = n mod 65536"
proof -
  have "n mod 65536 = (n div 256) mod 256 * 256 + n mod 256"
    using mod_mult2_eq [of n 256 256] by simp
  then show ?thesis by (simp add: get16_def be16_def unat_byte_of_nat)
qed

lemma get16_bound: "get16 bs off < 65536"
proof -
  have "unat (bs ! off) < 256" "unat (bs ! (off + 1)) < 256"
    using unsigned_less [of "bs ! off", where 'a = nat] unsigned_less [of "bs ! (off + 1)", where 'a = nat]
    by simp_all
  then show ?thesis by (simp add: get16_def)
qed

lemma get16_append_right [buf_simps]:
  "length xs \<le> off \<Longrightarrow> get16 (xs @ ys) off = get16 ys (off - length xs)"
  by (simp add: get16_def nth_append Suc_diff_le)

lemma get16_append_be16 [simp]:
  "n < 65536 \<Longrightarrow> get16 (be16 n @ ys) 0 = n"
  using get16_be16_mod [of n] by (simp add: get16_def be16_def nth_append)

section \<open>Words as octets\<close>

text \<open>An ASCII C string without its terminating zero.\<close>

definition ascii :: "string \<Rightarrow> bytes" where
  "ascii s = map of_char s"

lemma length_ascii [simp]: "length (ascii s) = length s"
  by (simp add: ascii_def)

text \<open>Octets are compared by \<open>memcmp\<close> and \<open>sodium_memcmp\<close> over a given length.\<close>

definition memcmp_eq :: "bytes \<Rightarrow> bytes \<Rightarrow> nat \<Rightarrow> bool" where
  "memcmp_eq a b n \<longleftrightarrow> take n a = take n b"

lemma memcmp_eq_refl [simp]: "memcmp_eq a a n"
  by (simp add: memcmp_eq_def)

lemma memcmp_eqD: "memcmp_eq a b n \<Longrightarrow> length a = n \<Longrightarrow> length b = n \<Longrightarrow> a = b"
  by (simp add: memcmp_eq_def)

section \<open>Case rules for branching results\<close>

text \<open>
  A handler is a tree of conditionals, bindings and case distinctions.  \<open>sat P x\<close> is
  \<open>P x\<close> under a constant, so that the rules of \<open>sat_rules\<close> take the tree apart one
  branch at a time and leave one goal per \<open>return\<close>, with the conditions on the path
  to it as assumptions.
\<close>

named_theorems sat_rules \<open>introduction rules for the branches of a handler\<close>

definition sat :: "('a \<Rightarrow> bool) \<Rightarrow> 'a \<Rightarrow> bool" where
  "sat P x \<longleftrightarrow> P x"

lemma sat_if [sat_rules]:
  "(b \<Longrightarrow> sat P x) \<Longrightarrow> (\<not> b \<Longrightarrow> sat P y) \<Longrightarrow> sat P (if b then x else y)"
  by simp

lemma sat_let [sat_rules]: "(\<And>v. v = t \<Longrightarrow> sat P (f v)) \<Longrightarrow> sat P (Let t f)"
  by simp

lemma sat_prod [sat_rules]: "(\<And>a b. x = (a, b) \<Longrightarrow> sat P (f a b)) \<Longrightarrow> sat P (case x of (a, b) \<Rightarrow> f a b)"
  by (simp split: prod.split)

lemma sat_option [sat_rules]:
  "(x = None \<Longrightarrow> sat P n) \<Longrightarrow> (\<And>v. x = Some v \<Longrightarrow> sat P (f v)) \<Longrightarrow>
   sat P (case x of None \<Rightarrow> n | Some v \<Rightarrow> f v)"
  by (simp split: option.split)

lemma sat_Some [sat_rules]: "P (Some v) \<Longrightarrow> sat P (Some v)"
  by (simp add: sat_def)

lemma sat_None [sat_rules]: "P None \<Longrightarrow> sat P None"
  by (simp add: sat_def)

lemma sat_Pair [sat_rules]: "P (a, b) \<Longrightarrow> sat P (a, b)"
  by (simp add: sat_def)

lemma satD: "sat P x \<Longrightarrow> P x"
  by (simp add: sat_def)

end
