(* ===== verification/Primitives.thy ===== *)
theory Primitives
  imports Prelude
begin

text \<open>
  The cryptographic primitives the program calls but does not implement in its own
  sources: libsodium (SHA-256, HMAC-SHA256, X25519, Ed25519, ChaCha20-Poly1305,
  \<open>randombytes\<close>) and the key encapsulation and signature entry points of PQClean.
  They are one record \<open>'r crypto\<close> that every modelled function takes as an argument;
  \<open>'r\<close> is the state of the random generator, threaded explicitly.  A call that can
  return a non-zero code returns \<open>None\<close> in that case.

  The predicates \<open>hash_ok\<close>, \<open>x25519_ok\<close>, \<dots> are the documented behaviour the
  program relies on (result sizes, decryption inverts encryption, Diffie-Hellman
  commutes, verification accepts genuine signatures).  They say nothing about the
  program; \<open>toy\<close> is a concrete instance that satisfies all of them.
\<close>

record 'r crypto =
  crypto_hash_sha256 :: "bytes \<Rightarrow> bytes"
  crypto_auth_hmacsha256 :: "bytes \<Rightarrow> bytes \<Rightarrow> bytes"  \<comment> \<open>key, message\<close>
  crypto_scalarmult_base :: "bytes \<Rightarrow> bytes"
  crypto_scalarmult :: "bytes \<Rightarrow> bytes \<Rightarrow> bytes option"  \<comment> \<open>scalar, point\<close>
  crypto_aead_encrypt :: "bytes \<Rightarrow> bytes \<Rightarrow> bytes \<Rightarrow> bytes \<Rightarrow> bytes option"
    \<comment> \<open>key, nonce, associated data, plaintext\<close>
  crypto_aead_decrypt :: "bytes \<Rightarrow> bytes \<Rightarrow> bytes \<Rightarrow> bytes \<Rightarrow> bytes option"
  crypto_sign_keypair :: "'r \<Rightarrow> (bytes \<times> bytes) \<times> 'r"  \<comment> \<open>verify key, secret key\<close>
  crypto_sign_detached :: "bytes \<Rightarrow> bytes \<Rightarrow> bytes option"  \<comment> \<open>message, secret key\<close>
  crypto_sign_verify_detached :: "bytes \<Rightarrow> bytes \<Rightarrow> bytes \<Rightarrow> bool"  \<comment> \<open>signature, message, key\<close>
  randombytes_buf :: "nat \<Rightarrow> 'r \<Rightarrow> bytes \<times> 'r"
  sodium_init :: int
  mlkem_keypair :: "'r \<Rightarrow> (bytes \<times> bytes) option \<times> 'r"  \<comment> \<open>public, secret\<close>
  mlkem_enc :: "bytes \<Rightarrow> 'r \<Rightarrow> (bytes \<times> bytes) option \<times> 'r"  \<comment> \<open>ciphertext, shared secret\<close>
  mlkem_dec :: "bytes \<Rightarrow> bytes \<Rightarrow> bytes option"  \<comment> \<open>ciphertext, secret key\<close>
  mldsa_keypair :: "'r \<Rightarrow> (bytes \<times> bytes) option \<times> 'r"  \<comment> \<open>verify key, secret key\<close>
  mldsa_signature :: "bytes \<Rightarrow> bytes \<Rightarrow> 'r \<Rightarrow> bytes option \<times> 'r"  \<comment> \<open>message, secret key\<close>
  mldsa_verify :: "bytes \<Rightarrow> bytes \<Rightarrow> bytes \<Rightarrow> bool"  \<comment> \<open>signature, message, verify key\<close>

section \<open>Documented behaviour the program relies on\<close>

definition hash_ok :: "'r crypto \<Rightarrow> bool" where
  "hash_ok C \<longleftrightarrow>
     (\<forall>m. length (crypto_hash_sha256 C m) = 32) \<and>
     (\<forall>k m. length (crypto_auth_hmacsha256 C k m) = 32)"

definition aead_ok :: "'r crypto \<Rightarrow> bool" where
  "aead_ok C \<longleftrightarrow>
     (\<forall>k n ad m. length k = 32 \<longrightarrow> length n = 12 \<longrightarrow>
        (\<exists>c. crypto_aead_encrypt C k n ad m = Some c \<and> length c = length m + 16 \<and>
             crypto_aead_decrypt C k n ad c = Some m)) \<and>
     (\<forall>k n ad c m. crypto_aead_decrypt C k n ad c = Some m \<longrightarrow> length c = length m + 16)"

definition x25519_ok :: "'r crypto \<Rightarrow> bool" where
  "x25519_ok C \<longleftrightarrow>
     (\<forall>a. length a = 32 \<longrightarrow> length (crypto_scalarmult_base C a) = 32) \<and>
     (\<forall>a b. length a = 32 \<longrightarrow> length b = 32 \<longrightarrow>
        (\<exists>s. crypto_scalarmult C a (crypto_scalarmult_base C b) = Some s \<and>
             crypto_scalarmult C b (crypto_scalarmult_base C a) = Some s)) \<and>
     (\<forall>a p s. crypto_scalarmult C a p = Some s \<longrightarrow> length s = 32)"

definition ed25519_ok :: "'r crypto \<Rightarrow> bool" where
  "ed25519_ok C \<longleftrightarrow>
     (\<forall>r vk sk r'. crypto_sign_keypair C r = ((vk, sk), r') \<longrightarrow>
        length vk = 32 \<and> length sk = 64 \<and>
        (\<forall>m. \<exists>s. crypto_sign_detached C m sk = Some s \<and>
             crypto_sign_verify_detached C s m vk)) \<and>
     (\<forall>m sk s. crypto_sign_detached C m sk = Some s \<longrightarrow> length s = 64)"

definition rng_ok :: "'r crypto \<Rightarrow> bool" where
  "rng_ok C \<longleftrightarrow> (\<forall>n r. length (fst (randombytes_buf C n r)) = n)"

text \<open>
  ML-KEM-768: the published failure probability of a matching encapsulation and
  decapsulation is below \<open>2\<^sup>-\<^sup>1\<^sup>6\<^sup>0\<close>; runs without such a failure are what
  \<open>mlkem_ok\<close> describes.
\<close>

definition mlkem_ok :: "'r crypto \<Rightarrow> bool" where
  "mlkem_ok C \<longleftrightarrow>
     (\<forall>r. \<exists>pk sk. fst (mlkem_keypair C r) = Some (pk, sk)) \<and>
     (\<forall>r pk sk. fst (mlkem_keypair C r) = Some (pk, sk) \<longrightarrow>
        length pk = 1184 \<and> length sk = 2400 \<and>
        (\<forall>r'. \<exists>ct ss. fst (mlkem_enc C pk r') = Some (ct, ss) \<and> mlkem_dec C ct sk = Some ss)) \<and>
     (\<forall>pk r ct ss. fst (mlkem_enc C pk r) = Some (ct, ss) \<longrightarrow> length ct = 1088 \<and> length ss = 32) \<and>
     (\<forall>ct sk ss. mlkem_dec C ct sk = Some ss \<longrightarrow> length ss = 32)"

definition mldsa_ok :: "'r crypto \<Rightarrow> bool" where
  "mldsa_ok C \<longleftrightarrow>
     (\<forall>r. \<exists>vk sk. fst (mldsa_keypair C r) = Some (vk, sk)) \<and>
     (\<forall>r vk sk. fst (mldsa_keypair C r) = Some (vk, sk) \<longrightarrow>
        length vk = 1312 \<and> length sk = 2560 \<and>
        (\<forall>m r'. \<exists>s. fst (mldsa_signature C m sk r') = Some s \<and> mldsa_verify C s m vk)) \<and>
     (\<forall>m sk r s. fst (mldsa_signature C m sk r) = Some s \<longrightarrow> length s = 2420)"

definition crypto_ok :: "'r crypto \<Rightarrow> bool" where
  "crypto_ok C \<longleftrightarrow> hash_ok C \<and> aead_ok C \<and> x25519_ok C \<and> ed25519_ok C \<and> rng_ok C \<and>
     mlkem_ok C \<and> mldsa_ok C \<and> 0 \<le> sodium_init C"

lemma crypto_okD:
  assumes "crypto_ok C"
  shows "hash_ok C" "aead_ok C" "x25519_ok C" "ed25519_ok C" "rng_ok C" "mlkem_ok C"
    "mldsa_ok C" "0 \<le> sodium_init C"
  using assms by (auto simp: crypto_ok_def)

lemma hash_ok_len [crypto_sizes]:
  assumes "hash_ok C"
  shows "length (crypto_hash_sha256 C m) = 32" "length (crypto_auth_hmacsha256 C k m) = 32"
  using assms by (auto simp: hash_ok_def)

lemma rng_ok_len [crypto_sizes]:
  "rng_ok C \<Longrightarrow> randombytes_buf C n r = (b, r') \<Longrightarrow> length b = n"
  by (metis fst_conv rng_ok_def)

lemma aead_okE:
  assumes "aead_ok C" "length k = 32" "length n = 12"
  obtains c where "crypto_aead_encrypt C k n ad m = Some c" "length c = length m + 16"
    "crypto_aead_decrypt C k n ad c = Some m"
  using assms unfolding aead_ok_def by blast

lemma aead_decrypt_len:
  "aead_ok C \<Longrightarrow> crypto_aead_decrypt C k n ad c = Some m \<Longrightarrow> length c = length m + 16"
  unfolding aead_ok_def by blast

lemma x25519_base_len [crypto_sizes]:
  "x25519_ok C \<Longrightarrow> length a = 32 \<Longrightarrow> length (crypto_scalarmult_base C a) = 32"
  by (simp add: x25519_ok_def)

lemma x25519_len [crypto_sizes]:
  "x25519_ok C \<Longrightarrow> crypto_scalarmult C a p = Some s \<Longrightarrow> length s = 32"
  unfolding x25519_ok_def by blast

lemma x25519_dhE:
  assumes "x25519_ok C" "length a = 32" "length b = 32"
  obtains s where "crypto_scalarmult C a (crypto_scalarmult_base C b) = Some s"
    "crypto_scalarmult C b (crypto_scalarmult_base C a) = Some s" "length s = 32"
  using assms unfolding x25519_ok_def by (metis (no_types, lifting))

section \<open>AEAD wrappers\<close>

text \<open>
  Both protocol cores wrap the AEAD: the key and nonce come from a key derivation over
  a pseudo-random key and a transcript hash, and the plaintext is written into a
  caller's buffer.  libsodium documents that up to \<open>clen - 16\<close> octets are put there,
  so a buffer with less room is overrun: the outcome \<open>Overrun\<close> stands for undefined
  behaviour.
\<close>

datatype aead_result = Opened bytes | Rejected | Overrun

locale aead_channel =
  fixes dk :: "'r crypto \<Rightarrow> bytes \<Rightarrow> bytes \<Rightarrow> bytes \<times> bytes"
    and seal :: "'r crypto \<Rightarrow> bytes \<Rightarrow> bytes \<Rightarrow> bytes \<Rightarrow> bytes option"
    and opn :: "'r crypto \<Rightarrow> nat \<Rightarrow> bytes \<Rightarrow> bytes \<Rightarrow> bytes \<Rightarrow> aead_result"
  assumes dk_len: "hash_ok C \<Longrightarrow> dk C prk th = (key, nonce) \<Longrightarrow> length key = 32 \<and> length nonce = 12"
    and seal_eq: "seal C prk th pt =
      (case dk C prk th of (key, nonce) \<Rightarrow> crypto_aead_encrypt C key nonce th pt)"
    and opn_eq: "opn C cap prk th ct =
      (case dk C prk th of (key, nonce) \<Rightarrow>
         if cap + 16 < length ct then Overrun
         else (case crypto_aead_decrypt C key nonce th ct of None \<Rightarrow> Rejected | Some pt \<Rightarrow> Opened pt))"
begin

lemma opn_Overrun: "opn C cap prk th ct = Overrun \<longleftrightarrow> cap + 16 < length ct"
  by (simp add: opn_eq split: prod.splits option.splits)

lemma sat_opn [sat_rules]:
  assumes "cap + 16 < length ct \<Longrightarrow> sat P over"
    and "\<not> cap + 16 < length ct \<Longrightarrow> opn C cap prk th ct = Rejected \<Longrightarrow> sat P rej"
    and "\<And>pt. \<not> cap + 16 < length ct \<Longrightarrow> opn C cap prk th ct = Opened pt \<Longrightarrow> sat P (f pt)"
  shows "sat P (case opn C cap prk th ct of Opened pt \<Rightarrow> f pt | Rejected \<Rightarrow> rej | Overrun \<Rightarrow> over)"
  using assms opn_Overrun [of C cap prk th ct] by (cases "opn C cap prk th ct") auto

lemma seal_opn:
  assumes "hash_ok C" "aead_ok C"
  shows "\<exists>ct. seal C prk th pt = Some ct \<and> length ct = length pt + 16 \<and>
    (\<forall>cap. length pt \<le> cap \<longrightarrow> opn C cap prk th ct = Opened pt)"
proof -
  obtain key nonce where k: "dk C prk th = (key, nonce)" by fastforce
  with assms dk_len have "length key = 32" "length nonce = 12" by blast+
  then obtain ct where "crypto_aead_encrypt C key nonce th pt = Some ct" "length ct = length pt + 16"
    "crypto_aead_decrypt C key nonce th ct = Some pt"
    using assms(2) by (blast elim: aead_okE)
  then show ?thesis by (simp add: seal_eq opn_eq k)
qed

end

section \<open>A concrete instance\<close>

text \<open>
  The instance has no randomness and no secrecy; it shows that the predicates above
  can hold together and is what the witnesses evaluate.
\<close>

definition toy_pad :: "nat \<Rightarrow> bytes \<Rightarrow> bytes" where
  "toy_pad n m = take n (m @ replicate n 0)"

lemma length_toy_pad [simp]: "length (toy_pad n m) = n"
  by (simp add: toy_pad_def)

definition toy :: "unit crypto" where
  "toy = \<lparr>
     crypto_hash_sha256 = toy_pad 32,
     crypto_auth_hmacsha256 = (\<lambda>k m. toy_pad 32 (rev m @ k)),
     crypto_scalarmult_base = (\<lambda>a. a),
     crypto_scalarmult = (\<lambda>a p. Some (map (\<lambda>i. (toy_pad 32 a) ! i XOR (toy_pad 32 p) ! i) [0..<32])),
     crypto_aead_encrypt = (\<lambda>k n ad m. Some (m @ replicate 16 0)),
     crypto_aead_decrypt = (\<lambda>k n ad c.
        if 16 \<le> length c \<and> drop (length c - 16) c = replicate 16 0
        then Some (take (length c - 16) c) else None),
     crypto_sign_keypair = (\<lambda>r. ((replicate 32 1, replicate 64 1), r)),
     crypto_sign_detached = (\<lambda>m sk. Some (replicate 64 2)),
     crypto_sign_verify_detached = (\<lambda>s m vk. s = replicate 64 2),
     randombytes_buf = (\<lambda>n r. (replicate n 7, r)),
     sodium_init = 0,
     mlkem_keypair = (\<lambda>r. (Some (replicate 1184 3, replicate 2400 4), r)),
     mlkem_enc = (\<lambda>pk r. (Some (replicate 1088 5, replicate 32 6), r)),
     mlkem_dec = (\<lambda>ct sk. Some (replicate 32 6)),
     mldsa_keypair = (\<lambda>r. (Some (replicate 1312 8, replicate 2560 9), r)),
     mldsa_signature = (\<lambda>m sk r. (Some (replicate 2420 10), r)),
     mldsa_verify = (\<lambda>s m vk. s = replicate 2420 10) \<rparr>"

lemma toy_ok: "crypto_ok toy"
  by (auto simp: crypto_ok_def hash_ok_def aead_ok_def x25519_ok_def ed25519_ok_def rng_ok_def
      mlkem_ok_def mldsa_ok_def toy_def xor.commute split: if_splits)

end
