(* ===== verification/Kdf.thy ===== *)
theory Kdf
  imports Primitives
begin

text \<open>
  HKDF-Expand (RFC 5869, section 2.3) as a reference definition, and the contract
  shared by the four expansion loops of the program (\<open>edhoc4.c\<close>, \<open>edhoc03.c\<close>
  and, twice, \<open>bootstrap.c\<close>) as the locale \<open>expand_loop\<close>: each loop is shown
  to compute the reference for every output length the RFC allows.
\<close>

section \<open>The reference\<close>

primrec rfc5869_T :: "(bytes \<Rightarrow> bytes) \<Rightarrow> bytes \<Rightarrow> nat \<Rightarrow> bytes" where
  "rfc5869_T h info 0 = []"
| "rfc5869_T h info (Suc i) = h (rfc5869_T h info i @ info @ [of_nat (Suc i)])"

definition rfc5869_blocks :: "(bytes \<Rightarrow> bytes) \<Rightarrow> bytes \<Rightarrow> nat \<Rightarrow> nat \<Rightarrow> bytes" where
  "rfc5869_blocks h info k N = concat (map (rfc5869_T h info) [Suc k..<Suc N])"

text \<open>The output is undefined (\<open>None\<close>) beyond 255 blocks, where the one-octet counter
  would be exhausted.\<close>

definition rfc5869_expand :: "(bytes \<Rightarrow> bytes) \<Rightarrow> bytes \<Rightarrow> nat \<Rightarrow> bytes option" where
  "rfc5869_expand h info L =
     (if L \<le> 255 * 32 then Some (take L (rfc5869_blocks h info 0 ((L + 31) div 32))) else None)"

lemma rfc5869_T_len: "(\<And>m. length (h m) = 32) \<Longrightarrow> 0 < k \<Longrightarrow> length (rfc5869_T h info k) = 32"
  by (cases k) auto

lemma rfc5869_blocks_Suc:
  "k < N \<Longrightarrow> rfc5869_blocks h info k N = rfc5869_T h info (Suc k) @ rfc5869_blocks h info (Suc k) N"
  by (simp add: rfc5869_blocks_def upt_conv_Cons del: rfc5869_T.simps upt_Suc)

lemma length_rfc5869_blocks:
  assumes "\<And>m. length (h m) = 32" "k \<le> N"
  shows "length (rfc5869_blocks h info k N) = 32 * (N - k)"
  using assms(2)
proof (induction "N - k" arbitrary: k)
  case 0
  then show ?case by (simp add: rfc5869_blocks_def)
next
  case (Suc n)
  then have "length (rfc5869_blocks h info (Suc k) N) = 32 * (N - Suc k)" by simp
  with Suc show ?case
    using assms(1) by (simp add: rfc5869_blocks_Suc)
qed

section \<open>The contract of the expansion loops\<close>

text \<open>
  \<open>go h info L t tlen done ctr okm\<close> is the loop with its locals: the previous block
  \<open>t\<close> (used from the second turn on, when \<open>tlen\<close> is 32), the octets written so far
  and the one-octet counter.
\<close>

locale expand_loop =
  fixes go :: "(bytes \<Rightarrow> bytes) \<Rightarrow> bytes \<Rightarrow> nat \<Rightarrow> bytes \<Rightarrow> nat \<Rightarrow> nat \<Rightarrow> byte \<Rightarrow> bytes \<Rightarrow> bytes"
  assumes go_turn: "dn < L \<Longrightarrow> go h info L t tlen dn ctr okm =
      (let t' = h (take tlen t @ info @ [ctr]);
           n = (if L - dn < 32 then L - dn else 32)
       in go h info L t' 32 (dn + n) (ctr + 1) (okm @ take n t'))"
    and go_exit: "\<not> dn < L \<Longrightarrow> go h info L t tlen dn ctr okm = okm"
begin

lemma go_blocks:
  assumes len: "\<And>m. length (h m) = 32"
    and "take tlen t = rfc5869_T h info k" "32 * k \<le> L"
  shows "go h info L t tlen (32 * k) (of_nat (Suc k)) okm =
    okm @ take (L - 32 * k) (rfc5869_blocks h info k ((L + 31) div 32))"
  using assms(2,3)
proof (induction "L - 32 * k" arbitrary: k t tlen okm rule: less_induct)
  case less
  let ?T = "rfc5869_T h info (Suc k)"
  have T: "h (take tlen t @ info @ [of_nat (Suc k)]) = ?T" by (simp add: less.prems)
  have lenT: "length ?T = 32" using len by simp
  consider "32 * k = L" | "32 * k < L" "L - 32 * k < 32" | "32 * k < L" "32 \<le> L - 32 * k"
    using less.prems(2) by linarith
  then show ?case
  proof cases
    case 1
    then show ?thesis by (simp add: go_exit)
  next
    case 2
    then have N: "k < (L + 31) div 32" by linarith
    from 2 have "go h info L t tlen (32 * k) (of_nat (Suc k)) okm = okm @ take (L - 32 * k) ?T"
      using T by (simp add: go_turn Let_def go_exit del: rfc5869_T.simps)
    with 2 N lenT show ?thesis by (simp add: rfc5869_blocks_Suc del: rfc5869_T.simps)
  next
    case 3
    then have N: "k < (L + 31) div 32" by linarith
    have "go h info L t tlen (32 * k) (of_nat (Suc k)) okm =
        go h info L ?T 32 (32 * Suc k) (of_nat (Suc (Suc k))) (okm @ ?T)"
      using 3 T lenT by (simp add: go_turn Let_def add.commute del: rfc5869_T.simps)
    also have "\<dots> = (okm @ ?T) @ take (L - 32 * Suc k) (rfc5869_blocks h info (Suc k) ((L + 31) div 32))"
      by (rule less.hyps) (use 3 lenT in \<open>simp_all del: rfc5869_T.simps\<close>)
    also have "\<dots> = okm @ take (L - 32 * k) (rfc5869_blocks h info k ((L + 31) div 32))"
    proof -
      have "take (L - 32 * k) ?T = ?T" using 3 lenT by simp
      moreover have "L - 32 * k - length ?T = L - 32 * Suc k" using lenT by simp
      ultimately show ?thesis
        by (simp only: rfc5869_blocks_Suc [OF N] take_append append_assoc)
    qed
    finally show ?thesis .
  qed
qed

lemma go_blocks_0:
  assumes "\<And>m. length (h m) = 32"
  shows "go h info L t 0 0 1 [] = take L (rfc5869_blocks h info 0 ((L + 31) div 32))"
  using go_blocks [of h 0 t info 0 L "[]"] assms by simp

lemma go_rfc5869:
  assumes "\<And>m. length (h m) = 32" "L \<le> 255 * 32"
  shows "rfc5869_expand h info L = Some (go h info L t 0 0 1 [])"
  using assms by (simp add: go_blocks_0 rfc5869_expand_def)

lemma length_go:
  assumes "\<And>m. length (h m) = 32"
  shows "length (go h info L t 0 0 1 []) = L"
proof -
  have "length (rfc5869_blocks h info 0 ((L + 31) div 32)) = 32 * ((L + 31) div 32)"
    using length_rfc5869_blocks [OF assms] by simp
  moreover have "L \<le> 32 * ((L + 31) div 32)" by linarith
  ultimately show ?thesis using assms by (simp add: go_blocks_0)
qed

end

end
