(* ===== verification/Bootstrap.thy ===== *)
theory Bootstrap
  imports Kdf
begin

text \<open>
  \<open>src/bootstrap/bootstrap.c\<close>: the key schedule that turns the EMSK of a handshake into
  USRK, DSRK and an OSCORE security context.  A pointer argument is an option; an
  operation returns its code and, on success, what it wrote to its output.
\<close>

abbreviation (input) BK_EMSK_LEN :: nat where "BK_EMSK_LEN \<equiv> 64"
abbreviation (input) BK_USRK_LEN :: nat where "BK_USRK_LEN \<equiv> 64"
abbreviation (input) BK_DSRK_LEN :: nat where "BK_DSRK_LEN \<equiv> 64"
abbreviation (input) BK_OSCORE_MS_LEN :: nat where "BK_OSCORE_MS_LEN \<equiv> 16"
abbreviation (input) BK_OSCORE_SALT_LEN :: nat where "BK_OSCORE_SALT_LEN \<equiv> 8"
abbreviation (input) BK_OSCORE_KEY_LEN :: nat where "BK_OSCORE_KEY_LEN \<equiv> 16"
abbreviation (input) BK_OSCORE_IV_LEN :: nat where "BK_OSCORE_IV_LEN \<equiv> 13"
abbreviation (input) BK_OSCORE_AEAD_ALG :: nat where "BK_OSCORE_AEAD_ALG \<equiv> 10"
abbreviation (input) BK_USRK_KEY_LABEL :: string where
  "BK_USRK_KEY_LABEL \<equiv> ''usrk@example.org,ekeylabel=EAP-EDHOC''"
abbreviation (input) BK_DSRK_DOMAIN_LABEL :: string where
  "BK_DSRK_DOMAIN_LABEL \<equiv> ''dsrk@app-domain.example.org''"

datatype bk_rc = BK_OK | BK_ERR_ARG | BK_ERR_CRYPTO

record bk_oscore_ctx =
  master_secret :: bytes
  master_salt :: bytes
  sender_key :: bytes
  recipient_key :: bytes
  common_iv :: bytes
  sender_id :: byte
  recipient_id :: byte

section \<open>HKDF and the PRF of RFC 5295\<close>

definition bk_hmac :: "'r crypto \<Rightarrow> bytes \<Rightarrow> bytes list \<Rightarrow> bytes" where
  "bk_hmac C key segs = crypto_auth_hmacsha256 C key (concat segs)"

function bk_expand_while ::
  "(bytes \<Rightarrow> bytes) \<Rightarrow> bytes \<Rightarrow> nat \<Rightarrow> bytes \<Rightarrow> nat \<Rightarrow> nat \<Rightarrow> byte \<Rightarrow> bytes \<Rightarrow> bytes" where
  "bk_expand_while h info okm_len t tlen dn ctr okm =
     (if dn < okm_len then
        let t' = h (concat ((if tlen \<noteq> 0 then [take tlen t] else []) @ [info, [ctr]]));
            tlen' = 32;
            n = (if okm_len - dn < tlen' then okm_len - dn else tlen')
        in bk_expand_while h info okm_len t' tlen' (dn + n) (ctr + 1) (okm @ take n t')
      else okm)"
  by pat_completeness auto
termination
  by (relation "measure (\<lambda>(h, info, okm_len, t, tlen, dn, ctr, okm). okm_len - dn)") auto

declare bk_expand_while.simps [simp del]

interpretation bkx: expand_loop bk_expand_while
proof
  fix dn L :: nat and h :: "bytes \<Rightarrow> bytes" and info t ctr okm and tlen :: nat
  assume "dn < L"
  then show "bk_expand_while h info L t tlen dn ctr okm =
      (let t' = h (take tlen t @ info @ [ctr]);
           n = (if L - dn < 32 then L - dn else 32)
       in bk_expand_while h info L t' 32 (dn + n) (ctr + 1) (okm @ take n t'))"
    by (subst bk_expand_while.simps) (simp add: Let_def)
qed (simp add: bk_expand_while.simps)

definition bk_hkdf_expand :: "'r crypto \<Rightarrow> bytes \<Rightarrow> bytes \<Rightarrow> nat \<Rightarrow> bytes" where
  "bk_hkdf_expand C prk info okm_len =
     bk_expand_while (\<lambda>m. bk_hmac C prk [m]) info okm_len (zeros 32) 0 0 1 []"

definition bk_hkdf_extract :: "'r crypto \<Rightarrow> bytes \<Rightarrow> bytes \<Rightarrow> bytes" where
  "bk_hkdf_extract C salt ikm = bk_hmac C salt [ikm]"

lemma bk_hmac_len: "hash_ok C \<Longrightarrow> length (bk_hmac C k segs) = 32"
  by (simp add: bk_hmac_def crypto_sizes)

lemma length_bk_hkdf_expand [crypto_sizes]: "hash_ok C \<Longrightarrow> length (bk_hkdf_expand C prk info L) = L"
  by (simp add: bk_hkdf_expand_def bkx.length_go bk_hmac_len)

text \<open>The string \<open>S\<close>: label, a zero octet and the requested length, big-endian.\<close>

definition prf_seed :: "string \<Rightarrow> nat \<Rightarrow> bytes" where
  "prf_seed label out_len = ascii label @ [0, of_nat (out_len div 256), of_nat out_len]"

definition rfc5295_prf_plus :: "'r crypto \<Rightarrow> bytes \<Rightarrow> string \<Rightarrow> nat \<Rightarrow> bk_rc \<times> bytes option" where
  "rfc5295_prf_plus C key label out_len =
     (let s_len = length label + 1 + 2 in
      if s_len > 256 \<or> out_len > 0xFFFF then (BK_ERR_ARG, None)
      else (BK_OK, Some (bk_expand_while (\<lambda>m. bk_hmac C key [m]) (prf_seed label out_len) out_len
                           (zeros 32) 0 0 1 [])))"

section \<open>Keys\<close>

text \<open>\<open>out\<close> says whether the output pointer is not null.\<close>

definition bk_derive_usrk ::
  "'r crypto \<Rightarrow> bytes option \<Rightarrow> string option \<Rightarrow> bool \<Rightarrow> nat \<Rightarrow> bk_rc \<times> bytes option" where
  "bk_derive_usrk C emsk key_label out usrk_len =
     (case emsk of
        None \<Rightarrow> (BK_ERR_ARG, None)
      | Some k \<Rightarrow>
          if length k < 32 \<or> \<not> out then (BK_ERR_ARG, None)
          else rfc5295_prf_plus C k (case key_label of None \<Rightarrow> BK_USRK_KEY_LABEL | Some l \<Rightarrow> l) usrk_len)"

definition bk_derive_dsrk ::
  "'r crypto \<Rightarrow> bytes option \<Rightarrow> string option \<Rightarrow> bool \<Rightarrow> nat \<Rightarrow> bk_rc \<times> bytes option" where
  "bk_derive_dsrk C parent domain_label out dsrk_len =
     (case parent of
        None \<Rightarrow> (BK_ERR_ARG, None)
      | Some k \<Rightarrow>
          if length k < 32 \<or> \<not> out then (BK_ERR_ARG, None)
          else rfc5295_prf_plus C k (case domain_label of None \<Rightarrow> BK_DSRK_DOMAIN_LABEL | Some l \<Rightarrow> l) dsrk_len)"

definition bk_derive_oscore_master_secret :: "'r crypto \<Rightarrow> bytes option \<Rightarrow> bk_rc \<times> bytes option" where
  "bk_derive_oscore_master_secret C dsrk =
     (case dsrk of
        None \<Rightarrow> (BK_ERR_ARG, None)
      | Some k \<Rightarrow>
          if length k < 32 then (BK_ERR_ARG, None)
          else (BK_OK, Some (bk_hkdf_expand C k (ascii ''OSCORE Master Secret'') BK_OSCORE_MS_LEN)))"

definition bk_derive_oscore_master_salt :: "'r crypto \<Rightarrow> bytes option \<Rightarrow> bk_rc \<times> bytes option" where
  "bk_derive_oscore_master_salt C dsrk =
     (case dsrk of
        None \<Rightarrow> (BK_ERR_ARG, None)
      | Some k \<Rightarrow>
          if length k < 32 then (BK_ERR_ARG, None)
          else (BK_OK, Some (bk_hkdf_expand C k (ascii ''OSCORE Master Salt'') BK_OSCORE_SALT_LEN)))"

section \<open>The OSCORE context\<close>

definition oscore_info :: "bytes \<Rightarrow> string \<Rightarrow> nat \<Rightarrow> bytes" where
  "oscore_info idb type_str L =
     [0x85] @ [0x40 OR of_nat (length idb)] @ idb @ [0x40] @ [of_nat BK_OSCORE_AEAD_ALG] @
     [0x60 OR of_nat (length type_str)] @ ascii type_str @ [of_nat L]"

definition bk_derive_oscore_context ::
  "'r crypto \<Rightarrow> bytes option \<Rightarrow> bytes option \<Rightarrow> byte \<Rightarrow> byte \<Rightarrow> bk_oscore_ctx option \<Rightarrow> bk_rc \<times> bk_oscore_ctx option" where
  "bk_derive_oscore_context C ms salt sid rid ctx =
     (case (ms, salt, ctx) of
        (Some m, Some s, Some c) \<Rightarrow>
          let prk = bk_hkdf_extract C s m
          in (BK_OK, Some (c\<lparr>
               sender_key := bk_hkdf_expand C prk (oscore_info [sid] ''Key'' BK_OSCORE_KEY_LEN) BK_OSCORE_KEY_LEN,
               recipient_key := bk_hkdf_expand C prk (oscore_info [rid] ''Key'' BK_OSCORE_KEY_LEN) BK_OSCORE_KEY_LEN,
               common_iv := bk_hkdf_expand C prk (oscore_info [] ''IV'' BK_OSCORE_IV_LEN) BK_OSCORE_IV_LEN,
               master_secret := slice 0 BK_OSCORE_MS_LEN m, master_salt := slice 0 BK_OSCORE_SALT_LEN s,
               sender_id := sid, recipient_id := rid\<rparr>))
      | _ \<Rightarrow> (BK_ERR_ARG, ctx))"

definition bk_oscore_ctx_from_dsrk ::
  "'r crypto \<Rightarrow> bytes option \<Rightarrow> byte \<Rightarrow> byte \<Rightarrow> bk_oscore_ctx option \<Rightarrow> bk_rc \<times> bk_oscore_ctx option" where
  "bk_oscore_ctx_from_dsrk C dsrk sid rid ctx =
     (case bk_derive_oscore_master_secret C dsrk of (rc, ms) \<Rightarrow>
      if rc \<noteq> BK_OK then (rc, ctx)
      else case bk_derive_oscore_master_salt C dsrk of (rc, salt) \<Rightarrow>
      if rc \<noteq> BK_OK then (rc, ctx)
      else bk_derive_oscore_context C ms salt sid rid ctx)"

section \<open>Fingerprints\<close>

definition hex_digit :: "byte \<Rightarrow> char" where
  "hex_digit w = ''0123456789abcdef'' ! unat w"

text \<open>\<open>out\<close> is the 17-octet buffer with its terminating zero.\<close>

definition bk_fingerprint :: "'r crypto \<Rightarrow> bytes option \<Rightarrow> bool \<Rightarrow> bk_rc \<times> string option" where
  "bk_fingerprint C key out =
     (case key of
        None \<Rightarrow> (BK_ERR_ARG, None)
      | Some k \<Rightarrow>
          if \<not> out then (BK_ERR_ARG, None)
          else let h = crypto_hash_sha256 C (ascii ''bootstrap-fp|'' @ k)
               in (BK_OK, Some (concat (map (\<lambda>i. [hex_digit (drop_bit 4 (h ! i)), hex_digit (h ! i AND 0xf)]) [0..<8])
                                @ [CHR 0x00])))"

section \<open>The schedule as a whole\<close>

text \<open>What an output array holds after a call, given what it held before.\<close>

definition written :: "bytes \<Rightarrow> bk_rc \<times> bytes option \<Rightarrow> bytes" where
  "written old res = (case snd res of None \<Rightarrow> old | Some b \<Rightarrow> b)"

text \<open>The schedule of \<open>selftest.c\<close> from an EMSK to the contexts of the UE and the application
  server, and whether they correspond; \<open>stk\<close> is what the local arrays held.\<close>

definition bootstrap_selftest ::
  "'r crypto \<Rightarrow> bytes \<Rightarrow> (nat \<Rightarrow> bytes) \<Rightarrow> bk_oscore_ctx \<Rightarrow> bk_oscore_ctx \<Rightarrow> bk_oscore_ctx \<times> bk_oscore_ctx \<times> bool" where
  "bootstrap_selftest C emsk stk c d =
     (let usrk = written (stk 0) (bk_derive_usrk C (Some emsk) (Some BK_USRK_KEY_LABEL) True BK_USRK_LEN);
          dsrk = written (stk 1) (bk_derive_dsrk C (Some usrk) (Some BK_DSRK_DOMAIN_LABEL) True BK_DSRK_LEN);
          ms = written (stk 2) (bk_derive_oscore_master_secret C (Some dsrk));
          salt = written (stk 3) (bk_derive_oscore_master_salt C (Some dsrk));
          ue = the (snd (bk_derive_oscore_context C (Some ms) (Some salt) 1 0 (Some c)));
          as = the (snd (bk_derive_oscore_context C (Some ms) (Some salt) 0 1 (Some d)));
          ok = (memcmp_eq (sender_key ue) (recipient_key as) BK_OSCORE_KEY_LEN \<and>
                memcmp_eq (recipient_key ue) (sender_key as) BK_OSCORE_KEY_LEN \<and>
                memcmp_eq (common_iv ue) (common_iv as) BK_OSCORE_IV_LEN)
      in (ue, as, ok))"

section \<open>The PRF against RFC 5295\<close>

text \<open>The contract of both derivations, for the default label \<open>dflt\<close>.\<close>

definition prf_derived ::
  "'r crypto \<Rightarrow> string \<Rightarrow> bytes option \<Rightarrow> string option \<Rightarrow> bool \<Rightarrow> nat \<Rightarrow> bk_rc \<times> bytes option \<Rightarrow> bool" where
  "prf_derived C dflt key lab out L res \<longleftrightarrow>
     (let label = (case lab of None \<Rightarrow> dflt | Some l \<Rightarrow> l) in
      case key of
        None \<Rightarrow> res = (BK_ERR_ARG, None)
      | Some k \<Rightarrow>
          if length k < 32 \<or> \<not> out \<or> 65535 < L \<or> 253 < length label then res = (BK_ERR_ARG, None)
          else fst res = BK_OK \<and>
            (\<exists>okm. snd res = Some okm \<and> length okm = L \<and>
              (L \<le> 255 * 32 \<longrightarrow>
                 rfc5869_expand (crypto_auth_hmacsha256 C k) (prf_seed label L) L = Some okm)))"

text \<open>
  C37.  USRK and DSRK.  The derivations refuse a missing or short key, a missing output,
  a label of more than 253 octets and a length above 65535, and otherwise return
  \<open>BK_OK\<close> with that many octets; up to 8160 octets these are the PRF+ stream of
  RFC 5295 over HMAC-SHA256 for the seed label, zero, length.
\<close>

theorem bk_derive_keys_rfc5295:
  assumes "hash_ok C"
  shows "prf_derived C BK_USRK_KEY_LABEL key lab out L (bk_derive_usrk C key lab out L) \<and>
    prf_derived C BK_DSRK_DOMAIN_LABEL key lab out L (bk_derive_dsrk C key lab out L)"
proof -
  have h: "(\<lambda>m. bk_hmac C k [m]) = crypto_auth_hmacsha256 C k" for k
    by (simp add: bk_hmac_def fun_eq_iff)
  have len: "length (crypto_auth_hmacsha256 C k m) = 32" for k m using assms by (simp add: crypto_sizes)
  show ?thesis
    using len
    by (auto simp: prf_derived_def bk_derive_usrk_def bk_derive_dsrk_def rfc5295_prf_plus_def Let_def h
        bkx.length_go bkx.go_rfc5869 split: option.split)
qed

theorem bk_derive_keys_rfc5295_witness:
  "\<exists>usrk. bk_derive_usrk toy (Some (zeros 64)) None True 64 = (BK_OK, Some usrk) \<and> length usrk = 64"
  using bk_derive_keys_rfc5295 [OF crypto_okD(1) [OF toy_ok], of "Some (zeros 64)" None True 64]
  by (cases "bk_derive_usrk toy (Some (zeros 64)) None True 64") (auto simp: prf_derived_def)

section \<open>The OSCORE info structure\<close>

text \<open>A reference encoder for the part of CBOR (RFC 8949) that the structure uses.\<close>

datatype cbor = CUint nat | CBstr bytes | CTstr string | CArr "cbor list"

definition cbor_head :: "nat \<Rightarrow> nat \<Rightarrow> bytes" where
  "cbor_head major n =
     (if n < 24 then [of_nat (32 * major + n)]
      else if n < 256 then [of_nat (32 * major + 24), of_nat n]
      else of_nat (32 * major + 25) # be16 n)"

fun cbor_encode :: "cbor \<Rightarrow> bytes" where
  "cbor_encode (CUint n) = cbor_head 0 n"
| "cbor_encode (CBstr b) = cbor_head 2 (length b) @ b"
| "cbor_encode (CTstr s) = cbor_head 3 (length s) @ ascii s"
| "cbor_encode (CArr xs) = cbor_head 4 (length xs) @ concat (map cbor_encode xs)"

lemma or_low:
  assumes "n < 24"
  shows "(0x40 :: byte) OR of_nat n = of_nat (64 + n)" "(0x60 :: byte) OR of_nat n = of_nat (96 + n)"
proof -
  have "\<forall>n < 24. (0x40 :: byte) OR of_nat n = of_nat (64 + n) \<and> (0x60 :: byte) OR of_nat n = of_nat (96 + n)"
    by (simp add: eval_nat_numeral All_less_Suc)
  with assms show "(0x40 :: byte) OR of_nat n = of_nat (64 + n)" "(0x60 :: byte) OR of_nat n = of_nat (96 + n)"
    by blast+
qed

text \<open>
  For identifiers and type names below 24 octets and lengths below 24,
  \<open>oscore_info\<close> is the CBOR encoding of the RFC 8613 structure
  \<open>[id, id_context, alg_aead, type, L]\<close> with the empty context; it fits the 64-octet
  buffer.
\<close>

theorem oscore_info_cbor:
  assumes "length idb < 24" "length ty < 24" "L < 24"
  shows "oscore_info idb ty L =
      cbor_encode (CArr [CBstr idb, CBstr [], CUint BK_OSCORE_AEAD_ALG, CTstr ty, CUint L]) \<and>
    length (oscore_info idb ty L) \<le> 64"
  using assms by (simp add: oscore_info_def cbor_head_def or_low)

theorem oscore_info_cbor_witness:
  "oscore_info [7] ''Key'' 16 = cbor_encode (CArr [CBstr [7], CBstr [], CUint 10, CTstr ''Key'', CUint 16])"
  using oscore_info_cbor [of "[7]" "''Key''" 16] by simp

section \<open>Agreement of the OSCORE contexts\<close>

text \<open>
  Client and server derive mirrored contexts: from the same DSRK of at least 32
  octets, the one that sends as \<open>a\<close> and receives as \<open>b\<close> and the one that sends as \<open>b\<close>
  and receives as \<open>a\<close> both succeed, each sends with the key the other receives with, and
  they share the Common IV, Master Secret and Master Salt; a shorter DSRK is refused and
  nothing is written.
\<close>

theorem oscore_contexts_mirror:
  assumes "hash_ok C"
  shows "if length dsrk < 32 then bk_oscore_ctx_from_dsrk C (Some dsrk) a b (Some c0) = (BK_ERR_ARG, Some c0)
    else \<exists>c d. bk_oscore_ctx_from_dsrk C (Some dsrk) a b (Some c0) = (BK_OK, Some c) \<and>
      bk_oscore_ctx_from_dsrk C (Some dsrk) b a (Some d0) = (BK_OK, Some d) \<and>
      sender_key c = recipient_key d \<and> recipient_key c = sender_key d \<and> common_iv c = common_iv d \<and>
      master_secret c = master_secret d \<and> master_salt c = master_salt d \<and>
      length (sender_key c) = 16 \<and> length (recipient_key c) = 16 \<and> length (common_iv c) = 13 \<and>
      length (master_secret c) = 16 \<and> length (master_salt c) = 8"
  using assms
  by (simp add: bk_oscore_ctx_from_dsrk_def bk_derive_oscore_master_secret_def
      bk_derive_oscore_master_salt_def bk_derive_oscore_context_def Let_def length_bk_hkdf_expand)

definition empty_oscore_ctx :: bk_oscore_ctx where
  "empty_oscore_ctx = \<lparr>master_secret = [], master_salt = [], sender_key = [], recipient_key = [],
     common_iv = [], sender_id = 0, recipient_id = 0\<rparr>"

theorem oscore_contexts_mirror_witness:
  "\<exists>c d. bk_oscore_ctx_from_dsrk toy (Some (zeros 64)) 1 2 (Some empty_oscore_ctx) = (BK_OK, Some c) \<and>
     bk_oscore_ctx_from_dsrk toy (Some (zeros 64)) 2 1 (Some empty_oscore_ctx) = (BK_OK, Some d) \<and>
     sender_key c = recipient_key d"
  using oscore_contexts_mirror [OF crypto_okD(1) [OF toy_ok], of "zeros 64" 1 2 empty_oscore_ctx empty_oscore_ctx]
  by auto

lemma prf_plus_ok:
  "hash_ok C \<Longrightarrow> length label \<le> 253 \<Longrightarrow> L \<le> 65535 \<Longrightarrow>
   \<exists>b. rfc5295_prf_plus C key label L = (BK_OK, Some b) \<and> length b = L"
  by (simp add: rfc5295_prf_plus_def Let_def bkx.length_go bk_hmac_len)

text \<open>With a key of at least 32 octets every step succeeds, so nothing depends on the previous
  contents of the arrays.\<close>

lemma bootstrap_schedule:
  assumes "hash_ok C" "32 \<le> length emsk"
  shows "\<exists>ms salt. \<forall>stk c d. bootstrap_selftest C emsk stk c d =
      (the (snd (bk_derive_oscore_context C (Some ms) (Some salt) 1 0 (Some c))),
       the (snd (bk_derive_oscore_context C (Some ms) (Some salt) 0 1 (Some d))), True)"
proof -
  obtain usrk where u: "rfc5295_prf_plus C emsk BK_USRK_KEY_LABEL 64 = (BK_OK, Some usrk)" "length usrk = 64"
    using prf_plus_ok [OF assms(1), of BK_USRK_KEY_LABEL 64 emsk] by auto
  obtain dsrk where d: "rfc5295_prf_plus C usrk BK_DSRK_DOMAIN_LABEL 64 = (BK_OK, Some dsrk)" "length dsrk = 64"
    using prf_plus_ok [OF assms(1), of BK_DSRK_DOMAIN_LABEL 64 usrk] by auto
  show ?thesis
    by (intro exI [of _ "bk_hkdf_expand C dsrk (ascii ''OSCORE Master Secret'') 16"]
          exI [of _ "bk_hkdf_expand C dsrk (ascii ''OSCORE Master Salt'') 8"])
      (use assms u d in \<open>simp add: bootstrap_selftest_def written_def bk_derive_usrk_def bk_derive_dsrk_def
        bk_derive_oscore_master_secret_def bk_derive_oscore_master_salt_def bk_derive_oscore_context_def Let_def\<close>)
qed

lemma bootstrap_selftest_mirror:
  assumes "hash_ok C" "32 \<le> length emsk"
  obtains ue as ue' as' where "bootstrap_selftest C emsk stk c d = (ue, as, True)"
    "bootstrap_selftest C emsk stk' c' d' = (ue', as', True)"
    "sender_key ue = recipient_key as'" "recipient_key ue = sender_key as'" "common_iv ue = common_iv as'"
    "length (sender_key ue) = 16" "length (recipient_key ue) = 16" "length (common_iv ue) = 13"
proof -
  obtain ms salt where b: "\<forall>stk c d. bootstrap_selftest C emsk stk c d =
      (the (snd (bk_derive_oscore_context C (Some ms) (Some salt) 1 0 (Some c))),
       the (snd (bk_derive_oscore_context C (Some ms) (Some salt) 0 1 (Some d))), True)"
    using bootstrap_schedule [OF assms] by blast
  show thesis
    by (rule that [OF b [rule_format] b [rule_format]])
      (use assms(1) in \<open>simp_all add: bk_derive_oscore_context_def Let_def length_bk_hkdf_expand\<close>)
qed

section \<open>Fingerprints\<close>

lemma hex_digit_inj: "v < 16 \<Longrightarrow> w < 16 \<Longrightarrow> hex_digit v = hex_digit w \<longleftrightarrow> v = w"
proof -
  have d: "distinct ''0123456789abcdef''" by simp
  assume "v < 16" "w < 16"
  then have "unat v < 16" "unat w < 16" by (simp_all add: word_less_nat_alt)
  then show ?thesis
    using nth_eq_iff_index_eq [OF d, of "unat v" "unat w"] by (simp add: hex_digit_def word_unat_eq_iff)
qed

lemma nibbles: "v = w \<longleftrightarrow> drop_bit 4 v = drop_bit 4 w \<and> v AND 0xf = w AND 0xf" for v w :: byte
proof -
  have m: "x AND 0xf = take_bit 4 x" for x :: byte by (simp add: take_bit_eq_mask mask_eq_exp_minus_1)
  show ?thesis unfolding m using bits_ident [of 4 v] bits_ident [of 4 w] by metis
qed

lemma nibble_bounds: "drop_bit 4 v < 16" "v AND 0xf < 16" for v :: byte
proof -
  show "drop_bit 4 v < 16"
    using unsigned_less [of v, where 'a = nat]
    by (simp add: word_less_nat_alt drop_bit_eq_div unat_div)
  have "v AND 0xf = take_bit 4 v" by (simp add: take_bit_eq_mask mask_eq_exp_minus_1)
  then show "v AND 0xf < 16" by (simp add: word_less_nat_alt take_bit_eq_mod unat_mod)
qed

text \<open>
  A fingerprint is 16 hexadecimal digits and a terminating zero, and two keys have
  the same fingerprint exactly when the first eight octets of their tagged SHA-256
  hashes agree.
\<close>

theorem bk_fingerprint_agrees:
  "\<exists>f g. bk_fingerprint C (Some k) True = (BK_OK, Some f) \<and> bk_fingerprint C (Some l) True = (BK_OK, Some g) \<and>
    length f = 17 \<and> f ! 16 = CHR 0x00 \<and> set (take 16 f) \<subseteq> set ''0123456789abcdef'' \<and>
    (f = g \<longleftrightarrow> map ((!) (crypto_hash_sha256 C (ascii ''bootstrap-fp|'' @ k))) [0..<8] =
              map ((!) (crypto_hash_sha256 C (ascii ''bootstrap-fp|'' @ l))) [0..<8])"
proof -
  define X where "X = set ''0123456789abcdef''"
  have hx: "hex_digit v \<in> X" if "v < 16" for v
    using that unfolding hex_digit_def X_def by (intro nth_mem) (simp add: word_less_nat_alt)
  have up: "[0..<8] = [0, 1, 2, 3, 4, 5, 6, 7]" by (simp add: upt_rec)
  have inj: "hex_digit (drop_bit 4 v) = hex_digit (drop_bit 4 w) \<and> hex_digit (v AND 0xf) = hex_digit (w AND 0xf)
      \<longleftrightarrow> v = w" for v w
    using nibbles [of v w] by (simp add: hex_digit_inj nibble_bounds)
  show ?thesis
    unfolding X_def [symmetric] using hx [OF nibble_bounds(1)] hx [OF nibble_bounds(2)] inj
    by (simp add: bk_fingerprint_def Let_def up) blast
qed

end
