(* ===== verification/Frag.thy ===== *)
theory Frag
  imports Prelude
begin

text \<open>
  EAP-EDHOC fragmentation (\<open>E4_EDHOC_FRAG_*\<close> of \<open>src/edhoc4/edhoc4.h\<close>): messages of more
  than 997 octets go out in pieces of at most 1000 octets on the wire, the first with the
  flags LEN and MORE and the total length, the following ones with MORE, the last with
  none.  The locales \<open>frag_sender\<close> and \<open>frag_receiver\<close> are the contracts of the two ends;
  both the FreeRADIUS module and the initiator engine provide each of them.
\<close>

abbreviation (input) E4_EDHOC_FRAG_WIRE_MAX :: nat where "E4_EDHOC_FRAG_WIRE_MAX \<equiv> 1000"
abbreviation (input) E4_EDHOC_FRAG_FLAG_LEN :: byte where "E4_EDHOC_FRAG_FLAG_LEN \<equiv> 0x80"
abbreviation (input) E4_EDHOC_FRAG_FLAG_MORE :: byte where "E4_EDHOC_FRAG_FLAG_MORE \<equiv> 0x40"
abbreviation (input) E4_EDHOC_FRAG_HDR_LEN :: nat where "E4_EDHOC_FRAG_HDR_LEN \<equiv> 1"
abbreviation (input) E4_EDHOC_FRAG_LEN_LEN :: nat where "E4_EDHOC_FRAG_LEN_LEN \<equiv> 2"

section \<open>The fragments of a message\<close>

definition frag_size :: "bytes \<Rightarrow> nat \<Rightarrow> nat" where
  "frag_size m p = min (length m - p) (if p = 0 then 997 else 999)"

definition frag_wire :: "bytes \<Rightarrow> nat \<Rightarrow> bytes" where
  "frag_wire m p =
     (let more = (length m - p > frag_size m p)
      in [(if more then 0x40 else 0) OR (if p = 0 \<and> more then 0x80 else 0)] @
         (if p = 0 \<and> more then be16 (length m) else []) @ slice p (frag_size m p) m)"

function frags_from :: "bytes \<Rightarrow> nat \<Rightarrow> bytes list" where
  "frags_from m p =
     (if p < length m then frag_wire m p # frags_from m (p + frag_size m p) else [])"
  by pat_completeness auto
termination
  by (relation "measure (\<lambda>(m, p). length m - p)") (auto simp: frag_size_def min_def)

declare frags_from.simps [simp del]

definition frags :: "bytes \<Rightarrow> bytes list" where
  "frags m = (if length m \<le> 997 then [0 # m] else frags_from m 0)"

lemma frag_size_pos: "p < length m \<Longrightarrow> 0 < frag_size m p"
  by (auto simp: frag_size_def min_def)

lemma frag_size_le: "p \<le> length m \<Longrightarrow> p + frag_size m p \<le> length m"
  by (auto simp: frag_size_def)

lemma length_frag_wire: "length (frag_wire m p) \<le> E4_EDHOC_FRAG_WIRE_MAX"
  by (auto simp: frag_wire_def frag_size_def Let_def min_def)

section \<open>Senders\<close>

text \<open>\<open>emit send n s\<close>: the wire data of \<open>n\<close> fragments sent one after the other.\<close>

primrec emit :: "('s \<Rightarrow> bytes \<times> 's) \<Rightarrow> nat \<Rightarrow> 's \<Rightarrow> bytes list \<times> 's" where
  "emit send 0 s = ([], s)"
| "emit send (Suc n) s = (case send s of (w, s') \<Rightarrow> case emit send n s' of (ws, s'') \<Rightarrow> (w # ws, s''))"

text \<open>All fragments of \<open>m\<close>: the first from \<open>queue\<close>, the others on the peer's acknowledgements.\<close>

definition transmit :: "('s \<Rightarrow> bytes \<Rightarrow> bytes \<times> 's) \<Rightarrow> ('s \<Rightarrow> bytes \<times> 's) \<Rightarrow> 's \<Rightarrow> bytes \<Rightarrow> bytes list \<times> 's" where
  "transmit queue send s m =
     (case queue s m of (w, s') \<Rightarrow> case emit send (length (frags m) - 1) s' of (ws, s'') \<Rightarrow> (w # ws, s''))"

text \<open>
  \<open>send\<close> emits the next fragment; \<open>msg\<close> is the message being sent and \<open>pos\<close> how much of it
  went out.  After the last fragment the sender is idle.
\<close>

locale frag_sender =
  fixes send :: "'s \<Rightarrow> bytes \<times> 's" and msg :: "'s \<Rightarrow> bytes" and pos :: "'s \<Rightarrow> nat" and swf :: "'s \<Rightarrow> bool"
  assumes send_wire: "swf s \<Longrightarrow> pos s < length (msg s) \<Longrightarrow> fst (send s) = frag_wire (msg s) (pos s)"
    and send_more: "swf s \<Longrightarrow> pos s + frag_size (msg s) (pos s) < length (msg s) \<Longrightarrow>
      msg (snd (send s)) = msg s \<and> pos (snd (send s)) = pos s + frag_size (msg s) (pos s)"
    and send_last: "swf s \<Longrightarrow> pos s < length (msg s) \<Longrightarrow> \<not> pos s + frag_size (msg s) (pos s) < length (msg s) \<Longrightarrow>
      msg (snd (send s)) = [] \<and> pos (snd (send s)) = 0"
    and send_swf: "swf s \<Longrightarrow> pos s < length (msg s) \<Longrightarrow> swf (snd (send s))"
begin

lemma emit_frags:
  assumes "swf s" "pos s < length (msg s)"
  shows "fst (emit send (length (frags_from (msg s) (pos s))) s) = frags_from (msg s) (pos s) \<and>
    msg (snd (emit send (length (frags_from (msg s) (pos s))) s)) = [] \<and>
    swf (snd (emit send (length (frags_from (msg s) (pos s))) s))"
  using assms
proof (induction "length (msg s) - pos s" arbitrary: s rule: less_induct)
  case less
  obtain w s' where sd: "send s = (w, s')" by fastforce
  have w: "w = frag_wire (msg s) (pos s)" and wf': "swf s'"
    using send_wire send_swf less.prems sd by (metis fst_conv, metis snd_conv)
  let ?p = "pos s + frag_size (msg s) (pos s)"
  show ?case
  proof (cases "?p < length (msg s)")
    case True
    then have s': "msg s' = msg s" "pos s' = ?p" using send_more [OF less.prems(1)] sd by (metis snd_conv)+
    have "fst (emit send (length (frags_from (msg s) ?p)) s') = frags_from (msg s) ?p \<and>
        msg (snd (emit send (length (frags_from (msg s) ?p)) s')) = [] \<and>
        swf (snd (emit send (length (frags_from (msg s) ?p)) s'))"
      using less.hyps [of s'] True frag_size_pos [OF less.prems(2)] wf' by (simp add: s')
    then show ?thesis
      using less.prems
      by (cases "emit send (length (frags_from (msg s) ?p)) s'")
        (subst (1 2 3 4) frags_from.simps, simp add: sd w)
  next
    case False
    then have "frags_from (msg s) ?p = []" by (simp add: frags_from.simps)
    moreover have "msg s' = []" using send_last [OF less.prems False] sd by simp
    ultimately show ?thesis
      using less.prems wf' by (subst (1 2 3 4) frags_from.simps) (simp add: sd w)
  qed
qed

end

text \<open>\<open>queue\<close> starts a message: a short one goes out whole, a long one with its first fragment.\<close>

locale frag_queue = frag_sender send msg pos swf
  for send :: "'s \<Rightarrow> bytes \<times> 's" and msg and pos and swf +
  fixes queue :: "'s \<Rightarrow> bytes \<Rightarrow> bytes \<times> 's"
  assumes queue_short: "swf s \<Longrightarrow> msg s = [] \<Longrightarrow> length m \<le> 997 \<Longrightarrow>
      fst (queue s m) = 0 # m \<and> msg (snd (queue s m)) = [] \<and> swf (snd (queue s m))"
    and queue_long: "swf s \<Longrightarrow> msg s = [] \<Longrightarrow> 997 < length m \<Longrightarrow> length m \<le> 8192 \<Longrightarrow>
      \<exists>s0. swf s0 \<and> msg s0 = m \<and> pos s0 = 0 \<and> queue s m = send s0"
begin

lemma transmit_frags:
  assumes s: "swf s" "msg s = []" and m: "length m \<le> 8192"
  shows "fst (transmit queue send s m) = frags m \<and> msg (snd (transmit queue send s m)) = [] \<and>
    swf (snd (transmit queue send s m))"
proof (cases "length m \<le> 997")
  case True
  with queue_short [OF s True] show ?thesis by (simp add: transmit_def frags_def case_prod_unfold)
next
  case False
  then obtain s0 where s0: "swf s0" "msg s0 = m" "pos s0 = 0" "queue s m = send s0"
    using queue_long [OF s _ m] by (meson not_le)
  have ne: "0 < length m" using False by linarith
  have "transmit queue send s m = emit send (length (frags_from m 0)) s0"
    using False ne s0(4) by (simp add: transmit_def frags_def frags_from.simps [of m 0])
  then show ?thesis using emit_frags [of s0] s0 ne False by (simp add: frags_def)
qed

end

section \<open>Receivers\<close>

text \<open>
  \<open>consume\<close> takes one fragment: \<open>None\<close> for an error, otherwise the new state and the
  message if it is complete (else an acknowledgement is due).  \<open>total\<close> is the announced
  length (0 when idle) and \<open>got\<close> what has arrived.  \<open>feed\<close> hands over fragments until one
  completes the message.
\<close>

fun feed :: "('s \<Rightarrow> bytes \<Rightarrow> ('s \<times> bytes option) option) \<Rightarrow> 's \<Rightarrow> bytes list \<Rightarrow> ('s \<times> bytes) option" where
  "feed consume s [] = None"
| "feed consume s (w # ws) =
     (case consume s w of
        None \<Rightarrow> None
      | Some (s', Some m) \<Rightarrow> if ws = [] then Some (s', m) else None
      | Some (s', None) \<Rightarrow> feed consume s' ws)"

locale frag_receiver =
  fixes consume :: "'s \<Rightarrow> bytes \<Rightarrow> ('s \<times> bytes option) option" and total :: "'s \<Rightarrow> nat" and got :: "'s \<Rightarrow> bytes"
    and wf :: "'s \<Rightarrow> bool"
  assumes consume_single: "wf s \<Longrightarrow> total s = 0 \<Longrightarrow>
      \<exists>s'. consume s (0 # d) = Some (s', Some d) \<and> total s' = 0 \<and> wf s'"
    and consume_first: "wf s \<Longrightarrow> total s = 0 \<Longrightarrow> 0 < n \<Longrightarrow> n \<le> 8192 \<Longrightarrow> length d \<le> n \<Longrightarrow>
      \<exists>s'. consume s (0xC0 # be16 n @ d) = Some (s', None) \<and> total s' = n \<and> got s' = d \<and> wf s'"
    and consume_middle: "wf s \<Longrightarrow> 0 < total s \<Longrightarrow> length (got s) + length d \<le> total s \<Longrightarrow>
      \<exists>s'. consume s (0x40 # d) = Some (s', None) \<and> total s' = total s \<and> got s' = got s @ d \<and> wf s'"
    and consume_last: "wf s \<Longrightarrow> 0 < total s \<Longrightarrow> length (got s) + length d = total s \<Longrightarrow>
      \<exists>s'. consume s (0 # d) = Some (s', Some (got s @ d)) \<and> total s' = 0 \<and> wf s'"
begin

lemma feed_rest:
  assumes "wf s" "total s = length m" "got s = take p m" "0 < p" "p < length m"
  shows "\<exists>s'. feed consume s (frags_from m p) = Some (s', m) \<and> total s' = 0 \<and> wf s'"
  using assms
proof (induction "length m - p" arbitrary: s p rule: less_induct)
  case less
  let ?n = "frag_size m p"
  have n: "0 < ?n" "p + ?n \<le> length m" "length (slice p ?n m) = ?n"
    using frag_size_pos frag_size_le less.prems(5) by (simp_all add: frag_size_def)
  have ne: "m \<noteq> []" using less.prems(5) by auto
  have ap: "take p m @ slice p ?n m = take (p + ?n) m" using less.prems(5) by (simp add: take_slice_append)
  show ?case
  proof (cases "p + ?n < length m")
    case True
    have w: "frag_wire m p = 0x40 # slice p ?n m" using True less.prems(4) by (simp add: frag_wire_def Let_def)
    obtain s' where s': "consume s (0x40 # slice p ?n m) = Some (s', None)" "total s' = length m"
      "got s' = take (p + ?n) m" "wf s'"
      using consume_middle [of s "slice p ?n m"] less.prems n ap ne by auto
    have "\<exists>s''. feed consume s' (frags_from m (p + ?n)) = Some (s'', m) \<and> total s'' = 0 \<and> wf s''"
      using s' True n less.prems by (intro less.hyps) simp_all
    then show ?thesis using less.prems(5) s'(1) w by (subst frags_from.simps) simp
  next
    case False
    have w: "frag_wire m p = 0 # slice p ?n m"
      using False n less.prems(4) by (simp add: frag_wire_def Let_def)
    have nil: "frags_from m (p + ?n) = []" using False by (simp add: frags_from.simps)
    have "take (p + ?n) m = m" using False by simp
    then obtain s' where "consume s (0 # slice p ?n m) = Some (s', Some m)" "total s' = 0" "wf s'"
      using consume_last [of s "slice p ?n m"] less.prems n ap ne False by auto
    then show ?thesis using less.prems(5) w nil by (subst frags_from.simps) simp
  qed
qed

lemma feed_frags:
  assumes "wf s" "total s = 0" "length m \<le> 8192"
  shows "\<exists>s'. feed consume s (frags m) = Some (s', m) \<and> total s' = 0 \<and> wf s'"
proof (cases "length m \<le> 997")
  case True
  with assms consume_single [of s m] show ?thesis by (auto simp: frags_def)
next
  case False
  then have n: "frag_size m 0 = 997" and ne: "m \<noteq> []" by (auto simp: frag_size_def)
  have w: "frag_wire m 0 = 0xC0 # be16 (length m) @ take 997 m"
    using False by (simp add: frag_wire_def Let_def n)
  obtain s' where s': "consume s (0xC0 # be16 (length m) @ take 997 m) = Some (s', None)" "total s' = length m"
    "got s' = take 997 m" "wf s'"
    using consume_first [of s "length m" "take 997 m"] assms False ne by auto
  have "\<exists>s''. feed consume s' (frags_from m 997) = Some (s'', m) \<and> total s'' = 0 \<and> wf s''"
    using s' False by (intro feed_rest) simp_all
  moreover have "frags m = (0xC0 # be16 (length m) @ take 997 m) # frags_from m 997"
    using False w n ne by (simp add: frags_def frags_from.simps [of m 0])
  ultimately show ?thesis using s'(1) by simp
qed

end

section \<open>A link\<close>

text \<open>A sender and a receiver of the same fragments: every message arrives.\<close>

locale frag_link = frag_queue send msg pos swf queue + frag_receiver consume total got wf
  for send :: "'s \<Rightarrow> bytes \<times> 's" and msg and pos and swf and queue
    and consume :: "'t \<Rightarrow> bytes \<Rightarrow> ('t \<times> bytes option) option" and total and got and wf
begin

lemma transfer_frags:
  assumes "swf s" "msg s = []" "wf t" "total t = 0" "length m \<le> 8192"
  shows "\<exists>s' t'. transmit queue send s m = (frags m, s') \<and> msg s' = [] \<and> swf s' \<and>
    feed consume t (frags m) = Some (t', m) \<and> total t' = 0 \<and> wf t'"
  using transmit_frags [OF assms(1,2,5)] feed_frags [OF assms(3,4,5)] by (metis prod.collapse)

end

section \<open>Lockstep\<close>

text \<open>
  EAP is lockstep: each fragment is acknowledged before the next one goes out.  \<open>turn n s t w\<close> is a
  conversation with \<open>n\<close> round trips left, in which the receiver \<open>t\<close> is about to take the wire data \<open>w\<close>; when
  \<open>w\<close> is not the last fragment, the receiver acknowledges it and the sender answers with the next.
  \<open>sframe\<close> and \<open>tframe\<close> are the parts of the states that the transfer leaves alone.
\<close>

locale lockstep = frag_link send msg pos swf queue consume total got wf
  for send :: "'s \<Rightarrow> bytes \<times> 's" and msg and pos and swf and queue
    and consume :: "'t \<Rightarrow> bytes \<Rightarrow> ('t \<times> bytes option) option" and total and got and wf +
  fixes turn :: "nat \<Rightarrow> 's \<Rightarrow> 't \<Rightarrow> bytes \<Rightarrow> 'z" and sframe :: "'s \<Rightarrow> 'a" and tframe :: "'t \<Rightarrow> 'b"
    and ready :: "'t \<Rightarrow> bool"
  assumes turn_ack: "swf s \<Longrightarrow> pos s < length (msg s) \<Longrightarrow> wf t \<Longrightarrow> ready t \<Longrightarrow> consume t w = Some (t', None) \<Longrightarrow>
      turn (Suc n) s t w = turn n (snd (send s)) t' (fst (send s))"
    and sframe_send: "swf s \<Longrightarrow> pos s < length (msg s) \<Longrightarrow> sframe (snd (send s)) = sframe s"
    and tframe_consume: "wf t \<Longrightarrow> consume t w = Some (t', x) \<Longrightarrow> tframe t' = tframe t \<and> ready t' = ready t"
begin

text \<open>The fragment at position \<open>p\<close> of \<open>m\<close> is on its way from \<open>s\<close> to \<open>t\<close>.\<close>

definition in_flight :: "'s \<Rightarrow> 't \<Rightarrow> bytes \<Rightarrow> nat \<Rightarrow> bool" where
  "in_flight s t m p \<longleftrightarrow> swf s \<and> wf t \<and> ready t \<and> p < length m \<and> length m \<le> 8192 \<and>
     (if p + frag_size m p < length m then msg s = m \<and> pos s = p + frag_size m p else msg s = []) \<and>
     (if p = 0 then total t = 0 else total t = length m \<and> got t = take p m)"

text \<open>What the receiver makes of a fragment in flight.\<close>

lemma in_flight_more:
  assumes fl: "in_flight s t m p" and more: "p + frag_size m p < length m"
  shows "\<exists>t'. consume t (frag_wire m p) = Some (t', None) \<and> total t' = length m \<and> got t' = take (p + frag_size m p) m \<and> wf t'"
proof (cases "p = 0")
  case True
  have "frag_wire m 0 = 0xC0 # be16 (length m) @ take (frag_size m 0) m"
    using more True by (simp add: frag_wire_def Let_def)
  then show ?thesis
    using consume_first [of t "length m" "take (frag_size m 0) m"] fl more True by (auto simp: in_flight_def)
next
  case False
  have "frag_wire m p = 0x40 # slice p (frag_size m p) m"
    using more False by (simp add: frag_wire_def Let_def)
  moreover have "take p m @ slice p (frag_size m p) m = take (p + frag_size m p) m" "m \<noteq> []"
    using fl by (auto simp: in_flight_def take_slice_append)
  ultimately show ?thesis
    using consume_middle [of t "slice p (frag_size m p) m"] fl more False by (auto simp: in_flight_def)
qed

lemma in_flight_last:
  assumes fl: "in_flight s t m p" and last: "\<not> p + frag_size m p < length m"
  shows "\<exists>t'. consume t (frag_wire m p) = Some (t', Some m) \<and> total t' = 0 \<and> wf t'"
proof -
  have n: "p + frag_size m p = length m" using fl last frag_size_le [of p m] by (simp add: in_flight_def)
  have w: "frag_wire m p = 0 # slice p (frag_size m p) m"
    using n by (auto simp: frag_wire_def Let_def)
  have "take p m @ slice p (frag_size m p) m = m"
    using fl n by (simp add: in_flight_def take_slice_append)
  moreover have "p = 0 \<Longrightarrow> slice p (frag_size m p) m = m" "m \<noteq> []" using n fl by (auto simp: in_flight_def)
  ultimately show ?thesis
    using consume_single [of t m] consume_last [of t "slice p (frag_size m p) m"] fl n w
    by (cases "p = 0") (auto simp: in_flight_def)
qed

lemma queue_in_flight:
  assumes s: "swf s" "msg s = []" and t: "wf t" "ready t" "total t = 0" and m: "m \<noteq> []" "length m \<le> 8192"
  shows "in_flight (snd (queue s m)) t m 0 \<and> fst (queue s m) = frag_wire m 0"
proof (cases "length m \<le> 997")
  case True
  then have "frag_size m 0 = length m" by (simp add: frag_size_def)
  with queue_short [OF s True] t m show ?thesis by (simp add: in_flight_def frag_wire_def)
next
  case False
  then obtain s0 where s0: "swf s0" "msg s0 = m" "pos s0 = 0" "queue s m = send s0"
    using queue_long [OF s _ m(2)] by (meson not_le)
  then have "pos s0 < length (msg s0)" using m by simp
  moreover have "frag_size m 0 < length m" using False by (simp add: frag_size_def)
  ultimately show ?thesis
    using s0 t m send_wire [OF s0(1)] send_more [OF s0(1)] send_swf [OF s0(1)] by (simp add: in_flight_def)
qed

lemma lockstep_transfer:
  assumes "in_flight s t m p"
  shows "\<exists>s' t' t'' w'. turn (n + (length (frags_from m p) - 1)) s t (frag_wire m p) = turn n s' t' w' \<and>
    consume t' w' = Some (t'', Some m) \<and> swf s' \<and> msg s' = [] \<and> wf t' \<and> wf t'' \<and> total t'' = 0 \<and> ready t' \<and>
    sframe s' = sframe s \<and> tframe t'' = tframe t"
  using assms
proof (induction "length m - p" arbitrary: s t p rule: less_induct)
  case less
  let ?q = "p + frag_size m p"
  note fl = less.prems [unfolded in_flight_def]
  have p: "p < length m" using fl by simp
  have fr: "frags_from m p = frag_wire m p # frags_from m ?q" using p by (subst frags_from.simps) simp
  show ?case
  proof (cases "?q < length m")
    case True
    obtain t1 where t1: "consume t (frag_wire m p) = Some (t1, None)" "total t1 = length m" "got t1 = take ?q m" "wf t1"
      using in_flight_more [OF less.prems True] by blast
    have s: "swf s" "msg s = m" "pos s = ?q" "pos s < length (msg s)" using fl True by simp_all
    have ne: "frags_from m ?q \<noteq> []" using True by (subst frags_from.simps) simp
    have tn: "turn (n + (length (frags_from m p) - 1)) s t (frag_wire m p) =
        turn (n + (length (frags_from m ?q) - 1)) (snd (send s)) t1 (frag_wire m ?q)"
      using turn_ack [OF s(1,4) _ _ t1(1), of "n + (length (frags_from m ?q) - 1)"] send_wire [OF s(1,4)] s fl ne
      by (cases "frags_from m ?q") (simp_all add: fr)
    have "in_flight (snd (send s)) t1 m ?q"
      unfolding in_flight_def
      using True fl s t1 send_swf [OF s(1,4)] send_more [OF s(1)] send_last [OF s(1,4)] tframe_consume [OF _ t1(1)] frag_size_pos [OF p]
      by auto
    moreover have "sframe (snd (send s)) = sframe s" "tframe t1 = tframe t"
      using sframe_send [OF s(1,4)] tframe_consume [OF _ t1(1)] fl by simp_all
    ultimately show ?thesis
      unfolding tn using less.hyps [of ?q "snd (send s)" t1] True frag_size_pos [OF p] p by auto
  next
    case False
    obtain t1 where t1: "consume t (frag_wire m p) = Some (t1, Some m)" "total t1 = 0" "wf t1"
      using in_flight_last [OF less.prems False] by blast
    have "frags_from m ?q = []" using False by (simp add: frags_from.simps)
    then have "turn (n + (length (frags_from m p) - 1)) s t (frag_wire m p) = turn n s t (frag_wire m p)" by (simp add: fr)
    moreover have "tframe t1 = tframe t" using tframe_consume [OF _ t1(1)] fl by simp
    ultimately show ?thesis using t1 fl False by (intro exI conjI) (assumption | simp)+
  qed
qed

end

end
