(* ===== verification/Edhoc4_Core.thy ===== *)
theory Edhoc4_Core
  imports Kdf
begin

text \<open>
  Data model and cryptographic helpers of \<open>src/edhoc4/edhoc4.h\<close> and
  \<open>src/edhoc4/edhoc4.c\<close> (EAP-EDHOC method 4): sizes, return codes, credentials, the
  handshake context, HKDF, the AEAD wrappers, the MAC and signature inputs, and the
  hybrid KEM with its correctness contract, the locale \<open>kem_contract\<close>.
\<close>

section \<open>Sizes\<close>

abbreviation (input) E4_MLKEM_PK :: nat where "E4_MLKEM_PK \<equiv> 1184"
abbreviation (input) E4_MLKEM_SK :: nat where "E4_MLKEM_SK \<equiv> 2400"
abbreviation (input) E4_MLKEM_CT :: nat where "E4_MLKEM_CT \<equiv> 1088"
abbreviation (input) E4_MLKEM_SS :: nat where "E4_MLKEM_SS \<equiv> 32"
abbreviation (input) E4_MLDSA_PK :: nat where "E4_MLDSA_PK \<equiv> 1312"
abbreviation (input) E4_MLDSA_SK :: nat where "E4_MLDSA_SK \<equiv> 2560"
abbreviation (input) E4_MLDSA_SIG :: nat where "E4_MLDSA_SIG \<equiv> 2420"
abbreviation (input) E4_X25519_PK :: nat where "E4_X25519_PK \<equiv> 32"
abbreviation (input) E4_X25519_SK :: nat where "E4_X25519_SK \<equiv> 32"
abbreviation (input) E4_XWING_PK :: nat where "E4_XWING_PK \<equiv> E4_MLKEM_PK + E4_X25519_PK"
abbreviation (input) E4_XWING_SK :: nat where "E4_XWING_SK \<equiv> E4_MLKEM_SK + E4_X25519_SK"
abbreviation (input) E4_XWING_CT :: nat where "E4_XWING_CT \<equiv> E4_MLKEM_CT + E4_X25519_PK"
abbreviation (input) E4_XWING_SS :: nat where "E4_XWING_SS \<equiv> 32"
abbreviation (input) E4_HASH_LEN :: nat where "E4_HASH_LEN \<equiv> 32"
abbreviation (input) E4_PRK_LEN :: nat where "E4_PRK_LEN \<equiv> 32"
abbreviation (input) E4_MAC_LEN :: nat where "E4_MAC_LEN \<equiv> 8"
abbreviation (input) E4_AEAD_KEY :: nat where "E4_AEAD_KEY \<equiv> 32"
abbreviation (input) E4_AEAD_NONCE :: nat where "E4_AEAD_NONCE \<equiv> 12"
abbreviation (input) E4_AEAD_TAG :: nat where "E4_AEAD_TAG \<equiv> 16"
abbreviation (input) E4_CONN_ID :: nat where "E4_CONN_ID \<equiv> 1"
abbreviation (input) E4_ID_CRED :: nat where "E4_ID_CRED \<equiv> 3"
abbreviation (input) E4_MSK_LEN :: nat where "E4_MSK_LEN \<equiv> 64"
abbreviation (input) E4_EMSK_LEN :: nat where "E4_EMSK_LEN \<equiv> 64"
abbreviation (input) E4_MAX_MSG :: nat where "E4_MAX_MSG \<equiv> 8192"

datatype e4_rc = E4_OK | E4_ERR_ARG | E4_ERR_BUF | E4_ERR_PARSE | E4_ERR_KEM | E4_ERR_AEAD
  | E4_ERR_MAC | E4_ERR_SIG | E4_ERR_STATE

fun edhoc4_strerror :: "e4_rc \<Rightarrow> string" where
  "edhoc4_strerror E4_OK = ''ok''"
| "edhoc4_strerror E4_ERR_ARG = ''invalid argument''"
| "edhoc4_strerror E4_ERR_BUF = ''buffer too small''"
| "edhoc4_strerror E4_ERR_PARSE = ''malformed message''"
| "edhoc4_strerror E4_ERR_KEM = ''KEM failure''"
| "edhoc4_strerror E4_ERR_AEAD = ''AEAD auth failure''"
| "edhoc4_strerror E4_ERR_MAC = ''MAC mismatch''"
| "edhoc4_strerror E4_ERR_SIG = ''signature verify failed''"
| "edhoc4_strerror E4_ERR_STATE = ''wrong role/state''"

section \<open>Credentials and handshake context\<close>

record edhoc4_creds =
  kem_sk :: bytes
  kem_pk :: bytes
  sig_sk :: bytes
  sig_vk :: bytes
  id_cred :: bytes

record edhoc4_ctx =
  role :: int
  self :: edhoc4_creds
  peer_kem_pk :: bytes
  peer_sig_vk :: bytes
  peer_id_cred :: bytes
  c_i :: bytes
  c_r :: bytes
  eph_sk :: bytes
  eph_pk :: bytes
  ss_b :: bytes
  ss_e :: bytes
  ss_a :: bytes
  th1 :: bytes
  th2 :: bytes
  th3 :: bytes
  th4 :: bytes
  h_msg1 :: bytes
  prk1e :: bytes
  prk2e :: bytes
  prk3e2m :: bytes
  prk4e3m :: bytes
  prk_out :: bytes
  new_sk :: bytes
  new_pk :: bytes
  peer_new_pk :: bytes
  ct_a :: bytes
  msk :: bytes
  emsk :: bytes
  is_done :: int  \<comment> \<open>the field \<open>done\<close>\<close>

section \<open>Hash and key derivation\<close>

definition sha256 :: "'r crypto \<Rightarrow> bytes \<Rightarrow> bytes" where
  "sha256 C inp = crypto_hash_sha256 C inp"

definition sha256_cat :: "'r crypto \<Rightarrow> bytes list \<Rightarrow> bytes" where
  "sha256_cat C segs = crypto_hash_sha256 C (concat segs)"

definition hkdf_extract :: "'r crypto \<Rightarrow> bytes \<Rightarrow> bytes \<Rightarrow> bytes" where
  "hkdf_extract C salt ikm = crypto_auth_hmacsha256 C salt ikm"

function hkdf_expand_while ::
  "(bytes \<Rightarrow> bytes) \<Rightarrow> bytes \<Rightarrow> nat \<Rightarrow> bytes \<Rightarrow> nat \<Rightarrow> nat \<Rightarrow> byte \<Rightarrow> bytes \<Rightarrow> bytes" where
  "hkdf_expand_while h info okm_len t tlen dn ctr okm =
     (if dn < okm_len then
        let t' = h ((if tlen \<noteq> 0 then take tlen t else []) @ info @ [ctr]);
            tlen' = 32;
            n = (if okm_len - dn < tlen' then okm_len - dn else tlen')
        in hkdf_expand_while h info okm_len t' tlen' (dn + n) (ctr + 1) (okm @ take n t')
      else okm)"
  by pat_completeness auto
termination
  by (relation "measure (\<lambda>(h, info, okm_len, t, tlen, dn, ctr, okm). okm_len - dn)") auto

declare hkdf_expand_while.simps [simp del]

definition hkdf_expand :: "'r crypto \<Rightarrow> bytes \<Rightarrow> bytes \<Rightarrow> nat \<Rightarrow> bytes" where
  "hkdf_expand C prk info okm_len =
     hkdf_expand_while (crypto_auth_hmacsha256 C prk) info okm_len (zeros 32) 0 0 1 []"

interpretation e4x: expand_loop hkdf_expand_while
proof
  fix dn L :: nat and h :: "bytes \<Rightarrow> bytes" and info t ctr okm and tlen :: nat
  assume "dn < L"
  then show "hkdf_expand_while h info L t tlen dn ctr okm =
      (let t' = h (take tlen t @ info @ [ctr]);
           n = (if L - dn < 32 then L - dn else 32)
       in hkdf_expand_while h info L t' 32 (dn + n) (ctr + 1) (okm @ take n t'))"
    by (subst hkdf_expand_while.simps) (simp add: Let_def)
qed (simp add: hkdf_expand_while.simps)

lemma length_hkdf_expand [crypto_sizes]: "hash_ok C \<Longrightarrow> length (hkdf_expand C prk info L) = L"
  by (simp add: hkdf_expand_def e4x.length_go crypto_sizes)

lemma length_sha256 [crypto_sizes]:
  assumes "hash_ok C"
  shows "length (sha256 C m) = 32" "length (sha256_cat C segs) = 32"
    "length (hkdf_extract C salt ikm) = 32"
  using assms by (simp_all add: sha256_def sha256_cat_def hkdf_extract_def crypto_sizes)

definition derive_k :: "'r crypto \<Rightarrow> bytes \<Rightarrow> bytes \<Rightarrow> bytes \<times> bytes" where
  "derive_k C prk th =
     (let info = th @ ascii ''E4KEY'';
          okm = hkdf_expand C prk info (E4_AEAD_KEY + E4_AEAD_NONCE)
      in (slice 0 E4_AEAD_KEY okm, slice E4_AEAD_KEY E4_AEAD_NONCE okm))"

lemma derive_k_len:
  "hash_ok C \<Longrightarrow> derive_k C prk th = (key, nonce) \<Longrightarrow> length key = 32 \<and> length nonce = 12"
  by (auto simp: derive_k_def Let_def crypto_sizes)

section \<open>AEAD wrappers, MAC and signature inputs\<close>

definition aead_seal :: "'r crypto \<Rightarrow> bytes \<Rightarrow> bytes \<Rightarrow> bytes \<Rightarrow> bytes option" where
  "aead_seal C prk th pt =
     (case derive_k C prk th of (key, nonce) \<Rightarrow> crypto_aead_encrypt C key nonce th pt)"

definition aead_open :: "'r crypto \<Rightarrow> nat \<Rightarrow> bytes \<Rightarrow> bytes \<Rightarrow> bytes \<Rightarrow> aead_result" where
  "aead_open C cap prk th ct =
     (case derive_k C prk th of (key, nonce) \<Rightarrow>
        if cap + E4_AEAD_TAG < length ct then Overrun
        else (case crypto_aead_decrypt C key nonce th ct of
                None \<Rightarrow> Rejected
              | Some pt \<Rightarrow> Opened pt))"

interpretation e4c: aead_channel derive_k aead_seal aead_open
  by unfold_locales (simp_all add: derive_k_len aead_seal_def aead_open_def)

definition compute_mac :: "'r crypto \<Rightarrow> bytes \<Rightarrow> bytes \<Rightarrow> bytes \<Rightarrow> bytes \<Rightarrow> bytes" where
  "compute_mac C prk th idc ead = hkdf_expand C prk (th @ idc @ ead) E4_MAC_LEN"

lemma length_compute_mac [crypto_sizes]: "hash_ok C \<Longrightarrow> length (compute_mac C prk th idc ead) = 8"
  by (simp add: compute_mac_def crypto_sizes)

definition sig_message :: "bytes \<Rightarrow> bytes \<Rightarrow> bytes \<Rightarrow> bytes" where
  "sig_message th idc mac = th @ idc @ mac"

section \<open>The hybrid KEM (ML-KEM-768 and X25519)\<close>

definition XWING_LABEL :: bytes where
  "XWING_LABEL = ascii ''XWING-combiner-v1''"

text \<open>
  The functions write into their callers' buffers; the model takes the old contents and
  returns the return code with the new contents.  A failing PQClean call writes nothing.
\<close>

definition xwing_keypair :: "'r crypto \<Rightarrow> bytes \<Rightarrow> bytes \<Rightarrow> 'r \<Rightarrow> (e4_rc \<times> bytes \<times> bytes) \<times> 'r" where
  "xwing_keypair C pk sk r =
     (case mlkem_keypair C r of
        (None, r1) \<Rightarrow> ((E4_ERR_KEM, pk, sk), r1)
      | (Some (pk_m, sk_m), r1) \<Rightarrow>
          (case randombytes_buf C E4_X25519_SK r1 of (sk_x, r2) \<Rightarrow>
             ((E4_OK, pk_m @ crypto_scalarmult_base C sk_x, sk_m @ sk_x), r2)))"

definition xwing_combine :: "'r crypto \<Rightarrow> bytes \<Rightarrow> bytes \<Rightarrow> bytes \<Rightarrow> bytes \<Rightarrow> bytes" where
  "xwing_combine C ss_m ss_x ct_x pk_x = sha256_cat C [ss_m, ss_x, ct_x, pk_x, XWING_LABEL]"

definition xwing_encaps :: "'r crypto \<Rightarrow> bytes \<Rightarrow> bytes \<Rightarrow> bytes \<Rightarrow> 'r \<Rightarrow> (e4_rc \<times> bytes \<times> bytes) \<times> 'r" where
  "xwing_encaps C ct ss pk r =
     (case mlkem_enc C (slice 0 E4_MLKEM_PK pk) r of
        (None, r1) \<Rightarrow> ((E4_ERR_KEM, ct, ss), r1)
      | (Some (ct_m, ss_m), r1) \<Rightarrow>
          (case randombytes_buf C E4_X25519_SK r1 of (e_sk, r2) \<Rightarrow>
             let pk_x = slice E4_MLKEM_PK E4_X25519_PK pk;
                 ct_x = crypto_scalarmult_base C e_sk
             in (case crypto_scalarmult C e_sk pk_x of
                   None \<Rightarrow> ((E4_ERR_KEM, ct_m @ ct_x, ss), r2)
                 | Some ss_x \<Rightarrow> ((E4_OK, ct_m @ ct_x, xwing_combine C ss_m ss_x ct_x pk_x), r2))))"

definition xwing_decaps :: "'r crypto \<Rightarrow> bytes \<Rightarrow> bytes \<Rightarrow> bytes \<Rightarrow> e4_rc \<times> bytes" where
  "xwing_decaps C ss ct sk =
     (case mlkem_dec C (slice 0 E4_MLKEM_CT ct) (slice 0 E4_MLKEM_SK sk) of
        None \<Rightarrow> (E4_ERR_KEM, ss)
      | Some ss_m \<Rightarrow>
          let sk_x = slice E4_MLKEM_SK E4_X25519_SK sk;
              ct_x = slice E4_MLKEM_CT E4_X25519_PK ct;
              pk_x = crypto_scalarmult_base C sk_x
          in (case crypto_scalarmult C sk_x ct_x of
                None \<Rightarrow> (E4_ERR_KEM, ss)
              | Some ss_x \<Rightarrow> (E4_OK, xwing_combine C ss_m ss_x ct_x pk_x)))"

text \<open>
  The contract the handshake needs from a KEM: key generation gives a matching pair,
  and what the holder of the secret key decapsulates is what was encapsulated.
\<close>

locale kem_contract =
  fixes laws :: "'r crypto \<Rightarrow> bool"
    and pair :: "'r crypto \<Rightarrow> bytes \<Rightarrow> bytes \<Rightarrow> bool"
    and keypair :: "'r crypto \<Rightarrow> bytes \<Rightarrow> bytes \<Rightarrow> 'r \<Rightarrow> (e4_rc \<times> bytes \<times> bytes) \<times> 'r"
    and encaps :: "'r crypto \<Rightarrow> bytes \<Rightarrow> bytes \<Rightarrow> bytes \<Rightarrow> 'r \<Rightarrow> (e4_rc \<times> bytes \<times> bytes) \<times> 'r"
    and decaps :: "'r crypto \<Rightarrow> bytes \<Rightarrow> bytes \<Rightarrow> bytes \<Rightarrow> e4_rc \<times> bytes"
    and pk_len sk_len ct_len :: nat
  assumes keypair_pair: "laws C \<Longrightarrow> \<exists>pk sk r'. keypair C pk0 sk0 r = ((E4_OK, pk, sk), r') \<and> pair C pk sk"
    and pair_len: "laws C \<Longrightarrow> pair C pk sk \<Longrightarrow> length pk = pk_len \<and> length sk = sk_len"
    and encaps_decaps: "laws C \<Longrightarrow> pair C pk sk \<Longrightarrow>
      \<exists>ct ss r'. encaps C ct0 ss0 pk r = ((E4_OK, ct, ss), r') \<and> length ct = ct_len \<and>
        length ss = 32 \<and> (\<forall>old. decaps C old ct sk = (E4_OK, ss))"
begin

lemma keypairE:
  assumes "laws C"
  obtains pk sk r' where "keypair C pk0 sk0 r = ((E4_OK, pk, sk), r')" "pair C pk sk"
    "length pk = pk_len" "length sk = sk_len"
  using keypair_pair [OF assms, of pk0 sk0 r] pair_len [OF assms] by blast

lemma encapsE:
  assumes "laws C" "pair C pk sk"
  obtains ct ss r' where "encaps C ct0 ss0 pk r = ((E4_OK, ct, ss), r')" "length ct = ct_len"
    "length ss = 32" "\<And>old. decaps C old ct sk = (E4_OK, ss)"
  using encaps_decaps [OF assms, of ct0 ss0 r] by blast

end

definition xwing_pair :: "'r crypto \<Rightarrow> bytes \<Rightarrow> bytes \<Rightarrow> bool" where
  "xwing_pair C pk sk \<longleftrightarrow>
     (\<exists>pk_m sk_m sk_x r. fst (mlkem_keypair C r) = Some (pk_m, sk_m) \<and> length sk_x = 32 \<and>
        pk = pk_m @ crypto_scalarmult_base C sk_x \<and> sk = sk_m @ sk_x)"

lemma xwing_keypair_len [crypto_sizes]:
  assumes ok: "crypto_ok C" and run: "xwing_keypair C pk0 sk0 r = ((E4_OK, pk, sk), r')"
  shows "length pk = 1216"
proof -
  obtain pk_m sk_m sk_x r0 r1 where kp: "mlkem_keypair C r = (Some (pk_m, sk_m), r0)"
    "randombytes_buf C 32 r0 = (sk_x, r1)" "pk = pk_m @ crypto_scalarmult_base C sk_x"
    using run by (auto simp: xwing_keypair_def split: prod.splits option.splits)
  moreover have "length pk_m = 1184"
    using crypto_okD(6) [OF ok] kp(1) unfolding mlkem_ok_def by (metis fst_conv)
  ultimately show ?thesis using crypto_okD [OF ok] by (simp add: rng_ok_len x25519_base_len)
qed

lemma xwing_encaps_len [crypto_sizes]:
  assumes ok: "crypto_ok C" and run: "xwing_encaps C ct0 ss0 pk r = ((E4_OK, ct, ss), r')"
  shows "length ct = 1120"
proof -
  obtain ct_m ss_m r0 e_sk r1 where en: "mlkem_enc C (take 1184 pk) r = (Some (ct_m, ss_m), r0)"
    "randombytes_buf C 32 r0 = (e_sk, r1)" "ct = ct_m @ crypto_scalarmult_base C e_sk"
    using run by (auto simp: xwing_encaps_def Let_def split: prod.splits option.splits)
  moreover have "length ct_m = 1088"
    using crypto_okD(6) [OF ok] en(1) unfolding mlkem_ok_def by (metis fst_conv)
  ultimately show ?thesis using crypto_okD [OF ok] by (simp add: rng_ok_len x25519_base_len)
qed

lemma xwing_encaps_decaps:
  assumes "crypto_ok C" "xwing_pair C pk sk"
  shows "\<exists>ct ss r'. xwing_encaps C ct0 ss0 pk r = ((E4_OK, ct, ss), r') \<and> length ct = E4_XWING_CT \<and>
    length ss = 32 \<and> (\<forall>old. xwing_decaps C old ct sk = (E4_OK, ss))"
proof -
  note ok = crypto_okD [OF assms(1)]
  obtain pk_m sk_m sk_x r0 where kp: "fst (mlkem_keypair C r0) = Some (pk_m, sk_m)"
    and x: "length sk_x = 32" and pk: "pk = pk_m @ crypto_scalarmult_base C sk_x"
    and sk: "sk = sk_m @ sk_x"
    using assms(2) by (auto simp: xwing_pair_def)
  have len: "length pk_m = 1184" "length sk_m = 2400"
    using ok(6) kp unfolding mlkem_ok_def by blast+
  obtain ct_m ss_m where "fst (mlkem_enc C pk_m r) = Some (ct_m, ss_m)" and dec: "mlkem_dec C ct_m sk_m = Some ss_m"
    using ok(6) kp unfolding mlkem_ok_def by blast
  then obtain r1 where enc: "mlkem_enc C pk_m r = (Some (ct_m, ss_m), r1)" by (metis prod.collapse)
  then have lct: "length ct_m = 1088" using ok(6) unfolding mlkem_ok_def by (metis fst_conv)
  obtain e_sk r2 where e: "randombytes_buf C 32 r1 = (e_sk, r2)" by fastforce
  have le: "length e_sk = 32" using ok(5) e by (rule rng_ok_len)
  obtain s where s: "crypto_scalarmult C e_sk (crypto_scalarmult_base C sk_x) = Some s"
    "crypto_scalarmult C sk_x (crypto_scalarmult_base C e_sk) = Some s"
    using x25519_dhE [OF ok(3) le x] by blast
  have lb: "length (crypto_scalarmult_base C sk_x) = 32" "length (crypto_scalarmult_base C e_sk) = 32"
    using ok(3) x le by (simp_all add: x25519_base_len)
  let ?ct = "ct_m @ crypto_scalarmult_base C e_sk"
  let ?ss = "xwing_combine C ss_m s (crypto_scalarmult_base C e_sk) (crypto_scalarmult_base C sk_x)"
  have "xwing_encaps C ct0 ss0 pk r = ((E4_OK, ?ct, ?ss), r2)"
    using enc e s lb len by (simp add: xwing_encaps_def pk buf_simps Let_def)
  moreover have "xwing_decaps C old ?ct sk = (E4_OK, ?ss)" for old
    using dec s lb len lct x by (simp add: xwing_decaps_def sk buf_simps Let_def)
  moreover have "length ?ss = 32" using ok(1) by (simp add: xwing_combine_def crypto_sizes)
  ultimately show ?thesis using lct lb by auto
qed

lemma xwing_keypair_pair:
  assumes "crypto_ok C"
  shows "\<exists>pk sk r'. xwing_keypair C pk0 sk0 r = ((E4_OK, pk, sk), r') \<and> xwing_pair C pk sk"
proof -
  note ok = crypto_okD [OF assms]
  obtain pk_m sk_m where f: "fst (mlkem_keypair C r) = Some (pk_m, sk_m)"
    using ok(6) unfolding mlkem_ok_def by blast
  then obtain r1 where kp: "mlkem_keypair C r = (Some (pk_m, sk_m), r1)" by (metis prod.collapse)
  obtain sk_x r2 where x: "randombytes_buf C 32 r1 = (sk_x, r2)" by fastforce
  have "length sk_x = 32" using ok(5) x by (rule rng_ok_len)
  with f have "xwing_pair C (pk_m @ crypto_scalarmult_base C sk_x) (sk_m @ sk_x)"
    unfolding xwing_pair_def by blast
  then show ?thesis using kp x by (simp add: xwing_keypair_def)
qed

lemma xwing_pair_len:
  assumes "crypto_ok C" "xwing_pair C pk sk"
  shows "length pk = E4_XWING_PK \<and> length sk = E4_XWING_SK"
  using assms(2) crypto_okD [OF assms(1)] unfolding xwing_pair_def mlkem_ok_def
  by (auto simp: x25519_base_len)

interpretation xw: kem_contract crypto_ok xwing_pair xwing_keypair xwing_encaps xwing_decaps
  E4_XWING_PK E4_XWING_SK E4_XWING_CT
  by unfold_locales (fact xwing_keypair_pair xwing_pair_len xwing_encaps_decaps)+

end
