(* ===== verification/Edhoc4.thy ===== *)
theory Edhoc4
  imports Edhoc4_Core
begin

text \<open>
  The operations of \<open>src/edhoc4/edhoc4.c\<close>: credential generation and storage, context
  initialisation and the five message handlers of the method-4 handshake.  A handler
  returns \<open>Some (rc, ctx, out, r)\<close>: the return code, the context with every write the
  C code made before it returned (also on an error path), the message it wrote to
  \<open>out\<close> (\<open>None\<close> where it wrote none) and the generator state.  \<open>None\<close> is undefined
  behaviour: a fixed stack buffer would be overrun.
\<close>

type_synonym 'r e4_step = "(e4_rc \<times> edhoc4_ctx \<times> bytes option \<times> 'r) option"

section \<open>Exporter\<close>

definition derive_prk_out_and_msk :: "'r crypto \<Rightarrow> edhoc4_ctx \<Rightarrow> edhoc4_ctx" where
  "derive_prk_out_and_msk C ctx =
     (let po = hkdf_expand C (prk4e3m ctx) (th4 ctx) E4_PRK_LEN
      in ctx\<lparr>prk_out := po,
             msk := hkdf_expand C po (ascii ''EDHOC-EAP-MSK'') E4_MSK_LEN,
             emsk := hkdf_expand C po (ascii ''EDHOC-EAP-EMSK'') E4_EMSK_LEN,
             is_done := 1\<rparr>)"

section \<open>Credentials\<close>

definition zero_creds :: edhoc4_creds where
  "zero_creds = \<lparr>kem_sk = zeros E4_XWING_SK, kem_pk = zeros E4_XWING_PK, sig_sk = zeros E4_MLDSA_SK,
     sig_vk = zeros E4_MLDSA_PK, id_cred = zeros E4_ID_CRED\<rparr>"

text \<open>The second argument is the optional \<open>id_cred\<close> pointer; the credentials pointer is not null.\<close>

definition edhoc4_gen_creds ::
  "'r crypto \<Rightarrow> edhoc4_creds \<Rightarrow> bytes option \<Rightarrow> 'r \<Rightarrow> (e4_rc \<times> edhoc4_creds) \<times> 'r" where
  "edhoc4_gen_creds C c idc r =
     (if sodium_init C < 0 then ((E4_ERR_ARG, c), r)
      else
        (case xwing_keypair C (kem_pk zero_creds) (kem_sk zero_creds) r of ((rc, pk, sk), r1) \<Rightarrow>
           let c1 = zero_creds\<lparr>kem_pk := pk, kem_sk := sk\<rparr>
           in if rc \<noteq> E4_OK then ((E4_ERR_KEM, c1), r1)
              else (case mldsa_keypair C r1 of
                      (None, r2) \<Rightarrow> ((E4_ERR_SIG, c1), r2)
                    | (Some (vk, ssk), r2) \<Rightarrow>
                        let c2 = c1\<lparr>sig_vk := vk, sig_sk := ssk\<rparr>
                        in ((E4_OK, (case idc of None \<Rightarrow> c2
                                     | Some b \<Rightarrow> c2\<lparr>id_cred := slice 0 E4_ID_CRED b\<rparr>)), r2))))"

text \<open>
  The structure is stored as its in-memory octets; all members are octet arrays, so
  there is no padding.
\<close>

definition creds_bytes :: "edhoc4_creds \<Rightarrow> bytes" where
  "creds_bytes c = kem_sk c @ kem_pk c @ sig_sk c @ sig_vk c @ id_cred c"

definition creds_of_bytes :: "bytes \<Rightarrow> edhoc4_creds" where
  "creds_of_bytes b = \<lparr>kem_sk = slice 0 2432 b, kem_pk = slice 2432 1216 b, sig_sk = slice 3648 2560 b,
     sig_vk = slice 6208 1312 b, id_cred = slice 7520 3 b\<rparr>"

definition edhoc4_creds_save :: "fsys \<Rightarrow> string option \<Rightarrow> edhoc4_creds option \<Rightarrow> e4_rc \<times> fsys" where
  "edhoc4_creds_save fs path c =
     (case (path, c) of
        (Some p, Some cr) \<Rightarrow>
          (case save_blob fs p (creds_bytes cr) of (ok, fs') \<Rightarrow> (if ok then E4_OK else E4_ERR_ARG, fs'))
      | _ \<Rightarrow> (E4_ERR_ARG, fs))"

definition edhoc4_creds_load :: "fsys \<Rightarrow> string option \<Rightarrow> edhoc4_creds option \<Rightarrow> e4_rc \<times> edhoc4_creds option" where
  "edhoc4_creds_load fs path c =
     (case (path, c) of
        (Some p, Some cr) \<Rightarrow>
          (case load_blob fs p (creds_bytes cr) of
             None \<Rightarrow> (E4_ERR_ARG, c)
           | Some (ok, b) \<Rightarrow> (if ok then E4_OK else E4_ERR_PARSE, Some (creds_of_bytes b)))
      | _ \<Rightarrow> (E4_ERR_ARG, c))"

definition edhoc4_pub_save :: "fsys \<Rightarrow> string option \<Rightarrow> edhoc4_creds option \<Rightarrow> e4_rc \<times> fsys" where
  "edhoc4_pub_save fs path c =
     (case (path, c) of
        (Some p, Some cr) \<Rightarrow>
          (case save_blob fs p (kem_pk cr) of (ok, fs') \<Rightarrow> (if ok then E4_OK else E4_ERR_ARG, fs'))
      | _ \<Rightarrow> (E4_ERR_ARG, fs))"

definition edhoc4_pub_load :: "fsys \<Rightarrow> string option \<Rightarrow> bytes option \<Rightarrow> e4_rc \<times> bytes option" where
  "edhoc4_pub_load fs path pk =
     (case (path, pk) of
        (Some p, Some old) \<Rightarrow>
          (case load_blob fs p old of
             None \<Rightarrow> (E4_ERR_ARG, pk)
           | Some (ok, b) \<Rightarrow> (if ok then E4_OK else E4_ERR_PARSE, Some b))
      | _ \<Rightarrow> (E4_ERR_ARG, pk))"

section \<open>Context initialisation\<close>

definition zero_ctx :: edhoc4_ctx where
  "zero_ctx = \<lparr>role = 0, self = zero_creds, peer_kem_pk = zeros E4_XWING_PK,
     peer_sig_vk = zeros E4_MLDSA_PK, peer_id_cred = zeros E4_ID_CRED,
     c_i = zeros E4_CONN_ID, c_r = zeros E4_CONN_ID, eph_sk = zeros E4_XWING_SK,
     eph_pk = zeros E4_XWING_PK, ss_b = zeros 32, ss_e = zeros 32, ss_a = zeros 32,
     th1 = zeros 32, th2 = zeros 32, th3 = zeros 32, th4 = zeros 32, h_msg1 = zeros 32,
     prk1e = zeros 32, prk2e = zeros 32, prk3e2m = zeros 32, prk4e3m = zeros 32, prk_out = zeros 32,
     new_sk = zeros E4_XWING_SK, new_pk = zeros E4_XWING_PK, peer_new_pk = zeros E4_XWING_PK,
     ct_a = zeros E4_XWING_CT, msk = zeros E4_MSK_LEN, emsk = zeros E4_EMSK_LEN, is_done = 0\<rparr>"

definition edhoc4_init_initiator :: "edhoc4_creds \<Rightarrow> bytes \<Rightarrow> edhoc4_ctx" where
  "edhoc4_init_initiator slf peer =
     zero_ctx\<lparr>role := 1, self := slf, peer_kem_pk := slice 0 E4_XWING_PK peer, c_i := [0x10]\<rparr>"

definition edhoc4_init_responder :: "edhoc4_creds \<Rightarrow> bytes \<Rightarrow> edhoc4_ctx" where
  "edhoc4_init_responder slf peer =
     zero_ctx\<lparr>role := 0, self := slf, peer_kem_pk := slice 0 E4_XWING_PK peer, c_r := [0x20]\<rparr>"

section \<open>Message 1: initiator\<close>

definition edhoc4_i_make_msg1 :: "'r crypto \<Rightarrow> edhoc4_ctx \<Rightarrow> nat \<Rightarrow> 'r \<Rightarrow> 'r e4_step" where
  "edhoc4_i_make_msg1 C ctx out_cap r =
     (if role ctx \<noteq> 1 then Some (E4_ERR_STATE, ctx, None, r)
      else case xwing_keypair C (eph_pk ctx) (eph_sk ctx) r of ((rc, pk, sk), r1) \<Rightarrow>
        let ctx1 = ctx\<lparr>eph_pk := pk, eph_sk := sk\<rparr> in
        if rc \<noteq> E4_OK then Some (E4_ERR_KEM, ctx1, None, r1)
        else case xwing_encaps C (zeros E4_XWING_CT) (ss_b ctx1) (peer_kem_pk ctx1) r1 of
               ((rc, ct_b, ss), r2) \<Rightarrow>
          let ctx2 = ctx1\<lparr>ss_b := ss\<rparr> in
          if rc \<noteq> E4_OK then Some (E4_ERR_KEM, ctx2, None, r2)
          else
            let t1 = sha256_cat C [eph_pk ctx2, ct_b];
                ctx3 = ctx2\<lparr>th1 := t1, prk1e := hkdf_extract C t1 (ss_b ctx2)\<rparr>;
                pt1 = [0x04, c_i ctx3 ! 0]
            in case aead_seal C (prk1e ctx3) (th1 ctx3) pt1 of
                 None \<Rightarrow> Some (E4_ERR_AEAD, ctx3, None, r2)
               | Some ct1 \<Rightarrow>
                   let need = E4_XWING_CT + E4_XWING_PK + length ct1 in
                   if need > out_cap then Some (E4_ERR_BUF, ctx3, None, r2)
                   else
                     let out = ct_b @ eph_pk ctx3 @ ct1
                     in Some (E4_OK, ctx3\<lparr>h_msg1 := sha256 C out\<rparr>, Some out, r2))"

section \<open>Message 1 to message 2: responder\<close>

definition edhoc4_r_handle_msg1 :: "'r crypto \<Rightarrow> edhoc4_ctx \<Rightarrow> bytes \<Rightarrow> nat \<Rightarrow> 'r \<Rightarrow> 'r e4_step" where
  "edhoc4_r_handle_msg1 C ctx inp out_cap r =
     (if role ctx \<noteq> 0 then Some (E4_ERR_STATE, ctx, None, r)
      else if length inp < E4_XWING_CT + E4_XWING_PK + 2 + E4_AEAD_TAG
        then Some (E4_ERR_PARSE, ctx, None, r)
      else
        let ct_b = slice 0 E4_XWING_CT inp;
            pk_x = slice E4_XWING_CT E4_XWING_PK inp;
            ct1 = drop (E4_XWING_CT + E4_XWING_PK) inp;
            ctx1 = ctx\<lparr>eph_pk := pk_x\<rparr>
        in case xwing_decaps C (ss_b ctx1) ct_b (kem_sk (self ctx1)) of (rc, ss) \<Rightarrow>
        let ctx2 = ctx1\<lparr>ss_b := ss\<rparr> in
        if rc \<noteq> E4_OK then Some (E4_ERR_KEM, ctx2, None, r)
        else
        let t1 = sha256_cat C [pk_x, ct_b];
            ctx3 = ctx2\<lparr>th1 := t1, prk1e := hkdf_extract C t1 (ss_b ctx2)\<rparr>
        in case aead_open C 64 (prk1e ctx3) (th1 ctx3) ct1 of
          Overrun \<Rightarrow> None
        | Rejected \<Rightarrow> Some (E4_ERR_AEAD, ctx3, None, r)
        | Opened pt1 \<Rightarrow>
        if length pt1 < 2 \<or> pt1 ! 0 \<noteq> 0x04 then Some (E4_ERR_PARSE, ctx3, None, r)
        else
        let ctx4 = ctx3\<lparr>c_i := [pt1 ! 1]\<rparr>;
            hm1 = sha256 C inp
        in case xwing_encaps C (zeros E4_XWING_CT) (ss_e ctx4) (eph_pk ctx4) r of ((rc, cte, sse), r1) \<Rightarrow>
        let ctx5 = ctx4\<lparr>ss_e := sse\<rparr> in
        if rc \<noteq> E4_OK then Some (E4_ERR_KEM, ctx5, None, r1)
        else
        let t2 = sha256_cat C [hm1, cte, c_r ctx5];
            ctx6 = ctx5\<lparr>th2 := t2, prk2e := hkdf_extract C t2 (ss_e ctx5)\<rparr>
        in case xwing_encaps C (ct_a ctx6) (ss_a ctx6) (peer_kem_pk ctx6) r1 of ((rc, cta, ssa), r2) \<Rightarrow>
        let ctx7 = ctx6\<lparr>ct_a := cta, ss_a := ssa\<rparr> in
        if rc \<noteq> E4_OK then Some (E4_ERR_KEM, ctx7, None, r2)
        else
        let ctx8 = ctx7\<lparr>prk3e2m := hkdf_extract C (prk2e ctx7) (ss_b ctx7)\<rparr>;
            mac2 = compute_mac C (prk3e2m ctx8) (th2 ctx8) (id_cred (self ctx8)) [];
            sigmsg = sig_message (th2 ctx8) (id_cred (self ctx8)) mac2
        in case mldsa_signature C sigmsg (sig_sk (self ctx8)) r2 of
          (None, r3) \<Rightarrow> Some (E4_ERR_SIG, ctx8, None, r3)
        | (Some sig_r, r3) \<Rightarrow>
        if length sig_r \<noteq> E4_MLDSA_SIG then Some (E4_ERR_SIG, ctx8, None, r3)
        else
        let pt2 = ct_a ctx8 @ c_r ctx8 @ id_cred (self ctx8) @ sig_vk (self ctx8) @ mac2 @ sig_r;
            ctx9 = ctx8\<lparr>th3 := sha256_cat C [th2 ctx8, pt2]\<rparr>
        in case aead_seal C (prk2e ctx9) (th2 ctx9) pt2 of
          None \<Rightarrow> Some (E4_ERR_AEAD, ctx9, None, r3)
        | Some ct2 \<Rightarrow>
        if E4_XWING_CT + length ct2 > out_cap then Some (E4_ERR_BUF, ctx9, None, r3)
        else Some (E4_OK, ctx9, Some (cte @ ct2), r3))"

section \<open>Message 2 to message 3: initiator\<close>

abbreviation (input) E4_PT2_LEN :: nat where
  "E4_PT2_LEN \<equiv> E4_XWING_CT + E4_CONN_ID + E4_ID_CRED + E4_MLDSA_PK + E4_MAC_LEN + E4_MLDSA_SIG"

abbreviation (input) E4_PT3_LEN :: nat where
  "E4_PT3_LEN \<equiv> E4_ID_CRED + E4_XWING_PK + E4_MAC_LEN + E4_MLDSA_PK + E4_MLDSA_SIG"

definition edhoc4_i_handle_msg2 :: "'r crypto \<Rightarrow> edhoc4_ctx \<Rightarrow> bytes \<Rightarrow> nat \<Rightarrow> 'r \<Rightarrow> 'r e4_step" where
  "edhoc4_i_handle_msg2 C ctx inp out_cap r =
     (if role ctx \<noteq> 1 then Some (E4_ERR_STATE, ctx, None, r)
      else if length inp < E4_XWING_CT + E4_AEAD_TAG then Some (E4_ERR_PARSE, ctx, None, r)
      else
        let cte = slice 0 E4_XWING_CT inp;
            ct2 = drop E4_XWING_CT inp
        in case xwing_decaps C (ss_e ctx) cte (eph_sk ctx) of (rc, sse) \<Rightarrow>
        let ctx1 = ctx\<lparr>ss_e := sse\<rparr> in
        if rc \<noteq> E4_OK then Some (E4_ERR_KEM, ctx1, None, r)
        else
        let ctx2 = ctx1\<lparr>c_r := [0x20]\<rparr>;
            t2 = sha256_cat C [h_msg1 ctx2, cte, c_r ctx2];
            ctx3 = ctx2\<lparr>th2 := t2, prk2e := hkdf_extract C t2 (ss_e ctx2)\<rparr>
        in case aead_open C (E4_PT2_LEN + 16) (prk2e ctx3) (th2 ctx3) ct2 of
          Overrun \<Rightarrow> None
        | Rejected \<Rightarrow> Some (E4_ERR_AEAD, ctx3, None, r)
        | Opened pt2 \<Rightarrow>
        if length pt2 \<noteq> E4_PT2_LEN then Some (E4_ERR_PARSE, ctx3, None, r)
        else
        let ctx4 = ctx3\<lparr>ct_a := slice 0 E4_XWING_CT pt2,
                        c_r := slice 1120 E4_CONN_ID pt2,
                        peer_id_cred := slice 1121 E4_ID_CRED pt2,
                        peer_sig_vk := slice 1124 E4_MLDSA_PK pt2\<rparr>;
            mac2 = slice 2436 E4_MAC_LEN pt2;
            sig_r = slice 2444 E4_MLDSA_SIG pt2;
            ctx5 = ctx4\<lparr>prk3e2m := hkdf_extract C (prk2e ctx4) (ss_b ctx4)\<rparr>;
            mac2_c = compute_mac C (prk3e2m ctx5) (th2 ctx5) (peer_id_cred ctx5) []
        in if \<not> memcmp_eq mac2_c mac2 E4_MAC_LEN then Some (E4_ERR_MAC, ctx5, None, r)
        else
        let sigmsg = sig_message (th2 ctx5) (peer_id_cred ctx5) mac2_c
        in if \<not> mldsa_verify C sig_r sigmsg (peer_sig_vk ctx5) then Some (E4_ERR_SIG, ctx5, None, r)
        else
        let ctx6 = ctx5\<lparr>th3 := sha256_cat C [th2 ctx5, pt2]\<rparr>
        in case xwing_decaps C (ss_a ctx6) (ct_a ctx6) (kem_sk (self ctx6)) of (rc, ssa) \<Rightarrow>
        let ctx7 = ctx6\<lparr>ss_a := ssa\<rparr> in
        if rc \<noteq> E4_OK then Some (E4_ERR_KEM, ctx7, None, r)
        else
        let ctx8 = ctx7\<lparr>prk4e3m := hkdf_extract C (prk3e2m ctx7) (ss_a ctx7)\<rparr>
        in case xwing_keypair C (new_pk ctx8) (new_sk ctx8) r of ((rc, npk, nsk), r1) \<Rightarrow>
        let ctx9 = ctx8\<lparr>new_pk := npk, new_sk := nsk\<rparr> in
        if rc \<noteq> E4_OK then Some (E4_ERR_KEM, ctx9, None, r1)
        else
        let mac3 = compute_mac C (prk4e3m ctx9) (th3 ctx9) (id_cred (self ctx9)) (new_pk ctx9);
            sigmsg3 = sig_message (th3 ctx9) (id_cred (self ctx9)) mac3
        in case mldsa_signature C sigmsg3 (sig_sk (self ctx9)) r1 of
          (None, r2) \<Rightarrow> Some (E4_ERR_SIG, ctx9, None, r2)
        | (Some sig_i, r2) \<Rightarrow>
        let pt3 = id_cred (self ctx9) @ new_pk ctx9 @ mac3 @ sig_vk (self ctx9) @ sig_i;
            ctx10 = ctx9\<lparr>th4 := sha256_cat C [th3 ctx9, pt3]\<rparr>
        in case aead_seal C (prk3e2m ctx10) (th3 ctx10) pt3 of
          None \<Rightarrow> Some (E4_ERR_AEAD, ctx10, None, r2)
        | Some ct3 \<Rightarrow>
        if length ct3 > out_cap then Some (E4_ERR_BUF, ctx10, None, r2)
        else Some (E4_OK, (derive_prk_out_and_msk C ctx10)\<lparr>is_done := 0\<rparr>, Some ct3, r2))"

section \<open>Message 3 to message 4: responder\<close>

definition edhoc4_r_handle_msg3 :: "'r crypto \<Rightarrow> edhoc4_ctx \<Rightarrow> bytes \<Rightarrow> nat \<Rightarrow> 'r \<Rightarrow> 'r e4_step" where
  "edhoc4_r_handle_msg3 C ctx inp out_cap r =
     (if role ctx \<noteq> 0 then Some (E4_ERR_STATE, ctx, None, r)
      else
        let ctx1 = ctx\<lparr>prk4e3m := hkdf_extract C (prk3e2m ctx) (ss_a ctx)\<rparr>
        in case aead_open C (E4_PT3_LEN + 16) (prk3e2m ctx1) (th3 ctx1) inp of
          Overrun \<Rightarrow> None
        | Rejected \<Rightarrow> Some (E4_ERR_AEAD, ctx1, None, r)
        | Opened pt3 \<Rightarrow>
        if length pt3 \<noteq> E4_PT3_LEN then Some (E4_ERR_PARSE, ctx1, None, r)
        else
        let ctx2 = ctx1\<lparr>peer_id_cred := slice 0 E4_ID_CRED pt3,
                        peer_new_pk := slice 3 E4_XWING_PK pt3,
                        peer_sig_vk := slice 1227 E4_MLDSA_PK pt3\<rparr>;
            mac3 = slice 1219 E4_MAC_LEN pt3;
            sig_i = slice 2539 E4_MLDSA_SIG pt3;
            mac3_c = compute_mac C (prk4e3m ctx2) (th3 ctx2) (peer_id_cred ctx2) (peer_new_pk ctx2)
        in if \<not> memcmp_eq mac3_c mac3 E4_MAC_LEN then Some (E4_ERR_MAC, ctx2, None, r)
        else
        let sigmsg3 = sig_message (th3 ctx2) (peer_id_cred ctx2) mac3_c
        in if \<not> mldsa_verify C sig_i sigmsg3 (peer_sig_vk ctx2) then Some (E4_ERR_SIG, ctx2, None, r)
        else
        let ctx3 = ctx2\<lparr>th4 := sha256_cat C [th3 ctx2, pt3]\<rparr>;
            ctx4 = derive_prk_out_and_msk C ctx3
        in case xwing_keypair C (new_pk ctx4) (new_sk ctx4) r of ((rc, npk, nsk), r1) \<Rightarrow>
        let ctx5 = ctx4\<lparr>new_pk := npk, new_sk := nsk\<rparr> in
        if rc \<noteq> E4_OK then Some (E4_ERR_KEM, ctx5, None, r1)
        else case aead_seal C (prk4e3m ctx5) (th4 ctx5) (new_pk ctx5) of
          None \<Rightarrow> Some (E4_ERR_AEAD, ctx5, None, r1)
        | Some ct4 \<Rightarrow>
        if length ct4 > out_cap then Some (E4_ERR_BUF, ctx5, None, r1)
        else Some (E4_OK, ctx5, Some ct4, r1))"

section \<open>Message 4: initiator\<close>

definition edhoc4_i_handle_msg4 :: "'r crypto \<Rightarrow> edhoc4_ctx \<Rightarrow> bytes \<Rightarrow> (e4_rc \<times> edhoc4_ctx) option" where
  "edhoc4_i_handle_msg4 C ctx inp =
     (if role ctx \<noteq> 1 then Some (E4_ERR_STATE, ctx)
      else case aead_open C (E4_XWING_PK + 16) (prk4e3m ctx) (th4 ctx) inp of
          Overrun \<Rightarrow> None
        | Rejected \<Rightarrow> Some (E4_ERR_AEAD, ctx)
        | Opened pt4 \<Rightarrow>
            if length pt4 \<noteq> E4_XWING_PK then Some (E4_ERR_PARSE, ctx)
            else Some (E4_OK, ctx\<lparr>peer_new_pk := slice 0 E4_XWING_PK pt4, is_done := 1\<rparr>))"

end
