(* ===== verification/Edhoc03.thy ===== *)
theory Edhoc03
  imports Kdf
begin

text \<open>
  \<open>src/edhoc4/edhoc03.c\<close> and \<open>edhoc03.h\<close>: the EAP-EDHOC methods 0 to 3 (X25519 and
  Ed25519).  The conventions are those of the method-4 theory: a handler returns
  \<open>Some (rc, ctx, out, r)\<close> with every write made before it returned, and \<open>None\<close> where a
  stack buffer would be overrun.  libsodium leaves the result untouched when
  \<open>crypto_scalarmult\<close> refuses a point.
\<close>

section \<open>Sizes, codes and data\<close>

abbreviation (input) E3_X_PK :: nat where "E3_X_PK \<equiv> 32"
abbreviation (input) E3_X_SK :: nat where "E3_X_SK \<equiv> 32"
abbreviation (input) E3_X_SS :: nat where "E3_X_SS \<equiv> 32"
abbreviation (input) E3_ED_PK :: nat where "E3_ED_PK \<equiv> 32"
abbreviation (input) E3_ED_SK :: nat where "E3_ED_SK \<equiv> 64"
abbreviation (input) E3_ED_SIG :: nat where "E3_ED_SIG \<equiv> 64"
abbreviation (input) E3_PRK_LEN :: nat where "E3_PRK_LEN \<equiv> 32"
abbreviation (input) E3_MAC_LEN :: nat where "E3_MAC_LEN \<equiv> 8"
abbreviation (input) E3_AEAD_KEY :: nat where "E3_AEAD_KEY \<equiv> 32"
abbreviation (input) E3_AEAD_NONCE :: nat where "E3_AEAD_NONCE \<equiv> 12"
abbreviation (input) E3_AEAD_TAG :: nat where "E3_AEAD_TAG \<equiv> 16"
abbreviation (input) E3_CONN_ID :: nat where "E3_CONN_ID \<equiv> 1"
abbreviation (input) E3_ID_CRED :: nat where "E3_ID_CRED \<equiv> 3"
abbreviation (input) E3_MSK_LEN :: nat where "E3_MSK_LEN \<equiv> 64"
abbreviation (input) E3_EMSK_LEN :: nat where "E3_EMSK_LEN \<equiv> 64"
abbreviation (input) E3_MAX_MSG :: nat where "E3_MAX_MSG \<equiv> 512"
abbreviation (input) E3_AUTH_SIG :: int where "E3_AUTH_SIG \<equiv> 0"
abbreviation (input) E3_AUTH_STAT :: int where "E3_AUTH_STAT \<equiv> 1"

datatype e3_rc = E3_OK | E3_ERR_ARG | E3_ERR_BUF | E3_ERR_PARSE | E3_ERR_DH | E3_ERR_AEAD
  | E3_ERR_MAC | E3_ERR_SIG | E3_ERR_STATE

fun edhoc03_strerror :: "e3_rc \<Rightarrow> string" where
  "edhoc03_strerror E3_OK = ''ok''"
| "edhoc03_strerror E3_ERR_ARG = ''invalid argument''"
| "edhoc03_strerror E3_ERR_BUF = ''buffer too small''"
| "edhoc03_strerror E3_ERR_PARSE = ''malformed message''"
| "edhoc03_strerror E3_ERR_DH = ''X25519 failure''"
| "edhoc03_strerror E3_ERR_AEAD = ''AEAD auth failure''"
| "edhoc03_strerror E3_ERR_MAC = ''MAC mismatch''"
| "edhoc03_strerror E3_ERR_SIG = ''signature verify failed''"
| "edhoc03_strerror E3_ERR_STATE = ''wrong role/state''"

record edhoc03_creds =
  id_cred :: bytes
  sig_sk :: bytes
  sig_vk :: bytes
  dh_sk :: bytes
  dh_pk :: bytes

text \<open>The members of \<open>edhoc03_peer\<close> are \<open>sig_vk\<close> and \<open>dh_pk\<close> in the source.\<close>

record edhoc03_peer =
  pub_sig_vk :: bytes
  pub_dh_pk :: bytes

record edhoc03_ctx =
  role :: int
  edhoc_method :: int  \<comment> \<open>the field \<open>method\<close>\<close>
  self_auth :: int
  peer_auth :: int
  self :: edhoc03_creds
  peer :: edhoc03_peer
  c_i :: bytes
  c_r :: bytes
  eph_sk :: bytes
  eph_pk :: bytes
  peer_eph_pk :: bytes
  ss_e :: bytes
  h_msg1 :: bytes
  th2 :: bytes
  th3 :: bytes
  th4 :: bytes
  prk2e :: bytes
  prk3e2m :: bytes
  prk4e3m :: bytes
  prk_out :: bytes
  peer_id_cred :: bytes
  msk :: bytes
  emsk :: bytes
  is_done :: int  \<comment> \<open>the field \<open>done\<close>\<close>

type_synonym 'r e3_step = "(e3_rc \<times> edhoc03_ctx \<times> bytes option \<times> 'r) option"

section \<open>Crypto helpers\<close>

definition e3_sha256 :: "'r crypto \<Rightarrow> bytes \<Rightarrow> bytes" where
  "e3_sha256 C inp = crypto_hash_sha256 C inp"

definition e3_sha256_cat :: "'r crypto \<Rightarrow> bytes list \<Rightarrow> bytes" where
  "e3_sha256_cat C segs = crypto_hash_sha256 C (concat segs)"

definition e3_hkdf_extract :: "'r crypto \<Rightarrow> bytes \<Rightarrow> bytes \<Rightarrow> bytes" where
  "e3_hkdf_extract C salt ikm = crypto_auth_hmacsha256 C salt ikm"

function e3_hkdf_expand_while ::
  "(bytes \<Rightarrow> bytes) \<Rightarrow> bytes \<Rightarrow> nat \<Rightarrow> bytes \<Rightarrow> nat \<Rightarrow> nat \<Rightarrow> byte \<Rightarrow> bytes \<Rightarrow> bytes" where
  "e3_hkdf_expand_while h info okm_len t tlen dn ctr okm =
     (if dn < okm_len then
        let t' = h ((if tlen \<noteq> 0 then take tlen t else []) @ info @ [ctr]);
            tlen' = 32;
            n = (if okm_len - dn < tlen' then okm_len - dn else tlen')
        in e3_hkdf_expand_while h info okm_len t' tlen' (dn + n) (ctr + 1) (okm @ take n t')
      else okm)"
  by pat_completeness auto
termination
  by (relation "measure (\<lambda>(h, info, okm_len, t, tlen, dn, ctr, okm). okm_len - dn)") auto

declare e3_hkdf_expand_while.simps [simp del]

definition e3_hkdf_expand :: "'r crypto \<Rightarrow> bytes \<Rightarrow> bytes \<Rightarrow> nat \<Rightarrow> bytes" where
  "e3_hkdf_expand C prk info okm_len =
     e3_hkdf_expand_while (crypto_auth_hmacsha256 C prk) info okm_len (zeros 32) 0 0 1 []"

interpretation e3x: expand_loop e3_hkdf_expand_while
proof
  fix dn L :: nat and h :: "bytes \<Rightarrow> bytes" and info t ctr okm and tlen :: nat
  assume "dn < L"
  then show "e3_hkdf_expand_while h info L t tlen dn ctr okm =
      (let t' = h (take tlen t @ info @ [ctr]);
           n = (if L - dn < 32 then L - dn else 32)
       in e3_hkdf_expand_while h info L t' 32 (dn + n) (ctr + 1) (okm @ take n t'))"
    by (subst e3_hkdf_expand_while.simps) (simp add: Let_def)
qed (simp add: e3_hkdf_expand_while.simps)

lemma length_e3_hkdf_expand [crypto_sizes]: "hash_ok C \<Longrightarrow> length (e3_hkdf_expand C prk info L) = L"
  by (simp add: e3_hkdf_expand_def e3x.length_go crypto_sizes)

definition e3_derive_k :: "'r crypto \<Rightarrow> bytes \<Rightarrow> bytes \<Rightarrow> bytes \<times> bytes" where
  "e3_derive_k C prk th =
     (let info = th @ ascii ''E3KEY'';
          okm = e3_hkdf_expand C prk info (E3_AEAD_KEY + E3_AEAD_NONCE)
      in (slice 0 E3_AEAD_KEY okm, slice E3_AEAD_KEY E3_AEAD_NONCE okm))"

definition e3_aead_seal :: "'r crypto \<Rightarrow> bytes \<Rightarrow> bytes \<Rightarrow> bytes \<Rightarrow> bytes option" where
  "e3_aead_seal C prk th pt =
     (case e3_derive_k C prk th of (key, nonce) \<Rightarrow> crypto_aead_encrypt C key nonce th pt)"

definition e3_aead_open :: "'r crypto \<Rightarrow> nat \<Rightarrow> bytes \<Rightarrow> bytes \<Rightarrow> bytes \<Rightarrow> aead_result" where
  "e3_aead_open C cap prk th ct =
     (case e3_derive_k C prk th of (key, nonce) \<Rightarrow>
        if cap + E3_AEAD_TAG < length ct then Overrun
        else (case crypto_aead_decrypt C key nonce th ct of
                None \<Rightarrow> Rejected
              | Some pt \<Rightarrow> Opened pt))"

interpretation e3c: aead_channel e3_derive_k e3_aead_seal e3_aead_open
  by unfold_locales (auto simp: e3_derive_k_def Let_def crypto_sizes e3_aead_seal_def e3_aead_open_def)

definition e3_compute_mac :: "'r crypto \<Rightarrow> bytes \<Rightarrow> bytes \<Rightarrow> bytes \<Rightarrow> bytes \<Rightarrow> bytes" where
  "e3_compute_mac C prk th idc cred_pub = e3_hkdf_expand C prk (th @ idc @ cred_pub) E3_MAC_LEN"

lemma length_e3_compute_mac [crypto_sizes]:
  "hash_ok C \<Longrightarrow> length (e3_compute_mac C prk th idc cred) = 8"
  by (simp add: e3_compute_mac_def crypto_sizes)

definition e3_sig_message :: "bytes \<Rightarrow> bytes \<Rightarrow> bytes \<Rightarrow> bytes" where
  "e3_sig_message th idc mac = th @ idc @ mac"

section \<open>Authentication modes and exporter\<close>

definition edhoc03_method_valid :: "int \<Rightarrow> bool" where
  "edhoc03_method_valid m \<longleftrightarrow> 0 \<le> m \<and> m \<le> 3"

definition method_init_auth :: "int \<Rightarrow> int" where
  "method_init_auth m = (if m = 0 \<or> m = 1 then E3_AUTH_SIG else E3_AUTH_STAT)"

definition method_resp_auth :: "int \<Rightarrow> int" where
  "method_resp_auth m = (if m = 0 \<or> m = 2 then E3_AUTH_SIG else E3_AUTH_STAT)"

definition e3_derive_msk :: "'r crypto \<Rightarrow> edhoc03_ctx \<Rightarrow> edhoc03_ctx" where
  "e3_derive_msk C ctx =
     (let po = e3_hkdf_expand C (prk4e3m ctx) (th4 ctx) E3_PRK_LEN
      in ctx\<lparr>prk_out := po,
             msk := e3_hkdf_expand C po (ascii ''EDHOC-EAP-MSK'') E3_MSK_LEN,
             emsk := e3_hkdf_expand C po (ascii ''EDHOC-EAP-EMSK'') E3_EMSK_LEN,
             is_done := 1\<rparr>)"

section \<open>Credentials\<close>

definition zero_creds03 :: edhoc03_creds where
  "zero_creds03 = \<lparr>id_cred = zeros E3_ID_CRED, sig_sk = zeros E3_ED_SK, sig_vk = zeros E3_ED_PK,
     dh_sk = zeros E3_X_SK, dh_pk = zeros E3_X_PK\<rparr>"

definition edhoc03_gen_creds ::
  "'r crypto \<Rightarrow> edhoc03_creds option \<Rightarrow> bytes option \<Rightarrow> 'r \<Rightarrow> (e3_rc \<times> edhoc03_creds option) \<times> 'r" where
  "edhoc03_gen_creds C c idc r =
     (case c of
        None \<Rightarrow> ((E3_ERR_ARG, c), r)
      | Some _ \<Rightarrow>
          if sodium_init C < 0 then ((E3_ERR_ARG, c), r)
          else case crypto_sign_keypair C r of ((vk, sk), r1) \<Rightarrow>
               case randombytes_buf C E3_X_SK r1 of (x, r2) \<Rightarrow>
               let c1 = zero_creds03\<lparr>sig_vk := vk, sig_sk := sk, dh_sk := x, dh_pk := crypto_scalarmult_base C x\<rparr>
               in ((E3_OK, Some (case idc of None \<Rightarrow> c1 | Some b \<Rightarrow> c1\<lparr>id_cred := slice 0 E3_ID_CRED b\<rparr>)), r2))"

definition creds03_bytes :: "edhoc03_creds \<Rightarrow> bytes" where
  "creds03_bytes c = id_cred c @ sig_sk c @ sig_vk c @ dh_sk c @ dh_pk c"

definition creds03_of_bytes :: "bytes \<Rightarrow> edhoc03_creds" where
  "creds03_of_bytes b = \<lparr>id_cred = slice 0 3 b, sig_sk = slice 3 64 b, sig_vk = slice 67 32 b,
     dh_sk = slice 99 32 b, dh_pk = slice 131 32 b\<rparr>"

definition peer03_bytes :: "edhoc03_peer \<Rightarrow> bytes" where
  "peer03_bytes p = pub_sig_vk p @ pub_dh_pk p"

definition peer03_of_bytes :: "bytes \<Rightarrow> edhoc03_peer" where
  "peer03_of_bytes b = \<lparr>pub_sig_vk = slice 0 32 b, pub_dh_pk = slice 32 32 b\<rparr>"

definition edhoc03_creds_save :: "fsys \<Rightarrow> string option \<Rightarrow> edhoc03_creds option \<Rightarrow> e3_rc \<times> fsys" where
  "edhoc03_creds_save fs path c =
     (case (path, c) of
        (Some p, Some cr) \<Rightarrow>
          (case save_blob fs p (creds03_bytes cr) of (ok, fs') \<Rightarrow> (if ok then E3_OK else E3_ERR_ARG, fs'))
      | _ \<Rightarrow> (E3_ERR_ARG, fs))"

definition edhoc03_creds_load :: "fsys \<Rightarrow> string option \<Rightarrow> edhoc03_creds option \<Rightarrow> e3_rc \<times> edhoc03_creds option" where
  "edhoc03_creds_load fs path c =
     (case (path, c) of
        (Some p, Some cr) \<Rightarrow>
          (case load_blob fs p (creds03_bytes cr) of
             None \<Rightarrow> (E3_ERR_ARG, c)
           | Some (ok, b) \<Rightarrow> (if ok then E3_OK else E3_ERR_PARSE, Some (creds03_of_bytes b)))
      | _ \<Rightarrow> (E3_ERR_ARG, c))"

definition edhoc03_pub_save :: "fsys \<Rightarrow> string option \<Rightarrow> edhoc03_creds option \<Rightarrow> e3_rc \<times> fsys" where
  "edhoc03_pub_save fs path c =
     (case (path, c) of
        (Some p, Some cr) \<Rightarrow>
          let pr = \<lparr>pub_sig_vk = slice 0 E3_ED_PK (sig_vk cr), pub_dh_pk = slice 0 E3_X_PK (dh_pk cr)\<rparr> in
          (case save_blob fs p (peer03_bytes pr) of (ok, fs') \<Rightarrow> (if ok then E3_OK else E3_ERR_ARG, fs'))
      | _ \<Rightarrow> (E3_ERR_ARG, fs))"

definition edhoc03_pub_load :: "fsys \<Rightarrow> string option \<Rightarrow> edhoc03_peer option \<Rightarrow> e3_rc \<times> edhoc03_peer option" where
  "edhoc03_pub_load fs path pr =
     (case (path, pr) of
        (Some p, Some old) \<Rightarrow>
          (case load_blob fs p (peer03_bytes old) of
             None \<Rightarrow> (E3_ERR_ARG, pr)
           | Some (ok, b) \<Rightarrow> (if ok then E3_OK else E3_ERR_PARSE, Some (peer03_of_bytes b)))
      | _ \<Rightarrow> (E3_ERR_ARG, pr))"

section \<open>Context initialisation\<close>

definition zero_ctx03 :: edhoc03_ctx where
  "zero_ctx03 = \<lparr>role = 0, edhoc_method = 0, self_auth = 0, peer_auth = 0, self = zero_creds03,
     peer = \<lparr>pub_sig_vk = zeros E3_ED_PK, pub_dh_pk = zeros E3_X_PK\<rparr>,
     c_i = zeros E3_CONN_ID, c_r = zeros E3_CONN_ID, eph_sk = zeros 32, eph_pk = zeros 32,
     peer_eph_pk = zeros 32, ss_e = zeros 32, h_msg1 = zeros 32, th2 = zeros 32, th3 = zeros 32,
     th4 = zeros 32, prk2e = zeros 32, prk3e2m = zeros 32, prk4e3m = zeros 32, prk_out = zeros 32,
     peer_id_cred = zeros E3_ID_CRED, msk = zeros E3_MSK_LEN, emsk = zeros E3_EMSK_LEN, is_done = 0\<rparr>"

definition edhoc03_init_initiator :: "int \<Rightarrow> edhoc03_creds \<Rightarrow> edhoc03_peer \<Rightarrow> edhoc03_ctx" where
  "edhoc03_init_initiator m slf pr =
     zero_ctx03\<lparr>role := 1, edhoc_method := m, self_auth := method_init_auth m, peer_auth := method_resp_auth m,
       self := slf, peer := pr, c_i := [0x10], c_r := [0x20]\<rparr>"

definition edhoc03_init_responder :: "edhoc03_creds \<Rightarrow> edhoc03_peer \<Rightarrow> edhoc03_ctx" where
  "edhoc03_init_responder slf pr =
     zero_ctx03\<lparr>role := 0, self := slf, peer := pr, c_i := [0x10], c_r := [0x20]\<rparr>"

section \<open>Message 1: initiator\<close>

definition edhoc03_i_make_msg1 :: "'r crypto \<Rightarrow> edhoc03_ctx \<Rightarrow> nat \<Rightarrow> 'r \<Rightarrow> 'r e3_step" where
  "edhoc03_i_make_msg1 C ctx out_cap r =
     (if role ctx \<noteq> 1 then Some (E3_ERR_STATE, ctx, None, r)
      else if \<not> edhoc03_method_valid (edhoc_method ctx) then Some (E3_ERR_ARG, ctx, None, r)
      else case randombytes_buf C E3_X_SK r of (x, r1) \<Rightarrow>
        let ctx1 = ctx\<lparr>eph_sk := x, eph_pk := crypto_scalarmult_base C x\<rparr>;
            need = 1 + E3_X_PK + E3_CONN_ID
        in if need > out_cap then Some (E3_ERR_BUF, ctx1, None, r1)
        else
          let out = of_int (edhoc_method ctx1) # eph_pk ctx1 @ [c_i ctx1 ! 0]
          in Some (E3_OK, ctx1\<lparr>h_msg1 := e3_sha256 C out\<rparr>, Some out, r1))"

section \<open>Message 1 to message 2: responder\<close>

text \<open>The block of \<open>edhoc03_r_handle_msg1\<close> that fills PT2 and derives \<open>prk3e2m\<close> for the
  responder's authentication mode.\<close>

definition e3_build_pt2 :: "'r crypto \<Rightarrow> edhoc03_ctx \<Rightarrow> e3_rc \<times> edhoc03_ctx \<times> bytes" where
  "e3_build_pt2 C ctx =
     (if self_auth ctx = E3_AUTH_STAT then
        (case crypto_scalarmult C (dh_sk (self ctx)) (peer_eph_pk ctx) of
           None \<Rightarrow> (E3_ERR_DH, ctx, [])
         | Some g \<Rightarrow>
             let ctx1 = ctx\<lparr>prk3e2m := e3_hkdf_extract C (prk2e ctx) g\<rparr>;
                 mac = e3_compute_mac C (prk3e2m ctx1) (th2 ctx1) (id_cred (self ctx1)) (dh_pk (self ctx1))
             in (E3_OK, ctx1, id_cred (self ctx1) @ dh_pk (self ctx1) @ mac))
      else
        let ctx1 = ctx\<lparr>prk3e2m := prk2e ctx\<rparr>;
            mac = e3_compute_mac C (prk3e2m ctx1) (th2 ctx1) (id_cred (self ctx1)) (sig_vk (self ctx1));
            sigmsg = e3_sig_message (th2 ctx1) (id_cred (self ctx1)) mac
        in (case crypto_sign_detached C sigmsg (sig_sk (self ctx1)) of
              None \<Rightarrow> (E3_ERR_SIG, ctx1, [])
            | Some sg \<Rightarrow> (E3_OK, ctx1, id_cred (self ctx1) @ sig_vk (self ctx1) @ sg)))"

definition edhoc03_r_handle_msg1 :: "'r crypto \<Rightarrow> edhoc03_ctx \<Rightarrow> bytes \<Rightarrow> nat \<Rightarrow> 'r \<Rightarrow> 'r e3_step" where
  "edhoc03_r_handle_msg1 C ctx inp out_cap r =
     (if role ctx \<noteq> 0 then Some (E3_ERR_STATE, ctx, None, r)
      else if length inp \<noteq> 1 + E3_X_PK + E3_CONN_ID then Some (E3_ERR_PARSE, ctx, None, r)
      else
        let m = uint (inp ! 0)
        in if \<not> edhoc03_method_valid m then Some (E3_ERR_PARSE, ctx, None, r)
        else
        let ctx1 = ctx\<lparr>edhoc_method := m, self_auth := method_resp_auth m, peer_auth := method_init_auth m,
                       peer_eph_pk := slice 1 E3_X_PK inp, c_i := [inp ! 33], h_msg1 := e3_sha256 C inp\<rparr>
        in case randombytes_buf C E3_X_SK r of (y, r1) \<Rightarrow>
        let ctx2 = ctx1\<lparr>eph_sk := y, eph_pk := crypto_scalarmult_base C y\<rparr>
        in case crypto_scalarmult C (eph_sk ctx2) (peer_eph_pk ctx2) of
          None \<Rightarrow> Some (E3_ERR_DH, ctx2, None, r1)
        | Some ss \<Rightarrow>
        let t2 = e3_sha256_cat C [eph_pk ctx2, h_msg1 ctx2, c_r ctx2];
            ctx3 = ctx2\<lparr>ss_e := ss, th2 := t2, prk2e := e3_hkdf_extract C t2 ss\<rparr>
        in case e3_build_pt2 C ctx3 of (rc, ctx4, pt2) \<Rightarrow>
        if rc \<noteq> E3_OK then Some (rc, ctx4, None, r1)
        else
        let ctx5 = ctx4\<lparr>th3 := e3_sha256_cat C [th2 ctx4, pt2]\<rparr>
        in case e3_aead_seal C (prk2e ctx5) (th2 ctx5) pt2 of
          None \<Rightarrow> Some (E3_ERR_AEAD, ctx5, None, r1)
        | Some ct2 \<Rightarrow>
        if E3_X_PK + length ct2 > out_cap then Some (E3_ERR_BUF, ctx5, None, r1)
        else Some (E3_OK, ctx5, Some (eph_pk ctx5 @ ct2), r1))"

section \<open>Message 2 to message 3: initiator\<close>

text \<open>The block of \<open>edhoc03_i_handle_msg2\<close> that parses PT2 and authenticates the responder
  against the pinned keys.\<close>

definition e3_verify_pt2 :: "'r crypto \<Rightarrow> edhoc03_ctx \<Rightarrow> bytes \<Rightarrow> e3_rc \<times> edhoc03_ctx" where
  "e3_verify_pt2 C ctx pt =
     (if peer_auth ctx = E3_AUTH_STAT then
        if length pt \<noteq> E3_ID_CRED + E3_X_PK + E3_MAC_LEN then (E3_ERR_PARSE, ctx)
        else
        let ctx1 = ctx\<lparr>peer_id_cred := slice 0 E3_ID_CRED pt\<rparr>;
            dh_pk_p = slice 3 E3_X_PK pt;
            mac = slice 35 E3_MAC_LEN pt
        in if \<not> memcmp_eq dh_pk_p (pub_dh_pk (peer ctx1)) E3_X_PK then (E3_ERR_MAC, ctx1)
        else (case crypto_scalarmult C (eph_sk ctx1) dh_pk_p of
           None \<Rightarrow> (E3_ERR_DH, ctx1)
         | Some g \<Rightarrow>
             let ctx2 = ctx1\<lparr>prk3e2m := e3_hkdf_extract C (prk2e ctx1) g\<rparr>;
                 mac_c = e3_compute_mac C (prk3e2m ctx2) (th2 ctx2) (peer_id_cred ctx2) dh_pk_p
             in if \<not> memcmp_eq mac_c mac E3_MAC_LEN then (E3_ERR_MAC, ctx2) else (E3_OK, ctx2))
      else
        if length pt \<noteq> E3_ID_CRED + E3_ED_PK + E3_ED_SIG then (E3_ERR_PARSE, ctx)
        else
        let ctx1 = ctx\<lparr>peer_id_cred := slice 0 E3_ID_CRED pt\<rparr>;
            vk = slice 3 E3_ED_PK pt;
            sg = slice 35 E3_ED_SIG pt
        in if \<not> memcmp_eq vk (pub_sig_vk (peer ctx1)) E3_ED_PK then (E3_ERR_SIG, ctx1)
        else
        let ctx2 = ctx1\<lparr>prk3e2m := prk2e ctx1\<rparr>;
            mac_c = e3_compute_mac C (prk3e2m ctx2) (th2 ctx2) (peer_id_cred ctx2) vk;
            sigmsg = e3_sig_message (th2 ctx2) (peer_id_cred ctx2) mac_c
        in if \<not> crypto_sign_verify_detached C sg sigmsg vk then (E3_ERR_SIG, ctx2) else (E3_OK, ctx2))"

text \<open>The block of \<open>edhoc03_i_handle_msg2\<close> that fills PT3 and derives \<open>prk4e3m\<close>.\<close>

definition e3_build_pt3 :: "'r crypto \<Rightarrow> edhoc03_ctx \<Rightarrow> e3_rc \<times> edhoc03_ctx \<times> bytes" where
  "e3_build_pt3 C ctx =
     (if self_auth ctx = E3_AUTH_STAT then
        (case crypto_scalarmult C (dh_sk (self ctx)) (peer_eph_pk ctx) of
           None \<Rightarrow> (E3_ERR_DH, ctx, [])
         | Some g \<Rightarrow>
             let ctx1 = ctx\<lparr>prk4e3m := e3_hkdf_extract C (prk3e2m ctx) g\<rparr>;
                 mac = e3_compute_mac C (prk4e3m ctx1) (th3 ctx1) (id_cred (self ctx1)) (dh_pk (self ctx1))
             in (E3_OK, ctx1, id_cred (self ctx1) @ dh_pk (self ctx1) @ mac))
      else
        let ctx1 = ctx\<lparr>prk4e3m := prk3e2m ctx\<rparr>;
            mac = e3_compute_mac C (prk4e3m ctx1) (th3 ctx1) (id_cred (self ctx1)) (sig_vk (self ctx1));
            sigmsg = e3_sig_message (th3 ctx1) (id_cred (self ctx1)) mac
        in (case crypto_sign_detached C sigmsg (sig_sk (self ctx1)) of
              None \<Rightarrow> (E3_ERR_SIG, ctx1, [])
            | Some sg \<Rightarrow> (E3_OK, ctx1, id_cred (self ctx1) @ sig_vk (self ctx1) @ sg)))"

definition edhoc03_i_handle_msg2 :: "'r crypto \<Rightarrow> edhoc03_ctx \<Rightarrow> bytes \<Rightarrow> nat \<Rightarrow> 'r \<Rightarrow> 'r e3_step" where
  "edhoc03_i_handle_msg2 C ctx inp out_cap r =
     (if role ctx \<noteq> 1 then Some (E3_ERR_STATE, ctx, None, r)
      else if length inp < E3_X_PK + E3_AEAD_TAG then Some (E3_ERR_PARSE, ctx, None, r)
      else
        let ctx1 = ctx\<lparr>peer_eph_pk := slice 0 E3_X_PK inp\<rparr>;
            ct2 = drop E3_X_PK inp
        in case crypto_scalarmult C (eph_sk ctx1) (peer_eph_pk ctx1) of
          None \<Rightarrow> Some (E3_ERR_DH, ctx1, None, r)
        | Some ss \<Rightarrow>
        let t2 = e3_sha256_cat C [peer_eph_pk ctx1, h_msg1 ctx1, c_r ctx1];
            ctx2 = ctx1\<lparr>ss_e := ss, th2 := t2, prk2e := e3_hkdf_extract C t2 ss\<rparr>
        in case e3_aead_open C (E3_ID_CRED + E3_X_PK + E3_ED_SIG + 16) (prk2e ctx2) (th2 ctx2) ct2 of
          Overrun \<Rightarrow> None
        | Rejected \<Rightarrow> Some (E3_ERR_AEAD, ctx2, None, r)
        | Opened pt2 \<Rightarrow>
        (case e3_verify_pt2 C ctx2 pt2 of (rc, ctx3) \<Rightarrow>
        if rc \<noteq> E3_OK then Some (rc, ctx3, None, r)
        else
        let ctx4 = ctx3\<lparr>th3 := e3_sha256_cat C [th2 ctx3, pt2]\<rparr>
        in case e3_build_pt3 C ctx4 of (rc, ctx5, pt3) \<Rightarrow>
        if rc \<noteq> E3_OK then Some (rc, ctx5, None, r)
        else
        let ctx6 = ctx5\<lparr>th4 := e3_sha256_cat C [th3 ctx5, pt3]\<rparr>
        in case e3_aead_seal C (prk3e2m ctx6) (th3 ctx6) pt3 of
          None \<Rightarrow> Some (E3_ERR_AEAD, ctx6, None, r)
        | Some ct3 \<Rightarrow>
        if length ct3 > out_cap then Some (E3_ERR_BUF, ctx6, None, r)
        else Some (E3_OK, e3_derive_msk C ctx6, Some ct3, r)))"

section \<open>Message 3 and message 4\<close>

text \<open>The block of \<open>edhoc03_r_handle_msg3\<close> that parses PT3 and authenticates the initiator
  against the pinned keys.\<close>

definition e3_verify_pt3 :: "'r crypto \<Rightarrow> edhoc03_ctx \<Rightarrow> bytes \<Rightarrow> e3_rc \<times> edhoc03_ctx" where
  "e3_verify_pt3 C ctx pt =
     (if peer_auth ctx = E3_AUTH_STAT then
        if length pt \<noteq> E3_ID_CRED + E3_X_PK + E3_MAC_LEN then (E3_ERR_PARSE, ctx)
        else
        let ctx1 = ctx\<lparr>peer_id_cred := slice 0 E3_ID_CRED pt\<rparr>;
            dh_pk_p = slice 3 E3_X_PK pt;
            mac = slice 35 E3_MAC_LEN pt
        in if \<not> memcmp_eq dh_pk_p (pub_dh_pk (peer ctx1)) E3_X_PK then (E3_ERR_MAC, ctx1)
        else (case crypto_scalarmult C (eph_sk ctx1) dh_pk_p of
           None \<Rightarrow> (E3_ERR_DH, ctx1)
         | Some g \<Rightarrow>
             let ctx2 = ctx1\<lparr>prk4e3m := e3_hkdf_extract C (prk3e2m ctx1) g\<rparr>;
                 mac_c = e3_compute_mac C (prk4e3m ctx2) (th3 ctx2) (peer_id_cred ctx2) dh_pk_p
             in if \<not> memcmp_eq mac_c mac E3_MAC_LEN then (E3_ERR_MAC, ctx2) else (E3_OK, ctx2))
      else
        if length pt \<noteq> E3_ID_CRED + E3_ED_PK + E3_ED_SIG then (E3_ERR_PARSE, ctx)
        else
        let ctx1 = ctx\<lparr>peer_id_cred := slice 0 E3_ID_CRED pt\<rparr>;
            vk = slice 3 E3_ED_PK pt;
            sg = slice 35 E3_ED_SIG pt
        in if \<not> memcmp_eq vk (pub_sig_vk (peer ctx1)) E3_ED_PK then (E3_ERR_SIG, ctx1)
        else
        let ctx2 = ctx1\<lparr>prk4e3m := prk3e2m ctx1\<rparr>;
            mac_c = e3_compute_mac C (prk4e3m ctx2) (th3 ctx2) (peer_id_cred ctx2) vk;
            sigmsg = e3_sig_message (th3 ctx2) (peer_id_cred ctx2) mac_c
        in if \<not> crypto_sign_verify_detached C sg sigmsg vk then (E3_ERR_SIG, ctx2) else (E3_OK, ctx2))"

definition edhoc03_r_handle_msg3 :: "'r crypto \<Rightarrow> edhoc03_ctx \<Rightarrow> bytes \<Rightarrow> nat \<Rightarrow> 'r \<Rightarrow> 'r e3_step" where
  "edhoc03_r_handle_msg3 C ctx inp out_cap r =
     (if role ctx \<noteq> 0 then Some (E3_ERR_STATE, ctx, None, r)
      else case e3_aead_open C (E3_ID_CRED + E3_X_PK + E3_ED_SIG + 16) (prk3e2m ctx) (th3 ctx) inp of
          Overrun \<Rightarrow> None
        | Rejected \<Rightarrow> Some (E3_ERR_AEAD, ctx, None, r)
        | Opened pt3 \<Rightarrow>
        (case e3_verify_pt3 C ctx pt3 of (rc, ctx1) \<Rightarrow>
        if rc \<noteq> E3_OK then Some (rc, ctx1, None, r)
        else
        let ctx2 = ctx1\<lparr>th4 := e3_sha256_cat C [th3 ctx1, pt3]\<rparr>
        in Some (E3_OK, e3_derive_msk C ctx2, Some [], r)))"

definition edhoc03_i_handle_msg4 :: "edhoc03_ctx \<Rightarrow> bytes \<Rightarrow> e3_rc \<times> edhoc03_ctx" where
  "edhoc03_i_handle_msg4 ctx inp =
     (if role ctx \<noteq> 1 then (E3_ERR_STATE, ctx)
      else if length inp \<noteq> 0 then (E3_ERR_PARSE, ctx)
      else (E3_OK, ctx\<lparr>is_done := 1\<rparr>))"

end
