(* ===== verification/Eng.thy ===== *)
theory Eng
  imports Frag Edhoc4 Edhoc03
begin

text \<open>
  The EDHOC initiator engine of \<open>src/benchmark/e2e_radius_bench.c\<close>: the state \<open>eng_t\<close>,
  fragmentation and reassembly, and \<open>eng_react\<close>, which answers one EAP-Request.  The fields
  of \<open>eng_t\<close> carry the prefix \<open>eng_\<close>; the arrays \<open>msg_bytes[5]\<close> and \<open>msg_frags[5]\<close> are lists.
\<close>

record eng_t =
  eng_method :: int
  eng_classical :: int
  eng_c3 :: edhoc03_ctx
  eng_c4 :: edhoc4_ctx
  eng_step :: int
  eng_done :: int
  eng_failed :: int
  eng_in :: bytes
  eng_in_len :: nat
  eng_in_pos :: nat
  eng_out :: bytes
  eng_out_len :: nat
  eng_out_pos :: nat
  eng_msg_bytes :: "nat list"
  eng_msg_frags :: "int list"
  eng_cur_out_msg :: int
  eng_cur_in_msg :: int
  eng_msk :: bytes

text \<open>\<open>msg_frags[i]++\<close>, and the guarded form of it.\<close>

definition count_frag :: "int \<Rightarrow> eng_t \<Rightarrow> eng_t" where
  "count_frag i e = e\<lparr>eng_msg_frags := (eng_msg_frags e)[nat i := eng_msg_frags e ! nat i + 1]\<rparr>"

definition count_frag_guarded :: "int \<Rightarrow> eng_t \<Rightarrow> eng_t" where
  "count_frag_guarded i e = (if i \<ge> 1 \<and> i \<le> 4 then count_frag i e else e)"

section \<open>Fragmentation\<close>

text \<open>The wire data and the new state.\<close>

definition eng_send_fragment :: "eng_t \<Rightarrow> bytes \<times> eng_t" where
  "eng_send_fragment e =
     (let first_cap = E4_EDHOC_FRAG_WIRE_MAX - E4_EDHOC_FRAG_HDR_LEN - E4_EDHOC_FRAG_LEN_LEN;
          next_cap = E4_EDHOC_FRAG_WIRE_MAX - E4_EDHOC_FRAG_HDR_LEN;
          remaining = eng_out_len e - eng_out_pos e;
          frag_cap = (if eng_out_pos e = 0 then first_cap else next_cap);
          frag_len = (if remaining < frag_cap then remaining else frag_cap);
          add_len = (eng_out_pos e = 0 \<and> remaining > frag_len);
          wire = [(if remaining > frag_len then E4_EDHOC_FRAG_FLAG_MORE else 0) OR
                  (if add_len then E4_EDHOC_FRAG_FLAG_LEN else 0)] @
                 (if add_len then be16 (eng_out_len e) else []) @
                 slice (eng_out_pos e) frag_len (eng_out e);
          e = e\<lparr>eng_out_pos := eng_out_pos e + frag_len\<rparr>;
          e = count_frag_guarded (eng_cur_out_msg e) e;
          e = (if eng_out_pos e \<ge> eng_out_len e then e\<lparr>eng_out_len := 0, eng_out_pos := 0\<rparr> else e)
      in (wire, e))"

text \<open>The caller has placed the message in \<open>eng_out\<close> with \<open>eng_out_len\<close> set.\<close>

definition eng_queue_outgoing :: "eng_t \<Rightarrow> int \<Rightarrow> bytes \<times> eng_t" where
  "eng_queue_outgoing e which =
     (let first_cap = E4_EDHOC_FRAG_WIRE_MAX - E4_EDHOC_FRAG_HDR_LEN - E4_EDHOC_FRAG_LEN_LEN;
          len = eng_out_len e;
          e = e\<lparr>eng_cur_out_msg := which, eng_msg_bytes := (eng_msg_bytes e)[nat which := len]\<rparr>
      in if len \<le> first_cap then
           (0x00 # slice 0 len (eng_out e), (count_frag which e)\<lparr>eng_out_len := 0, eng_out_pos := 0\<rparr>)
         else eng_send_fragment (e\<lparr>eng_out_pos := 0\<rparr>))"

text \<open>The return code, the engine, the message (\<open>None\<close> for the null pointer) and \<open>need_ack\<close>.\<close>

definition eng_consume :: "eng_t \<Rightarrow> bytes \<Rightarrow> int \<times> eng_t \<times> bytes option \<times> bool" where
  "eng_consume e inp =
     (if length inp = 0 then (-3, e, None, False)
      else
        let flags = inp ! 0;
            has_len = (flags AND E4_EDHOC_FRAG_FLAG_LEN \<noteq> 0);
            more = (flags AND E4_EDHOC_FRAG_FLAG_MORE \<noteq> 0);
            pos = (if has_len then 3 else 1);
            total = get16 inp 1
        in if has_len \<and> length inp < 3 then (-3, e, None, False)
        else if has_len \<and> (total = 0 \<or> total > E4_MAX_MSG) then (-2, e, None, False)
        else if has_len \<and> eng_in_len e \<noteq> 0 \<and> eng_in_len e \<noteq> total then (-3, e, None, False)
        else
        let e = (if has_len \<and> eng_in_len e = 0 then e\<lparr>eng_in_len := total, eng_in_pos := 0\<rparr> else e)
        in if length inp < pos then (-3, e, None, False)
        else if eng_in_len e \<noteq> 0 then
          let payload = length inp - pos
          in if eng_in_pos e + payload > eng_in_len e then (-2, e, None, False)
          else
          let e = e\<lparr>eng_in := poke (eng_in e) (eng_in_pos e) (drop pos inp), eng_in_pos := eng_in_pos e + payload\<rparr>;
              e = count_frag_guarded (eng_cur_in_msg e) e
          in if more then (0, e, None, True)
          else if eng_in_pos e \<noteq> eng_in_len e then (-3, e, None, False)
          else (0, e\<lparr>eng_in_len := 0, eng_in_pos := 0\<rparr>, Some (take (eng_in_len e) (eng_in e)), False)
        else if more then (-3, e, None, False)
        else (0, if length inp - pos > 0 then count_frag_guarded (eng_cur_in_msg e) e else e,
              Some (drop pos inp), False))"

section \<open>Reacting to a request\<close>

text \<open>
  The wire data of the response (\<open>None\<close> for the result \<open>-1\<close>), the engine and the generator
  state; \<open>None\<close> where a handler overruns a buffer.
\<close>

type_synonym 'r eng_result = "(bytes option \<times> eng_t \<times> 'r) option"

text \<open>The message that a handler wrote to \<open>e->out\<close>, with its length, and \<open>eng_queue_outgoing\<close>
  after the assignments of a step.\<close>

definition eng_put :: "eng_t \<Rightarrow> bytes option \<Rightarrow> eng_t" where
  "eng_put e out =
     (case out of None \<Rightarrow> e | Some m \<Rightarrow> e\<lparr>eng_out := poke (eng_out e) 0 m, eng_out_len := length m\<rparr>)"

definition eng_step0 :: "'r crypto \<Rightarrow> eng_t \<Rightarrow> 'r \<Rightarrow> 'r eng_result" where
  "eng_step0 C e r =
     (let made =
        (if eng_classical e \<noteq> 0 then
           (case edhoc03_i_make_msg1 C (eng_c3 e) E4_MAX_MSG r of None \<Rightarrow> None
            | Some (rc, c3, out, r) \<Rightarrow> Some (rc = E3_OK, e\<lparr>eng_c3 := c3\<rparr>, out, r))
         else
           (case edhoc4_i_make_msg1 C (eng_c4 e) E4_MAX_MSG r of None \<Rightarrow> None
            | Some (rc, c4, out, r) \<Rightarrow> Some (rc = E4_OK, e\<lparr>eng_c4 := c4\<rparr>, out, r)))
      in case made of None \<Rightarrow> None
         | Some (ok, e, out, r) \<Rightarrow>
             if \<not> ok then Some (None, e, r)
             else case eng_queue_outgoing ((eng_put e out)\<lparr>eng_step := 1, eng_cur_in_msg := 2\<rparr>) 1 of
                    (wire, e) \<Rightarrow> Some (Some wire, e, r))"

definition eng_step1 :: "'r crypto \<Rightarrow> eng_t \<Rightarrow> bytes \<Rightarrow> 'r \<Rightarrow> 'r eng_result" where
  "eng_step1 C e msg r =
     (let e = e\<lparr>eng_msg_bytes := (eng_msg_bytes e)[2 := length msg]\<rparr>;
          handled =
        (if eng_classical e \<noteq> 0 then
           (case edhoc03_i_handle_msg2 C (eng_c3 e) msg E4_MAX_MSG r of None \<Rightarrow> None
            | Some (rc, c3, out, r) \<Rightarrow> Some (rc = E3_OK, e\<lparr>eng_c3 := c3\<rparr>, out, r))
         else
           (case edhoc4_i_handle_msg2 C (eng_c4 e) msg E4_MAX_MSG r of None \<Rightarrow> None
            | Some (rc, c4, out, r) \<Rightarrow> Some (rc = E4_OK, e\<lparr>eng_c4 := c4\<rparr>, out, r)))
      in case handled of None \<Rightarrow> None
         | Some (ok, e, out, r) \<Rightarrow>
             if \<not> ok then Some (None, e, r)
             else
             let e = (eng_put e out)\<lparr>eng_step := 2, eng_cur_in_msg := 4\<rparr>;
                 e = (if eng_classical e \<noteq> 0 then e\<lparr>eng_msk := slice 0 64 (edhoc03_ctx.msk (eng_c3 e))\<rparr> else e)
             in case eng_queue_outgoing e 3 of (wire, e) \<Rightarrow> Some (Some wire, e, r))"

definition eng_step2 :: "'r crypto \<Rightarrow> eng_t \<Rightarrow> bytes \<Rightarrow> 'r \<Rightarrow> 'r eng_result" where
  "eng_step2 C e msg r =
     (let e = e\<lparr>eng_msg_bytes := (eng_msg_bytes e)[4 := length msg]\<rparr>
      in case edhoc4_i_handle_msg4 C (eng_c4 e) msg of None \<Rightarrow> None
         | Some (rc, c4) \<Rightarrow>
             let e = e\<lparr>eng_c4 := c4\<rparr>
             in if rc \<noteq> E4_OK then Some (None, e, r)
                else Some (Some [0x00], e\<lparr>eng_msk := slice 0 64 (edhoc4_ctx.msk c4), eng_step := 3\<rparr>, r))"

definition eng_react :: "'r crypto \<Rightarrow> eng_t \<Rightarrow> bytes \<Rightarrow> 'r \<Rightarrow> 'r eng_result" where
  "eng_react C e inp r =
     (if eng_out_pos e < eng_out_len e then
        (case eng_send_fragment e of (wire, e) \<Rightarrow> Some (Some wire, e, r))
      else case eng_consume e inp of (rc, e, msg, need_ack) \<Rightarrow>
        if rc \<noteq> 0 then Some (None, e, r)
        else if need_ack then Some (Some [0x00], e, r)
        else
          let m = the msg in
          if eng_step e = 0 then eng_step0 C e r
          else if eng_step e = 1 then eng_step1 C e m r
          else if eng_step e = 2 then eng_step2 C e m r
          else Some (None, e, r))"

section \<open>Setting up\<close>

text \<open>The zeroed engine of \<open>run_handshake\<close> with its method, and \<open>load_creds\<close>: \<open>None\<close> for \<open>-1\<close>.
  The paths are built in \<open>p[512]\<close> from the credential directory; the arguments \<open>stk\<close> are what
  the uninitialised locals held.\<close>

definition cred_path :: "string \<Rightarrow> string \<Rightarrow> string" where
  "cred_path dir name = take 511 (dir @ ''/'' @ name)"

definition eng_zero :: "int \<Rightarrow> eng_t" where
  "eng_zero m = \<lparr>eng_method = m, eng_classical = (if m \<le> 3 then 1 else 0), eng_c3 = zero_ctx03, eng_c4 = zero_ctx,
     eng_step = 0, eng_done = 0, eng_failed = 0,
     eng_in = zeros E4_MAX_MSG, eng_in_len = 0, eng_in_pos = 0,
     eng_out = zeros E4_MAX_MSG, eng_out_len = 0, eng_out_pos = 0,
     eng_msg_bytes = [0, 0, 0, 0, 0], eng_msg_frags = [0, 0, 0, 0, 0],
     eng_cur_out_msg = 0, eng_cur_in_msg = 0, eng_msk = zeros 64\<rparr>"

definition load_creds ::
  "fsys \<Rightarrow> string \<Rightarrow> edhoc03_creds \<Rightarrow> edhoc03_peer \<Rightarrow> edhoc4_creds \<Rightarrow> bytes \<Rightarrow> eng_t \<Rightarrow> eng_t option" where
  "load_creds fs dir stk3 stkp3 stk4 stkp4 e =
     (if eng_classical e \<noteq> 0 then
        (case edhoc03_creds_load fs (Some (cred_path dir ''ue03.creds'')) (Some stk3) of (rc, slf) \<Rightarrow>
         if rc \<noteq> E3_OK then None
         else case edhoc03_pub_load fs (Some (cred_path dir ''server03.pub'')) (Some stkp3) of (rc, pr) \<Rightarrow>
         if rc \<noteq> E3_OK then None
         else Some (e\<lparr>eng_c3 := edhoc03_init_initiator (eng_method e) (the slf) (the pr)\<rparr>))
      else
        (case edhoc4_creds_load fs (Some (cred_path dir ''ue.creds'')) (Some stk4) of (rc, slf) \<Rightarrow>
         if rc \<noteq> E4_OK then None
         else case edhoc4_pub_load fs (Some (cred_path dir ''server.pub'')) (Some stkp4) of (rc, peer_pk) \<Rightarrow>
         if rc \<noteq> E4_OK then None
         else Some (e\<lparr>eng_c4 := edhoc4_init_initiator (the slf) (the peer_pk)\<rparr>)))"

end
