(* ===== verification/Rlm_Edhoc.thy ===== *)
theory Rlm_Edhoc
  imports Frag Edhoc4 Edhoc03
begin

text \<open>
  The FreeRADIUS EAP sub-module \<open>rlm_eap_edhoc.c\<close>: loading of credentials, the session of a
  handshake, fragmentation and reassembly, and \<open>mod_process\<close>.  \<open>mem site n\<close> says whether
  \<open>talloc_array\<close> of \<open>n\<close> octets succeeds (site 1 the wire buffer, site 2 the packet data).
  The fields of \<open>edhoc_session_t\<close> carry the prefix \<open>sess_\<close>.
\<close>

record rlm_eap_edhoc_t =
  creds_path :: "string option"
  peer_pub_path :: "string option"
  creds03_path :: "string option"
  peer_pub03_path :: "string option"
  server :: edhoc4_creds
  ue_pub :: bytes
  server03 :: edhoc03_creds
  ue03_pub :: edhoc03_peer
  have03 :: int

record edhoc_session_t =
  sess_ctx :: edhoc4_ctx
  sess_ctx03 :: edhoc03_ctx
  sess_mode :: int
  sess_round :: int
  sess_in :: bytes
  sess_in_len :: nat
  sess_in_pos :: nat
  sess_out :: bytes
  sess_out_len :: nat
  sess_out_pos :: nat

text \<open>The reply under construction: \<open>eap_ds->request\<close> (its \<open>type.data\<close> is \<open>None\<close> for the
  null pointer) and the attributes added to the RADIUS reply.\<close>

datatype eap_code = PW_EAP_REQUEST | PW_EAP_RESPONSE | PW_EAP_SUCCESS | PW_EAP_FAILURE

abbreviation (input) PW_EAP_EDHOC :: nat where "PW_EAP_EDHOC \<equiv> 56"

record eap_request =
  code :: eap_code
  type_num :: nat
  type_data :: "bytes option"
  type_length :: nat
  reply_attrs :: "(string \<times> bytes) list"

text \<open>The fields of \<open>eap_handler_t\<close> that the module sets.\<close>

datatype eap_stage = INITIATE | PROCESS

record eap_handler_t =
  opaque :: "edhoc_session_t option"
  stage :: eap_stage

section \<open>Instantiation and session start\<close>

text \<open>The instance is zeroed and has its paths from \<open>cf_section_parse\<close>; \<open>None\<close> is \<open>-1\<close>.\<close>

definition mod_instantiate :: "fsys \<Rightarrow> rlm_eap_edhoc_t \<Rightarrow> rlm_eap_edhoc_t option" where
  "mod_instantiate fs inst =
     (if creds_path inst = None \<or> peer_pub_path inst = None then None
      else case edhoc4_creds_load fs (creds_path inst) (Some (server inst)) of (rc, sv) \<Rightarrow>
      if rc \<noteq> E4_OK then None
      else case edhoc4_pub_load fs (peer_pub_path inst) (Some (ue_pub inst)) of (rc, up) \<Rightarrow>
      if rc \<noteq> E4_OK then None
      else
      let inst1 = inst\<lparr>server := the sv, ue_pub := the up\<rparr>
      in if creds03_path inst1 \<noteq> None \<and> peer_pub03_path inst1 \<noteq> None then
           (case edhoc03_creds_load fs (creds03_path inst1) (Some (server03 inst1)) of (rc, sv3) \<Rightarrow>
            if rc \<noteq> E3_OK then None
            else case edhoc03_pub_load fs (peer_pub03_path inst1) (Some (ue03_pub inst1)) of (rc, up3) \<Rightarrow>
            if rc \<noteq> E3_OK then None
            else Some (inst1\<lparr>server03 := the sv3, ue03_pub := the up3, have03 := 1\<rparr>))
         else Some inst1)"

definition zero_session :: edhoc_session_t where
  "zero_session = \<lparr>sess_ctx = zero_ctx, sess_ctx03 = zero_ctx03, sess_mode = 0, sess_round = 0,
     sess_in = zeros E4_MAX_MSG, sess_in_len = 0, sess_in_pos = 0,
     sess_out = zeros E4_MAX_MSG, sess_out_len = 0, sess_out_pos = 0\<rparr>"

definition edhoc_emit_eap :: "(nat \<Rightarrow> nat \<Rightarrow> bool) \<Rightarrow> eap_request \<Rightarrow> eap_code \<Rightarrow> bytes \<Rightarrow> bool \<times> eap_request" where
  "edhoc_emit_eap mem rq c buf =
     (let rq = rq\<lparr>code := c, type_num := PW_EAP_EDHOC\<rparr>
      in if \<not> mem 2 (length buf) then (False, rq\<lparr>type_data := None\<rparr>)
         else (True, rq\<lparr>type_data := Some buf, type_length := length buf\<rparr>))"

text \<open>\<open>sess_ok\<close>: whether \<open>talloc_zero\<close> of the session succeeded.\<close>

definition mod_session_init ::
  "bool \<Rightarrow> (nat \<Rightarrow> nat \<Rightarrow> bool) \<Rightarrow> eap_handler_t \<Rightarrow> eap_request \<Rightarrow> bool \<times> eap_handler_t \<times> eap_request" where
  "mod_session_init sess_ok mem handler rq =
     (if \<not> sess_ok then (False, handler, rq)
      else let handler = handler\<lparr>opaque := Some zero_session\<rparr>;
               rq = rq\<lparr>code := PW_EAP_REQUEST, type_num := PW_EAP_EDHOC\<rparr>
           in if \<not> mem 2 1 then (False, handler, rq\<lparr>type_data := None\<rparr>)
              else (True, handler\<lparr>stage := PROCESS\<rparr>, rq\<lparr>type_data := Some [0x01], type_length := 1\<rparr>))"

section \<open>Fragmentation\<close>

definition edhoc_send_ack :: "(nat \<Rightarrow> nat \<Rightarrow> bool) \<Rightarrow> eap_request \<Rightarrow> eap_code \<Rightarrow> bool \<times> eap_request" where
  "edhoc_send_ack mem rq c = edhoc_emit_eap mem rq c [0x00]"

definition edhoc_send_fragment ::
  "(nat \<Rightarrow> nat \<Rightarrow> bool) \<Rightarrow> eap_request \<Rightarrow> edhoc_session_t \<Rightarrow> eap_code \<Rightarrow> bool \<times> edhoc_session_t \<times> eap_request" where
  "edhoc_send_fragment mem rq sess c =
     (let first_cap = E4_EDHOC_FRAG_WIRE_MAX - E4_EDHOC_FRAG_HDR_LEN - E4_EDHOC_FRAG_LEN_LEN;
          next_cap = E4_EDHOC_FRAG_WIRE_MAX - E4_EDHOC_FRAG_HDR_LEN;
          remaining = sess_out_len sess - sess_out_pos sess;
          frag_cap = (if sess_out_pos sess = 0 then first_cap else next_cap);
          frag_len = (if remaining < frag_cap then remaining else frag_cap);
          wire_len = E4_EDHOC_FRAG_HDR_LEN +
            (if sess_out_pos sess = 0 \<and> remaining > frag_len then E4_EDHOC_FRAG_LEN_LEN else 0) + frag_len
      in if remaining = 0 then (False, sess, rq)
      else if \<not> mem 1 wire_len then (False, sess, rq)
      else
      let wire = [(if remaining > frag_len then E4_EDHOC_FRAG_FLAG_MORE else 0) OR
                  (if sess_out_pos sess = 0 \<and> remaining > frag_len then E4_EDHOC_FRAG_FLAG_LEN else 0)] @
                 (if sess_out_pos sess = 0 \<and> remaining > frag_len then be16 (sess_out_len sess) else []) @
                 slice (sess_out_pos sess) frag_len (sess_out sess);
          sess = sess\<lparr>sess_out_pos := sess_out_pos sess + frag_len\<rparr>;
          sess = (if sess_out_pos sess \<ge> sess_out_len sess then sess\<lparr>sess_out_len := 0, sess_out_pos := 0\<rparr> else sess)
      in case edhoc_emit_eap mem rq c wire of (ok, rq) \<Rightarrow> (ok, sess, rq))"

definition edhoc_queue_outgoing ::
  "(nat \<Rightarrow> nat \<Rightarrow> bool) \<Rightarrow> eap_request \<Rightarrow> edhoc_session_t \<Rightarrow> eap_code \<Rightarrow> bytes \<Rightarrow> bool \<times> edhoc_session_t \<times> eap_request" where
  "edhoc_queue_outgoing mem rq sess c buf =
     (let first_cap = E4_EDHOC_FRAG_WIRE_MAX - E4_EDHOC_FRAG_HDR_LEN - E4_EDHOC_FRAG_LEN_LEN
      in if length buf = 0 then (case edhoc_send_ack mem rq c of (ok, rq) \<Rightarrow> (ok, sess, rq))
      else if length buf \<le> first_cap then (case edhoc_emit_eap mem rq c (0x00 # buf) of (ok, rq) \<Rightarrow> (ok, sess, rq))
      else if length buf > E4_MAX_MSG then (False, sess, rq)
      else edhoc_send_fragment mem rq
             (sess\<lparr>sess_out := poke (sess_out sess) 0 buf, sess_out_len := length buf, sess_out_pos := 0\<rparr>) c)"

text \<open>The return code, the session, the message (\<open>None\<close> for the null pointer) and \<open>need_ack\<close>.\<close>

definition edhoc_consume_incoming ::
  "edhoc_session_t \<Rightarrow> bytes \<Rightarrow> e4_rc \<times> edhoc_session_t \<times> bytes option \<times> bool" where
  "edhoc_consume_incoming sess inp =
     (if length inp = 0 then (E4_ERR_PARSE, sess, None, False)
      else
        let flags = inp ! 0;
            has_len = (flags AND E4_EDHOC_FRAG_FLAG_LEN \<noteq> 0);
            more = (flags AND E4_EDHOC_FRAG_FLAG_MORE \<noteq> 0);
            pos = (if has_len then 3 else 1);
            total = get16 inp 1
        in if has_len \<and> length inp < E4_EDHOC_FRAG_HDR_LEN + E4_EDHOC_FRAG_LEN_LEN then (E4_ERR_PARSE, sess, None, False)
        else if has_len \<and> (total = 0 \<or> total > E4_MAX_MSG) then (E4_ERR_BUF, sess, None, False)
        else if has_len \<and> sess_in_len sess \<noteq> 0 \<and> sess_in_len sess \<noteq> total then (E4_ERR_PARSE, sess, None, False)
        else
        let sess = (if has_len \<and> sess_in_len sess = 0 then sess\<lparr>sess_in_len := total, sess_in_pos := 0\<rparr> else sess)
        in if length inp < pos then (E4_ERR_PARSE, sess, None, False)
        else if sess_in_len sess \<noteq> 0 then
          let payload_len = length inp - pos
          in if sess_in_pos sess + payload_len > sess_in_len sess then (E4_ERR_BUF, sess, None, False)
          else
          let sess = sess\<lparr>sess_in := poke (sess_in sess) (sess_in_pos sess) (drop pos inp),
                          sess_in_pos := sess_in_pos sess + payload_len\<rparr>
          in if more then (E4_OK, sess, None, True)
          else if sess_in_pos sess \<noteq> sess_in_len sess then (E4_ERR_PARSE, sess, None, False)
          else (E4_OK, sess\<lparr>sess_in_len := 0, sess_in_pos := 0\<rparr>, Some (take (sess_in_len sess) (sess_in sess)), False)
        else if more then (E4_ERR_PARSE, sess, None, False)
        else (E4_OK, sess, Some (drop pos inp), False))"

section \<open>Processing a response\<close>

text \<open>
  The return value with the session, the reply and the generator state; \<open>None\<close> where a
  handler overruns a buffer.  The arguments are the instance, the session pointer
  \<open>handler->opaque\<close>, the reply under construction and the type data of the peer's response
  (the caller has \<open>handler->stage == PROCESS\<close>).
\<close>

type_synonym 'r mod_result = "(bool \<times> edhoc_session_t option \<times> eap_request \<times> 'r) option"

definition mod_fail :: "edhoc_session_t option \<Rightarrow> eap_request \<Rightarrow> 'r \<Rightarrow> 'r mod_result" where
  "mod_fail sess rq r = Some (False, sess, rq\<lparr>code := PW_EAP_FAILURE\<rparr>, r)"

definition mod_round0 ::
  "'r crypto \<Rightarrow> rlm_eap_edhoc_t \<Rightarrow> (nat \<Rightarrow> nat \<Rightarrow> bool) \<Rightarrow> edhoc_session_t \<Rightarrow> eap_request \<Rightarrow> bytes \<Rightarrow> 'r \<Rightarrow> 'r mod_result" where
  "mod_round0 C inst mem sess rq msg r =
     (let sess = (if sess_mode sess = 0
                  then (if length msg = 1 + E3_X_PK + E3_CONN_ID \<and> unat (msg ! 0) \<le> 3
                        then sess\<lparr>sess_mode := 3\<rparr> else sess\<lparr>sess_mode := 4\<rparr>)
                  else sess);
          handled =
            (if sess_mode sess = 3 then
               (if have03 inst = 0 then Some (False, sess, [], r)
                else case edhoc03_r_handle_msg1 C (edhoc03_init_responder (server03 inst) (ue03_pub inst)) msg E4_MAX_MSG r of
                       None \<Rightarrow> None
                     | Some (rc, c3, out, r') \<Rightarrow>
                         Some (rc = E3_OK, sess\<lparr>sess_ctx03 := c3\<rparr>, (case out of None \<Rightarrow> [] | Some m \<Rightarrow> m), r'))
             else (case edhoc4_r_handle_msg1 C (edhoc4_init_responder (server inst) (ue_pub inst)) msg E4_MAX_MSG r of
                     None \<Rightarrow> None
                   | Some (rc, c4, out, r') \<Rightarrow>
                       Some (rc = E4_OK, sess\<lparr>sess_ctx := c4\<rparr>, (case out of None \<Rightarrow> [] | Some m \<Rightarrow> m), r')))
      in case handled of
           None \<Rightarrow> None
         | Some (ok, sess, out, r) \<Rightarrow>
             if \<not> ok then mod_fail (Some sess) rq r
             else (case edhoc_queue_outgoing mem rq sess PW_EAP_REQUEST out of (sent, sess, rq) \<Rightarrow>
                     if \<not> sent then Some (False, Some sess, rq, r)
                     else Some (True, Some (sess\<lparr>sess_round := 1\<rparr>), rq, r)))"

definition add_mppe_keys :: "eap_request \<Rightarrow> bytes \<Rightarrow> eap_request" where
  "add_mppe_keys rq k = rq\<lparr>reply_attrs := reply_attrs rq @
     [(''MS-MPPE-Recv-Key'', slice 0 32 k), (''MS-MPPE-Send-Key'', slice 32 32 k)]\<rparr>"

definition mod_round1 ::
  "'r crypto \<Rightarrow> (nat \<Rightarrow> nat \<Rightarrow> bool) \<Rightarrow> edhoc_session_t \<Rightarrow> eap_request \<Rightarrow> bytes \<Rightarrow> 'r \<Rightarrow> 'r mod_result" where
  "mod_round1 C mem sess rq msg r =
     (if sess_mode sess = 3 then
        (case edhoc03_r_handle_msg3 C (sess_ctx03 sess) msg E4_MAX_MSG r of
           None \<Rightarrow> None
         | Some (rc, c3, out, r) \<Rightarrow>
             let sess = sess\<lparr>sess_ctx03 := c3\<rparr>
             in if rc \<noteq> E3_OK then mod_fail (Some sess) rq r
                else if edhoc03_ctx.is_done c3 = 0 then mod_fail (Some sess) rq r
                else Some (True, Some sess, add_mppe_keys (rq\<lparr>code := PW_EAP_SUCCESS\<rparr>) (edhoc03_ctx.msk c3), r))
      else
        (case edhoc4_r_handle_msg3 C (sess_ctx sess) msg E4_MAX_MSG r of
           None \<Rightarrow> None
         | Some (rc, c4, out, r) \<Rightarrow>
             let sess = sess\<lparr>sess_ctx := c4\<rparr>
             in if rc \<noteq> E4_OK then mod_fail (Some sess) rq r
                else (case edhoc_queue_outgoing mem rq sess PW_EAP_REQUEST (case out of None \<Rightarrow> [] | Some m \<Rightarrow> m) of
                        (sent, sess, rq) \<Rightarrow>
                          if \<not> sent then Some (False, Some sess, rq, r)
                          else Some (True, Some (sess\<lparr>sess_round := 2\<rparr>), rq, r))))"

definition mod_process ::
  "'r crypto \<Rightarrow> rlm_eap_edhoc_t \<Rightarrow> (nat \<Rightarrow> nat \<Rightarrow> bool) \<Rightarrow> edhoc_session_t option \<Rightarrow> eap_request \<Rightarrow> bytes \<Rightarrow> 'r \<Rightarrow> 'r mod_result" where
  "mod_process C inst mem session rq inp r =
     (case session of
        None \<Rightarrow> mod_fail None rq r
      | Some sess \<Rightarrow>
          if sess_out_pos sess < sess_out_len sess then
            (case edhoc_send_fragment mem rq sess PW_EAP_REQUEST of (ok, sess, rq) \<Rightarrow>
               if \<not> ok then mod_fail (Some sess) rq r else Some (True, Some sess, rq, r))
          else case edhoc_consume_incoming sess inp of (rc, sess, msg, need_ack) \<Rightarrow>
            if rc \<noteq> E4_OK then mod_fail (Some sess) rq r
            else if need_ack then
              (case edhoc_send_ack mem rq PW_EAP_REQUEST of (ok, rq) \<Rightarrow>
                 if \<not> ok then mod_fail (Some sess) rq r else Some (True, Some sess, rq, r))
            else
              let m = the msg in
              if sess_round sess = 0 then mod_round0 C inst mem sess rq m r
              else if sess_round sess = 1 then mod_round1 C mem sess rq m r
              else if sess_round sess = 2 then
                (if length m \<noteq> 0 then mod_fail (Some sess) rq r
                 else if edhoc4_ctx.is_done (sess_ctx sess) = 0 then mod_fail (Some sess) rq r
                 else Some (True, Some sess,
                        add_mppe_keys (rq\<lparr>code := PW_EAP_SUCCESS\<rparr>) (edhoc4_ctx.msk (sess_ctx sess)), r))
              else mod_fail (Some sess) rq r)"

end
