(* ===== verification/Edhoc4_Run.thy ===== *)
theory Edhoc4_Run
  imports Edhoc4
begin

text \<open>
  Runs of the method-4 handshake.  The predicates \<open>msg1_for\<close> to \<open>msg4_for\<close> say what
  a message means between the two contexts at that point; each handler establishes the
  next one, which gives the key agreement of the whole exchange.
\<close>

section \<open>Provisioned credentials\<close>

definition creds_ok :: "'r crypto \<Rightarrow> edhoc4_creds \<Rightarrow> bool" where
  "creds_ok C c \<longleftrightarrow> xwing_pair C (kem_pk c) (kem_sk c) \<and>
     (\<exists>r. fst (mldsa_keypair C r) = Some (sig_vk c, sig_sk c)) \<and> length (id_cred c) = E4_ID_CRED"

lemma creds_ok_sign:
  assumes "crypto_ok C" "creds_ok C c"
  obtains s r' where "mldsa_signature C m (sig_sk c) r = (Some s, r')" "length s = 2420"
    "mldsa_verify C s m (sig_vk c)"
proof -
  note ok = crypto_okD [OF assms(1)]
  obtain r0 where "fst (mldsa_keypair C r0) = Some (sig_vk c, sig_sk c)"
    using assms(2) by (auto simp: creds_ok_def)
  then obtain s where "fst (mldsa_signature C m (sig_sk c) r) = Some s" "mldsa_verify C s m (sig_vk c)"
    using ok(7) unfolding mldsa_ok_def by blast
  moreover then have "length s = 2420" using ok(7) unfolding mldsa_ok_def by blast
  ultimately show ?thesis by (metis prod.collapse that)
qed

lemma creds_ok_len:
  assumes "crypto_ok C" "creds_ok C c"
  shows "length (kem_pk c) = 1216" "length (kem_sk c) = 2432" "length (sig_vk c) = 1312"
    "length (sig_sk c) = 2560" "length (id_cred c) = 3"
  using assms xwing_pair_len [OF assms(1)] crypto_okD(7) [OF assms(1)]
  by (auto simp: creds_ok_def mldsa_ok_def)

lemma edhoc4_gen_creds_ok:
  assumes "crypto_ok C" "length idc = 3"
  shows "\<exists>c' r'. edhoc4_gen_creds C c (Some idc) r = ((E4_OK, c'), r') \<and> creds_ok C c' \<and> id_cred c' = idc"
proof -
  note ok = crypto_okD [OF assms(1)]
  obtain pk sk r1 where kp: "xwing_keypair C (kem_pk zero_creds) (kem_sk zero_creds) r = ((E4_OK, pk, sk), r1)"
    "xwing_pair C pk sk"
    using xw.keypair_pair [OF assms(1)] by blast
  obtain vk ssk where f: "fst (mldsa_keypair C r1) = Some (vk, ssk)"
    using ok(7) unfolding mldsa_ok_def by blast
  then obtain r2 where "mldsa_keypair C r1 = (Some (vk, ssk), r2)" by (metis prod.collapse)
  moreover have "\<exists>r. fst (mldsa_keypair C r) = Some (vk, ssk)" using f by blast
  ultimately show ?thesis
    using kp ok(8) assms(2) by (simp add: edhoc4_gen_creds_def creds_ok_def Let_def)
qed

section \<open>What each message means between the two contexts\<close>

definition msg1_for :: "'r crypto \<Rightarrow> edhoc4_ctx \<Rightarrow> bytes \<Rightarrow> bytes \<Rightarrow> bool" where
  "msg1_for C I skB m \<longleftrightarrow> role I = 1 \<and> h_msg1 I = sha256 C m \<and> xwing_pair C (eph_pk I) (eph_sk I) \<and>
     (\<exists>ct_b ct1 ci. m = ct_b @ eph_pk I @ ct1 \<and> length ct_b = 1120 \<and> length ct1 = 18 \<and>
        (\<forall>old. xwing_decaps C old ct_b skB = (E4_OK, ss_b I)) \<and>
        (let t1 = sha256_cat C [eph_pk I, ct_b]
         in aead_open C 64 (hkdf_extract C t1 (ss_b I)) t1 ct1 = Opened [4, ci]))"

definition msg2_for :: "'r crypto \<Rightarrow> edhoc4_ctx \<Rightarrow> edhoc4_ctx \<Rightarrow> bytes \<Rightarrow> bool" where
  "msg2_for C I R m \<longleftrightarrow> role R = 0 \<and> ss_b R = ss_b I \<and>
     (\<exists>cte ct2 pt2 mac2 sg. m = cte @ ct2 \<and> length cte = 1120 \<and> length ct2 = 4880 \<and>
        length (ct_a R) = 1120 \<and> length mac2 = 8 \<and> length sg = 2420 \<and>
        (\<forall>old. xwing_decaps C old cte (eph_sk I) = (E4_OK, ss_e R)) \<and>
        (\<forall>old. xwing_decaps C old (ct_a R) (kem_sk (self I)) = (E4_OK, ss_a R)) \<and>
        th2 R = sha256_cat C [h_msg1 I, cte, [0x20]] \<and>
        prk2e R = hkdf_extract C (th2 R) (ss_e R) \<and> prk3e2m R = hkdf_extract C (prk2e R) (ss_b R) \<and>
        mac2 = compute_mac C (prk3e2m R) (th2 R) (id_cred (self R)) [] \<and>
        mldsa_verify C sg (sig_message (th2 R) (id_cred (self R)) mac2) (sig_vk (self R)) \<and>
        pt2 = ct_a R @ [0x20] @ id_cred (self R) @ sig_vk (self R) @ mac2 @ sg \<and>
        (\<forall>cap \<ge> 4864. aead_open C cap (prk2e R) (th2 R) ct2 = Opened pt2) \<and>
        th3 R = sha256_cat C [th2 R, pt2])"

definition exported :: "'r crypto \<Rightarrow> edhoc4_ctx \<Rightarrow> bool" where
  "exported C c \<longleftrightarrow> (let po = hkdf_expand C (prk4e3m c) (th4 c) E4_PRK_LEN
     in msk c = hkdf_expand C po (ascii ''EDHOC-EAP-MSK'') E4_MSK_LEN \<and>
        emsk c = hkdf_expand C po (ascii ''EDHOC-EAP-EMSK'') E4_EMSK_LEN)"

definition msg3_for :: "'r crypto \<Rightarrow> edhoc4_ctx \<Rightarrow> edhoc4_ctx \<Rightarrow> bytes \<Rightarrow> bool" where
  "msg3_for C I R m \<longleftrightarrow> role I = 1 \<and> exported C I \<and> length (new_pk I) = 1216 \<and>
     prk4e3m I = hkdf_extract C (prk3e2m R) (ss_a R) \<and>
     (\<exists>pt3 mac3 sg. length m = 4975 \<and> length mac3 = 8 \<and> length sg = 2420 \<and>
        mac3 = compute_mac C (prk4e3m I) (th3 R) (id_cred (self I)) (new_pk I) \<and>
        mldsa_verify C sg (sig_message (th3 R) (id_cred (self I)) mac3) (sig_vk (self I)) \<and>
        pt3 = id_cred (self I) @ new_pk I @ mac3 @ sig_vk (self I) @ sg \<and>
        (\<forall>cap \<ge> 4959. aead_open C cap (prk3e2m R) (th3 R) m = Opened pt3) \<and>
        th4 I = sha256_cat C [th3 R, pt3])"

definition msg4_for :: "'r crypto \<Rightarrow> edhoc4_ctx \<Rightarrow> edhoc4_ctx \<Rightarrow> bytes \<Rightarrow> bool" where
  "msg4_for C I R m \<longleftrightarrow> exported C R \<and> is_done R = 1 \<and> prk4e3m R = prk4e3m I \<and> th4 R = th4 I \<and>
     peer_new_pk R = new_pk I \<and> length (new_pk R) = 1216 \<and> length m = 1232 \<and>
     (\<forall>cap \<ge> 1216. aead_open C cap (prk4e3m R) (th4 R) m = Opened (new_pk R))"

lemma msg1_forI:
  assumes "role I = 1" "h_msg1 I = sha256 C m" "xwing_pair C (eph_pk I) (eph_sk I)"
    "m = ct_b @ eph_pk I @ ct" "length ct_b = 1120" "length ct = 18"
    "\<And>old. xwing_decaps C old ct_b skB = (E4_OK, ss_b I)"
    "t = sha256_cat C [eph_pk I, ct_b]" "aead_open C 64 (hkdf_extract C t (ss_b I)) t ct = Opened [4, ci]"
  shows "msg1_for C I skB m"
  using assms unfolding msg1_for_def Let_def by blast

lemma msg2_forI:
  assumes "role R = 0" "ss_b R = ss_b I" "m = cte @ ct" "length cte = 1120" "length ct = 4880"
    "length (ct_a R) = 1120" "length mac = 8" "length sg = 2420"
    "\<forall>old. xwing_decaps C old cte (eph_sk I) = (E4_OK, ss_e R)"
    "\<forall>old. xwing_decaps C old (ct_a R) (kem_sk (self I)) = (E4_OK, ss_a R)"
    "th2 R = sha256_cat C [h_msg1 I, cte, [0x20]]"
    "prk2e R = hkdf_extract C (th2 R) (ss_e R)" "prk3e2m R = hkdf_extract C (prk2e R) (ss_b R)"
    "mac = compute_mac C (prk3e2m R) (th2 R) (id_cred (self R)) []"
    "mldsa_verify C sg (sig_message (th2 R) (id_cred (self R)) mac) (sig_vk (self R))"
    "pt = ct_a R @ [0x20] @ id_cred (self R) @ sig_vk (self R) @ mac @ sg"
    "\<forall>cap \<ge> 4864. aead_open C cap (prk2e R) (th2 R) ct = Opened pt"
    "th3 R = sha256_cat C [th2 R, pt]"
  shows "msg2_for C I R m"
  unfolding msg2_for_def
  by (rule conjI [OF assms(1)], rule conjI [OF assms(2)], rule exI [of _ cte], rule exI [of _ ct],
      rule exI [of _ pt], rule exI [of _ mac], rule exI [of _ sg], intro conjI) (fact assms)+

lemma msg3_forI:
  assumes "role I = 1" "exported C I" "length (new_pk I) = 1216"
    "prk4e3m I = hkdf_extract C (prk3e2m R) (ss_a R)" "length m = 4975" "length mac = 8" "length sg = 2420"
    "mac = compute_mac C (prk4e3m I) (th3 R) (id_cred (self I)) (new_pk I)"
    "mldsa_verify C sg (sig_message (th3 R) (id_cred (self I)) mac) (sig_vk (self I))"
    "pt = id_cred (self I) @ new_pk I @ mac @ sig_vk (self I) @ sg"
    "\<forall>cap \<ge> 4959. aead_open C cap (prk3e2m R) (th3 R) m = Opened pt"
    "th4 I = sha256_cat C [th3 R, pt]"
  shows "msg3_for C I R m"
  unfolding msg3_for_def
  by (rule conjI [OF assms(1)], rule conjI [OF assms(2)], rule conjI [OF assms(3)],
      rule conjI [OF assms(4)], rule exI [of _ pt], rule exI [of _ mac], rule exI [of _ sg],
      intro conjI) (fact assms)+

lemma exported_derive: "exported C (derive_prk_out_and_msk C c)"
  by (simp add: exported_def derive_prk_out_and_msk_def Let_def)

lemma exported_frame [simp]:
  "exported C (c\<lparr>is_done := d\<rparr>) = exported C c" "exported C (c\<lparr>new_pk := a\<rparr>) = exported C c"
  "exported C (c\<lparr>new_sk := a\<rparr>) = exported C c" "exported C (c\<lparr>peer_new_pk := a\<rparr>) = exported C c"
  by (simp_all add: exported_def)

lemma exported_agree:
  "exported C a \<Longrightarrow> exported C b \<Longrightarrow> prk4e3m a = prk4e3m b \<Longrightarrow> th4 a = th4 b \<Longrightarrow>
   msk a = msk b \<and> emsk a = emsk b"
  by (simp add: exported_def Let_def)

lemma derive_frame [simp]:
  fixes C c defines "d \<equiv> derive_prk_out_and_msk C c"
  shows "role d = role c" "self d = self c" "new_pk d = new_pk c" "new_sk d = new_sk c"
    "prk4e3m d = prk4e3m c" "th4 d = th4 c" "th3 d = th3 c" "prk3e2m d = prk3e2m c"
    "peer_new_pk d = peer_new_pk c" "is_done d = 1"
  by (simp_all add: d_def derive_prk_out_and_msk_def Let_def)

section \<open>The handlers on honest messages\<close>

lemma i_make_msg1_run:
  assumes ok: "crypto_ok C" and I: "role I = 1" "xwing_pair C (peer_kem_pk I) skB" "2354 \<le> cap"
  shows "\<exists>I' m r'. edhoc4_i_make_msg1 C I cap r = Some (E4_OK, I', Some m, r') \<and> length m = 2354 \<and>
    msg1_for C I' skB m \<and> self I' = self I"
proof -
  note ok' = crypto_okD [OF ok]
  obtain pk sk r1 where kp: "xwing_keypair C (eph_pk I) (eph_sk I) r = ((E4_OK, pk, sk), r1)"
    "xwing_pair C pk sk" "length pk = E4_XWING_PK"
    using xw.keypairE [OF ok] by metis
  obtain ct_b ss r2 where en: "xwing_encaps C (zeros E4_XWING_CT) (ss_b I) (peer_kem_pk I) r1 = ((E4_OK, ct_b, ss), r2)"
    "length ct_b = E4_XWING_CT" "\<And>old. xwing_decaps C old ct_b skB = (E4_OK, ss)"
    using xw.encapsE [OF ok I(2)] by metis
  define t1 where "t1 = sha256_cat C [pk, ct_b]"
  obtain ct1 where ae: "aead_seal C (hkdf_extract C t1 ss) t1 [4, c_i I ! 0] = Some ct1" "length ct1 = 18"
    "\<forall>cap\<ge>2. aead_open C cap (hkdf_extract C t1 ss) t1 ct1 = Opened [4, c_i I ! 0]"
    using e4c.seal_opn [OF ok'(1,2), of "hkdf_extract C t1 ss" t1 "[4, c_i I ! 0]"] by auto
  show ?thesis
    using I kp en ae
    by (simp add: edhoc4_i_make_msg1_def Let_def flip: t1_def)
      (rule msg1_forI [of _ _ _ ct_b ct1 _ t1 "c_i I ! 0"]; simp add: t1_def)
qed

lemma r_handle_msg1_run:
  assumes ok: "crypto_ok C" and R: "role R = 0" "creds_ok C (self R)"
      "xwing_pair C (peer_kem_pk R) (kem_sk (self I))" "c_r R = [0x20]" "6000 \<le> cap"
    and m: "msg1_for C I (kem_sk (self R)) m"
  shows "\<exists>R' m' r'. edhoc4_r_handle_msg1 C R m cap r = Some (E4_OK, R', Some m', r') \<and>
    length m' = 6000 \<and> msg2_for C I R' m' \<and> self R' = self R"
proof -
  note ok' = crypto_okD [OF ok] and len = creds_ok_len [OF ok R(2)]
  obtain ct_b ct1 ci where m1: "m = ct_b @ eph_pk I @ ct1" "length ct_b = 1120" "length ct1 = 18"
      "\<forall>old. xwing_decaps C old ct_b (kem_sk (self R)) = (E4_OK, ss_b I)"
    and op: "aead_open C 64 (hkdf_extract C (sha256_cat C [eph_pk I, ct_b]) (ss_b I))
        (sha256_cat C [eph_pk I, ct_b]) ct1 = Opened [4, ci]"
    and hm: "h_msg1 I = sha256 C m" and eph: "xwing_pair C (eph_pk I) (eph_sk I)"
    using m by (auto simp: msg1_for_def Let_def)
  have pk: "length (eph_pk I) = 1216" using xw.pair_len [OF ok eph] by simp
  obtain cte sse r1 where en: "xwing_encaps C (zeros E4_XWING_CT) (ss_e R) (eph_pk I) r = ((E4_OK, cte, sse), r1)"
    "length cte = E4_XWING_CT" "\<And>old. xwing_decaps C old cte (eph_sk I) = (E4_OK, sse)"
    using xw.encapsE [OF ok eph] by metis
  obtain cta ssa r2 where ea: "xwing_encaps C (ct_a R) (ss_a R) (peer_kem_pk R) r1 = ((E4_OK, cta, ssa), r2)"
    "length cta = E4_XWING_CT" "\<And>old. xwing_decaps C old cta (kem_sk (self I)) = (E4_OK, ssa)"
    using xw.encapsE [OF ok R(3)] by metis
  define t2 where "t2 = sha256_cat C [sha256 C m, cte, [0x20]]"
  define k2 where "k2 = hkdf_extract C t2 sse"
  define k3 where "k3 = hkdf_extract C k2 (ss_b I)"
  define mac2 where "mac2 = compute_mac C k3 t2 (id_cred (self R)) []"
  have mac: "length mac2 = 8" using ok' by (simp add: mac2_def crypto_sizes)
  obtain sg r3 where sg: "mldsa_signature C (sig_message t2 (id_cred (self R)) mac2) (sig_sk (self R)) r2 = (Some sg, r3)"
    "length sg = 2420" "mldsa_verify C sg (sig_message t2 (id_cred (self R)) mac2) (sig_vk (self R))"
    by (rule creds_ok_sign [OF ok R(2)])
  define pt2 where "pt2 = cta @ 0x20 # id_cred (self R) @ sig_vk (self R) @ mac2 @ sg"
  have pt2: "length pt2 = 4864" using ea len mac sg by (simp add: pt2_def)
  obtain ct2 where ae: "aead_seal C k2 t2 pt2 = Some ct2" "length ct2 = 4880"
    "\<forall>cap \<ge> 4864. aead_open C cap k2 t2 ct2 = Opened pt2"
    using e4c.seal_opn [OF ok'(1,2), of k2 t2 pt2] pt2 by auto
  have parts: "take 1120 m = ct_b" "slice 1120 1216 m = eph_pk I" "drop 2336 m = ct1" "length m = 2354"
    using m1 pk by (simp_all add: buf_simps)
  show ?thesis
    using R m1(4) op en ea sg ae mac parts
    by (simp add: edhoc4_r_handle_msg1_def Let_def hm flip: t2_def k2_def k3_def mac2_def pt2_def)
      (rule msg2_forI [of _ _ _ cte ct2 mac2 sg _ pt2];
       simp add: hm t2_def k2_def k3_def mac2_def pt2_def)
qed

lemma i_handle_msg2_run:
  assumes ok: "crypto_ok C" and I: "role I = 1" "creds_ok C (self I)" "4975 \<le> cap"
    and m: "msg2_for C I R m" and R: "creds_ok C (self R)"
  shows "\<exists>I' m' r'. edhoc4_i_handle_msg2 C I m cap r = Some (E4_OK, I', Some m', r') \<and>
    length m' = 4975 \<and> msg3_for C I' R m' \<and> self I' = self I"
proof -
  note ok' = crypto_okD [OF ok] and len = creds_ok_len [OF ok I(2)] creds_ok_len [OF ok R]
  obtain cte ct2 pt2 mac2 sg where m2: "m = cte @ ct2" "length cte = 1120" "length ct2 = 4880"
      "length (ct_a R) = 1120" "length mac2 = 8" "length sg = 2420"
      "\<forall>old. xwing_decaps C old cte (eph_sk I) = (E4_OK, ss_e R)"
      "\<forall>old. xwing_decaps C old (ct_a R) (kem_sk (self I)) = (E4_OK, ss_a R)"
      "mldsa_verify C sg (sig_message (th2 R) (id_cred (self R)) mac2) (sig_vk (self R))"
      "\<forall>cap \<ge> 4864. aead_open C cap (prk2e R) (th2 R) ct2 = Opened pt2"
    and eqs: "th2 R = sha256_cat C [h_msg1 I, cte, [0x20]]" "prk2e R = hkdf_extract C (th2 R) (ss_e R)"
      "prk3e2m R = hkdf_extract C (prk2e R) (ss_b R)"
      "mac2 = compute_mac C (prk3e2m R) (th2 R) (id_cred (self R)) []" "th3 R = sha256_cat C [th2 R, pt2]"
    and pt2: "pt2 = ct_a R @ [0x20] @ id_cred (self R) @ sig_vk (self R) @ mac2 @ sg" and ssb: "ss_b R = ss_b I"
    using m unfolding msg2_for_def by blast
  define k4 where "k4 = hkdf_extract C (prk3e2m R) (ss_a R)"
  obtain npk nsk r1 where kp: "xwing_keypair C (new_pk I) (new_sk I) r = ((E4_OK, npk, nsk), r1)"
    "length npk = E4_XWING_PK"
    using xw.keypairE [OF ok] by metis
  define mac3 where "mac3 = compute_mac C k4 (th3 R) (id_cred (self I)) npk"
  have mac: "length mac3 = 8" using ok' by (simp add: mac3_def crypto_sizes)
  obtain sg3 r2 where sg: "mldsa_signature C (sig_message (th3 R) (id_cred (self I)) mac3) (sig_sk (self I)) r1 = (Some sg3, r2)"
    "length sg3 = 2420" "mldsa_verify C sg3 (sig_message (th3 R) (id_cred (self I)) mac3) (sig_vk (self I))"
    by (rule creds_ok_sign [OF ok I(2)])
  define pt3 where "pt3 = id_cred (self I) @ npk @ mac3 @ sig_vk (self I) @ sg3"
  have pt3: "length pt3 = 4959" using kp len mac sg by (simp add: pt3_def)
  obtain ct3 where ae: "aead_seal C (prk3e2m R) (th3 R) pt3 = Some ct3" "length ct3 = 4975"
    "\<forall>cap \<ge> 4959. aead_open C cap (prk3e2m R) (th3 R) ct3 = Opened pt3"
    using e4c.seal_opn [OF ok'(1,2), of "prk3e2m R" "th3 R" pt3] pt3 by auto
  have parts: "length pt2 = 4864" "take 1120 pt2 = ct_a R" "slice 1120 (Suc 0) pt2 = [0x20]"
    "slice 1121 3 pt2 = id_cred (self R)" "slice 1124 1312 pt2 = sig_vk (self R)"
    "slice 2436 8 pt2 = mac2" "slice 2444 2420 pt2 = sg"
    using m2(4-6) len by (simp_all add: pt2 slice_def)
  show ?thesis
    using I m2 kp sg ae mac parts
    by (simp add: edhoc4_i_handle_msg2_def Let_def ssb [symmetric] flip: eqs k4_def mac3_def pt3_def)
      (rule msg3_forI [of _ _ _ _ mac3 sg3 pt3]; simp add: exported_derive k4_def mac3_def pt3_def)
qed

lemma r_handle_msg3_run:
  assumes ok: "crypto_ok C" and R: "role R = 0" "1232 \<le> cap"
    and m: "msg3_for C I R m" and I: "creds_ok C (self I)"
  shows "\<exists>R' m' r'. edhoc4_r_handle_msg3 C R m cap r = Some (E4_OK, R', Some m', r') \<and>
    msg4_for C I R' m'"
proof -
  note ok' = crypto_okD [OF ok] and len = creds_ok_len [OF ok I]
  obtain pt3 mac3 sg where m3: "length m = 4975" "length mac3 = 8" "length sg = 2420" "length (new_pk I) = 1216"
      "mldsa_verify C sg (sig_message (th3 R) (id_cred (self I)) mac3) (sig_vk (self I))"
      "\<forall>cap \<ge> 4959. aead_open C cap (prk3e2m R) (th3 R) m = Opened pt3"
    and eqs: "prk4e3m I = hkdf_extract C (prk3e2m R) (ss_a R)"
      "mac3 = compute_mac C (prk4e3m I) (th3 R) (id_cred (self I)) (new_pk I)" "th4 I = sha256_cat C [th3 R, pt3]"
    and pt3: "pt3 = id_cred (self I) @ new_pk I @ mac3 @ sig_vk (self I) @ sg"
    using m unfolding msg3_for_def by blast
  obtain npk nsk r1 where kp: "xwing_keypair C (new_pk R) (new_sk R) r = ((E4_OK, npk, nsk), r1)"
    "length npk = E4_XWING_PK"
    using xw.keypairE [OF ok] by metis
  obtain ct4 where ae: "aead_seal C (prk4e3m I) (th4 I) npk = Some ct4" "length ct4 = 1232"
    "\<forall>cap \<ge> 1216. aead_open C cap (prk4e3m I) (th4 I) ct4 = Opened npk"
    using e4c.seal_opn [OF ok'(1,2), of "prk4e3m I" "th4 I" npk] kp by auto
  have parts: "length pt3 = 4959" "take 3 pt3 = id_cred (self I)" "slice 3 1216 pt3 = new_pk I"
    "slice 1219 8 pt3 = mac3" "slice 1227 1312 pt3 = sig_vk (self I)" "slice 2539 2420 pt3 = sg"
    using m3(2-4) len by (simp_all add: pt3 slice_def)
  show ?thesis
    using R m3 kp ae parts
    by (simp add: edhoc4_r_handle_msg3_def msg4_for_def Let_def exported_derive flip: eqs)
qed

lemma i_handle_msg4_run:
  assumes "role I = 1" "exported C I" "msg4_for C I R m"
  shows "\<exists>I'. edhoc4_i_handle_msg4 C I m = Some (E4_OK, I') \<and> is_done I' = 1 \<and> msk I' = msk R \<and>
    emsk I' = emsk R \<and> th4 I' = th4 R \<and> peer_new_pk I' = new_pk R \<and> peer_new_pk R = new_pk I'"
proof -
  from assms(3) have R: "exported C R" "prk4e3m R = prk4e3m I" "th4 R = th4 I" "peer_new_pk R = new_pk I"
    "length (new_pk R) = 1216" "\<forall>cap \<ge> 1216. aead_open C cap (prk4e3m I) (th4 I) m = Opened (new_pk R)"
    by (auto simp: msg4_for_def)
  with assms(1,2) exported_agree [of C I R] show ?thesis by (simp add: edhoc4_i_handle_msg4_def)
qed

section \<open>The whole exchange\<close>

text \<open>
  The in-process run of \<open>selftest.c\<close> after provisioning: both contexts, every handler
  with the \<open>E4_MAX_MSG\<close> buffers, stopping at the first code other than \<open>E4_OK\<close>.
\<close>

definition edhoc4_selftest ::
  "'r crypto \<Rightarrow> edhoc4_creds \<Rightarrow> edhoc4_creds \<Rightarrow> 'r \<Rightarrow> (edhoc4_ctx \<times> edhoc4_ctx \<times> bytes list) option" where
  "edhoc4_selftest C ue aaa r =
     (case edhoc4_i_make_msg1 C (edhoc4_init_initiator ue (kem_pk aaa)) E4_MAX_MSG r of
        Some (E4_OK, I1, Some m1, r1) \<Rightarrow>
          (case edhoc4_r_handle_msg1 C (edhoc4_init_responder aaa (kem_pk ue)) m1 E4_MAX_MSG r1 of
             Some (E4_OK, R1, Some m2, r2) \<Rightarrow>
               (case edhoc4_i_handle_msg2 C I1 m2 E4_MAX_MSG r2 of
                  Some (E4_OK, I2, Some m3, r3) \<Rightarrow>
                    (case edhoc4_r_handle_msg3 C R1 m3 E4_MAX_MSG r3 of
                       Some (E4_OK, R2, Some m4, r4) \<Rightarrow>
                         (case edhoc4_i_handle_msg4 C I2 m4 of
                            Some (E4_OK, I3) \<Rightarrow> Some (I3, R2, [m1, m2, m3, m4])
                          | _ \<Rightarrow> None)
                     | _ \<Rightarrow> None)
                | _ \<Rightarrow> None)
           | _ \<Rightarrow> None)
      | _ \<Rightarrow> None)"

lemma init_ctx_simps:
  assumes "length pk = 1216"
  shows "role (edhoc4_init_initiator c pk) = 1" "self (edhoc4_init_initiator c pk) = c"
    "peer_kem_pk (edhoc4_init_initiator c pk) = pk" "role (edhoc4_init_responder c pk) = 0"
    "self (edhoc4_init_responder c pk) = c" "peer_kem_pk (edhoc4_init_responder c pk) = pk"
    "c_r (edhoc4_init_responder c pk) = [0x20]"
  using assms by (simp_all add: edhoc4_init_initiator_def edhoc4_init_responder_def zero_ctx_def)

lemma edhoc4_steps:
  assumes ok: "crypto_ok C" and ue: "creds_ok C ue" and aaa: "creds_ok C aaa"
  obtains I1 R1 I2 R2 I3 m1 m2 m3 m4 r1 r2 r3 r4
  where "edhoc4_i_make_msg1 C (edhoc4_init_initiator ue (kem_pk aaa)) E4_MAX_MSG r = Some (E4_OK, I1, Some m1, r1)"
    "edhoc4_r_handle_msg1 C (edhoc4_init_responder aaa (kem_pk ue)) m1 E4_MAX_MSG r1 = Some (E4_OK, R1, Some m2, r2)"
    "edhoc4_i_handle_msg2 C I1 m2 E4_MAX_MSG r2 = Some (E4_OK, I2, Some m3, r3)"
    "edhoc4_r_handle_msg3 C R1 m3 E4_MAX_MSG r3 = Some (E4_OK, R2, Some m4, r4)"
    "edhoc4_i_handle_msg4 C I2 m4 = Some (E4_OK, I3)"
    "map length [m1, m2, m3, m4] = [2354, 6000, 4975, 1232]"
    "msk I3 = msk R2" "emsk I3 = emsk R2" "th4 I3 = th4 R2" "new_pk I3 = peer_new_pk R2"
    "new_pk R2 = peer_new_pk I3" "is_done I3 = 1" "is_done R2 = 1" "length (emsk R2) = 64"
proof -
  let ?I = "edhoc4_init_initiator ue (kem_pk aaa)" and ?R = "edhoc4_init_responder aaa (kem_pk ue)"
  have len: "length (kem_pk ue) = 1216" "length (kem_pk aaa) = 1216"
    using creds_ok_len [OF ok] ue aaa by blast+
  note init = init_ctx_simps [OF len(1)] init_ctx_simps [OF len(2)]
  have pairs: "xwing_pair C (kem_pk ue) (kem_sk ue)" "xwing_pair C (kem_pk aaa) (kem_sk aaa)"
    using ue aaa by (simp_all add: creds_ok_def)
  obtain I1 m1 r1 where s1: "edhoc4_i_make_msg1 C ?I E4_MAX_MSG r = Some (E4_OK, I1, Some m1, r1)"
    "length m1 = 2354" "msg1_for C I1 (kem_sk (self ?R)) m1" "self I1 = ue"
    using i_make_msg1_run [OF ok, of ?I "kem_sk aaa" E4_MAX_MSG r] pairs init by auto
  obtain R1 m2 r2 where s2: "edhoc4_r_handle_msg1 C ?R m1 E4_MAX_MSG r1 = Some (E4_OK, R1, Some m2, r2)"
    "length m2 = 6000" "msg2_for C I1 R1 m2" "self R1 = aaa"
    using r_handle_msg1_run [OF ok, of ?R I1 E4_MAX_MSG m1 r1] s1 pairs aaa init by auto
  have R1: "role R1 = 0" and I1: "role I1 = 1"
    using s1(3) s2(3) by (simp_all add: msg1_for_def msg2_for_def)
  obtain I2 m3 r3 where s3: "edhoc4_i_handle_msg2 C I1 m2 E4_MAX_MSG r2 = Some (E4_OK, I2, Some m3, r3)"
    "length m3 = 4975" "msg3_for C I2 R1 m3" "self I2 = ue"
    using i_handle_msg2_run [OF ok I1, of E4_MAX_MSG R1 m2 r2] s1 s2 ue aaa by auto
  obtain R2 m4 r4 where s4: "edhoc4_r_handle_msg3 C R1 m3 E4_MAX_MSG r3 = Some (E4_OK, R2, Some m4, r4)"
    "msg4_for C I2 R2 m4"
    using r_handle_msg3_run [OF ok R1, of E4_MAX_MSG I2 m3 r3] s3 ue by auto
  have I2: "role I2 = 1" "exported C I2" using s3(3) by (simp_all add: msg3_for_def)
  obtain I3 where s5: "edhoc4_i_handle_msg4 C I2 m4 = Some (E4_OK, I3)" "is_done I3 = 1" "msk I3 = msk R2"
    "emsk I3 = emsk R2" "th4 I3 = th4 R2" "peer_new_pk I3 = new_pk R2" "peer_new_pk R2 = new_pk I3"
    using i_handle_msg4_run [OF I2 s4(2)] by blast
  have R2: "is_done R2 = 1" "length m4 = 1232" "length (emsk R2) = 64"
    using s4(2) crypto_okD(1) [OF ok] by (simp_all add: msg4_for_def exported_def Let_def crypto_sizes)
  show thesis
    by (rule that [OF s1(1) s2(1) s3(1) s4(1) s5(1)]) (use s1(2) s2(2) s3(2) s5 R2 in simp_all)
qed

text \<open>
  C17.  The method-4 handshake terminates successfully and agrees: with correct
  primitives and provisioned credentials the five handlers all return \<open>E4_OK\<close>, the two
  peers hold the same MSK, EMSK and final transcript hash, each has learnt the other's
  next static public key, both are done, and the messages have 2354, 6000, 4975 and
  1232 octets.
\<close>

theorem edhoc4_handshake_agrees:
  assumes ok: "crypto_ok C" and ue: "creds_ok C ue" and aaa: "creds_ok C aaa"
  shows "\<exists>I R m1 m2 m3 m4. edhoc4_selftest C ue aaa r = Some (I, R, [m1, m2, m3, m4]) \<and>
    msk I = msk R \<and> emsk I = emsk R \<and> th4 I = th4 R \<and>
    new_pk I = peer_new_pk R \<and> new_pk R = peer_new_pk I \<and> is_done I = 1 \<and> is_done R = 1 \<and>
    map length [m1, m2, m3, m4] = [2354, 6000, 4975, 1232]"
  by (rule edhoc4_steps [OF assms, of r]) (simp add: edhoc4_selftest_def)

text \<open>Credentials of the concrete primitives, for the witnesses.\<close>

definition toy_creds :: "byte \<Rightarrow> edhoc4_creds" where
  "toy_creds i = \<lparr>kem_sk = replicate 2400 4 @ replicate 32 7, kem_pk = replicate 1184 3 @ replicate 32 7,
     sig_sk = replicate 2560 9, sig_vk = replicate 1312 8, id_cred = [0, 0, i]\<rparr>"

lemma toy_creds_ok: "creds_ok toy (toy_creds i)"
  by (auto simp: creds_ok_def xwing_pair_def toy_creds_def toy_def intro!: exI [of _ "replicate 32 7"])

theorem edhoc4_handshake_agrees_witness:
  "\<exists>I R m1 m2 m3 m4. edhoc4_selftest toy (toy_creds 1) (toy_creds 2) () = Some (I, R, [m1, m2, m3, m4]) \<and>
    msk I = msk R \<and> emsk I = emsk R \<and> is_done I = 1 \<and> is_done R = 1"
  using edhoc4_handshake_agrees [OF toy_ok toy_creds_ok toy_creds_ok, of 1 2 "()"] by blast

end
