(* ===== verification/Edhoc4_Props.thy ===== *)
theory Edhoc4_Props
  imports Edhoc4_Run
begin

text \<open>
  Properties of single method-4 operations: HKDF against RFC 5869, when a handler's
  stack buffers suffice, what a successful handler has checked, error paths, and the
  storage of credentials.
\<close>

section \<open>HKDF-Expand\<close>

text \<open>
  \<open>hkdf_expand\<close> of \<open>edhoc4.c\<close> computes HKDF-Expand of RFC 5869 over HMAC-SHA256
  for every output length the RFC allows.
\<close>

theorem hkdf_expand_rfc5869:
  assumes "hash_ok C" "L \<le> 255 * 32"
  shows "rfc5869_expand (crypto_auth_hmacsha256 C prk) info L = Some (hkdf_expand C prk info L)"
  unfolding hkdf_expand_def using assms by (intro e4x.go_rfc5869) (simp_all add: crypto_sizes)

theorem hkdf_expand_rfc5869_witness:
  "rfc5869_expand (crypto_auth_hmacsha256 toy [1, 2]) [3] 64 = Some (hkdf_expand toy [1, 2] [3] 64)"
  using hkdf_expand_rfc5869 [OF crypto_okD(1) [OF toy_ok], of 64 "[1, 2]" "[3]"] by simp

section \<open>Room in the plaintext buffers\<close>

lemma r_handle_msg1_None:
  "edhoc4_r_handle_msg1 C ctx inp cap r = None \<longleftrightarrow> role ctx = 0 \<and> 2416 < length inp \<and>
     fst (xwing_decaps C (ss_b ctx) (slice 0 E4_XWING_CT inp) (kem_sk (self ctx))) = E4_OK"
proof -
  have "sat (\<lambda>x. x = None \<longleftrightarrow> role ctx = 0 \<and> 2416 < length inp \<and>
     fst (xwing_decaps C (ss_b ctx) (slice 0 E4_XWING_CT inp) (kem_sk (self ctx))) = E4_OK)
    (edhoc4_r_handle_msg1 C ctx inp cap r)"
    unfolding edhoc4_r_handle_msg1_def by (intro sat_rules) simp_all
  then show ?thesis by (rule satD)
qed

lemma i_handle_msg2_None:
  "edhoc4_i_handle_msg2 C ctx inp cap r = None \<longleftrightarrow> role ctx = 1 \<and> 6016 < length inp \<and>
     fst (xwing_decaps C (ss_e ctx) (slice 0 E4_XWING_CT inp) (eph_sk ctx)) = E4_OK"
  (is "?x = None \<longleftrightarrow> ?A")
proof
  have "sat (\<lambda>x. x = None \<longrightarrow> ?A) ?x"
    unfolding edhoc4_i_handle_msg2_def by (intro sat_rules) ((simp (no_asm); fail) | simp)+
  then show "?x = None \<Longrightarrow> ?A" by (simp add: sat_def)
  show "?A \<Longrightarrow> ?x = None"
    by (cases "xwing_decaps C (ss_e ctx) (slice 0 E4_XWING_CT inp) (eph_sk ctx)")
      (clarsimp simp: edhoc4_i_handle_msg2_def e4c.opn_Overrun [THEN iffD2] Let_def)
qed

lemma r_handle_msg3_None:
  "edhoc4_r_handle_msg3 C ctx inp cap r = None \<longleftrightarrow> role ctx = 0 \<and> 4991 < length inp"
proof -
  have "sat (\<lambda>x. x = None \<longleftrightarrow> role ctx = 0 \<and> 4991 < length inp)
    (edhoc4_r_handle_msg3 C ctx inp cap r)"
    unfolding edhoc4_r_handle_msg3_def by (intro sat_rules) simp_all
  then show ?thesis by (rule satD)
qed

lemma i_handle_msg4_None:
  "edhoc4_i_handle_msg4 C ctx inp = None \<longleftrightarrow> role ctx = 1 \<and> 1248 < length inp"
proof -
  have "sat (\<lambda>x. x = None \<longleftrightarrow> role ctx = 1 \<and> 1248 < length inp)
    (edhoc4_i_handle_msg4 C ctx inp)"
    unfolding edhoc4_i_handle_msg4_def by (intro sat_rules) simp_all
  then show ?thesis by (rule satD)
qed

text \<open>
  C35.  Exactly when a handler overruns its plaintext buffer.  The peer's length fields
  do not bound the ciphertext before decryption, so message 1 overruns \<open>pt1[64]\<close> from
  2417 octets on (once the first decapsulation succeeded), message 2 its buffer from
  6017, message 3 from 4992 and message 4 from 1249; on every shorter input, and in the
  wrong role, each handler returns.
\<close>

theorem edhoc4_overrun_iff:
  "(edhoc4_r_handle_msg1 C ctx inp cap r = None \<longleftrightarrow> role ctx = 0 \<and> 2416 < length inp \<and>
      fst (xwing_decaps C (ss_b ctx) (slice 0 E4_XWING_CT inp) (kem_sk (self ctx))) = E4_OK) \<and>
   (edhoc4_i_handle_msg2 C ctx inp cap r = None \<longleftrightarrow> role ctx = 1 \<and> 6016 < length inp \<and>
      fst (xwing_decaps C (ss_e ctx) (slice 0 E4_XWING_CT inp) (eph_sk ctx)) = E4_OK) \<and>
   (edhoc4_r_handle_msg3 C ctx inp cap r = None \<longleftrightarrow> role ctx = 0 \<and> 4991 < length inp) \<and>
   (edhoc4_i_handle_msg4 C ctx inp = None \<longleftrightarrow> role ctx = 1 \<and> 1248 < length inp)"
  by (simp only: r_handle_msg1_None i_handle_msg2_None r_handle_msg3_None i_handle_msg4_None simp_thms)

section \<open>What a successful handler has checked\<close>

text \<open>
  C9.  When the initiator accepts message 2 the responder is authenticated: the
  ciphertext opened to a plaintext of the expected length, its MAC is the one computed
  from the shared secret of the responder's static key, and its signature over the
  transcript verifies under the verification key stored in the context.
\<close>

theorem i_handle_msg2_authenticates:
  assumes hash: "hash_ok C" and run: "edhoc4_i_handle_msg2 C I inp cap r = Some (E4_OK, I', out, r')"
  shows "\<exists>pt2 ct3. out = Some ct3 \<and> role I = 1 \<and>
    aead_open C 4880 (prk2e I') (th2 I') (drop E4_XWING_CT inp) = Opened pt2 \<and> length pt2 = 4864 \<and>
    prk3e2m I' = hkdf_extract C (prk2e I') (ss_b I) \<and>
    slice 2436 8 pt2 = compute_mac C (prk3e2m I') (th2 I') (peer_id_cred I') [] \<and>
    mldsa_verify C (slice 2444 2420 pt2)
      (sig_message (th2 I') (peer_id_cred I') (slice 2436 8 pt2)) (peer_sig_vk I') \<and>
    th3 I' = sha256_cat C [th2 I', pt2] \<and> is_done I' = 0"
  (is "?P I' out")
proof -
  have "sat (\<lambda>x. \<forall>I' out r'. x = Some (E4_OK, I', out, r') \<longrightarrow> ?P I' out)
    (edhoc4_i_handle_msg2 C I inp cap r)"
    unfolding edhoc4_i_handle_msg2_def
    by (intro sat_rules)
      ((simp (no_asm); fail) | simp add: derive_prk_out_and_msk_def Let_def memcmp_eq_def length_compute_mac [OF hash])+
  with run show ?thesis by (auto dest!: satD)
qed

theorem i_handle_msg2_authenticates_witness:
  "\<exists>I inp r I' ct3 r' pt2. edhoc4_i_handle_msg2 toy I inp E4_MAX_MSG r = Some (E4_OK, I', Some ct3, r') \<and>
    aead_open toy 4880 (prk2e I') (th2 I') (drop E4_XWING_CT inp) = Opened pt2 \<and>
    slice 2436 8 pt2 = compute_mac toy (prk3e2m I') (th2 I') (peer_id_cred I') []"
proof -
  note ok = crypto_okD(1) [OF toy_ok]
  show ?thesis
  proof (rule edhoc4_steps [OF toy_ok toy_creds_ok [of 1] toy_creds_ok [of 2], of "()"], goal_cases)
    case 1
    then show ?case using i_handle_msg2_authenticates [OF ok 1(3)] by blast
  qed
qed



section \<open>Error paths\<close>

text \<open>What a handler may write to \<open>out\<close>.\<close>

definition out_ok :: "nat \<Rightarrow> 'r e4_step \<Rightarrow> bool" where
  "out_ok cap x \<longleftrightarrow>
     (case x of None \<Rightarrow> True
      | Some (rc, ctx, out, r) \<Rightarrow>
          (case out of None \<Rightarrow> rc \<noteq> E4_OK | Some m \<Rightarrow> rc = E4_OK \<and> length m \<le> cap))"

lemma out_ok_handlers:
  assumes ok: "crypto_ok C"
  shows "out_ok cap (edhoc4_i_make_msg1 C ctx cap r)" "out_ok cap (edhoc4_r_handle_msg1 C ctx inp cap r)"
    "out_ok cap (edhoc4_i_handle_msg2 C ctx inp cap r)" "out_ok cap (edhoc4_r_handle_msg3 C ctx inp cap r)"
proof -
  have "sat (out_ok cap) (edhoc4_i_make_msg1 C ctx cap r)"
    unfolding edhoc4_i_make_msg1_def by (intro sat_rules) 
      ((simp (no_asm) add: out_ok_def; fail) | simp add: out_ok_def xwing_keypair_len [OF ok] xwing_encaps_len [OF ok])+
  then show "out_ok cap (edhoc4_i_make_msg1 C ctx cap r)" by (rule satD)
  have "sat (out_ok cap) (edhoc4_r_handle_msg1 C ctx inp cap r)"
    unfolding edhoc4_r_handle_msg1_def by (intro sat_rules) 
      ((simp (no_asm) add: out_ok_def; fail) | simp add: out_ok_def xwing_keypair_len [OF ok] xwing_encaps_len [OF ok])+
  then show "out_ok cap (edhoc4_r_handle_msg1 C ctx inp cap r)" by (rule satD)
  have "sat (out_ok cap) (edhoc4_i_handle_msg2 C ctx inp cap r)"
    unfolding edhoc4_i_handle_msg2_def by (intro sat_rules) 
      ((simp (no_asm) add: out_ok_def; fail) | simp add: out_ok_def xwing_keypair_len [OF ok] xwing_encaps_len [OF ok])+
  then show "out_ok cap (edhoc4_i_handle_msg2 C ctx inp cap r)" by (rule satD)
  have "sat (out_ok cap) (edhoc4_r_handle_msg3 C ctx inp cap r)"
    unfolding edhoc4_r_handle_msg3_def by (intro sat_rules) 
      ((simp (no_asm) add: out_ok_def; fail) | simp add: out_ok_def xwing_keypair_len [OF ok] xwing_encaps_len [OF ok])+
  then show "out_ok cap (edhoc4_r_handle_msg3 C ctx inp cap r)" by (rule satD)
qed

text \<open>
  Return codes of the handlers.  In the wrong role a handler returns
  \<open>E4_ERR_STATE\<close> and changes nothing; with any other code than \<open>E4_OK\<close> it writes no
  message; with \<open>E4_OK\<close> it writes one that fits the caller's buffer.
\<close>

theorem edhoc4_return_codes:
  assumes "crypto_ok C"
  shows "out_ok cap (edhoc4_i_make_msg1 C ctx cap r) \<and> out_ok cap (edhoc4_r_handle_msg1 C ctx inp cap r) \<and>
    out_ok cap (edhoc4_i_handle_msg2 C ctx inp cap r) \<and> out_ok cap (edhoc4_r_handle_msg3 C ctx inp cap r) \<and>
    (role ctx \<noteq> 1 \<longrightarrow> edhoc4_i_make_msg1 C ctx cap r = Some (E4_ERR_STATE, ctx, None, r) \<and>
       edhoc4_i_handle_msg2 C ctx inp cap r = Some (E4_ERR_STATE, ctx, None, r) \<and>
       edhoc4_i_handle_msg4 C ctx inp = Some (E4_ERR_STATE, ctx)) \<and>
    (role ctx \<noteq> 0 \<longrightarrow> edhoc4_r_handle_msg1 C ctx inp cap r = Some (E4_ERR_STATE, ctx, None, r) \<and>
       edhoc4_r_handle_msg3 C ctx inp cap r = Some (E4_ERR_STATE, ctx, None, r))"
  using out_ok_handlers [OF assms]
  by (simp add: edhoc4_i_make_msg1_def edhoc4_i_handle_msg2_def edhoc4_i_handle_msg4_def
      edhoc4_r_handle_msg1_def edhoc4_r_handle_msg3_def)

lemma zero_ctx_role: "role zero_ctx = 0"
  by (simp add: zero_ctx_def)

theorem edhoc4_return_codes_witness:
  "out_ok 8192 (edhoc4_i_make_msg1 toy zero_ctx 8192 ()) \<and>
   edhoc4_i_make_msg1 toy zero_ctx 8192 () = Some (E4_ERR_STATE, zero_ctx, None, ())"
  using edhoc4_return_codes [OF toy_ok, of 8192 zero_ctx "()" "[]"] zero_ctx_role by (simp add: out_ok_def)

section \<open>Stored credentials\<close>

text \<open>The sizes of the structure's members.\<close>

definition creds_sized :: "edhoc4_creds \<Rightarrow> bool" where
  "creds_sized c \<longleftrightarrow> length (kem_sk c) = E4_XWING_SK \<and> length (kem_pk c) = E4_XWING_PK \<and>
     length (sig_sk c) = E4_MLDSA_SK \<and> length (sig_vk c) = E4_MLDSA_PK \<and> length (id_cred c) = E4_ID_CRED"

lemma creds_of_bytes_bytes: "creds_sized c \<Longrightarrow> creds_of_bytes (creds_bytes c) = c"
  by (simp add: creds_sized_def creds_of_bytes_def creds_bytes_def slice_def)

lemma length_creds_bytes: "creds_sized c \<Longrightarrow> length (creds_bytes c) = 7523"
  by (simp add: creds_sized_def creds_bytes_def)

lemma creds_ok_sized:
  assumes ok: "crypto_ok C" and c: "creds_ok C c"
  shows "creds_sized c"
proof -
  obtain r where "fst (mldsa_keypair C r) = Some (edhoc4_creds.sig_vk c, edhoc4_creds.sig_sk c)" using c by (auto simp: creds_ok_def)
  then have "length (edhoc4_creds.sig_vk c) = 1312 \<and> length (edhoc4_creds.sig_sk c) = 2560"
    using crypto_okD(7) [OF ok] unfolding mldsa_ok_def by blast
  with c xwing_pair_len [OF ok, of "kem_pk c" "kem_sk c"] show ?thesis by (simp add: creds_ok_def creds_sized_def)
qed

text \<open>
  Credentials survive storage.  \<open>edhoc4_creds_save\<close> succeeds exactly when the file
  can be opened and takes all 7523 octets; then \<open>edhoc4_creds_load\<close> returns \<open>E4_OK\<close> and
  the same credentials, whatever the loading buffer held.  The same holds for the
  public key pinned by the peer.
\<close>

theorem edhoc4_creds_roundtrip:
  assumes "creds_sized c" "creds_sized old" "length oldpk = E4_XWING_PK"
  shows "(fst (edhoc4_creds_save fs (Some p) (Some c)) = E4_OK \<longleftrightarrow> writable fs p \<and> 7523 \<le> room fs) \<and>
    (writable fs p \<and> 7523 \<le> room fs \<longrightarrow>
       edhoc4_creds_load (snd (edhoc4_creds_save fs (Some p) (Some c))) (Some p) (Some old) = (E4_OK, Some c) \<and>
       edhoc4_pub_load (snd (edhoc4_pub_save fs (Some p) (Some c))) (Some p) (Some oldpk) = (E4_OK, Some (kem_pk c)))"
  using assms save_load_blob [of fs p "creds_bytes c" "creds_bytes old"] save_load_blob [of fs p "kem_pk c" oldpk]
  by (auto simp: edhoc4_creds_save_def edhoc4_creds_load_def edhoc4_pub_save_def edhoc4_pub_load_def
      save_blob_ok length_creds_bytes creds_of_bytes_bytes case_prod_unfold)
    (auto simp: creds_sized_def save_blob_ok)

theorem edhoc4_creds_roundtrip_witness:
  "edhoc4_creds_load (snd (edhoc4_creds_save \<lparr>files = (\<lambda>_. None), writable = (\<lambda>_. True), room = 8000\<rparr>
     (Some ''ue.cred'') (Some (toy_creds 1)))) (Some ''ue.cred'') (Some zero_creds) = (E4_OK, Some (toy_creds 1))"
  using edhoc4_creds_roundtrip [of "toy_creds 1" zero_creds "zeros 1216"
      "\<lparr>files = (\<lambda>_. None), writable = (\<lambda>_. True), room = 8000\<rparr>" "''ue.cred''"]
  by (simp add: creds_sized_def toy_creds_def zero_creds_def)

end
