(* ===== verification/Edhoc03_Props.thy ===== *)
theory Edhoc03_Props
  imports Edhoc03
begin

text \<open>
  Properties of the methods 0 to 3.  PT2 and PT3 are built and checked by the same
  construction with different keys and transcripts; the locale \<open>auth_block\<close> is that
  construction, interpreted on both, and carries what honest peers and what accepted
  plaintexts satisfy.
\<close>

section \<open>Provisioned credentials\<close>

definition creds03_ok :: "'r crypto \<Rightarrow> edhoc03_creds \<Rightarrow> bool" where
  "creds03_ok C c \<longleftrightarrow> (\<exists>r. fst (crypto_sign_keypair C r) = (sig_vk c, sig_sk c)) \<and>
     length (dh_sk c) = 32 \<and> dh_pk c = crypto_scalarmult_base C (dh_sk c) \<and> length (id_cred c) = 3"

definition pub_of :: "edhoc03_creds \<Rightarrow> edhoc03_peer" where
  "pub_of c = \<lparr>pub_sig_vk = sig_vk c, pub_dh_pk = dh_pk c\<rparr>"

lemma pub_of_sel [simp]: "pub_sig_vk (pub_of c) = sig_vk c" "pub_dh_pk (pub_of c) = dh_pk c"
  by (simp_all add: pub_of_def)

lemma creds03_ok_len:
  assumes "crypto_ok C" "creds03_ok C c"
  shows "length (sig_vk c) = 32" "length (sig_sk c) = 64" "length (dh_pk c) = 32" "length (id_cred c) = 3"
  using assms crypto_okD [OF assms(1)]
  by (auto simp: creds03_ok_def ed25519_ok_def x25519_base_len) (metis prod.collapse)+

lemma creds03_ok_sign:
  assumes "crypto_ok C" "creds03_ok C c"
  obtains s where "crypto_sign_detached C m (sig_sk c) = Some s" "length s = 64"
    "crypto_sign_verify_detached C s m (sig_vk c)"
  using assms(2) crypto_okD(4) [OF assms(1)] unfolding creds03_ok_def ed25519_ok_def
  by (metis (no_types, lifting) prod.collapse)

lemma edhoc03_gen_creds_ok:
  assumes "crypto_ok C" "length idc = 3"
  shows "\<exists>c' r'. edhoc03_gen_creds C (Some c) (Some idc) r = ((E3_OK, Some c'), r') \<and>
    creds03_ok C c' \<and> id_cred c' = idc"
proof -
  note ok = crypto_okD [OF assms(1)]
  obtain vk sk r1 where kp: "crypto_sign_keypair C r = ((vk, sk), r1)" by (metis prod.collapse)
  obtain x r2 where x: "randombytes_buf C 32 r1 = (x, r2)" by fastforce
  have "length x = 32" using ok(5) x by (rule rng_ok_len)
  moreover have "\<exists>r. fst (crypto_sign_keypair C r) = (vk, sk)" using kp by (metis fst_conv)
  ultimately show ?thesis
    using kp x ok(8) assms(2) by (simp add: edhoc03_gen_creds_def creds03_ok_def)
qed

section \<open>The authentication block\<close>

text \<open>
  What an accepted plaintext proves about the peer, for the pseudo-random key and the
  transcript hash it was checked under: the key in it is the pinned one, and either its
  MAC comes from the Diffie-Hellman secret with that key or its signature verifies
  under it.
\<close>

definition e3_vouched :: "'r crypto \<Rightarrow> bytes \<Rightarrow> bytes \<Rightarrow> edhoc03_ctx \<Rightarrow> bytes \<Rightarrow> bool" where
  "e3_vouched C prk th V pt \<longleftrightarrow>
     (if peer_auth V = 1 then
        length pt = 43 \<and> slice 3 32 pt = pub_dh_pk (peer V) \<and>
        (\<exists>g. crypto_scalarmult C (eph_sk V) (pub_dh_pk (peer V)) = Some g \<and>
             slice 35 8 pt = e3_compute_mac C (e3_hkdf_extract C prk g) th (slice 0 3 pt) (pub_dh_pk (peer V)))
      else
        length pt = 99 \<and> slice 3 32 pt = pub_sig_vk (peer V) \<and>
        crypto_sign_verify_detached C (slice 35 64 pt)
          (e3_sig_message th (slice 0 3 pt)
             (e3_compute_mac C prk th (slice 0 3 pt) (pub_sig_vk (peer V)))) (pub_sig_vk (peer V)))"

locale auth_block =
  fixes build :: "'r crypto \<Rightarrow> edhoc03_ctx \<Rightarrow> e3_rc \<times> edhoc03_ctx \<times> bytes"
    and verify :: "'r crypto \<Rightarrow> edhoc03_ctx \<Rightarrow> bytes \<Rightarrow> e3_rc \<times> edhoc03_ctx"
    and prk_in :: "edhoc03_ctx \<Rightarrow> bytes"
    and set_prk :: "bytes \<Rightarrow> edhoc03_ctx \<Rightarrow> edhoc03_ctx"
    and th :: "edhoc03_ctx \<Rightarrow> bytes"
  assumes build_eq: "build C ctx =
      (let idc = id_cred (self ctx) in
       if self_auth ctx = 1 then
         (case crypto_scalarmult C (dh_sk (self ctx)) (peer_eph_pk ctx) of
            None \<Rightarrow> (E3_ERR_DH, ctx, [])
          | Some g \<Rightarrow>
              let k = e3_hkdf_extract C (prk_in ctx) g
              in (E3_OK, set_prk k ctx,
                  idc @ dh_pk (self ctx) @ e3_compute_mac C k (th ctx) idc (dh_pk (self ctx))))
       else
         (case crypto_sign_detached C
                 (e3_sig_message (th ctx) idc (e3_compute_mac C (prk_in ctx) (th ctx) idc (sig_vk (self ctx))))
                 (sig_sk (self ctx)) of
            None \<Rightarrow> (E3_ERR_SIG, set_prk (prk_in ctx) ctx, [])
          | Some sg \<Rightarrow> (E3_OK, set_prk (prk_in ctx) ctx, idc @ sig_vk (self ctx) @ sg)))"
    and verify_eq: "verify C ctx pt =
      (let idc = slice 0 3 pt; key = slice 3 32 pt; ctx1 = ctx\<lparr>peer_id_cred := idc\<rparr> in
       if peer_auth ctx = 1 then
         if length pt \<noteq> 43 then (E3_ERR_PARSE, ctx)
         else if \<not> memcmp_eq key (pub_dh_pk (peer ctx)) 32 then (E3_ERR_MAC, ctx1)
         else (case crypto_scalarmult C (eph_sk ctx) key of
            None \<Rightarrow> (E3_ERR_DH, ctx1)
          | Some g \<Rightarrow>
              let k = e3_hkdf_extract C (prk_in ctx) g
              in (if memcmp_eq (e3_compute_mac C k (th ctx) idc key) (slice 35 8 pt) 8 then E3_OK else E3_ERR_MAC,
                  set_prk k ctx1))
       else
         if length pt \<noteq> 99 then (E3_ERR_PARSE, ctx)
         else if \<not> memcmp_eq key (pub_sig_vk (peer ctx)) 32 then (E3_ERR_SIG, ctx1)
         else (if crypto_sign_verify_detached C (slice 35 64 pt)
                    (e3_sig_message (th ctx) idc (e3_compute_mac C (prk_in ctx) (th ctx) idc key)) key
               then E3_OK else E3_ERR_SIG,
               set_prk (prk_in ctx) ctx1))"
begin

text \<open>What an honest peer builds, the other accepts, and both derive the same key.\<close>

lemma build_verify:
  assumes ok: "crypto_ok C" and cr: "creds03_ok C (self B)"
    and eph: "length x = 32" "peer_eph_pk B = crypto_scalarmult_base C x"
  shows "\<exists>k pt. build C B = (E3_OK, set_prk k B, pt) \<and> length pt = (if self_auth B = 1 then 43 else 99) \<and>
    (\<forall>V. eph_sk V = x \<longrightarrow> peer V = pub_of (self B) \<longrightarrow> peer_auth V = self_auth B \<longrightarrow>
         prk_in V = prk_in B \<longrightarrow> th V = th B \<longrightarrow>
         verify C V pt = (E3_OK, set_prk k (V\<lparr>peer_id_cred := id_cred (self B)\<rparr>)))"
proof (cases "self_auth B = 1")
  case True
  note ok' = crypto_okD [OF ok] and len = creds03_ok_len [OF ok cr]
  have d: "length (dh_sk (self B)) = 32" "dh_pk (self B) = crypto_scalarmult_base C (dh_sk (self B))"
    using cr by (simp_all add: creds03_ok_def)
  obtain g where g: "crypto_scalarmult C (dh_sk (self B)) (peer_eph_pk B) = Some g"
    "crypto_scalarmult C x (dh_pk (self B)) = Some g"
    unfolding eph(2) d(2) by (rule x25519_dhE [OF ok'(3) d(1) eph(1)])
  define k where "k = e3_hkdf_extract C (prk_in B) g"
  define mac where "mac = e3_compute_mac C k (th B) (id_cred (self B)) (dh_pk (self B))"
  have "length mac = 8" using ok' by (simp add: mac_def crypto_sizes)
  with True g len show ?thesis
    by (simp add: build_eq verify_eq Let_def buf_simps flip: k_def mac_def) (rule exI [of _ k], simp)
next
  case False
  note ok' = crypto_okD [OF ok] and len = creds03_ok_len [OF ok cr]
  define mac where "mac = e3_compute_mac C (prk_in B) (th B) (id_cred (self B)) (sig_vk (self B))"
  obtain s where "crypto_sign_detached C (e3_sig_message (th B) (id_cred (self B)) mac) (sig_sk (self B)) = Some s"
    "length s = 64" "crypto_sign_verify_detached C s (e3_sig_message (th B) (id_cred (self B)) mac) (sig_vk (self B))"
    by (rule creds03_ok_sign [OF ok cr])
  with False len show ?thesis
    by (simp add: build_eq verify_eq Let_def buf_simps flip: mac_def) (rule exI [of _ "prk_in B"], simp)
qed

text \<open>An accepted plaintext vouches for the pinned peer.\<close>

lemma verify_vouched:
  assumes "hash_ok C" "length (pub_sig_vk (peer V)) = 32" "length (pub_dh_pk (peer V)) = 32"
    and "verify C V pt = (E3_OK, V')"
  shows "e3_vouched C (prk_in V) (th V) V pt"
  using assms
  by (auto simp: e3_vouched_def verify_eq Let_def memcmp_eq_def length_e3_compute_mac split: if_splits option.splits)

end

interpretation ab2: auth_block e3_build_pt2 e3_verify_pt2 prk2e "\<lambda>k. prk3e2m_update (\<lambda>_. k)" th2
  by unfold_locales (simp_all add: e3_build_pt2_def e3_verify_pt2_def Let_def split: option.split)

interpretation ab3: auth_block e3_build_pt3 e3_verify_pt3 prk3e2m "\<lambda>k. prk4e3m_update (\<lambda>_. k)" th3
  by unfold_locales (simp_all add: e3_build_pt3_def e3_verify_pt3_def Let_def split: option.split)

section \<open>The exchange\<close>

text \<open>
  \<open>run_method\<close> of \<open>selftest03.c\<close> after provisioning: both contexts, every handler
  with the \<open>E3_MAX_MSG\<close> buffers, stopping at the first code other than \<open>E3_OK\<close>.
\<close>

definition run_method ::
  "'r crypto \<Rightarrow> edhoc03_creds \<Rightarrow> edhoc03_creds \<Rightarrow> int \<Rightarrow> 'r \<Rightarrow> (edhoc03_ctx \<times> edhoc03_ctx \<times> bytes list) option" where
  "run_method C ue srv m r =
     (case edhoc03_i_make_msg1 C (edhoc03_init_initiator m ue (pub_of srv)) E3_MAX_MSG r of
        Some (E3_OK, I1, Some m1, r1) \<Rightarrow>
          (case edhoc03_r_handle_msg1 C (edhoc03_init_responder srv (pub_of ue)) m1 E3_MAX_MSG r1 of
             Some (E3_OK, R1, Some m2, r2) \<Rightarrow>
               (case edhoc03_i_handle_msg2 C I1 m2 E3_MAX_MSG r2 of
                  Some (E3_OK, I2, Some m3, r3) \<Rightarrow>
                    (case edhoc03_r_handle_msg3 C R1 m3 E3_MAX_MSG r3 of
                       Some (E3_OK, R2, Some m4, r4) \<Rightarrow>
                         (case edhoc03_i_handle_msg4 I2 m4 of
                            (E3_OK, I3) \<Rightarrow> Some (I3, R2, [m1, m2, m3, m4])
                          | _ \<Rightarrow> None)
                     | _ \<Rightarrow> None)
                | _ \<Rightarrow> None)
           | _ \<Rightarrow> None)
      | _ \<Rightarrow> None)"

lemma i_make_msg1_run03:
  assumes ok: "crypto_ok C" and I: "role I = 1" "edhoc03_method_valid (edhoc_method I)" "34 \<le> cap"
  shows "\<exists>x r'. length x = 32 \<and>
    (let m = of_int (edhoc_method I) # crypto_scalarmult_base C x @ [c_i I ! 0]
     in edhoc03_i_make_msg1 C I cap r =
          Some (E3_OK, I\<lparr>eph_sk := x, eph_pk := crypto_scalarmult_base C x, h_msg1 := e3_sha256 C m\<rparr>, Some m, r'))"
proof -
  obtain x r' where x: "randombytes_buf C 32 r = (x, r')" by fastforce
  have "length x = 32" using crypto_okD(5) [OF ok] x by (rule rng_ok_len)
  with x I show ?thesis by (auto simp: edhoc03_i_make_msg1_def Let_def)
qed

text \<open>\<open>R\<close> has answered message 1 \<open>m1\<close> from the ephemeral secret \<open>x\<close> with message 2 \<open>m2\<close>.\<close>

definition answered :: "'r crypto \<Rightarrow> edhoc03_ctx \<Rightarrow> bytes \<Rightarrow> bytes \<Rightarrow> bytes \<Rightarrow> bool" where
  "answered C R x m1 m2 \<longleftrightarrow> role R = 0 \<and> length (eph_sk R) = 32 \<and>
     (\<exists>pt2 ct2 ss. m2 = crypto_scalarmult_base C (eph_sk R) @ ct2 \<and> length ct2 = length pt2 + 16 \<and>
        length pt2 = (if self_auth R = 1 then 43 else 99) \<and>
        crypto_scalarmult C x (crypto_scalarmult_base C (eph_sk R)) = Some ss \<and>
        th2 R = e3_sha256_cat C [crypto_scalarmult_base C (eph_sk R), e3_sha256 C m1, [0x20]] \<and>
        prk2e R = e3_hkdf_extract C (th2 R) ss \<and>
        (\<forall>cap. length pt2 \<le> cap \<longrightarrow> e3_aead_open C cap (prk2e R) (th2 R) ct2 = Opened pt2) \<and>
        th3 R = e3_sha256_cat C [th2 R, pt2] \<and>
        (\<forall>V. eph_sk V = x \<longrightarrow> peer V = pub_of (self R) \<longrightarrow> peer_auth V = self_auth R \<longrightarrow>
             prk2e V = prk2e R \<longrightarrow> th2 V = th2 R \<longrightarrow>
             e3_verify_pt2 C V pt2 =
               (E3_OK, V\<lparr>peer_id_cred := id_cred (self R), prk3e2m := prk3e2m R\<rparr>)))"

lemma r_handle_msg1_run03:
  assumes ok: "crypto_ok C" and R: "role R = 0" "creds03_ok C (self R)" "c_r R = [0x20]" "147 \<le> cap"
    and x: "length x = 32" and m: "edhoc03_method_valid m" "m1 = of_int m # crypto_scalarmult_base C x @ [ci]"
  shows "\<exists>R' m2 r'. edhoc03_r_handle_msg1 C R m1 cap r = Some (E3_OK, R', Some m2, r') \<and>
    self R' = self R \<and> peer R' = peer R \<and> self_auth R' = method_resp_auth m \<and>
    peer_auth R' = method_init_auth m \<and> answered C R' x m1 m2"
proof -
  note ok' = crypto_okD [OF ok]
  obtain y r1 where y: "randombytes_buf C 32 r = (y, r1)" by fastforce
  have ly: "length y = 32" using ok'(5) y by (rule rng_ok_len)
  obtain ss where ss: "crypto_scalarmult C y (crypto_scalarmult_base C x) = Some ss"
    "crypto_scalarmult C x (crypto_scalarmult_base C y) = Some ss"
    by (rule x25519_dhE [OF ok'(3) ly x])
  have lb: "length (crypto_scalarmult_base C x) = 32" "length (crypto_scalarmult_base C y) = 32"
    using ok'(3) x ly by (simp_all add: x25519_base_len)
  have mv: "uint (of_int m :: byte) = m"
    using m(1) by (simp add: edhoc03_method_valid_def uint_word_of_int_eq take_bit_int_eq_self)
  define t2 where "t2 = e3_sha256_cat C [crypto_scalarmult_base C y, e3_sha256 C m1, [0x20]]"
  define k2 where "k2 = e3_hkdf_extract C t2 ss"
  define B where "B = R\<lparr>edhoc_method := m, self_auth := method_resp_auth m, peer_auth := method_init_auth m,
    peer_eph_pk := crypto_scalarmult_base C x, c_i := [ci], h_msg1 := e3_sha256 C m1, eph_sk := y,
    eph_pk := crypto_scalarmult_base C y, ss_e := ss, th2 := t2, prk2e := k2\<rparr>"
  have "creds03_ok C (self B)" "peer_eph_pk B = crypto_scalarmult_base C x" using R by (simp_all add: B_def)
  from ab2.build_verify [OF ok this(1) x this(2)] obtain k pt2 where
    bd: "e3_build_pt2 C B = (E3_OK, B\<lparr>prk3e2m := k\<rparr>, pt2)" "length pt2 = (if self_auth B = 1 then 43 else 99)"
    and vf: "\<forall>V. eph_sk V = x \<longrightarrow> peer V = pub_of (self B) \<longrightarrow> peer_auth V = self_auth B \<longrightarrow>
       prk2e V = prk2e B \<longrightarrow> th2 V = th2 B \<longrightarrow>
       e3_verify_pt2 C V pt2 = (E3_OK, V\<lparr>peer_id_cred := id_cred (self B), prk3e2m := k\<rparr>)"
    by auto
  obtain ct2 where ct2: "e3_aead_seal C k2 t2 pt2 = Some ct2" "length ct2 = length pt2 + 16"
    "\<forall>cap. length pt2 \<le> cap \<longrightarrow> e3_aead_open C cap k2 t2 ct2 = Opened pt2"
    using e3c.seal_opn [OF ok'(1,2), of k2 t2 pt2] by blast
  have lct: "length ct2 \<le> 115" using ct2(2) bd(2) by (simp split: if_splits)
  let ?R' = "B\<lparr>prk3e2m := k, th3 := e3_sha256_cat C [t2, pt2]\<rparr>"
  have "slice 1 32 m1 = crypto_scalarmult_base C x" "m1 ! 33 = ci" "m1 ! 0 = of_int m" "length m1 = 34"
    using lb by (simp_all add: m slice_def nth_append)
  then have "edhoc03_r_handle_msg1 C R m1 cap r = Some (E3_OK, ?R', Some (crypto_scalarmult_base C y @ ct2), r1)"
    using R m(1) y ss(1) bd(1) ct2(1) mv lct
    by (simp add: edhoc03_r_handle_msg1_def Let_def flip: t2_def k2_def B_def) (simp add: B_def)
  moreover have "answered C ?R' x m1 (crypto_scalarmult_base C y @ ct2)"
    unfolding answered_def using R(1) ly ct2 ss bd(2) vf by (auto simp: B_def t2_def k2_def)
  ultimately show ?thesis by (auto simp: B_def)
qed

definition exported03 :: "'r crypto \<Rightarrow> edhoc03_ctx \<Rightarrow> bool" where
  "exported03 C c \<longleftrightarrow> (let po = e3_hkdf_expand C (prk4e3m c) (th4 c) E3_PRK_LEN
     in msk c = e3_hkdf_expand C po (ascii ''EDHOC-EAP-MSK'') E3_MSK_LEN \<and>
        emsk c = e3_hkdf_expand C po (ascii ''EDHOC-EAP-EMSK'') E3_EMSK_LEN)"

lemma exported03_derive: "exported03 C (e3_derive_msk C c)"
  by (simp add: exported03_def e3_derive_msk_def Let_def)

lemma exported03_agree:
  assumes "exported03 C c" "exported03 C d" "prk4e3m c = prk4e3m d" "th4 c = th4 d"
  shows "msk c = msk d" "emsk c = emsk d"
  using assms by (simp_all add: exported03_def Let_def)

lemma e3_derive_msk_sel [simp]:
  "role (e3_derive_msk C c) = role c" "is_done (e3_derive_msk C c) = 1" "th4 (e3_derive_msk C c) = th4 c"
  "prk4e3m (e3_derive_msk C c) = prk4e3m c" "prk2e (e3_derive_msk C c) = prk2e c"
  "th2 (e3_derive_msk C c) = th2 c" "self (e3_derive_msk C c) = self c"
  by (simp_all add: e3_derive_msk_def Let_def)

text \<open>\<open>I\<close> has accepted message 2 and sent message 3 \<open>m3\<close> to \<open>R\<close>.\<close>

definition confirmed :: "'r crypto \<Rightarrow> edhoc03_ctx \<Rightarrow> edhoc03_ctx \<Rightarrow> bytes \<Rightarrow> bool" where
  "confirmed C I R m3 \<longleftrightarrow> role I = 1 \<and> exported03 C I \<and>
     (\<exists>pt3. length pt3 \<le> 99 \<and>
        (\<forall>cap. length pt3 \<le> cap \<longrightarrow> e3_aead_open C cap (prk3e2m R) (th3 R) m3 = Opened pt3) \<and>
        th4 I = e3_sha256_cat C [th3 R, pt3] \<and>
        e3_verify_pt3 C R pt3 = (E3_OK, R\<lparr>peer_id_cred := id_cred (self I), prk4e3m := prk4e3m I\<rparr>))"

lemma i_handle_msg2_run03:
  assumes ok: "crypto_ok C" and I: "role I = 1" "creds03_ok C (self I)" "eph_sk I = x" "length x = 32"
      "h_msg1 I = e3_sha256 C m1" "c_r I = [0x20]" "115 \<le> cap"
    and pin: "peer I = pub_of (self R)" "peer R = pub_of (self I)"
    and au: "peer_auth I = self_auth R" "peer_auth R = self_auth I" and m2: "answered C R x m1 m2"
  shows "\<exists>I' m3. edhoc03_i_handle_msg2 C I m2 cap r = Some (E3_OK, I', Some m3, r) \<and>
    length m3 = (if self_auth I = 1 then 59 else 115) \<and> confirmed C I' R m3"
proof -
  note ok' = crypto_okD [OF ok]
  let ?y = "eph_sk R"
  obtain pt2 ct2 ss where a: "m2 = crypto_scalarmult_base C ?y @ ct2" "length ct2 = length pt2 + 16"
      "length pt2 \<le> 99" "crypto_scalarmult C x (crypto_scalarmult_base C ?y) = Some ss"
      "th2 R = e3_sha256_cat C [crypto_scalarmult_base C ?y, e3_sha256 C m1, [0x20]]"
      "prk2e R = e3_hkdf_extract C (th2 R) ss"
      "\<forall>cap. length pt2 \<le> cap \<longrightarrow> e3_aead_open C cap (prk2e R) (th2 R) ct2 = Opened pt2"
      "th3 R = e3_sha256_cat C [th2 R, pt2]" "length ?y = 32"
    and vf: "\<forall>V. eph_sk V = x \<longrightarrow> peer V = pub_of (self R) \<longrightarrow> peer_auth V = self_auth R \<longrightarrow>
         prk2e V = prk2e R \<longrightarrow> th2 V = th2 R \<longrightarrow>
         e3_verify_pt2 C V pt2 = (E3_OK, V\<lparr>peer_id_cred := id_cred (self R), prk3e2m := prk3e2m R\<rparr>)"
    using m2 unfolding answered_def by (auto split: if_splits)
  have lb: "length (crypto_scalarmult_base C ?y) = 32" using ok'(3) a(9) by (simp add: x25519_base_len)
  define V where "V = I\<lparr>peer_eph_pk := crypto_scalarmult_base C ?y, ss_e := ss, th2 := th2 R, prk2e := prk2e R\<rparr>"
  have V: "e3_verify_pt2 C V pt2 = (E3_OK, V\<lparr>peer_id_cred := id_cred (self R), prk3e2m := prk3e2m R\<rparr>)"
    using vf I pin au by (simp add: V_def)
  have V_th2: "th2 V = th2 R" by (simp add: V_def)
  define B where "B = V\<lparr>peer_id_cred := id_cred (self R), prk3e2m := prk3e2m R, th3 := th3 R\<rparr>"
  have "creds03_ok C (self B)" "peer_eph_pk B = crypto_scalarmult_base C ?y" using I by (simp_all add: B_def V_def)
  from ab3.build_verify [OF ok this(1) a(9) this(2)] obtain k pt3 where
    bd: "e3_build_pt3 C B = (E3_OK, B\<lparr>prk4e3m := k\<rparr>, pt3)" "length pt3 = (if self_auth B = 1 then 43 else 99)"
    and vf3: "\<forall>V. eph_sk V = ?y \<longrightarrow> peer V = pub_of (self B) \<longrightarrow> peer_auth V = self_auth B \<longrightarrow>
       prk3e2m V = prk3e2m B \<longrightarrow> th3 V = th3 B \<longrightarrow>
       e3_verify_pt3 C V pt3 = (E3_OK, V\<lparr>peer_id_cred := id_cred (self B), prk4e3m := k\<rparr>)"
    by auto
  have B: "self_auth B = self_auth I" "self B = self I" "prk3e2m B = prk3e2m R" "th3 B = th3 R" "role B = 1"
    using I(1) by (simp_all add: B_def V_def)
  have l3: "length pt3 \<le> 99" using bd(2) by (simp split: if_splits)
  obtain ct3 where ct3: "e3_aead_seal C (prk3e2m R) (th3 R) pt3 = Some ct3" "length ct3 = length pt3 + 16"
    "\<forall>cap. length pt3 \<le> cap \<longrightarrow> e3_aead_open C cap (prk3e2m R) (th3 R) ct3 = Opened pt3"
    using e3c.seal_opn [OF ok'(1,2), of "prk3e2m R" "th3 R" pt3] by blast
  let ?I' = "e3_derive_msk C (B\<lparr>prk4e3m := k, th4 := e3_sha256_cat C [th3 R, pt3]\<rparr>)"
  have "edhoc03_i_handle_msg2 C I m2 cap r = Some (E3_OK, ?I', Some ct3, r)"
    using I a(1-4,7) lb V bd(1) ct3(1,2) l3 B V_th2
    by (simp add: edhoc03_i_handle_msg2_def Let_def flip: a(5,6,8) V_def B_def)
  moreover have "confirmed C ?I' R ct3"
    unfolding confirmed_def using vf3 pin au l3 ct3(3) B by (auto simp: exported03_derive)
  ultimately show ?thesis using ct3(2) bd(2) B(1) by auto
qed

lemma r_handle_msg3_run03:
  assumes "role R = 0" "confirmed C I R m3"
  shows "\<exists>R'. edhoc03_r_handle_msg3 C R m3 cap r = Some (E3_OK, R', Some [], r) \<and>
    msk R' = msk I \<and> emsk R' = emsk I \<and> th4 R' = th4 I \<and> is_done R' = 1 \<and> exported03 C R'"
proof -
  obtain pt3 where c: "length pt3 \<le> 99" "exported03 C I"
    "\<forall>cap. length pt3 \<le> cap \<longrightarrow> e3_aead_open C cap (prk3e2m R) (th3 R) m3 = Opened pt3"
    "th4 I = e3_sha256_cat C [th3 R, pt3]"
    "e3_verify_pt3 C R pt3 = (E3_OK, R\<lparr>peer_id_cred := id_cred (self I), prk4e3m := prk4e3m I\<rparr>)"
    using assms(2) unfolding confirmed_def by auto
  let ?R' = "e3_derive_msk C (R\<lparr>peer_id_cred := id_cred (self I), prk4e3m := prk4e3m I, th4 := th4 I\<rparr>)"
  have "edhoc03_r_handle_msg3 C R m3 cap r = Some (E3_OK, ?R', Some [], r)"
    using assms(1) c by (simp add: edhoc03_r_handle_msg3_def Let_def flip: c(4))
  moreover have "msk ?R' = msk I" "emsk ?R' = emsk I"
    using exported03_agree [OF exported03_derive c(2)] by simp_all
  ultimately show ?thesis by (auto simp: exported03_derive)
qed

lemma run_method_steps_cap:
  assumes ok: "crypto_ok C" and cr: "creds03_ok C ue" "creds03_ok C srv" and m: "edhoc03_method_valid m" and cap: "147 \<le> cap"
  obtains I1 R1 I2 R2 m1 m2 m3 r1 r2
  where "edhoc03_i_make_msg1 C (edhoc03_init_initiator m ue (pub_of srv)) cap r = Some (E3_OK, I1, Some m1, r1)"
    "edhoc03_r_handle_msg1 C (edhoc03_init_responder srv (pub_of ue)) m1 cap r1 = Some (E3_OK, R1, Some m2, r2)"
    "edhoc03_i_handle_msg2 C I1 m2 cap r2 = Some (E3_OK, I2, Some m3, r2)"
    "edhoc03_r_handle_msg3 C R1 m3 cap r2 = Some (E3_OK, R2, Some [], r2)"
    "edhoc03_i_handle_msg4 I2 [] = (E3_OK, I2\<lparr>is_done := 1\<rparr>)"
    "length m1 = 34" "length m2 = (if method_resp_auth m = 1 then 91 else 147)"
    "length m3 = (if method_init_auth m = 1 then 59 else 115)"
    "msk I2 = msk R2" "emsk I2 = emsk R2" "th4 I2 = th4 R2" "is_done R2 = 1"
    "peer I1 = pub_of srv" "peer R1 = pub_of ue" "m1 ! 0 = of_int m" "length (emsk R2) = 64"
proof -
  let ?I = "edhoc03_init_initiator m ue (pub_of srv)" and ?R = "edhoc03_init_responder srv (pub_of ue)"
  note init = edhoc03_init_initiator_def edhoc03_init_responder_def
  obtain x r1 where x: "length x = 32" and s1: "edhoc03_i_make_msg1 C ?I cap r =
      Some (E3_OK, ?I\<lparr>eph_sk := x, eph_pk := crypto_scalarmult_base C x,
        h_msg1 := e3_sha256 C (of_int m # crypto_scalarmult_base C x @ [0x10])\<rparr>,
        Some (of_int m # crypto_scalarmult_base C x @ [0x10]), r1)"
    using i_make_msg1_run03 [OF ok, of ?I cap r] m cap by (auto simp: Let_def init)
  let ?m1 = "of_int m # crypto_scalarmult_base C x @ [0x10]"
  define I1 where "I1 = ?I\<lparr>eph_sk := x, eph_pk := crypto_scalarmult_base C x, h_msg1 := e3_sha256 C ?m1\<rparr>"
  obtain R1 m2 r2 where s2: "edhoc03_r_handle_msg1 C ?R ?m1 cap r1 = Some (E3_OK, R1, Some m2, r2)"
    "self R1 = srv" "peer R1 = pub_of ue" "self_auth R1 = method_resp_auth m"
    "peer_auth R1 = method_init_auth m" "answered C R1 x ?m1 m2"
    using r_handle_msg1_run03 [OF ok, of ?R cap x m ?m1 "0x10" r1] cr x m cap by (auto simp: init)
  obtain I2 m3 where s3: "edhoc03_i_handle_msg2 C I1 m2 cap r2 = Some (E3_OK, I2, Some m3, r2)"
    "length m3 = (if method_init_auth m = 1 then 59 else 115)" "confirmed C I2 R1 m3"
    using i_handle_msg2_run03 [OF ok, of I1 x ?m1 cap R1 m2 r2] cr x s2 cap by (auto simp: init I1_def)
  have R1: "role R1 = 0" "length m2 = (if method_resp_auth m = 1 then 91 else 147)"
    and I2: "role I2 = 1"
    using s2(4,6) s3(3) crypto_okD(3) [OF ok] by (auto simp: answered_def confirmed_def x25519_base_len)
  obtain R2 where s4: "edhoc03_r_handle_msg3 C R1 m3 cap r2 = Some (E3_OK, R2, Some [], r2)"
    "msk R2 = msk I2" "emsk R2 = emsk I2" "th4 R2 = th4 I2" "is_done R2 = 1"
    using r_handle_msg3_run03 [OF R1(1) s3(3)] by blast
  have "length (emsk R2) = 64"
    using s3(3) s4(3) crypto_okD(1) [OF ok] by (simp add: confirmed_def exported03_def Let_def crypto_sizes)
  then show thesis
    by (intro that [OF s1 s2(1) s3(1) [unfolded I1_def] s4(1)])
      (use I2 s3 s4 R1 x s2(3) crypto_okD(3) [OF ok] in
       \<open>simp_all add: edhoc03_i_handle_msg4_def x25519_base_len init\<close>)
qed

lemma max_msg03: "147 \<le> (E3_MAX_MSG :: nat)"
  by simp

lemmas run_method_steps = run_method_steps_cap [OF _ _ _ _ max_msg03]

text \<open>
  C18.  For every method 0 to 3 the handshake succeeds and agrees: with correct
  primitives and provisioned credentials every handler returns \<open>E3_OK\<close>, both peers are
  done with the same MSK, EMSK and final transcript hash, and the sizes of the messages
  are those of the authentication modes of the method.
\<close>

theorem edhoc03_handshake_agrees:
  assumes "crypto_ok C" "creds03_ok C ue" "creds03_ok C srv" "edhoc03_method_valid m"
  shows "\<exists>I R m1 m2 m3 m4. run_method C ue srv m r = Some (I, R, [m1, m2, m3, m4]) \<and>
    msk I = msk R \<and> emsk I = emsk R \<and> th4 I = th4 R \<and> is_done I = 1 \<and> is_done R = 1 \<and>
    map length [m1, m2, m3, m4] =
      [34, if m = 0 \<or> m = 2 then 147 else 91, if m = 0 \<or> m = 1 then 115 else 59, 0]"
  by (rule run_method_steps [OF assms, of r])
    (simp add: run_method_def method_resp_auth_def method_init_auth_def)

text \<open>Credentials of the concrete primitives, for the witnesses.\<close>

definition toy_creds03 :: "byte \<Rightarrow> edhoc03_creds" where
  "toy_creds03 i = \<lparr>id_cred = [0, 0, i], sig_sk = replicate 64 1, sig_vk = replicate 32 1,
     dh_sk = replicate 32 7, dh_pk = replicate 32 7\<rparr>"

lemma toy_creds03_ok: "creds03_ok toy (toy_creds03 i)"
  by (simp add: creds03_ok_def toy_creds03_def toy_def)

theorem edhoc03_handshake_agrees_witness:
  "\<exists>I R m1 m2 m3 m4. run_method toy (toy_creds03 1) (toy_creds03 2) 2 () = Some (I, R, [m1, m2, m3, m4]) \<and>
    msk I = msk R \<and> emsk I = emsk R \<and> map length [m1, m2, m3, m4] = [34, 147, 59, 0]"
  using edhoc03_handshake_agrees [OF toy_ok toy_creds03_ok toy_creds03_ok, of 2 1 2 "()"]
  by (simp add: edhoc03_method_valid_def) blast

section \<open>Authentication against the pinned keys\<close>

lemma e3_vouched_cong:
  "peer V = peer W \<Longrightarrow> peer_auth V = peer_auth W \<Longrightarrow> eph_sk V = eph_sk W \<Longrightarrow>
   e3_vouched C prk th V pt = e3_vouched C prk th W pt"
  by (simp add: e3_vouched_def)

lemma verify_pt2_frame:
  "prk2e (snd (e3_verify_pt2 C c pt)) = prk2e c \<and> th2 (snd (e3_verify_pt2 C c pt)) = th2 c"
  by (simp add: ab2.verify_eq Let_def split: option.split)

lemma verify_pt3_frame: "th3 (snd (e3_verify_pt3 C c pt)) = th3 c"
  by (simp add: ab3.verify_eq Let_def split: option.split)

lemma build_pt3_frame:
  "prk2e (fst (snd (e3_build_pt3 C c))) = prk2e c \<and> th2 (fst (snd (e3_build_pt3 C c))) = th2 c"
  by (simp add: ab3.build_eq Let_def split: option.split)

text \<open>
  C11.  In the methods 0 to 3 the initiator accepts message 2 only from the holder of the
  pinned key: the plaintext opened under the ephemeral secret carries exactly the pinned
  key, and the MAC from the Diffie-Hellman secret with it, or the signature under it,
  is the right one for this transcript.
\<close>

theorem edhoc03_i_handle_msg2_pinned:
  assumes hash: "hash_ok C" and pin: "length (pub_sig_vk (peer I)) = 32" "length (pub_dh_pk (peer I)) = 32"
    and run: "edhoc03_i_handle_msg2 C I inp cap r = Some (E3_OK, I', out, r')"
  shows "\<exists>pt2 ss. crypto_scalarmult C (eph_sk I) (slice 0 32 inp) = Some ss \<and>
    th2 I' = e3_sha256_cat C [slice 0 32 inp, h_msg1 I, c_r I] \<and> prk2e I' = e3_hkdf_extract C (th2 I') ss \<and>
    e3_aead_open C 115 (prk2e I') (th2 I') (drop 32 inp) = Opened pt2 \<and>
    e3_vouched C (prk2e I') (th2 I') I pt2"
  (is "?P I'")
proof -
  have vouch: "e3_vouched C (prk2e c) (th2 c) I pt"
    if "e3_verify_pt2 C c pt = (E3_OK, c')" "peer c = peer I" "peer_auth c = peer_auth I" "eph_sk c = eph_sk I"
    for c c' pt
    using ab2.verify_vouched [OF hash _ _ that(1)] that(2-4) pin e3_vouched_cong [of I c C] by simp
  have "sat (\<lambda>x. \<forall>I' out r'. x = Some (E3_OK, I', out, r') \<longrightarrow> ?P I') (edhoc03_i_handle_msg2 C I inp cap r)"
    unfolding edhoc03_i_handle_msg2_def
    apply (intro sat_rules)
             apply simp_all
    subgoal premises p for c1 ct2 ss t2 c2 pt2 rc c3 c4 rc2 c5 pt3 b c6 ct3
      using p verify_pt2_frame [of C c2 pt2] build_pt3_frame [of C c4] vouch [of c2 pt2 c3] by simp
    done
  with run show ?thesis by (auto dest!: satD)
qed

theorem edhoc03_i_handle_msg2_pinned_witness:
  "\<exists>I inp r I' out r' pt2. edhoc03_i_handle_msg2 toy I inp E3_MAX_MSG r = Some (E3_OK, I', out, r') \<and>
    e3_vouched toy (prk2e I') (th2 I') I pt2"
proof -
  note ok = crypto_okD(1) [OF toy_ok]
  have m: "edhoc03_method_valid 1" by (simp add: edhoc03_method_valid_def)
  show ?thesis
  proof (rule run_method_steps [OF toy_ok toy_creds03_ok [of 1] toy_creds03_ok [of 2] m, of "()"], goal_cases)
    case (1 I1)
    have "length (pub_sig_vk (peer I1)) = 32" "length (pub_dh_pk (peer I1)) = 32"
      using 1(13) by (simp_all add: toy_creds03_def)
    then show ?case using edhoc03_i_handle_msg2_pinned [OF ok _ _ 1(3)] 1(3) by blast
  qed
qed



section \<open>Buffers, return codes and stored credentials\<close>

lemma i_handle_msg2_None03:
  "edhoc03_i_handle_msg2 C ctx inp cap r = None \<longleftrightarrow> role ctx = 1 \<and> 163 < length inp \<and>
     crypto_scalarmult C (eph_sk ctx) (slice 0 32 inp) \<noteq> None"
proof -
  have "sat (\<lambda>x. x = None \<longleftrightarrow> role ctx = 1 \<and> 163 < length inp \<and>
      crypto_scalarmult C (eph_sk ctx) (slice 0 32 inp) \<noteq> None) (edhoc03_i_handle_msg2 C ctx inp cap r)"
    unfolding edhoc03_i_handle_msg2_def by (intro sat_rules) simp_all
  then show ?thesis by (rule satD)
qed

lemma r_handle_msg3_None03: "edhoc03_r_handle_msg3 C ctx inp cap r = None \<longleftrightarrow> role ctx = 0 \<and> 131 < length inp"
proof -
  have "sat (\<lambda>x. x = None \<longleftrightarrow> role ctx = 0 \<and> 131 < length inp) (edhoc03_r_handle_msg3 C ctx inp cap r)"
    unfolding edhoc03_r_handle_msg3_def by (intro sat_rules) simp_all
  then show ?thesis by (rule satD)
qed

lemma r_handle_msg1_Some03: "edhoc03_r_handle_msg1 C ctx inp cap r \<noteq> None"
proof -
  have "sat (\<lambda>x. x \<noteq> None) (edhoc03_r_handle_msg1 C ctx inp cap r)"
    unfolding edhoc03_r_handle_msg1_def by (intro sat_rules) simp_all
  then show ?thesis by (rule satD)
qed


text \<open>
  Credentials and peer keys of the methods 0 to 3 survive storage: what was saved
  completely is what is loaded.
\<close>

theorem edhoc03_creds_roundtrip:
  assumes "length (creds03_bytes c) = 163" "length (id_cred c) = 3" "length (sig_sk c) = 64"
    "length (sig_vk c) = 32" "length (dh_sk c) = 32" "length (creds03_bytes old) = 163"
    "length (peer03_bytes oldp) = 64" "writable fs p" "163 \<le> room fs"
  shows "edhoc03_creds_load (snd (edhoc03_creds_save fs (Some p) (Some c))) (Some p) (Some old) = (E3_OK, Some c) \<and>
    edhoc03_pub_load (snd (edhoc03_pub_save fs (Some p) (Some c))) (Some p) (Some oldp) = (E3_OK, Some (pub_of c))"
proof -
  have dh: "length (dh_pk c) = 32" using assms(1-5) by (simp add: creds03_bytes_def)
  have c: "creds03_of_bytes (creds03_bytes c) = c"
    using assms(2-5) dh by (simp add: creds03_of_bytes_def creds03_bytes_def slice_def)
  have q: "peer03_of_bytes (sig_vk c @ dh_pk c) = pub_of c"
    using assms(4) dh by (simp add: peer03_of_bytes_def slice_def pub_of_def)
  show ?thesis
    using assms dh save_load_blob [of fs p "creds03_bytes c" "creds03_bytes old"]
      save_load_blob [of fs p "sig_vk c @ dh_pk c" "peer03_bytes oldp"]
    by (simp add: edhoc03_creds_save_def edhoc03_creds_load_def edhoc03_pub_save_def edhoc03_pub_load_def
        save_blob_ok c q case_prod_unfold peer03_bytes_def Let_def)
qed

theorem edhoc03_creds_roundtrip_witness:
  "edhoc03_creds_load (snd (edhoc03_creds_save \<lparr>files = (\<lambda>_. None), writable = (\<lambda>_. True), room = 200\<rparr>
     (Some ''ue.cred'') (Some (toy_creds03 1)))) (Some ''ue.cred'') (Some zero_creds03) = (E3_OK, Some (toy_creds03 1))"
  using edhoc03_creds_roundtrip [of "toy_creds03 1" zero_creds03 "pub_of zero_creds03"
      "\<lparr>files = (\<lambda>_. None), writable = (\<lambda>_. True), room = 200\<rparr>" "''ue.cred''"]
  by (simp add: creds03_bytes_def peer03_bytes_def toy_creds03_def zero_creds03_def)

end
