(* ===== verification/Rlm_Props.thy ===== *)
theory Rlm_Props
  imports Rlm_Edhoc Edhoc4_Props Edhoc03_Props
begin

text \<open>
  Properties of the FreeRADIUS sub-module: the session invariant, fragmentation as an
  instance of the contracts of theory \<open>Frag\<close>, and what every answer of \<open>mod_process\<close>
  means.
\<close>

section \<open>The session invariant\<close>

text \<open>The members have their sizes and the positions stay inside the buffers.\<close>

definition sess_inv :: "edhoc_session_t \<Rightarrow> bool" where
  "sess_inv s \<longleftrightarrow> length (sess_in s) = E4_MAX_MSG \<and> length (sess_out s) = E4_MAX_MSG \<and>
     sess_in_pos s \<le> sess_in_len s \<and> sess_in_len s \<le> E4_MAX_MSG \<and>
     sess_out_pos s \<le> sess_out_len s \<and> sess_out_len s \<le> E4_MAX_MSG"

lemma sess_inv_frame [simp]:
  "sess_inv (s\<lparr>sess_ctx := a\<rparr>) = sess_inv s" "sess_inv (s\<lparr>sess_ctx03 := b\<rparr>) = sess_inv s"
  "sess_inv (s\<lparr>sess_mode := m\<rparr>) = sess_inv s" "sess_inv (s\<lparr>sess_round := n\<rparr>) = sess_inv s"
  by (simp_all add: sess_inv_def)

lemma sess_inv_zero: "sess_inv zero_session"
  by (simp add: sess_inv_def zero_session_def)

definition sess_msg :: "edhoc_session_t \<Rightarrow> bytes" where
  "sess_msg s = take (sess_out_len s) (sess_out s)"

lemma length_sess_msg [simp]: "sess_inv s \<Longrightarrow> length (sess_msg s) = sess_out_len s"
  by (simp add: sess_msg_def sess_inv_def)

section \<open>Fragmentation\<close>

text \<open>
  With memory available \<open>edhoc_send_fragment\<close> and \<open>edhoc_queue_outgoing\<close> as transformers of
  the session, and \<open>edhoc_consume_incoming\<close> with the error codes as one value.
\<close>

definition rlm_send :: "edhoc_session_t \<Rightarrow> bytes \<times> edhoc_session_t" where
  "rlm_send s = (case edhoc_send_fragment (\<lambda>_ _. True) undefined s PW_EAP_REQUEST of (_, s', rq) \<Rightarrow> (the (type_data rq), s'))"

definition rlm_queue :: "edhoc_session_t \<Rightarrow> bytes \<Rightarrow> bytes \<times> edhoc_session_t" where
  "rlm_queue s m = (case edhoc_queue_outgoing (\<lambda>_ _. True) undefined s PW_EAP_REQUEST m of (_, s', rq) \<Rightarrow> (the (type_data rq), s'))"

definition rlm_consume :: "edhoc_session_t \<Rightarrow> bytes \<Rightarrow> (edhoc_session_t \<times> bytes option) option" where
  "rlm_consume s w =
     (case edhoc_consume_incoming s w of (rc, s', m, ack) \<Rightarrow>
        if rc \<noteq> E4_OK then None else Some (s', if ack then None else m))"

lemma frag_len_min: "(if a < b then a else b) = min a (b :: nat)"
  by simp

lemma slice_take: "a + n \<le> k \<Longrightarrow> slice a n (take k xs) = slice a n xs"
  by (simp add: slice_def drop_take min_def)

lemma send_fragment_eq:
  assumes "sess_inv s" "sess_out_pos s < sess_out_len s"
  shows "edhoc_send_fragment mem rq s c =
    (if \<not> mem 1 (length (frag_wire (sess_msg s) (sess_out_pos s))) then (False, s, rq)
     else case edhoc_emit_eap mem rq c (frag_wire (sess_msg s) (sess_out_pos s)) of (ok, rq') \<Rightarrow>
       (ok, (if sess_out_pos s + frag_size (sess_msg s) (sess_out_pos s) < sess_out_len s
             then s\<lparr>sess_out_pos := sess_out_pos s + frag_size (sess_msg s) (sess_out_pos s)\<rparr>
             else s\<lparr>sess_out_len := 0, sess_out_pos := 0\<rparr>), rq'))"
proof -
  let ?n = "frag_size (sess_msg s) (sess_out_pos s)"
  have n: "?n = (if sess_out_len s - sess_out_pos s < (if sess_out_pos s = 0 then 997 else 999)
      then sess_out_len s - sess_out_pos s else if sess_out_pos s = 0 then 997 else 999)"
    using assms by (simp add: frag_size_def)
  have sl: "slice (sess_out_pos s) ?n (sess_msg s) = slice (sess_out_pos s) ?n (sess_out s)"
    using frag_size_le [of "sess_out_pos s" "sess_msg s"] assms
    unfolding sess_msg_def by (intro slice_take) (simp add: sess_inv_def)
  have ln: "length (slice (sess_out_pos s) ?n (sess_out s)) = ?n"
    using frag_size_le [of "sess_out_pos s" "sess_msg s"] assms by (auto simp: sess_inv_def min_def)
  have more: "(?n < sess_out_len s - sess_out_pos s) = (sess_out_pos s + ?n < sess_out_len s)" by arith
  have ge: "(sess_out_len s \<le> sess_out_pos s + ?n) = (\<not> sess_out_pos s + ?n < sess_out_len s)" by arith
  show ?thesis
  proof (cases "sess_out_pos s + ?n < sess_out_len s")
    case True
    then show ?thesis
      using assms ln by (simp add: edhoc_send_fragment_def frag_wire_def Let_def sl more ge flip: n)
  next
    case False
    then show ?thesis
      using assms ln by (simp add: edhoc_send_fragment_def frag_wire_def Let_def sl more ge flip: n)
  qed
qed

lemma emit_ok [simp]:
  "edhoc_emit_eap (\<lambda>_ _. True) rq c w =
     (True, rq\<lparr>code := c, type_num := PW_EAP_EDHOC, type_data := Some w, type_length := length w\<rparr>)"
  by (simp add: edhoc_emit_eap_def)

lemma rlm_send_eq:
  assumes "sess_inv s" "sess_out_pos s < sess_out_len s"
  shows "rlm_send s = (frag_wire (sess_msg s) (sess_out_pos s),
    (if sess_out_pos s + frag_size (sess_msg s) (sess_out_pos s) < sess_out_len s
     then s\<lparr>sess_out_pos := sess_out_pos s + frag_size (sess_msg s) (sess_out_pos s)\<rparr>
     else s\<lparr>sess_out_len := 0, sess_out_pos := 0\<rparr>))"
  by (simp add: rlm_send_def send_fragment_eq [OF assms])

lemma sess_queued:
  assumes "sess_inv s" "length m \<le> 8192"
  defines "q \<equiv> s\<lparr>sess_out := poke (sess_out s) 0 m, sess_out_len := length m, sess_out_pos := 0\<rparr>"
  shows "sess_inv q" "sess_msg q = m"
  using assms by (simp_all add: q_def sess_inv_def sess_msg_def poke_def)

interpretation rlms: frag_queue rlm_send sess_msg sess_out_pos sess_inv rlm_queue
proof (unfold_locales, goal_cases)
  case (2 s)
  then have "sess_out_pos s < sess_out_len s" by simp
  with 2 show ?case by (simp add: rlm_send_eq) (simp add: sess_msg_def)
next
  case (4 s)
  then show ?case using frag_size_le [of "sess_out_pos s" "sess_msg s"] by (auto simp: rlm_send_eq sess_inv_def)
next
  case (5 s m)
  then show ?case by (simp add: rlm_queue_def edhoc_queue_outgoing_def edhoc_send_ack_def Let_def)
next
  case (6 s m)
  then have "rlm_queue s m = rlm_send (s\<lparr>sess_out := poke (sess_out s) 0 m, sess_out_len := length m, sess_out_pos := 0\<rparr>)"
    by (auto simp: rlm_queue_def rlm_send_def edhoc_queue_outgoing_def)
  with sess_queued [OF 6(1,4)] show ?case by (metis edhoc_session_t.select_convs(10) edhoc_session_t.surjective edhoc_session_t.update_convs(10))
qed (simp_all add: rlm_send_eq, simp_all add: sess_msg_def)

lemma get16_Cons [simp]: "get16 (x # xs) (Suc 0) = get16 xs 0"
  by (simp add: get16_def)

interpretation rlmr: frag_receiver rlm_consume sess_in_len "\<lambda>s. take (sess_in_pos s) (sess_in s)" sess_inv
proof (unfold_locales, goal_cases)
  case (1 s d)
  then show ?case by (simp add: rlm_consume_def edhoc_consume_incoming_def Let_def)
next
  case (2 s n d)
  then show ?case
    by (simp add: rlm_consume_def edhoc_consume_incoming_def Let_def sess_inv_def poke_def)
next
  case (3 s d)
  then have "sess_in_pos s + length d \<le> sess_in_len s" by (simp add: sess_inv_def min_def split: if_splits)
  with 3 show ?case
    by (simp add: rlm_consume_def edhoc_consume_incoming_def Let_def sess_inv_def take_poke_end)
next
  case (4 s d)
  then have n: "sess_in_pos s + length d = sess_in_len s" by (simp add: sess_inv_def min_def split: if_splits)
  moreover have "take (sess_in_len s) (poke (sess_in s) (sess_in_pos s) d) = take (sess_in_pos s) (sess_in s) @ d"
    using take_poke_end [of "sess_in_pos s" "sess_in s" d] 4 n by (simp add: sess_inv_def)
  ultimately show ?case
    using 4 by (simp add: rlm_consume_def edhoc_consume_incoming_def Let_def sess_inv_def)
qed

section \<open>Preservation of the invariant\<close>

lemma consume_inv:
  assumes "sess_inv s" "edhoc_consume_incoming s inp = (rc, s', m, ack)"
  shows "sess_inv s' \<and> sess_ctx s' = sess_ctx s \<and> sess_ctx03 s' = sess_ctx03 s \<and> sess_mode s' = sess_mode s \<and>
    sess_round s' = sess_round s \<and> sess_out_len s' = sess_out_len s \<and> sess_out_pos s' = sess_out_pos s \<and>
    (rc = E4_OK \<and> \<not> ack \<longrightarrow> m \<noteq> None)"
proof -
  have "sat (\<lambda>x. \<forall>rc s' m ack. x = (rc, s', m, ack) \<longrightarrow> sess_inv s' \<and> sess_ctx s' = sess_ctx s \<and>
    sess_ctx03 s' = sess_ctx03 s \<and> sess_mode s' = sess_mode s \<and>
    sess_round s' = sess_round s \<and> sess_out_len s' = sess_out_len s \<and> sess_out_pos s' = sess_out_pos s \<and>
    (rc = E4_OK \<and> \<not> ack \<longrightarrow> m \<noteq> None)) (edhoc_consume_incoming s inp)"
    unfolding edhoc_consume_incoming_def using assms(1)
    by (intro sat_rules) (auto simp: sess_inv_def split: if_splits)
  with assms(2) show ?thesis by (auto dest!: satD)
qed

text \<open>What \<open>edhoc_send_fragment\<close> and \<open>edhoc_queue_outgoing\<close> leave behind: only the output buffer
  changes, and a success puts at most 1000 octets into the reply.\<close>

definition sent_ok :: "edhoc_session_t \<Rightarrow> eap_request \<Rightarrow> eap_code \<Rightarrow> bool \<times> edhoc_session_t \<times> eap_request \<Rightarrow> bool" where
  "sent_ok s rq c x \<longleftrightarrow> (case x of (ok, s', rq') \<Rightarrow>
     sess_inv s' \<and> sess_ctx s' = sess_ctx s \<and> sess_ctx03 s' = sess_ctx03 s \<and> sess_mode s' = sess_mode s \<and>
     sess_round s' = sess_round s \<and> reply_attrs rq' = reply_attrs rq \<and>
     (ok \<longrightarrow> code rq' = c \<and> type_num rq' = PW_EAP_EDHOC \<and>
        (\<exists>w. type_data rq' = Some w \<and> type_length rq' = length w \<and> 0 < length w \<and> length w \<le> E4_EDHOC_FRAG_WIRE_MAX)))"

lemma frag_wire_pos: "0 < length (frag_wire m p)"
  by (simp add: frag_wire_def Let_def)

lemma send_fragment_sent:
  assumes "sess_inv s" "sess_out_pos s < sess_out_len s"
  shows "sent_ok s rq c (edhoc_send_fragment mem rq s c)"
  using assms frag_size_le [of "sess_out_pos s" "sess_msg s"] length_frag_wire [of "sess_msg s" "sess_out_pos s"]
    frag_wire_pos [of "sess_msg s" "sess_out_pos s"]
  by (auto simp: send_fragment_eq [OF assms] sent_ok_def edhoc_emit_eap_def Let_def) (simp_all add: sess_inv_def)

lemma queue_outgoing_sent:
  assumes "sess_inv s"
  shows "sent_ok s rq c (edhoc_queue_outgoing mem rq s c m)"
proof (cases "997 < length m \<and> length m \<le> 8192")
  case True
  let ?q = "s\<lparr>sess_out := poke (sess_out s) 0 m, sess_out_len := length m, sess_out_pos := 0\<rparr>"
  have "edhoc_queue_outgoing mem rq s c m = edhoc_send_fragment mem rq ?q c"
    using True by (auto simp: edhoc_queue_outgoing_def)
  moreover have "sent_ok ?q rq c (edhoc_send_fragment mem rq ?q c)"
    using True sess_queued [OF assms, of m] by (intro send_fragment_sent) auto
  ultimately show ?thesis by (simp add: sent_ok_def)
next
  case False
  with assms show ?thesis
    by (auto simp: edhoc_queue_outgoing_def edhoc_send_ack_def edhoc_emit_eap_def sent_ok_def Let_def)
qed

section \<open>The answers of mod_process\<close>

text \<open>The responder context of \<open>t\<close> comes from message 1 handled with the instance's credentials.\<close>

definition opened :: "'r crypto \<Rightarrow> rlm_eap_edhoc_t \<Rightarrow> edhoc_session_t \<Rightarrow> bool" where
  "opened C inst t \<longleftrightarrow>
     (if sess_mode t = 3 then have03 inst \<noteq> 0 \<and>
        (\<exists>m1 r out r'. edhoc03_r_handle_msg1 C (edhoc03_init_responder (server03 inst) (ue03_pub inst)) m1 E4_MAX_MSG r =
           Some (E3_OK, sess_ctx03 t, out, r'))
      else
        (\<exists>m1 r out r'. edhoc4_r_handle_msg1 C (edhoc4_init_responder (server inst) (ue_pub inst)) m1 E4_MAX_MSG r =
           Some (E4_OK, sess_ctx t, out, r')))"

text \<open>How a session moves from \<open>s\<close> to \<open>t\<close> while the conversation goes on: a fragment or an
  acknowledgement, message 1 accepted, or message 3 of method 4 accepted.\<close>

definition advances :: "'r crypto \<Rightarrow> rlm_eap_edhoc_t \<Rightarrow> edhoc_session_t \<Rightarrow> edhoc_session_t \<Rightarrow> bool" where
  "advances C inst s t \<longleftrightarrow>
     sess_round t = sess_round s \<and> sess_mode t = sess_mode s \<and> sess_ctx t = sess_ctx s \<and> sess_ctx03 t = sess_ctx03 s \<or>
     sess_round s = 0 \<and> sess_round t = 1 \<and> opened C inst t \<or>
     sess_round s = 1 \<and> sess_round t = 2 \<and> sess_mode s \<noteq> 3 \<and> sess_mode t = sess_mode s \<and>
       (\<exists>m3 r out r'. edhoc4_r_handle_msg3 C (sess_ctx s) m3 E4_MAX_MSG r = Some (E4_OK, sess_ctx t, out, r'))"

definition mppe :: "bytes \<Rightarrow> (string \<times> bytes) list" where
  "mppe k = [(''MS-MPPE-Recv-Key'', slice 0 32 k), (''MS-MPPE-Send-Key'', slice 32 32 k)]"

text \<open>When an EAP-Success goes out, and with which keys.\<close>

definition granted :: "'r crypto \<Rightarrow> edhoc_session_t \<Rightarrow> (string \<times> bytes) list \<Rightarrow> bool" where
  "granted C s keys \<longleftrightarrow>
     sess_round s = 1 \<and> sess_mode s = 3 \<and>
       (\<exists>m3 r R out r'. edhoc03_r_handle_msg3 C (sess_ctx03 s) m3 E4_MAX_MSG r = Some (E3_OK, R, out, r') \<and>
          edhoc03_ctx.is_done R \<noteq> 0 \<and> keys = mppe (edhoc03_ctx.msk R)) \<or>
     sess_round s = 2 \<and> edhoc4_ctx.is_done (sess_ctx s) \<noteq> 0 \<and> keys = mppe (edhoc4_ctx.msk (sess_ctx s))"

definition mod_answer :: "'r crypto \<Rightarrow> rlm_eap_edhoc_t \<Rightarrow> edhoc_session_t \<Rightarrow> eap_request \<Rightarrow> 'r mod_result \<Rightarrow> bool" where
  "mod_answer C inst s rq x \<longleftrightarrow>
     (case x of None \<Rightarrow> True
      | Some (ok, s', rq', r') \<Rightarrow>
          (\<exists>t. s' = Some t \<and> sess_inv t \<and>
             (if \<not> ok then reply_attrs rq' = reply_attrs rq
              else if code rq' = PW_EAP_REQUEST then
                reply_attrs rq' = reply_attrs rq \<and> type_num rq' = PW_EAP_EDHOC \<and>
                (\<exists>w. type_data rq' = Some w \<and> type_length rq' = length w \<and> 0 < length w \<and> length w \<le> E4_EDHOC_FRAG_WIRE_MAX) \<and>
                advances C inst s t
              else code rq' = PW_EAP_SUCCESS \<and> (\<exists>keys. reply_attrs rq' = reply_attrs rq @ keys \<and> granted C s keys))))"

lemma queue_outgoing_sentD:
  assumes "edhoc_queue_outgoing mem rq s c m = (ok, s', rq')" "sess_inv s"
  shows "sent_ok s rq c (ok, s', rq')"
  using queue_outgoing_sent [OF assms(2), of rq c mem m] assms(1) by simp

lemma opened_frame:
  "sess_mode t = sess_mode u \<Longrightarrow> sess_ctx t = sess_ctx u \<Longrightarrow> sess_ctx03 t = sess_ctx03 u \<Longrightarrow>
   opened C inst t = opened C inst u"
  by (simp add: opened_def)

lemma answer_None [simp]: "mod_answer C inst s rq None"
  by (simp add: mod_answer_def)

lemma answer_fail [simp]: "sess_inv t \<Longrightarrow> mod_answer C inst s rq (mod_fail (Some t) rq r)"
  by (simp add: mod_answer_def mod_fail_def)

text \<open>The common end of the rounds 0 and 1: queue the handler's output and go to round \<open>n\<close>.\<close>

lemma answer_queue:
  assumes "sess_inv t" and adv: "\<And>u. sess_mode u = sess_mode t \<Longrightarrow> sess_ctx u = sess_ctx t \<Longrightarrow>
    sess_ctx03 u = sess_ctx03 t \<Longrightarrow> sess_round u = n \<Longrightarrow> advances C inst s u"
  shows "mod_answer C inst s rq
    (case edhoc_queue_outgoing mem rq t PW_EAP_REQUEST out of (sent, t, rq) \<Rightarrow>
       if \<not> sent then Some (False, Some t, rq, r) else Some (True, Some (t\<lparr>sess_round := n\<rparr>), rq, r))"
proof -
  obtain sent t' rq' where q: "edhoc_queue_outgoing mem rq t PW_EAP_REQUEST out = (sent, t', rq')"
    by (metis prod_cases3)
  then have "sent_ok t rq PW_EAP_REQUEST (sent, t', rq')" using assms(1) by (rule queue_outgoing_sentD)
  with q adv [of "t'\<lparr>sess_round := n\<rparr>"] show ?thesis by (auto simp: mod_answer_def sent_ok_def)
qed

lemma mod_round0_answer:
  assumes "sess_inv s" "sess_round s = 0"
  shows "mod_answer C inst s rq (mod_round0 C inst mem s rq m r)"
proof -
  define s1 where "s1 = (if sess_mode s = 0
    then (if length m = 1 + E3_X_PK + E3_CONN_ID \<and> unat (m ! 0) \<le> 3 then s\<lparr>sess_mode := 3\<rparr> else s\<lparr>sess_mode := 4\<rparr>) else s)"
  have "sess_inv s1" using assms(1) by (simp add: s1_def)
  with assms show ?thesis
    unfolding mod_round0_def Let_def s1_def [symmetric]
    by (cases "sess_mode s1 = 3")
      (auto intro!: answer_queue simp: advances_def opened_def split: option.split, blast+)
qed

lemma mod_round1_answer:
  assumes "sess_inv s" "sess_round s = 1"
  shows "mod_answer C inst s rq (mod_round1 C mem s rq m r)"
proof (cases "sess_mode s = 3")
  case True
  have "granted C s (mppe (edhoc03_ctx.msk R))"
    if "edhoc03_r_handle_msg3 C (sess_ctx03 s) m E4_MAX_MSG r = Some (E3_OK, R, out, r')" "edhoc03_ctx.is_done R \<noteq> 0"
    for R out r'
    using that True assms(2) unfolding granted_def by blast
  with True assms show ?thesis
    by (auto simp: mod_round1_def add_mppe_keys_def mod_answer_def [of _ _ _ _ "Some (True, _)"] mppe_def Let_def
        split: option.split)
next
  case False
  with assms show ?thesis
    by (auto intro!: answer_queue simp: mod_round1_def advances_def Let_def split: option.split) (blast+)?
qed

lemma mod_process_answer:
  assumes "sess_inv s"
  shows "mod_answer C inst s rq (mod_process C inst mem (Some s) rq inp r)"
proof (cases "sess_out_pos s < sess_out_len s")
  case True
  then show ?thesis
    using send_fragment_sent [OF assms True, of rq PW_EAP_REQUEST mem]
    by (cases "edhoc_send_fragment mem rq s PW_EAP_REQUEST")
      (auto simp: mod_process_def mod_answer_def mod_fail_def sent_ok_def advances_def)
next
  case False
  obtain rc t m ack where cs: "edhoc_consume_incoming s inp = (rc, t, m, ack)" by (metis prod_cases4)
  note t = consume_inv [OF assms cs]
  have "advances C inst t = advances C inst s" "granted C t = granted C s"
    using t by (simp_all add: advances_def granted_def fun_eq_iff)
  then have lift: "mod_answer C inst t rq x \<Longrightarrow> mod_answer C inst s rq x" for x
    by (simp only: mod_answer_def)
  have ack: "mod_answer C inst s rq (case edhoc_send_ack mem rq PW_EAP_REQUEST of (ok, rq) \<Rightarrow>
      if \<not> ok then mod_fail (Some t) rq r else Some (True, Some t, rq, r))"
    using t by (cases "mem 2 1") (simp_all add: edhoc_send_ack_def edhoc_emit_eap_def mod_answer_def mod_fail_def advances_def)
  have r2: "mod_answer C inst s rq (Some (True, Some t,
      add_mppe_keys (rq\<lparr>code := PW_EAP_SUCCESS\<rparr>) (edhoc4_ctx.msk (sess_ctx t)), r))"
    if "sess_round t = 2" "edhoc4_ctx.is_done (sess_ctx t) \<noteq> 0"
    using t that by (simp add: mod_answer_def add_mppe_keys_def granted_def mppe_def)
  show ?thesis
    using False t ack r2
    by (auto simp: mod_process_def cs Let_def intro!: lift mod_round0_answer mod_round1_answer)
qed

text \<open>
  C19.  \<open>mod_process\<close> keeps the session well-formed on every branch, whatever the peer sends:
  all positions stay inside the 8192-octet buffers.  An answer that continues the conversation
  carries one to 1000 octets of EDHOC data; one that does not is an EAP-Success; and a failure adds no
  attribute to the RADIUS reply.
\<close>

theorem mod_process_invariant:
  assumes "sess_inv s" "mod_process C inst mem (Some s) rq inp r = Some (ok, s', rq', r')"
  shows "\<exists>t. s' = Some t \<and> sess_inv t \<and>
    (if \<not> ok then reply_attrs rq' = reply_attrs rq
     else if code rq' = PW_EAP_REQUEST then reply_attrs rq' = reply_attrs rq \<and> type_num rq' = PW_EAP_EDHOC \<and>
       (\<exists>w. type_data rq' = Some w \<and> type_length rq' = length w \<and> 0 < length w \<and> length w \<le> E4_EDHOC_FRAG_WIRE_MAX)
     else code rq' = PW_EAP_SUCCESS)"
  using mod_process_answer [OF assms(1), of C inst rq mem inp r] assms(2)
  by (auto simp: mod_answer_def split: if_splits)

text \<open>An instance with the concrete credentials and an empty reply, for the witnesses.\<close>

definition toy_inst :: rlm_eap_edhoc_t where
  "toy_inst = \<lparr>creds_path = None, peer_pub_path = None, creds03_path = None, peer_pub03_path = None,
     server = toy_creds 2, ue_pub = kem_pk (toy_creds 1), server03 = toy_creds03 2,
     ue03_pub = pub_of (toy_creds03 1), have03 = 1\<rparr>"

definition toy_rq :: eap_request where
  "toy_rq = \<lparr>code = PW_EAP_RESPONSE, type_num = 0, type_data = None, type_length = 0, reply_attrs = []\<rparr>"

lemma first_fragment_acked:
  "\<exists>t. mod_process toy toy_inst (\<lambda>_ _. True) (Some zero_session) toy_rq [0xC0, 0, 9, 1] () =
     Some (True, Some t, toy_rq\<lparr>code := PW_EAP_REQUEST, type_num := 56, type_data := Some [0], type_length := 1\<rparr>, ())"
  by (simp add: mod_process_def zero_session_def edhoc_consume_incoming_def edhoc_send_ack_def Let_def get16_def)

theorem mod_process_invariant_witness:
  "\<exists>t. mod_process toy toy_inst (\<lambda>_ _. True) (Some zero_session) toy_rq [0xC0, 0, 9, 1] () =
     Some (True, Some t, toy_rq\<lparr>code := PW_EAP_REQUEST, type_num := 56, type_data := Some [0], type_length := 1\<rparr>, ()) \<and>
   sess_inv t"
proof -
  obtain t where "mod_process toy toy_inst (\<lambda>_ _. True) (Some zero_session) toy_rq [0xC0, 0, 9, 1] () =
     Some (True, Some t, toy_rq\<lparr>code := PW_EAP_REQUEST, type_num := 56, type_data := Some [0], type_length := 1\<rparr>, ())"
    using first_fragment_acked by blast
  with mod_process_invariant [OF sess_inv_zero this] show ?thesis by auto
qed

section \<open>Success only after authentication\<close>

text \<open>The sessions that the EAP module keeps: it remembers a handler only after an answer with
  \<open>PW_EAP_REQUEST\<close>, and frees it otherwise.\<close>

inductive sess_reach :: "'r crypto \<Rightarrow> rlm_eap_edhoc_t \<Rightarrow> edhoc_session_t \<Rightarrow> bool" for C inst where
  start: "sess_reach C inst zero_session"
| continue: "sess_reach C inst s \<Longrightarrow> mod_process C inst mem (Some s) rq inp r = Some (True, Some s', rq', r') \<Longrightarrow>
    code rq' = PW_EAP_REQUEST \<Longrightarrow> sess_reach C inst s'"

lemma sess_reach_inv:
  assumes "sess_reach C inst s"
  shows "sess_inv s \<and>
    (sess_round s = 0 \<or> sess_round s = 1 \<and> opened C inst s \<or>
     sess_round s = 2 \<and> sess_mode s \<noteq> 3 \<and>
       (\<exists>u m3 r out r'. opened C inst u \<and> sess_mode u \<noteq> 3 \<and>
          edhoc4_r_handle_msg3 C (sess_ctx u) m3 E4_MAX_MSG r = Some (E4_OK, sess_ctx s, out, r')))"
  using assms
proof induction
  case start
  then show ?case by (simp add: sess_inv_zero) (simp add: zero_session_def)
next
  case (continue s mem rq inp r s' rq' r')
  then have "sess_inv s'" "advances C inst s s'"
    using mod_process_answer [of s C inst rq mem inp r] by (auto simp: mod_answer_def)
  with continue.IH show ?case unfolding advances_def using opened_frame [of s' s C inst] by auto blast+
qed

text \<open>
  C4.  An EAP-Success is only sent at the end of a complete handshake.  In every session the EAP
  module keeps, when \<open>mod_process\<close> answers with \<open>PW_EAP_SUCCESS\<close>, some message 1 was accepted by the
  responder initialised with the configured credentials and the pinned peer key, message 3 was
  then accepted by the resulting context, and the keys added to the reply are the two halves of
  the MSK of exactly that context.
\<close>

theorem eap_success_authenticated:
  assumes "sess_reach C inst s" "mod_process C inst mem (Some s) rq inp r = Some (True, s', rq', r')"
    "code rq' = PW_EAP_SUCCESS"
  shows "(have03 inst \<noteq> 0 \<and> (\<exists>m1 r1 R1 o1 r1' m3 r3 R3 o3 r3'.
       edhoc03_r_handle_msg1 C (edhoc03_init_responder (server03 inst) (ue03_pub inst)) m1 E4_MAX_MSG r1 =
         Some (E3_OK, R1, o1, r1') \<and>
       edhoc03_r_handle_msg3 C R1 m3 E4_MAX_MSG r3 = Some (E3_OK, R3, o3, r3') \<and>
       reply_attrs rq' = reply_attrs rq @ mppe (edhoc03_ctx.msk R3))) \<or>
    (\<exists>m1 r1 R1 o1 r1' m3 r3 R3 o3 r3'.
       edhoc4_r_handle_msg1 C (edhoc4_init_responder (server inst) (ue_pub inst)) m1 E4_MAX_MSG r1 =
         Some (E4_OK, R1, o1, r1') \<and>
       edhoc4_r_handle_msg3 C R1 m3 E4_MAX_MSG r3 = Some (E4_OK, R3, o3, r3') \<and>
       reply_attrs rq' = reply_attrs rq @ mppe (edhoc4_ctx.msk R3))"
proof -
  note inv = sess_reach_inv [OF assms(1)]
  then obtain keys where k: "reply_attrs rq' = reply_attrs rq @ keys" "granted C s keys"
    using mod_process_answer [of s C inst rq mem inp r] assms(2,3) by (auto simp: mod_answer_def)
  show ?thesis using inv k unfolding granted_def opened_def by fastforce
qed

text \<open>A session of the methods 0 to 3, where no message needs fragmentation.\<close>

lemma consume_single_eq:
  "sess_in_len s = 0 \<Longrightarrow> edhoc_consume_incoming s (0 # m) = (E4_OK, s, Some m, False)"
  by (simp add: edhoc_consume_incoming_def Let_def)

lemma queue_single_eq:
  "length m \<le> 997 \<Longrightarrow> edhoc_queue_outgoing (\<lambda>_ _. True) rq s c m =
     (True, s, rq\<lparr>code := c, type_num := PW_EAP_EDHOC, type_data := Some (0 # m), type_length := Suc (length m)\<rparr>)"
  by (simp add: edhoc_queue_outgoing_def edhoc_send_ack_def Let_def)

definition classical_opened :: "edhoc03_ctx \<Rightarrow> edhoc_session_t" where
  "classical_opened R = zero_session\<lparr>sess_mode := 3, sess_ctx03 := R, sess_round := 1\<rparr>"

lemma classical_msg1:
  assumes "have03 inst \<noteq> 0" "length m1 = 34" "unat (m1 ! 0) \<le> 3" "length m2 \<le> 997"
    "edhoc03_r_handle_msg1 C (edhoc03_init_responder (server03 inst) (ue03_pub inst)) m1 E4_MAX_MSG r = Some (E3_OK, R, Some m2, r')"
  shows "mod_process C inst (\<lambda>_ _. True) (Some zero_session) rq (0 # m1) r =
    Some (True, Some (classical_opened R),
      rq\<lparr>code := PW_EAP_REQUEST, type_num := PW_EAP_EDHOC, type_data := Some (0 # m2), type_length := Suc (length m2)\<rparr>, r')"
  using assms
  by (simp add: mod_process_def zero_session_def consume_single_eq mod_round0_def queue_single_eq classical_opened_def Let_def)

lemma classical_msg3:
  assumes "edhoc03_r_handle_msg3 C R m3 E4_MAX_MSG r = Some (E3_OK, R', out, r')" "edhoc03_ctx.is_done R' \<noteq> 0"
  shows "mod_process C inst mem (Some (classical_opened R)) rq (0 # m3) r =
    Some (True, Some (classical_opened R'), rq\<lparr>code := PW_EAP_SUCCESS, reply_attrs := reply_attrs rq @ mppe (edhoc03_ctx.msk R')\<rparr>, r')"
  using assms
  by (simp add: mod_process_def classical_opened_def zero_session_def consume_single_eq mod_round1_def add_mppe_keys_def mppe_def)

theorem eap_success_authenticated_witness:
  "\<exists>s inp s' rq'. sess_reach toy toy_inst s \<and>
     mod_process toy toy_inst (\<lambda>_ _. True) (Some s) toy_rq inp () = Some (True, s', rq', ()) \<and> code rq' = PW_EAP_SUCCESS \<and>
     (\<exists>k. reply_attrs rq' = mppe k)"
proof -
  have m: "edhoc03_method_valid 3" by (simp add: edhoc03_method_valid_def)
  show ?thesis
  proof (rule run_method_steps_cap [OF toy_ok toy_creds03_ok [of 1] toy_creds03_ok [of 2] m, of E4_MAX_MSG "()"], goal_cases)
    case 1
    then show ?case by simp
  next
    case (2 I1 R1 I2 R2 m1 m2 m3 r1 r2)
    have s1: "mod_process toy toy_inst (\<lambda>_ _. True) (Some zero_session) toy_rq (0 # m1) () =
      Some (True, Some (classical_opened R1),
        toy_rq\<lparr>code := PW_EAP_REQUEST, type_num := PW_EAP_EDHOC, type_data := Some (0 # m2), type_length := Suc (length m2)\<rparr>, ())"
      using 2 by (intro classical_msg1) (simp_all add: toy_inst_def)
    then have r: "sess_reach toy toy_inst (classical_opened R1)"
      by (rule sess_reach.continue [OF sess_reach.start]) simp
    have s2: "mod_process toy toy_inst (\<lambda>_ _. True) (Some (classical_opened R1)) toy_rq (0 # m3) () =
      Some (True, Some (classical_opened R2),
        toy_rq\<lparr>code := PW_EAP_SUCCESS, reply_attrs := reply_attrs toy_rq @ mppe (edhoc03_ctx.msk R2)\<rparr>, ())"
      using 2 by (intro classical_msg3) simp_all
    obtain k where k: "reply_attrs (toy_rq\<lparr>code := PW_EAP_SUCCESS, reply_attrs := reply_attrs toy_rq @ mppe (edhoc03_ctx.msk R2)\<rparr>) = mppe k"
      using eap_success_authenticated [OF r s2] by (auto simp: toy_rq_def)
    show ?case by (intro exI conjI, rule r, rule s2, simp, rule k)
  qed
qed

section \<open>Failures and overruns\<close>

definition fails_clean :: "'r mod_result \<Rightarrow> bool" where
  "fails_clean x \<longleftrightarrow> (case x of Some (False, s', rq', r') \<Rightarrow> code rq' = PW_EAP_FAILURE | _ \<Rightarrow> True)"

lemma fails_clean_simps [simp]:
  "fails_clean None" "fails_clean (mod_fail s rq r)" "fails_clean (Some (True, s, rq, r))"
  by (simp_all add: fails_clean_def mod_fail_def)

lemma queue_sent:
  assumes "length m \<le> 8192"
  shows "fst (edhoc_queue_outgoing (\<lambda>_ _. True) rq s c m)"
  using assms by (auto simp: edhoc_queue_outgoing_def edhoc_send_ack_def edhoc_send_fragment_def Let_def)

lemma fails_clean_queue:
  assumes "length m \<le> 8192"
  shows "fails_clean (case edhoc_queue_outgoing (\<lambda>_ _. True) rq s c m of (sent, s, rq) \<Rightarrow>
    if \<not> sent then Some (False, Some s, rq, r) else Some (True, Some (s\<lparr>sess_round := n\<rparr>), rq, r))"
  using queue_sent [OF assms, of rq s c] by (cases "edhoc_queue_outgoing (\<lambda>_ _. True) rq s c m") simp

lemma build_pt2_eph: "eph_pk (fst (snd (e3_build_pt2 C c))) = eph_pk c"
  by (simp add: ab2.build_eq Let_def split: option.split)

lemma r_handle_msg1_out03:
  assumes ok: "crypto_ok C" and run: "edhoc03_r_handle_msg1 C ctx inp cap r = Some (rc, ctx', Some m, r')"
  shows "length m \<le> cap"
proof -
  note ok' = crypto_okD [OF ok]
  have "sat (\<lambda>x. \<forall>rc ctx' m r'. x = Some (rc, ctx', Some m, r') \<longrightarrow> length m \<le> cap) (edhoc03_r_handle_msg1 C ctx inp cap r)"
    unfolding edhoc03_r_handle_msg1_def
    apply (intro sat_rules)
            apply simp_all
    subgoal premises p for mm c1 y r1 c2 ss t2 c3 rc c4 pt2
      using p build_pt2_eph [of C c3] rng_ok_len [OF ok'(5), of 32 r y r1] x25519_base_len [OF ok'(3), of y] by auto
    done
  with run show ?thesis by (auto dest!: satD)
qed

lemma handler_out:
  assumes "crypto_ok C"
  shows "edhoc4_r_handle_msg1 C c4 m E4_MAX_MSG r = Some (E4_OK, c4', out, r') \<Longrightarrow> length (case out of None \<Rightarrow> [] | Some w \<Rightarrow> w) \<le> 8192"
    "edhoc4_r_handle_msg3 C c4 m E4_MAX_MSG r = Some (E4_OK, c4', out, r') \<Longrightarrow> length (case out of None \<Rightarrow> [] | Some w \<Rightarrow> w) \<le> 8192"
    "edhoc03_r_handle_msg1 C c3 m E4_MAX_MSG r = Some (E3_OK, c3', out, r') \<Longrightarrow> length (case out of None \<Rightarrow> [] | Some w \<Rightarrow> w) \<le> 8192"
  using out_ok_handlers(2,4) [OF assms, of 8192 c4 m r] r_handle_msg1_out03 [OF assms, of c3 m 8192 r]
  by (auto simp: out_ok_def split: option.split)

lemma fails_clean_rounds:
  assumes "crypto_ok C"
  shows "fails_clean (mod_round0 C inst (\<lambda>_ _. True) s rq m r)" "fails_clean (mod_round1 C (\<lambda>_ _. True) s rq m r)"
  unfolding mod_round0_def mod_round1_def Let_def
  by (auto split: option.split dest: handler_out [OF assms] intro!: fails_clean_queue)

lemma fails_clean_process:
  assumes "crypto_ok C" "sess_inv s"
  shows "fails_clean (mod_process C inst (\<lambda>_ _. True) (Some s) rq inp r)"
proof (cases "sess_out_pos s < sess_out_len s")
  case True
  then show ?thesis by (simp add: mod_process_def send_fragment_eq [OF assms(2)])
next
  case False
  then show ?thesis
    by (cases "edhoc_consume_incoming s inp")
      (simp add: mod_process_def edhoc_send_ack_def Let_def fails_clean_rounds [OF assms(1)])
qed

text \<open>
  C34.  Every refusal is explicit: with memory available, when \<open>mod_process\<close> returns 0 the
  reply's code is \<open>PW_EAP_FAILURE\<close>, also when the handler has lost its session.
\<close>

theorem mod_process_failure:
  assumes "crypto_ok C" "\<forall>s. session = Some s \<longrightarrow> sess_inv s"
    "mod_process C inst (\<lambda>_ _. True) session rq inp r = Some (False, s', rq', r')"
  shows "code rq' = PW_EAP_FAILURE"
proof (cases session)
  case None
  with assms(3) show ?thesis by (auto simp: mod_process_def mod_fail_def)
next
  case (Some s)
  with assms(2) have "sess_inv s" by simp
  from fails_clean_process [OF assms(1) this, of inst rq inp r] assms(3) Some show ?thesis
    by (simp add: fails_clean_def)
qed

theorem mod_process_failure_witness:
  "\<exists>s' rq' r'. mod_process toy toy_inst (\<lambda>_ _. True) (Some zero_session) toy_rq [] () = Some (False, s', rq', r') \<and>
     code rq' = PW_EAP_FAILURE"
proof -
  obtain s' rq' r' where run: "mod_process toy toy_inst (\<lambda>_ _. True) (Some zero_session) toy_rq [] () = Some (False, s', rq', r')"
    by (simp add: mod_process_def zero_session_def edhoc_consume_incoming_def mod_fail_def)
  with mod_process_failure [OF toy_ok _ run] sess_inv_zero show ?thesis by auto
qed

lemma queue_case_Some [simp]:
  "(case edhoc_queue_outgoing mem rq s c m of (sent, s, rq) \<Rightarrow>
     if \<not> sent then Some (False, Some s, rq, r) else Some (True, Some (s\<lparr>sess_round := n\<rparr>), rq, r)) \<noteq> None"
  by (auto split: prod.split)

lemma responder_init_sel:
  "edhoc4_ctx.role (edhoc4_init_responder c pk) = 0" "edhoc4_ctx.ss_b (edhoc4_init_responder c pk) = zeros 32"
  "edhoc4_ctx.self (edhoc4_init_responder c pk) = c"
  by (simp_all add: edhoc4_init_responder_def zero_ctx_def)

lemma mod_round0_None:
  "mod_round0 C inst mem t rq m r = None \<longleftrightarrow> sess_mode t \<noteq> 3 \<and> 2416 < length m \<and>
     fst (xwing_decaps C (zeros 32) (slice 0 E4_XWING_CT m) (edhoc4_creds.kem_sk (server inst))) = E4_OK"
proof -
  define s1 where "s1 = (if sess_mode t = 0
    then (if length m = 1 + E3_X_PK + E3_CONN_ID \<and> unat (m ! 0) \<le> 3 then t\<lparr>sess_mode := 3\<rparr> else t\<lparr>sess_mode := 4\<rparr>) else t)"
  have "mod_round0 C inst mem t rq m r = None \<longleftrightarrow> sess_mode s1 \<noteq> 3 \<and>
      edhoc4_r_handle_msg1 C (edhoc4_init_responder (server inst) (ue_pub inst)) m E4_MAX_MSG r = None"
    unfolding mod_round0_def Let_def s1_def [symmetric]
    using r_handle_msg1_Some03 [of C "edhoc03_init_responder (server03 inst) (ue03_pub inst)" m E4_MAX_MSG r]
    by (cases "sess_mode s1 = 3") (auto simp: mod_fail_def simp del: not_None_eq split: option.split)
  then show ?thesis
    unfolding r_handle_msg1_None responder_init_sel by (auto simp: s1_def split: if_splits)
qed

lemma mod_round1_None:
  "mod_round1 C mem t rq m r = None \<longleftrightarrow>
     (if sess_mode t = 3 then edhoc03_ctx.role (sess_ctx03 t) = 0 \<and> 131 < length m
      else edhoc4_ctx.role (sess_ctx t) = 0 \<and> 4991 < length m)"
  using r_handle_msg3_None03 [of C "sess_ctx03 t" m E4_MAX_MSG r] r_handle_msg3_None [of C "sess_ctx t" m E4_MAX_MSG r]
  by (auto simp: mod_round1_def mod_fail_def Let_def split: option.split)

text \<open>
  C33.  Exactly when a response makes the module overrun a stack buffer.  Before the peer is authenticated
  this takes one message 1 of more than 2416 octets, which reassembly admits up to 8192, unless it
  looks like a message of the methods 0 to 3; after message 2, a message 3 of more than 4991 octets, or of more
  than 131 octets in a classical session.
\<close>

theorem mod_process_overrun_iff:
  assumes "sess_inv s"
  shows "mod_process C inst mem (Some s) rq inp r = None \<longleftrightarrow>
    \<not> sess_out_pos s < sess_out_len s \<and>
    (\<exists>t m. edhoc_consume_incoming s inp = (E4_OK, t, Some m, False) \<and>
       (sess_round s = 0 \<and> sess_mode s \<noteq> 3 \<and> 2416 < length m \<and>
          fst (xwing_decaps C (zeros 32) (slice 0 E4_XWING_CT m) (edhoc4_creds.kem_sk (server inst))) = E4_OK \<or>
        sess_round s = 1 \<and> sess_mode s \<noteq> 3 \<and> edhoc4_ctx.role (sess_ctx s) = 0 \<and> 4991 < length m \<or>
        sess_round s = 1 \<and> sess_mode s = 3 \<and> edhoc03_ctx.role (sess_ctx03 s) = 0 \<and> 131 < length m))"
proof (cases "sess_out_pos s < sess_out_len s")
  case True
  then show ?thesis
    by (cases "edhoc_send_fragment mem rq s PW_EAP_REQUEST") (auto simp: mod_process_def mod_fail_def)
next
  case False
  obtain rc t m ack where cs: "edhoc_consume_incoming s inp = (rc, t, m, ack)" by (metis prod_cases4)
  note t = consume_inv [OF assms cs]
  show ?thesis
    using False t
    by (auto simp: mod_process_def cs mod_fail_def edhoc_send_ack_def mod_round0_None mod_round1_None Let_def split: prod.split)
qed

lemma toy_decaps: "fst (xwing_decaps toy ss ct sk) = E4_OK"
  by (simp add: xwing_decaps_def toy_def Let_def)

theorem mod_process_overrun_iff_witness:
  "mod_process toy toy_inst (\<lambda>_ _. True) (Some zero_session) toy_rq (0 # zeros 3000) () = None"
proof -
  have z: "sess_in_len zero_session = 0" "sess_round zero_session = 0" "sess_mode zero_session = 0"
    "\<not> sess_out_pos zero_session < sess_out_len zero_session"
    by (simp_all add: zero_session_def)
  show ?thesis
    using mod_process_overrun_iff [OF sess_inv_zero, of toy toy_inst "\<lambda>_ _. True" toy_rq "0 # zeros 3000" "()"]
    by (simp add: z consume_single_eq toy_decaps)
qed

section \<open>Instantiation\<close>

lemma load_blob_exact: "files fs p = Some b \<Longrightarrow> length old = length b \<Longrightarrow> load_blob fs p old = Some (True, b)"
  by (simp add: load_blob_def poke_def Let_def)

lemma load_creds_exact:
  "files fs p = Some (creds_bytes c) \<Longrightarrow> creds_sized c \<Longrightarrow> creds_sized old \<Longrightarrow>
   edhoc4_creds_load fs (Some p) (Some old) = (E4_OK, Some c)"
  by (simp add: edhoc4_creds_load_def load_blob_exact length_creds_bytes creds_of_bytes_bytes)

lemma load_pub_exact:
  "files fs p = Some b \<Longrightarrow> length old = length b \<Longrightarrow> edhoc4_pub_load fs (Some p) (Some old) = (E4_OK, Some b)"
  by (simp add: edhoc4_pub_load_def load_blob_exact)

lemma load_creds03_exact:
  "files fs p = Some (creds03_bytes c) \<Longrightarrow> length (creds03_bytes old) = length (creds03_bytes c) \<Longrightarrow>
   creds03_of_bytes (creds03_bytes c) = c \<Longrightarrow> edhoc03_creds_load fs (Some p) (Some old) = (E3_OK, Some c)"
  by (simp add: edhoc03_creds_load_def load_blob_exact)

lemma load_pub03_exact:
  "files fs p = Some (peer03_bytes c) \<Longrightarrow> length (peer03_bytes old) = length (peer03_bytes c) \<Longrightarrow>
   peer03_of_bytes (peer03_bytes c) = c \<Longrightarrow> edhoc03_pub_load fs (Some p) (Some old) = (E3_OK, Some c)"
  by (simp add: edhoc03_pub_load_def load_blob_exact)

text \<open>
  Instantiation loads what was provisioned.  With the two method-4 files in place the
  instance holds exactly the stored credentials and the pinned peer key; the classical
  credentials are loaded only when both of their paths are configured, and then \<open>have03\<close> is
  set; a missing file or path is refused.
\<close>

theorem mod_instantiate_loads:
  assumes paths: "creds_path inst = Some p" "peer_pub_path inst = Some q"
    and f4: "files fs p = Some (creds_bytes c)" "files fs q = Some pk" "creds_sized c" "length pk = E4_XWING_PK"
    and zero: "server inst = zero_creds" "ue_pub inst = zeros E4_XWING_PK" "server03 inst = zero_creds03"
      "ue03_pub inst = \<lparr>pub_sig_vk = zeros E3_ED_PK, pub_dh_pk = zeros E3_X_PK\<rparr>"
    and c3: "creds03_of_bytes (creds03_bytes c3) = c3" "length (creds03_bytes c3) = 163"
      "peer03_of_bytes (peer03_bytes k3) = k3" "length (peer03_bytes k3) = 64"
  shows "(if creds03_path inst = None \<or> peer_pub03_path inst = None
     then mod_instantiate fs inst = Some (inst\<lparr>server := c, ue_pub := pk\<rparr>)
     else if files fs (the (creds03_path inst)) = Some (creds03_bytes c3) \<and>
             files fs (the (peer_pub03_path inst)) = Some (peer03_bytes k3)
     then mod_instantiate fs inst = Some (inst\<lparr>server := c, ue_pub := pk, server03 := c3, ue03_pub := k3, have03 := 1\<rparr>)
     else if files fs (the (creds03_path inst)) = None \<or> files fs (the (peer_pub03_path inst)) = None
     then mod_instantiate fs inst = None else True) \<and>
    mod_instantiate (fs\<lparr>files := (files fs)(p := None)\<rparr>) inst = None \<and>
    mod_instantiate fs (inst\<lparr>peer_pub_path := None\<rparr>) = None"
proof -
  have z: "creds_sized zero_creds" "length (creds03_bytes zero_creds03) = 163"
    by (simp_all add: creds_sized_def zero_creds_def creds03_bytes_def zero_creds03_def)
  have none3: "edhoc03_creds_load fs (Some x) (Some o3) = (E3_ERR_ARG, Some o3)" if "files fs x = None" for x o3
    using that by (simp add: edhoc03_creds_load_def load_blob_def)
  have none3p: "edhoc03_pub_load fs (Some x) (Some o3) = (E3_ERR_ARG, Some o3)" if "files fs x = None" for x o3
    using that by (simp add: edhoc03_pub_load_def load_blob_def)
  have none4: "edhoc4_creds_load (fs\<lparr>files := (files fs)(p := None)\<rparr>) (Some p) (Some o4) = (E4_ERR_ARG, Some o4)" for o4
    by (simp add: edhoc4_creds_load_def load_blob_def)
  have l4: "edhoc4_creds_load fs (Some p) (Some zero_creds) = (E4_OK, Some c)"
    "edhoc4_pub_load fs (Some q) (Some (zeros E4_XWING_PK)) = (E4_OK, Some pk)"
    using f4 z by (simp_all add: load_creds_exact load_pub_exact)
  show ?thesis
    using paths zero c3 z l4
    by (cases "creds03_path inst"; cases "peer_pub03_path inst")
      (auto simp: mod_instantiate_def none3 none3p none4 load_creds03_exact load_pub03_exact peer03_bytes_def Let_def
        split: prod.split)
qed

theorem mod_instantiate_loads_witness:
  "\<exists>inst fs. mod_instantiate fs inst = Some (inst\<lparr>server := toy_creds 2, ue_pub := zeros 1216\<rparr>) \<and>
     mod_instantiate fs (inst\<lparr>peer_pub_path := None\<rparr>) = None"
proof -
  let ?z = "\<lparr>pub_sig_vk = zeros 32, pub_dh_pk = zeros 32\<rparr>"
  let ?inst = "\<lparr>creds_path = Some ''c'', peer_pub_path = Some ''p'', creds03_path = None, peer_pub03_path = None,
    server = zero_creds, ue_pub = zeros 1216, server03 = zero_creds03, ue03_pub = ?z, have03 = 0\<rparr>"
  let ?fs = "\<lparr>files = [''c'' \<mapsto> creds_bytes (toy_creds 2), ''p'' \<mapsto> zeros 1216], writable = (\<lambda>_. True), room = 0\<rparr>"
  have "mod_instantiate ?fs ?inst = Some (?inst\<lparr>server := toy_creds 2, ue_pub := zeros 1216\<rparr>) \<and>
      mod_instantiate ?fs (?inst\<lparr>peer_pub_path := None\<rparr>) = None"
    using mod_instantiate_loads [of ?inst "''c''" "''p''" ?fs "toy_creds 2" "zeros 1216" zero_creds03 ?z]
    by (simp add: creds_sized_def toy_creds_def creds03_of_bytes_def creds03_bytes_def peer03_of_bytes_def peer03_bytes_def
        zero_creds03_def slice_def)
  then show ?thesis by blast
qed

end
