(* ===== verification/Eng_Props.thy ===== *)
theory Eng_Props
  imports Eng Rlm_Props
begin

text \<open>
  The engine as a provider of the fragmentation contracts, and the two links between it and
  the FreeRADIUS module.
\<close>

section \<open>The engine's invariant\<close>

definition eng_inv :: "eng_t \<Rightarrow> bool" where
  "eng_inv e \<longleftrightarrow> length (eng_in e) = E4_MAX_MSG \<and> length (eng_out e) = E4_MAX_MSG \<and>
     eng_in_pos e \<le> eng_in_len e \<and> eng_in_len e \<le> E4_MAX_MSG \<and>
     eng_out_pos e \<le> eng_out_len e \<and> eng_out_len e \<le> E4_MAX_MSG \<and>
     length (eng_msg_bytes e) = 5 \<and> length (eng_msg_frags e) = 5"

lemma eng_inv_zero: "eng_inv (eng_zero m)"
  by (simp add: eng_inv_def eng_zero_def)

text \<open>Counting fragments touches only the counters.\<close>

lemma count_frag_frame [simp]:
  "eng_in (count_frag_guarded i e) = eng_in e" "eng_in_len (count_frag_guarded i e) = eng_in_len e"
  "eng_in_pos (count_frag_guarded i e) = eng_in_pos e" "eng_out (count_frag_guarded i e) = eng_out e"
  "eng_out_len (count_frag_guarded i e) = eng_out_len e" "eng_out_pos (count_frag_guarded i e) = eng_out_pos e"
  "eng_msg_bytes (count_frag_guarded i e) = eng_msg_bytes e"
  "length (eng_msg_frags (count_frag_guarded i e)) = length (eng_msg_frags e)"
  "eng_step (count_frag_guarded i e) = eng_step e" "eng_classical (count_frag_guarded i e) = eng_classical e"
  "eng_c3 (count_frag_guarded i e) = eng_c3 e" "eng_c4 (count_frag_guarded i e) = eng_c4 e"
  "eng_msk (count_frag_guarded i e) = eng_msk e"
  by (simp_all add: count_frag_guarded_def count_frag_def)

lemma count_frag_1_4 [simp]: "1 \<le> i \<Longrightarrow> i \<le> 4 \<Longrightarrow> count_frag i e = count_frag_guarded i e"
  by (simp add: count_frag_guarded_def)

lemma eng_inv_count [simp]: "eng_inv (count_frag_guarded i e) = eng_inv e"
  by (simp add: eng_inv_def)

definition eng_msg :: "eng_t \<Rightarrow> bytes" where
  "eng_msg e = take (eng_out_len e) (eng_out e)"

lemma length_eng_msg [simp]: "eng_inv e \<Longrightarrow> length (eng_msg e) = eng_out_len e"
  by (simp add: eng_msg_def eng_inv_def)

section \<open>Fragmentation\<close>

definition eng_queue :: "int \<Rightarrow> eng_t \<Rightarrow> bytes \<Rightarrow> bytes \<times> eng_t" where
  "eng_queue which e m = eng_queue_outgoing (eng_put e (Some m)) which"

definition eng_take :: "eng_t \<Rightarrow> bytes \<Rightarrow> (eng_t \<times> bytes option) option" where
  "eng_take e w =
     (case eng_consume e w of (rc, e', m, ack) \<Rightarrow>
        if rc \<noteq> 0 then None else Some (e', if ack then None else m))"

lemma eng_send_eq:
  assumes "eng_inv e" "eng_out_pos e < eng_out_len e"
  shows "eng_send_fragment e = (frag_wire (eng_msg e) (eng_out_pos e),
    (if eng_out_pos e + frag_size (eng_msg e) (eng_out_pos e) < eng_out_len e
     then count_frag_guarded (eng_cur_out_msg e) (e\<lparr>eng_out_pos := eng_out_pos e + frag_size (eng_msg e) (eng_out_pos e)\<rparr>)
     else (count_frag_guarded (eng_cur_out_msg e)
             (e\<lparr>eng_out_pos := eng_out_pos e + frag_size (eng_msg e) (eng_out_pos e)\<rparr>))\<lparr>eng_out_len := 0, eng_out_pos := 0\<rparr>))"
proof -
  let ?n = "frag_size (eng_msg e) (eng_out_pos e)"
  have n: "?n = (if eng_out_len e - eng_out_pos e < (if eng_out_pos e = 0 then 997 else 999)
      then eng_out_len e - eng_out_pos e else if eng_out_pos e = 0 then 997 else 999)"
    using assms by (simp add: frag_size_def)
  have sl: "slice (eng_out_pos e) ?n (eng_msg e) = slice (eng_out_pos e) ?n (eng_out e)"
    using frag_size_le [of "eng_out_pos e" "eng_msg e"] assms
    unfolding eng_msg_def by (intro slice_take) (simp add: eng_inv_def)
  have more: "(?n < eng_out_len e - eng_out_pos e) = (eng_out_pos e + ?n < eng_out_len e)" by arith
  show ?thesis
    using assms
    by (cases "eng_out_pos e + ?n < eng_out_len e")
      (simp_all add: eng_send_fragment_def frag_wire_def Let_def sl more flip: n)
qed

lemma eng_put_queued:
  fixes which :: int
  assumes "eng_inv e" "length m \<le> 8192"
  defines "q \<equiv> (eng_put e (Some m))\<lparr>eng_cur_out_msg := which, eng_msg_bytes := (eng_msg_bytes e)[nat which := length m],
    eng_out_pos := 0\<rparr>"
  shows "eng_inv q" "eng_msg q = m" "eng_out_pos q = 0"
  using assms by (simp_all add: q_def eng_inv_def eng_msg_def eng_put_def poke_def)

text \<open>The same for every message number; the engine sends message 1 and message 3.\<close>

lemma eng_sender:
  assumes "1 \<le> which" "which \<le> 4"
  shows "frag_queue eng_send_fragment eng_msg eng_out_pos eng_inv (eng_queue which)"
proof (unfold_locales, goal_cases)
  case (2 e)
  then have "eng_out_pos e < eng_out_len e" by simp
  with 2 show ?case by (simp add: eng_send_eq) (simp add: eng_msg_def)
next
  case (4 e)
  then show ?case using frag_size_le [of "eng_out_pos e" "eng_msg e"]
    by (auto simp: eng_send_eq) (simp_all add: eng_inv_def)
next
  case (5 e m)
  then show ?case using assms
    by (simp add: eng_queue_def eng_queue_outgoing_def eng_put_def Let_def poke_def)
      (simp add: eng_msg_def eng_inv_def)
next
  case (6 e m)
  let ?q = "(eng_put e (Some m))\<lparr>eng_cur_out_msg := which,
    eng_msg_bytes := (eng_msg_bytes e)[nat which := length m], eng_out_pos := 0\<rparr>"
  have "eng_queue which e m = eng_send_fragment ?q"
    using 6 by (simp add: eng_queue_def eng_queue_outgoing_def eng_put_def Let_def)
  with eng_put_queued [OF 6(1,4), of which] show ?case by (intro exI [of _ ?q]) simp
qed (simp_all add: eng_send_eq, simp_all add: eng_msg_def)

interpretation engs1: frag_queue eng_send_fragment eng_msg eng_out_pos eng_inv "eng_queue 1"
  by (rule eng_sender) simp_all

interpretation engs3: frag_queue eng_send_fragment eng_msg eng_out_pos eng_inv "eng_queue 3"
  by (rule eng_sender) simp_all

interpretation engr: frag_receiver eng_take eng_in_len "\<lambda>e. take (eng_in_pos e) (eng_in e)" eng_inv
proof (unfold_locales, goal_cases)
  case (1 e d)
  then show ?case by (simp add: eng_take_def eng_consume_def Let_def)
next
  case (2 e n d)
  then show ?case
    by (simp add: eng_take_def eng_consume_def Let_def) (simp add: eng_inv_def poke_def)
next
  case (3 e d)
  then have "eng_in_pos e + length d \<le> eng_in_len e" by (simp add: eng_inv_def min_def split: if_splits)
  with 3 show ?case
    by (simp add: eng_take_def eng_consume_def Let_def) (simp add: eng_inv_def take_poke_end)
next
  case (4 e d)
  then have n: "eng_in_pos e + length d = eng_in_len e" by (simp add: eng_inv_def min_def split: if_splits)
  moreover have "take (eng_in_len e) (poke (eng_in e) (eng_in_pos e) d) = take (eng_in_pos e) (eng_in e) @ d"
    using take_poke_end [of "eng_in_pos e" "eng_in e" d] 4 n by (simp add: eng_inv_def)
  ultimately show ?case
    using 4 by (simp add: eng_take_def eng_consume_def Let_def) (simp add: eng_inv_def)
qed

section \<open>The links\<close>

interpretation down: frag_link rlm_send sess_msg sess_out_pos sess_inv rlm_queue
  eng_take eng_in_len "\<lambda>e. take (eng_in_pos e) (eng_in e)" eng_inv
  by unfold_locales

interpretation up1: frag_link eng_send_fragment eng_msg eng_out_pos eng_inv "eng_queue 1"
  rlm_consume sess_in_len "\<lambda>s. take (sess_in_pos s) (sess_in s)" sess_inv
  by unfold_locales

interpretation up3: frag_link eng_send_fragment eng_msg eng_out_pos eng_inv "eng_queue 3"
  rlm_consume sess_in_len "\<lambda>s. take (sess_in_pos s) (sess_in s)" sess_inv
  by unfold_locales

lemma frags_wire_max: "length w \<le> E4_EDHOC_FRAG_WIRE_MAX" if "w \<in> set (frags m)"
proof -
  have "\<forall>w \<in> set (frags_from m p). length w \<le> E4_EDHOC_FRAG_WIRE_MAX" for p
    by (induction m p rule: frags_from.induct) (subst frags_from.simps, auto simp: length_frag_wire)
  with that show ?thesis by (auto simp: frags_def split: if_splits)
qed

text \<open>
  C23.  Fragmentation is transparent in both directions.  For every message of at most 8192
  octets the FreeRADIUS module and the engine produce the same fragments, none of more
  than 1000 octets; fed to the other end they give back the message, and both ends are idle
  and well-formed again.
\<close>

theorem fragmentation_roundtrip:
  assumes "sess_inv s" "sess_msg s = []" "sess_in_len s = 0" "eng_inv e" "eng_msg e = []" "eng_in_len e = 0" "length m \<le> E4_MAX_MSG"
  shows "(\<exists>s' e'. transmit rlm_queue rlm_send s m = (frags m, s') \<and> sess_msg s' = [] \<and> sess_inv s' \<and>
      feed eng_take e (frags m) = Some (e', m) \<and> eng_in_len e' = 0 \<and> eng_inv e') \<and>
    (\<exists>e' s'. transmit (eng_queue 3) eng_send_fragment e m = (frags m, e') \<and> eng_msg e' = [] \<and> eng_inv e' \<and>
      feed rlm_consume s (frags m) = Some (s', m) \<and> sess_in_len s' = 0 \<and> sess_inv s') \<and>
    (\<forall>w \<in> set (frags m). length w \<le> E4_EDHOC_FRAG_WIRE_MAX)"
  using down.transfer_frags [OF assms(1,2,4,6,7)] up3.transfer_frags [OF assms(4,5,1,3,7)] frags_wire_max by blast

theorem fragmentation_roundtrip_witness:
  "\<exists>s' e'. transmit rlm_queue rlm_send zero_session (replicate 2354 7) = (frags (replicate 2354 7), s') \<and>
     feed eng_take (eng_zero 4) (frags (replicate 2354 7)) = Some (e', replicate 2354 7)"
  using fragmentation_roundtrip [OF sess_inv_zero _ _ eng_inv_zero, of 4 "replicate 2354 7"]
  by (auto simp: sess_msg_def eng_msg_def zero_session_def eng_zero_def)

end
