(* ===== verification/Eap_Peer.thy ===== *)
theory Eap_Peer
  imports Rlm_Props
begin

text \<open>
  Whole EAP-EDHOC conversations with the FreeRADIUS module.  Each round trip is one reaction of the peer to
  the data of an EAP-Request and one \<open>mod_process\<close> on the data of the EAP-Response.  The peer is any
  program that keeps the contracts \<open>eap_peer\<close> and \<open>m4_peer\<close>; the benchmark's initiator engine and
  the UE both do, and the success of a method-4 conversation is proved once for all of them.
\<close>

section \<open>Conversations\<close>

text \<open>The server's half of a round trip, then \<open>cont\<close> if it asks for more.  \<open>rq\<close> is the empty
  reply each call starts from.\<close>

definition server_turn ::
  "'r crypto \<Rightarrow> rlm_eap_edhoc_t \<Rightarrow> eap_request \<Rightarrow>
   ('e \<Rightarrow> edhoc_session_t \<Rightarrow> bytes \<Rightarrow> 'r \<Rightarrow> ('e \<times> edhoc_session_t \<times> eap_request \<times> 'r) option) \<Rightarrow>
   'e \<Rightarrow> edhoc_session_t \<Rightarrow> bytes \<Rightarrow> 'r \<Rightarrow> ('e \<times> edhoc_session_t \<times> eap_request \<times> 'r) option" where
  "server_turn C inst rq cont e s w r =
     (case mod_process C inst (\<lambda>_ _. True) (Some s) rq w r of
        Some (ok, Some s', rq', r') \<Rightarrow>
          if \<not> ok then None
          else if code rq' = PW_EAP_REQUEST then cont e s' (the (type_data rq')) r'
          else Some (e, s', rq', r')
      | _ \<Rightarrow> None)"

text \<open>\<open>converse_by react C inst rq n e s w r\<close>: at most \<open>n\<close> round trips, starting with the peer \<open>e\<close> taking \<open>w\<close>;
  \<open>None\<close> if either end fails or the conversation takes longer.\<close>

primrec converse_by ::
  "('e \<Rightarrow> bytes \<Rightarrow> 'r \<Rightarrow> (bytes option \<times> 'e \<times> 'r) option) \<Rightarrow> 'r crypto \<Rightarrow> rlm_eap_edhoc_t \<Rightarrow> eap_request \<Rightarrow> nat \<Rightarrow>
   'e \<Rightarrow> edhoc_session_t \<Rightarrow> bytes \<Rightarrow> 'r \<Rightarrow> ('e \<times> edhoc_session_t \<times> eap_request \<times> 'r) option" where
  "converse_by react C inst rq 0 e s w r = None"
| "converse_by react C inst rq (Suc n) e s w r =
     (case react e w r of
        Some (Some w', e', r') \<Rightarrow> server_turn C inst rq (converse_by react C inst rq n) e' s w' r'
      | _ \<Rightarrow> None)"

section \<open>The server's calls\<close>

lemma rlm_send_call:
  assumes "sess_inv s" "sess_out_pos s < sess_out_len s"
  shows "mod_process C inst (\<lambda>_ _. True) (Some s) rq w r =
    Some (True, Some (snd (rlm_send s)), rq\<lparr>code := PW_EAP_REQUEST, type_num := PW_EAP_EDHOC,
      type_data := Some (fst (rlm_send s)), type_length := length (fst (rlm_send s))\<rparr>, r)"
  using assms by (simp add: mod_process_def send_fragment_eq [OF assms] rlm_send_eq [OF assms])

lemma rlm_queue_call:
  assumes "sess_inv s" "length m \<le> 8192"
  shows "edhoc_queue_outgoing (\<lambda>_ _. True) rq s c m =
    (True, snd (rlm_queue s m), rq\<lparr>code := c, type_num := PW_EAP_EDHOC,
      type_data := Some (fst (rlm_queue s m)), type_length := length (fst (rlm_queue s m))\<rparr>)"
proof (cases "997 < length m")
  case True
  let ?q = "s\<lparr>sess_out := poke (sess_out s) 0 m, sess_out_len := length m, sess_out_pos := 0\<rparr>"
  have "sess_inv ?q" "sess_out_pos ?q < sess_out_len ?q" using sess_queued [OF assms] True by auto
  note send_fragment_eq [OF this]
  then show ?thesis using True assms(2) by (auto simp: edhoc_queue_outgoing_def rlm_queue_def)
next
  case False
  then show ?thesis by (simp add: edhoc_queue_outgoing_def rlm_queue_def edhoc_send_ack_def Let_def)
qed

lemma rlm_consume_Some:
  assumes "sess_inv s"
  shows "rlm_consume s w = Some (t, None) \<longleftrightarrow> (\<exists>m. edhoc_consume_incoming s w = (E4_OK, t, m, True))"
    "rlm_consume s w = Some (t, Some m) \<longleftrightarrow> edhoc_consume_incoming s w = (E4_OK, t, Some m, False)"
proof -
  obtain rc t' m' ack where cs: "edhoc_consume_incoming s w = (rc, t', m', ack)" by (metis prod_cases4)
  note consume_inv [OF assms cs]
  then show "rlm_consume s w = Some (t, None) \<longleftrightarrow> (\<exists>m. edhoc_consume_incoming s w = (E4_OK, t, m, True))"
    "rlm_consume s w = Some (t, Some m) \<longleftrightarrow> edhoc_consume_incoming s w = (E4_OK, t, Some m, False)"
    by (auto simp: rlm_consume_def cs)
qed

lemma rlm_consume_frame:
  assumes "sess_inv s" "rlm_consume s w = Some (t, x)"
  shows "sess_ctx t = sess_ctx s \<and> sess_ctx03 t = sess_ctx03 s \<and> sess_mode t = sess_mode s \<and> sess_round t = sess_round s \<and>
    sess_out_len t = sess_out_len s \<and> sess_out_pos t = sess_out_pos s"
proof -
  obtain rc t' m' ack where cs: "edhoc_consume_incoming s w = (rc, t', m', ack)" by (metis prod_cases4)
  with assms(2) have "t' = t" by (auto simp: rlm_consume_def split: if_splits)
  with consume_inv [OF assms(1) cs] show ?thesis by simp
qed

definition sess_frame :: "edhoc_session_t \<Rightarrow> edhoc4_ctx \<times> edhoc03_ctx \<times> int \<times> int" where
  "sess_frame s = (sess_ctx s, sess_ctx03 s, sess_mode s, sess_round s)"

definition sess_idle :: "edhoc_session_t \<Rightarrow> bool" where
  "sess_idle s \<longleftrightarrow> sess_out_len s = 0"

lemma rlm_queue_frame:
  assumes "sess_inv s" "length m \<le> 8192"
  shows "sess_frame (snd (rlm_queue s m)) = sess_frame s \<and> sess_in_len (snd (rlm_queue s m)) = sess_in_len s"
  using assms
  by (simp add: rlm_queue_def edhoc_queue_outgoing_def edhoc_send_fragment_def edhoc_send_ack_def sess_frame_def Let_def)

lemma sess_idle_msg: "sess_inv s \<Longrightarrow> sess_msg s = [] \<longleftrightarrow> sess_idle s"
  by (auto simp: sess_idle_def sess_msg_def sess_inv_def)

lemma sess_msg_round [simp]: "sess_msg (s\<lparr>sess_round := x\<rparr>) = sess_msg s"
  by (simp add: sess_msg_def)

lemma zero_session_sel:
  "sess_idle zero_session" "sess_in_len zero_session = 0" "sess_mode zero_session = 0" "sess_round zero_session = 0"
  by (simp_all add: zero_session_def sess_idle_def)

lemma process_msg1:
  assumes "sess_inv s" "sess_idle s" "sess_round s = 0" "sess_mode s = 0" "rlm_consume s w = Some (t, Some m)" "sess_inv t"
    "length m \<noteq> 34" "edhoc4_r_handle_msg1 C (edhoc4_init_responder (server inst) (ue_pub inst)) m E4_MAX_MSG r =
      Some (E4_OK, R, Some m', r')" "length m' \<le> 8192"
  defines "q \<equiv> rlm_queue (t\<lparr>sess_mode := 4, sess_ctx := R\<rparr>) m'"
  shows "server_turn C inst rq cont e s w r = cont e ((snd q)\<lparr>sess_round := 1\<rparr>) (fst q) r'"
  using assms rlm_consume_frame [OF assms(1,5)]
  by (simp add: server_turn_def mod_process_def sess_idle_def rlm_consume_Some mod_round0_def rlm_queue_call Let_def)

lemma process_msg3:
  assumes "sess_inv s" "sess_idle s" "sess_round s = 1" "sess_mode s = 4" "rlm_consume s w = Some (t, Some m)" "sess_inv t"
    "edhoc4_r_handle_msg3 C (sess_ctx s) m E4_MAX_MSG r = Some (E4_OK, R, Some m', r')" "length m' \<le> 8192"
  defines "q \<equiv> rlm_queue (t\<lparr>sess_ctx := R\<rparr>) m'"
  shows "server_turn C inst rq cont e s w r = cont e ((snd q)\<lparr>sess_round := 2\<rparr>) (fst q) r'"
  using assms rlm_consume_frame [OF assms(1,5)]
  by (simp add: server_turn_def mod_process_def sess_idle_def rlm_consume_Some mod_round1_def rlm_queue_call Let_def)

lemma process_final:
  assumes "sess_idle s" "sess_round s = 2" "sess_in_len s = 0" "edhoc4_ctx.is_done (sess_ctx s) \<noteq> 0"
  shows "server_turn C inst rq cont e s [0] r =
    Some (e, s, rq\<lparr>code := PW_EAP_SUCCESS, reply_attrs := reply_attrs rq @ mppe (edhoc4_ctx.msk (sess_ctx s))\<rparr>, r)"
  using assms consume_single_eq [of s "[]"]
  by (simp add: server_turn_def mod_process_def sess_idle_def add_mppe_keys_def mppe_def)

section \<open>How many fragments\<close>

lemma length_frags_rest:
  assumes "0 < p" "p \<le> length m"
  shows "length (frags_from m p) = (length m - p + 998) div 999"
  using assms
proof (induction m p rule: frags_from.induct)
  case (1 m p)
  show ?case
  proof (cases "p < length m")
    case True
    then have "frag_size m p = min (length m - p) 999" using 1(2) by (simp add: frag_size_def)
    then show ?thesis
      using 1 True frag_size_le [of p m] by (subst frags_from.simps) (auto simp: min_def div_add_self2 le_div_geq)
  qed (use 1 in \<open>simp add: frags_from.simps\<close>)
qed

lemma length_frags_first:
  assumes "997 < length m"
  shows "length (frags_from m 0) = Suc ((length m + 1) div 999)"
proof -
  have "frag_size m 0 = 997" using assms by (simp add: frag_size_def)
  moreover have "m \<noteq> []" using assms by auto
  ultimately show ?thesis
    using assms length_frags_rest [of 997 m] by (subst frags_from.simps) simp
qed

section \<open>Peers\<close>

text \<open>
  A peer of the module: \<open>react\<close> answers the data of an EAP-Request with the data of a response (\<open>None\<close> for an
  error).  \<open>queue 1\<close> and \<open>queue 3\<close> start sending message 1 and message 3, \<open>send\<close> continues,
  \<open>consume\<close> takes a fragment.  \<open>ctx\<close> and \<open>stage\<close> are the EDHOC context and the peer's progress:
  1 after message 1, 2 after message 3, 3 after message 4.  \<open>view\<close> is what else
  the peer records; fragments leave all three alone.
\<close>

locale eap_peer = frag_receiver consume total got pwf
  for consume :: "'e \<Rightarrow> bytes \<Rightarrow> ('e \<times> bytes option) option" and total and got and pwf +
  fixes react :: "'e \<Rightarrow> bytes \<Rightarrow> 'r \<Rightarrow> (bytes option \<times> 'e \<times> 'r) option"
    and send :: "'e \<Rightarrow> bytes \<times> 'e" and msg :: "'e \<Rightarrow> bytes" and pos :: "'e \<Rightarrow> nat" and queue :: "int \<Rightarrow> 'e \<Rightarrow> bytes \<Rightarrow> bytes \<times> 'e"
    and ctx :: "'e \<Rightarrow> edhoc4_ctx" and stage :: "'e \<Rightarrow> int" and view :: "'e \<Rightarrow> 'v"
  assumes queues: "which = 1 \<or> which = 3 \<Longrightarrow> frag_queue send msg pos pwf (queue which)"
    and react_send: "pwf e \<Longrightarrow> pos e < length (msg e) \<Longrightarrow> react e w r = Some (Some (fst (send e)), snd (send e), r)"
    and react_ack: "pwf e \<Longrightarrow> msg e = [] \<Longrightarrow> 0 < stage e \<Longrightarrow> consume e w = Some (e', None) \<Longrightarrow> react e w r = Some (Some [0], e', r)"
    and send_frame: "pwf e \<Longrightarrow> pos e < length (msg e) \<Longrightarrow>
      ctx (snd (send e)) = ctx e \<and> stage (snd (send e)) = stage e \<and> view (snd (send e)) = view e \<and> total (snd (send e)) = total e"
    and consume_frame: "pwf e \<Longrightarrow> consume e w = Some (e', x) \<Longrightarrow>
      ctx e' = ctx e \<and> stage e' = stage e \<and> view e' = view e \<and> msg e' = msg e"
begin

lemma down_lockstep:
  "lockstep rlm_send sess_msg sess_out_pos sess_inv rlm_queue consume total got pwf
    (\<lambda>n s e w. converse_by react C inst rq n e s w r) (\<lambda>s. (sess_frame s, sess_in_len s)) (\<lambda>e. (ctx e, stage e, view e))
    (\<lambda>e. msg e = [] \<and> 0 < stage e)"
proof (unfold_locales, goal_cases)
  case (1 s e w e' n)
  then show ?case by (simp add: react_ack server_turn_def rlm_send_call)
next
  case (2 s)
  then show ?case by (simp add: rlm_send_eq sess_frame_def)
next
  case (3 e w e' x)
  then show ?case using consume_frame by simp
qed

lemma up_lockstep:
  assumes "which = 1 \<or> which = 3"
  shows "lockstep send msg pos pwf (queue which) rlm_consume sess_in_len (\<lambda>s. take (sess_in_pos s) (sess_in s)) sess_inv
    (\<lambda>n e s w. server_turn C inst rq (converse_by react C inst rq n) e s w r)
    (\<lambda>e. ((ctx e, stage e, view e), total e)) sess_frame sess_idle"
proof (rule lockstep.intro, rule frag_link.intro, rule queues [OF assms], unfold_locales, goal_cases)
  case (1 e s w s' n)
  then obtain m where cs: "edhoc_consume_incoming s w = (E4_OK, s', m, True)" by (auto simp: rlm_consume_Some)
  have "mod_process C inst (\<lambda>_ _. True) (Some s) rq w r =
      Some (True, Some s', rq\<lparr>code := PW_EAP_REQUEST, type_num := PW_EAP_EDHOC, type_data := Some [0], type_length := 1\<rparr>, r)"
    using 1(4) by (simp add: mod_process_def cs sess_idle_def edhoc_send_ack_def)
  then show ?case using 1(1,2) by (simp add: server_turn_def react_send)
next
  case (2 e)
  then show ?case using send_frame by simp
next
  case (3 s w s' x)
  then show ?case using rlm_consume_frame [OF 3] by (simp add: sess_idle_def sess_frame_def)
qed

text \<open>Message \<open>m\<close> queued by the peer arrives at the idle server, and the other way round.\<close>

lemma up_arrives:
  assumes e: "pwf e" "msg e = []" and s: "sess_inv s" "sess_idle s" "sess_in_len s = 0"
    and m: "997 < length m" "length m \<le> 8192" and which: "which = 1 \<or> which = 3"
    and q: "queue which e m = (w, e1)" and k: "k = (length m + 1) div 999"
  obtains e' s' t w' where
    "server_turn C inst rq (converse_by react C inst rq (n + k)) e1 s w r = server_turn C inst rq (converse_by react C inst rq n) e' s' w' r"
    "rlm_consume s' w' = Some (t, Some m)" "sess_inv s'" "sess_idle s'" "sess_inv t" "sess_idle t" "sess_in_len t = 0"
    "sess_frame t = sess_frame s" "pwf e'" "msg e' = []" "total e' = total e1" "ctx e' = ctx e1" "stage e' = stage e1" "view e' = view e1"
proof -
  have ne: "m \<noteq> []" using m(1) by auto
  have len: "length (frags_from m 0) - 1 = k" using length_frags_first [OF m(1)] k by simp
  note up = up_lockstep [OF which, of C inst rq r]
  have fl: "lockstep.in_flight msg pos pwf sess_in_len (\<lambda>s. take (sess_in_pos s) (sess_in s)) sess_inv sess_idle e1 s m 0"
    "w = frag_wire m 0"
    using lockstep.queue_in_flight [OF up e s ne m(2)] q by simp_all
  obtain e' s' t w' where tr: "server_turn C inst rq (converse_by react C inst rq (n + k)) e1 s w r =
      server_turn C inst rq (converse_by react C inst rq n) e' s' w' r"
    "rlm_consume s' w' = Some (t, Some m)" "pwf e'" "msg e' = []" "sess_inv s'" "sess_inv t" "sess_in_len t = 0" "sess_idle s'"
    "((ctx e', stage e', view e'), total e') = ((ctx e1, stage e1, view e1), total e1)" "sess_frame t = sess_frame s"
    using lockstep.lockstep_transfer [OF up fl(1), of n] unfolding len fl(2) by blast
  have "sess_idle t" using rlm_consume_frame [OF tr(5,2)] tr(8) by (simp add: sess_idle_def)
  with tr show thesis by (intro that [of e' s' w' t]) simp_all
qed

lemma down_arrives:
  assumes s: "sess_inv s" "sess_msg s = []" "sess_in_len s = 0" and e: "pwf e" "msg e = []" "0 < stage e" "total e = 0"
    and m: "997 < length m" "length m \<le> 8192"
    and q: "rlm_queue s m = (w, s1)" and k: "k = (length m + 1) div 999"
  obtains e' s' t w' where
    "converse_by react C inst rq (n + k) e (s1\<lparr>sess_round := x\<rparr>) w r = converse_by react C inst rq n e' s' w' r"
    "consume e' w' = Some (t, Some m)" "pwf e'" "msg e' = []" "pwf t" "msg t = []" "total t = 0"
    "ctx t = ctx e" "stage t = stage e" "view t = view e" "sess_inv s'" "sess_msg s' = []" "sess_in_len s' = 0"
    "sess_frame s' = (sess_ctx s, sess_ctx03 s, sess_mode s, x)"
proof -
  have ne: "m \<noteq> []" using m(1) by auto
  have len: "length (frags_from m 0) - 1 = k" using length_frags_first [OF m(1)] k by simp
  note dn = down_lockstep [of C inst rq r]
  have rd: "msg e = [] \<and> 0 < stage e" using e by simp
  let ?fl = "lockstep.in_flight sess_msg sess_out_pos sess_inv total got pwf (\<lambda>e. msg e = [] \<and> 0 < stage e)"
  have fl: "?fl s1 e m 0" "w = frag_wire m 0"
    using lockstep.queue_in_flight [OF dn s(1,2) e(1) rd e(4) ne m(2)] q by simp_all
  then have fl': "?fl (s1\<lparr>sess_round := x\<rparr>) e m 0"
    by (simp add: lockstep.in_flight_def [OF dn])
  have fr: "sess_frame (s1\<lparr>sess_round := x\<rparr>) = (sess_ctx s, sess_ctx03 s, sess_mode s, x)" "sess_in_len s1 = 0"
    using rlm_queue_frame [OF s(1) m(2)] q s(3) by (simp_all add: sess_frame_def)
  obtain s' e' t w' where tr: "converse_by react C inst rq (n + k) e (s1\<lparr>sess_round := x\<rparr>) w r = converse_by react C inst rq n e' s' w' r"
    "consume e' w' = Some (t, Some m)" "sess_inv s'" "sess_msg s' = []" "pwf e'" "pwf t" "total t = 0" "msg e' = [] \<and> 0 < stage e'"
    "(sess_frame s', sess_in_len s') = (sess_frame (s1\<lparr>sess_round := x\<rparr>), sess_in_len (s1\<lparr>sess_round := x\<rparr>))"
    "(ctx t, stage t, view t) = (ctx e, stage e, view e)"
    using lockstep.lockstep_transfer [OF dn fl', of n] unfolding len fl(2) by blast
  have "msg t = []" using consume_frame [OF tr(5,2)] tr(8) by simp
  with tr fr show thesis by (intro that [of e' s' w' t]) simp_all
qed

end

section \<open>Method-4 peers\<close>

text \<open>
  A peer that runs method 4: \<open>fresh\<close> peers start on the Start request and make message 1 from the context
  \<open>initial\<close>; in stage 1 message 2 is answered with message 3, in stage 2 message 4 ends the
  handshake.  The functions \<open>noted_out\<close>, \<open>noted_in\<close> and \<open>noted_msk\<close> say how \<open>view\<close> follows.
\<close>

locale m4_peer = eap_peer consume total got pwf react send msg pos queue ctx stage view
  for consume :: "'e \<Rightarrow> bytes \<Rightarrow> ('e \<times> bytes option) option" and total and got and pwf
    and react :: "'e \<Rightarrow> bytes \<Rightarrow> 'r \<Rightarrow> (bytes option \<times> 'e \<times> 'r) option"
    and send and msg and pos and queue and ctx and stage and view :: "'e \<Rightarrow> 'v" +
  fixes C :: "'r crypto" and fresh :: "'e \<Rightarrow> bool" and initial :: "'e \<Rightarrow> edhoc4_ctx"
    and noted_out :: "int \<Rightarrow> nat \<Rightarrow> 'v \<Rightarrow> 'v" and noted_in :: "int \<Rightarrow> nat \<Rightarrow> 'v \<Rightarrow> 'v" and noted_msk :: "bytes \<Rightarrow> 'v \<Rightarrow> 'v"
  assumes queue_frame: "which = 1 \<or> which = 3 \<Longrightarrow> pwf e \<Longrightarrow> msg e = [] \<Longrightarrow> length m \<le> 8192 \<Longrightarrow>
      ctx (snd (queue which e m)) = ctx e \<and> stage (snd (queue which e m)) = stage e \<and>
      total (snd (queue which e m)) = total e \<and> view (snd (queue which e m)) = noted_out which (length m) (view e)"
    and react_start: "fresh e \<Longrightarrow> edhoc4_i_make_msg1 C (initial e) E4_MAX_MSG r = Some (E4_OK, I, Some m, r') \<Longrightarrow>
      \<exists>t. react e [1] r = Some (Some (fst (queue 1 t m)), snd (queue 1 t m), r') \<and> pwf t \<and> msg t = [] \<and> total t = 0 \<and>
        ctx t = I \<and> stage t = 1 \<and> view t = view e"
    and react_msg2: "pwf e \<Longrightarrow> msg e = [] \<Longrightarrow> stage e = 1 \<Longrightarrow> consume e w = Some (t, Some m) \<Longrightarrow> pwf t \<Longrightarrow> total t = 0 \<Longrightarrow>
      edhoc4_i_handle_msg2 C (ctx e) m E4_MAX_MSG r = Some (E4_OK, I, Some m', r') \<Longrightarrow>
      \<exists>t'. react e w r = Some (Some (fst (queue 3 t' m')), snd (queue 3 t' m'), r') \<and> pwf t' \<and> msg t' = [] \<and> total t' = 0 \<and>
        ctx t' = I \<and> stage t' = 2 \<and> view t' = noted_in 2 (length m) (view t)"
    and react_msg4: "pwf e \<Longrightarrow> msg e = [] \<Longrightarrow> stage e = 2 \<Longrightarrow> consume e w = Some (t, Some m) \<Longrightarrow> pwf t \<Longrightarrow> total t = 0 \<Longrightarrow>
      edhoc4_i_handle_msg4 C (ctx e) m = Some (E4_OK, I) \<Longrightarrow>
      \<exists>t'. react e w r = Some (Some [0], t', r) \<and> ctx t' = I \<and> stage t' = 3 \<and>
        view t' = noted_msk (edhoc4_ctx.msk I) (noted_in 4 (length m) (view t))"
begin

text \<open>The first half: messages 1 and 2.\<close>

lemma first_half:
  assumes fr: "fresh e0" and m1: "edhoc4_i_make_msg1 C (initial e0) E4_MAX_MSG r = Some (E4_OK, I1, Some m1, r1)" "length m1 = 2354"
    and m2: "edhoc4_r_handle_msg1 C (edhoc4_init_responder (server inst) (ue_pub inst)) m1 E4_MAX_MSG r1 = Some (E4_OK, R1, Some m2, r2)"
      "length m2 = 6000"
  obtains e s t w where "converse_by react C inst rq (n + 9) e0 zero_session [1] r = converse_by react C inst rq n e s w r2"
    "consume e w = Some (t, Some m2)" "pwf e" "msg e = []" "pwf t" "total t = 0"
    "ctx t = I1" "stage t = 1" "view t = noted_out 1 2354 (view e0)"
    "sess_inv s" "sess_idle s" "sess_in_len s = 0" "sess_ctx s = R1" "sess_mode s = 4" "sess_round s = 1"
proof -
  note Z = zero_session_sel
  obtain t1 where t1: "react e0 [1] r = Some (Some (fst (queue 1 t1 m1)), snd (queue 1 t1 m1), r1)" "pwf t1" "msg t1 = []" "total t1 = 0"
    "ctx t1 = I1" "stage t1 = 1" "view t1 = view e0"
    using react_start [OF fr m1(1)] by blast
  obtain w1 e1 where q1: "queue 1 t1 m1 = (w1, e1)" by fastforce
  have e1: "ctx e1 = I1" "stage e1 = 1" "total e1 = 0" "view e1 = noted_out 1 2354 (view e0)"
    using queue_frame [of 1 t1 m1] t1 m1(2) q1 by simp_all
  have c1: "converse_by react C inst rq (n + 9) e0 zero_session [1] r =
      server_turn C inst rq (converse_by react C inst rq ((n + 6) + 2)) e1 zero_session w1 r1"
    using t1(1) q1 by (simp add: eval_nat_numeral)
  obtain e2 s2 t2 w2 where
    c2: "server_turn C inst rq (converse_by react C inst rq ((n + 6) + 2)) e1 zero_session w1 r1 =
      server_turn C inst rq (converse_by react C inst rq (n + 6)) e2 s2 w2 r1"
    and t2: "rlm_consume s2 w2 = Some (t2, Some m1)" "sess_inv s2" "sess_idle s2" "sess_inv t2" "sess_idle t2" "sess_in_len t2 = 0"
      "sess_frame t2 = sess_frame zero_session"
    and e2: "pwf e2" "msg e2 = []" "total e2 = total e1" "ctx e2 = ctx e1" "stage e2 = stage e1" "view e2 = view e1"
    by (rule up_arrives [OF t1(2,3) sess_inv_zero Z(1,2) _ _ _ q1, where k = 2 and C = C and inst = inst and rq = rq and n = "n + 6" and r = r1])
      (use m1(2) in auto)
  have s2: "sess_round s2 = 0" "sess_mode s2 = 0"
    using rlm_consume_frame [OF t2(2,1)] t2(7) Z by (auto simp: sess_frame_def)
  let ?t2 = "t2\<lparr>sess_mode := 4, sess_ctx := R1\<rparr>"
  obtain w3 s3 where q3: "rlm_queue ?t2 m2 = (w3, s3)" by fastforce
  have c3: "server_turn C inst rq (converse_by react C inst rq (n + 6)) e2 s2 w2 r1 =
      converse_by react C inst rq (n + 6) e2 (s3\<lparr>sess_round := 1\<rparr>) w3 r2"
    using process_msg1 [OF t2(2,3) s2 t2(1,4) _ m2(1)] m1(2) m2(2) q3 by simp
  have t2': "sess_inv ?t2" "sess_msg ?t2 = []" "sess_in_len ?t2 = 0"
    using t2 by (simp_all add: sess_idle_msg) (simp_all add: sess_idle_def)
  obtain e4 s4 t4 w4 where
    c4: "converse_by react C inst rq (n + 6) e2 (s3\<lparr>sess_round := 1\<rparr>) w3 r2 = converse_by react C inst rq n e4 s4 w4 r2"
    and t4: "consume e4 w4 = Some (t4, Some m2)" "pwf e4" "msg e4 = []" "pwf t4" "total t4 = 0"
      "ctx t4 = ctx e2" "stage t4 = stage e2" "view t4 = view e2"
    and s4: "sess_inv s4" "sess_msg s4 = []" "sess_in_len s4 = 0"
      "sess_frame s4 = (sess_ctx ?t2, sess_ctx03 ?t2, sess_mode ?t2, 1)"
    by (rule down_arrives [OF t2' e2(1,2) _ _ _ _ q3, where k = 6 and C = C and inst = inst and rq = rq and n = n and r = r2 and x = 1])
      (use m2(2) e1 e2 in auto)
  show thesis
    by (rule that [OF c1 [unfolded c2 c3 c4] t4(1-5)]) (use t4 s4 e1 e2 in \<open>simp_all add: sess_frame_def sess_idle_msg\<close>)
qed

text \<open>The second half: messages 3 and 4 and the closing acknowledgement.\<close>

lemma second_half:
  assumes e: "consume e w = Some (t, Some m2)" "pwf e" "msg e = []" "pwf t" "total t = 0" "stage t = 1"
    and s: "sess_inv s" "sess_idle s" "sess_in_len s = 0" "sess_mode s = 4" "sess_round s = 1"
    and m3: "edhoc4_i_handle_msg2 C (ctx t) m2 E4_MAX_MSG r2 = Some (E4_OK, I2, Some m3, r3)" "length m3 = 4975"
    and m4: "edhoc4_r_handle_msg3 C (sess_ctx s) m3 E4_MAX_MSG r3 = Some (E4_OK, R2, Some m4, r4)" "length m4 = 1232"
    and dn: "edhoc4_i_handle_msg4 C I2 m4 = Some (E4_OK, I3)" "edhoc4_ctx.is_done R2 \<noteq> 0"
  obtains e' s' where "converse_by react C inst rq 7 e s w r2 =
      Some (e', s', rq\<lparr>code := PW_EAP_SUCCESS, reply_attrs := reply_attrs rq @ mppe (edhoc4_ctx.msk R2)\<rparr>, r4)"
    "ctx e' = I3" "stage e' = 3" "sess_ctx s' = R2"
    "view e' = noted_msk (edhoc4_ctx.msk I3) (noted_in 4 1232 (noted_out 3 4975 (noted_in 2 (length m2) (view t))))"
proof -
  have f: "stage e = 1" "ctx e = ctx t" using consume_frame [OF e(2,1)] e(6) by simp_all
  obtain t1 where t1: "react e w r2 = Some (Some (fst (queue 3 t1 m3)), snd (queue 3 t1 m3), r3)" "pwf t1" "msg t1 = []" "total t1 = 0"
    "ctx t1 = I2" "stage t1 = 2" "view t1 = noted_in 2 (length m2) (view t)"
    using react_msg2 [OF e(2,3) f(1) e(1,4,5) m3(1) [folded f(2)]] by blast
  obtain w1 e1 where q1: "queue 3 t1 m3 = (w1, e1)" by fastforce
  have e1: "ctx e1 = I2" "stage e1 = 2" "total e1 = 0" "view e1 = noted_out 3 4975 (noted_in 2 (length m2) (view t))"
    using queue_frame [of 3 t1 m3] t1 m3(2) q1 by simp_all
  have c1: "converse_by react C inst rq 7 e s w r2 = server_turn C inst rq (converse_by react C inst rq (2 + 4)) e1 s w1 r3"
    using t1(1) q1 by (simp add: eval_nat_numeral)
  obtain e2 s2 t2 w2 where
    c2: "server_turn C inst rq (converse_by react C inst rq (2 + 4)) e1 s w1 r3 = server_turn C inst rq (converse_by react C inst rq 2) e2 s2 w2 r3"
    and t2: "rlm_consume s2 w2 = Some (t2, Some m3)" "sess_inv s2" "sess_idle s2" "sess_inv t2" "sess_idle t2" "sess_in_len t2 = 0"
      "sess_frame t2 = sess_frame s"
    and e2: "pwf e2" "msg e2 = []" "total e2 = total e1" "ctx e2 = ctx e1" "stage e2 = stage e1" "view e2 = view e1"
    by (rule up_arrives [OF t1(2,3) s(1-3) _ _ _ q1, where k = 4 and C = C and inst = inst and rq = rq and n = 2 and r = r3])
      (use m3(2) in auto)
  have s2: "sess_round s2 = 1" "sess_mode s2 = 4" "sess_ctx s2 = sess_ctx s"
    using rlm_consume_frame [OF t2(2,1)] t2(7) s(4,5) by (auto simp: sess_frame_def)
  let ?t2 = "t2\<lparr>sess_ctx := R2\<rparr>"
  obtain w3 s3 where q3: "rlm_queue ?t2 m4 = (w3, s3)" by fastforce
  have c3: "server_turn C inst rq (converse_by react C inst rq 2) e2 s2 w2 r3 =
      converse_by react C inst rq (1 + 1) e2 (s3\<lparr>sess_round := 2\<rparr>) w3 r4"
    using process_msg3 [OF t2(2,3) s2(1,2) t2(1,4) m4(1) [folded s2(3)], where cont = "converse_by react C inst rq 2" and e = e2] m4(2) q3
    by (simp add: numeral_2_eq_2)
  have t2': "sess_inv ?t2" "sess_msg ?t2 = []" "sess_in_len ?t2 = 0"
    using t2 by (simp_all add: sess_idle_msg) (simp_all add: sess_idle_def)
  obtain e4 s4 t4 w4 where
    c4: "converse_by react C inst rq (1 + 1) e2 (s3\<lparr>sess_round := 2\<rparr>) w3 r4 = converse_by react C inst rq 1 e4 s4 w4 r4"
    and t4: "consume e4 w4 = Some (t4, Some m4)" "pwf e4" "msg e4 = []" "pwf t4" "total t4 = 0"
      "ctx t4 = ctx e2" "stage t4 = stage e2" "view t4 = view e2"
    and s4: "sess_inv s4" "sess_msg s4 = []" "sess_in_len s4 = 0"
      "sess_frame s4 = (sess_ctx ?t2, sess_ctx03 ?t2, sess_mode ?t2, 2)"
    by (rule down_arrives [OF t2' e2(1,2) _ _ _ _ q3, where k = 1 and C = C and inst = inst and rq = rq and n = 1 and r = r4 and x = 2])
      (use m4(2) e1 e2 in auto)
  have f4: "stage e4 = 2" "ctx e4 = I2" using consume_frame [OF t4(2,1)] t4 e1 e2 by simp_all
  obtain e5 where e5: "react e4 w4 r4 = Some (Some [0], e5, r4)" "ctx e5 = I3" "stage e5 = 3"
    "view e5 = noted_msk (edhoc4_ctx.msk I3) (noted_in 4 (length m4) (view t4))"
    using react_msg4 [OF t4(2,3) f4(1) t4(1,4,5) dn(1) [folded f4(2)]] by blast
  have "sess_round s4 = 2" "sess_ctx s4 = R2" "sess_idle s4" using s4 by (simp_all add: sess_frame_def sess_idle_msg)
  note fin = process_final [OF this(3,1) s4(3), unfolded this(2), OF dn(2)]
  have c5: "converse_by react C inst rq 1 e4 s4 w4 r4 = Some (e5, s4,
      rq\<lparr>code := PW_EAP_SUCCESS, reply_attrs := reply_attrs rq @ mppe (edhoc4_ctx.msk R2)\<rparr>, r4)"
    using e5(1) by (simp add: fin)
  show thesis
    by (rule that [OF c1 [unfolded c2 c3 c4 c5]]) (use s4(4) e5 t4 e1 e2 m4(2) in \<open>simp_all add: sess_frame_def\<close>)
qed

lemma m4_success:
  assumes ok: "crypto_ok C" and ue: "creds_ok C ue" and aaa: "creds_ok C (server inst)" and pin: "ue_pub inst = edhoc4_creds.kem_pk ue"
    and fr: "fresh e0" "initial e0 = edhoc4_init_initiator ue (edhoc4_creds.kem_pk (server inst))"
  shows "\<exists>e s rq' r'. converse_by react C inst rq 16 e0 zero_session [1] r = Some (e, s, rq', r') \<and>
    code rq' = PW_EAP_SUCCESS \<and> reply_attrs rq' = reply_attrs rq @ mppe (edhoc4_ctx.msk (ctx e)) \<and>
    edhoc4_ctx.msk (ctx e) = edhoc4_ctx.msk (sess_ctx s) \<and> edhoc4_ctx.emsk (ctx e) = edhoc4_ctx.emsk (sess_ctx s) \<and>
    length (edhoc4_ctx.emsk (sess_ctx s)) = 64 \<and> stage e = 3 \<and>
    view e = noted_msk (edhoc4_ctx.msk (ctx e)) (noted_in 4 1232 (noted_out 3 4975 (noted_in 2 6000 (noted_out 1 2354 (view e0)))))"
proof (rule edhoc4_steps [OF ok ue aaa, of r])
  fix I1 R1 I2 R2 I3 m1 m2 m3 m4 r1 r2 r3 r4
  assume st: "edhoc4_i_make_msg1 C (edhoc4_init_initiator ue (edhoc4_creds.kem_pk (server inst))) E4_MAX_MSG r = Some (E4_OK, I1, Some m1, r1)"
    "edhoc4_r_handle_msg1 C (edhoc4_init_responder (server inst) (edhoc4_creds.kem_pk ue)) m1 E4_MAX_MSG r1 = Some (E4_OK, R1, Some m2, r2)"
    "edhoc4_i_handle_msg2 C I1 m2 E4_MAX_MSG r2 = Some (E4_OK, I2, Some m3, r3)"
    "edhoc4_r_handle_msg3 C R1 m3 E4_MAX_MSG r3 = Some (E4_OK, R2, Some m4, r4)"
    "edhoc4_i_handle_msg4 C I2 m4 = Some (E4_OK, I3)"
    and len: "map length [m1, m2, m3, m4] = [2354, 6000, 4975, 1232]"
    and agree: "edhoc4_ctx.msk I3 = edhoc4_ctx.msk R2" "edhoc4_ctx.emsk I3 = edhoc4_ctx.emsk R2" and fin: "edhoc4_ctx.is_done R2 = 1" "length (edhoc4_ctx.emsk R2) = 64"
  have l: "length m1 = 2354" "length m2 = 6000" "length m3 = 4975" "length m4 = 1232" using len by simp_all
  obtain e s t w where A: "converse_by react C inst rq (7 + 9) e0 zero_session [1] r = converse_by react C inst rq 7 e s w r2"
    "consume e w = Some (t, Some m2)" "pwf e" "msg e = []" "pwf t" "total t = 0"
    "ctx t = I1" "stage t = 1" "view t = noted_out 1 2354 (view e0)"
    "sess_inv s" "sess_idle s" "sess_in_len s = 0" "sess_ctx s = R1" "sess_mode s = 4" "sess_round s = 1"
    by (rule first_half [OF fr(1) st(1) [folded fr(2)] l(1) st(2) [folded pin] l(2), where rq = rq and n = 7])
  have dn: "edhoc4_ctx.is_done R2 \<noteq> 0" using fin(1) by simp
  obtain e' s' where "converse_by react C inst rq 7 e s w r2 =
      Some (e', s', rq\<lparr>code := PW_EAP_SUCCESS, reply_attrs := reply_attrs rq @ mppe (edhoc4_ctx.msk R2)\<rparr>, r4)"
    "ctx e' = I3" "stage e' = 3" "sess_ctx s' = R2"
    "view e' = noted_msk (edhoc4_ctx.msk I3) (noted_in 4 1232 (noted_out 3 4975 (noted_in 2 (length m2) (view t))))"
    by (rule second_half [OF A(2-6,8) A(10-12,14,15) st(3) [folded A(7)] l(3) st(4) [folded A(13)] l(4) st(5) dn,
          where inst = inst and rq = rq])
  with A(1,9) agree l fin(2) show ?thesis by simp
qed

end

end
