(* ===== verification/Eap_Run.thy ===== *)
theory Eap_Run
  imports Eng_Props Eap_Peer
begin

text \<open>
  The initiator engine as a peer of the FreeRADIUS module: a conversation is the loop of \<open>run_handshake\<close> with the EAP
  module at the other end, and the engine keeps the contract \<open>m4_peer\<close>.
\<close>

abbreviation converse ::
  "'r crypto \<Rightarrow> rlm_eap_edhoc_t \<Rightarrow> eap_request \<Rightarrow> nat \<Rightarrow>
   eng_t \<Rightarrow> edhoc_session_t \<Rightarrow> bytes \<Rightarrow> 'r \<Rightarrow> (eng_t \<times> edhoc_session_t \<times> eap_request \<times> 'r) option" where
  "converse C \<equiv> converse_by (eng_react C) C"

section \<open>What the engine's calls leave alone\<close>

lemma eng_consume_frame:
  assumes "eng_inv e" "eng_consume e inp = (rc, e', m, ack)"
  shows "eng_c3 e' = eng_c3 e \<and> eng_c4 e' = eng_c4 e \<and> eng_step e' = eng_step e \<and> eng_classical e' = eng_classical e \<and>
    eng_msk e' = eng_msk e \<and> eng_msg_bytes e' = eng_msg_bytes e \<and> eng_out_len e' = eng_out_len e \<and>
    eng_out_pos e' = eng_out_pos e \<and> eng_out e' = eng_out e \<and> (rc = 0 \<and> \<not> ack \<longrightarrow> m \<noteq> None)"
proof -
  have "sat (\<lambda>x. \<forall>rc e' m ack. x = (rc, e', m, ack) \<longrightarrow> eng_c3 e' = eng_c3 e \<and> eng_c4 e' = eng_c4 e \<and>
    eng_step e' = eng_step e \<and> eng_classical e' = eng_classical e \<and>
    eng_msk e' = eng_msk e \<and> eng_msg_bytes e' = eng_msg_bytes e \<and> eng_out_len e' = eng_out_len e \<and>
    eng_out_pos e' = eng_out_pos e \<and> eng_out e' = eng_out e \<and> (rc = 0 \<and> \<not> ack \<longrightarrow> m \<noteq> None)) (eng_consume e inp)"
    unfolding eng_consume_def by (intro sat_rules) (auto split: if_splits)
  with assms(2) show ?thesis by (auto dest!: satD)
qed

lemma eng_take_Some:
  assumes "eng_inv e"
  shows "eng_take e w = Some (t, None) \<longleftrightarrow> (\<exists>m. eng_consume e w = (0, t, m, True))"
    "eng_take e w = Some (t, Some m) \<longleftrightarrow> eng_consume e w = (0, t, Some m, False)"
proof -
  obtain rc t' m' ack where cs: "eng_consume e w = (rc, t', m', ack)" by (metis prod_cases4)
  note eng_consume_frame [OF assms cs]
  then show "eng_take e w = Some (t, None) \<longleftrightarrow> (\<exists>m. eng_consume e w = (0, t, m, True))"
    "eng_take e w = Some (t, Some m) \<longleftrightarrow> eng_consume e w = (0, t, Some m, False)"
    by (auto simp: eng_take_def cs)
qed

definition eng_idle :: "eng_t \<Rightarrow> bool" where
  "eng_idle e \<longleftrightarrow> eng_out_len e = 0"

lemma eng_idle_msg: "eng_inv e \<Longrightarrow> eng_msg e = [] \<longleftrightarrow> eng_idle e"
  by (auto simp: eng_idle_def eng_msg_def eng_inv_def)

lemma eng_inv_updates [simp]:
  "eng_inv (e\<lparr>eng_c4 := c\<rparr>) = eng_inv e" "eng_inv (e\<lparr>eng_step := n\<rparr>) = eng_inv e" "eng_inv (e\<lparr>eng_cur_in_msg := n\<rparr>) = eng_inv e"
  "eng_inv (e\<lparr>eng_msg_bytes := (eng_msg_bytes e)[k := v]\<rparr>) = eng_inv e"
  by (simp_all add: eng_inv_def)

lemma eng_queue_frame:
  assumes "eng_inv e" "length m \<le> 8192" "1 \<le> which" "which \<le> 4"
  shows "eng_c3 (snd (eng_queue which e m)) = eng_c3 e \<and> eng_c4 (snd (eng_queue which e m)) = eng_c4 e \<and>
    eng_step (snd (eng_queue which e m)) = eng_step e \<and> eng_classical (snd (eng_queue which e m)) = eng_classical e \<and>
    eng_msk (snd (eng_queue which e m)) = eng_msk e \<and>
    eng_msg_bytes (snd (eng_queue which e m)) = (eng_msg_bytes e)[nat which := length m] \<and>
    eng_in_len (snd (eng_queue which e m)) = eng_in_len e"
  using assms
  by (simp add: eng_queue_def eng_queue_outgoing_def eng_put_def eng_send_fragment_def Let_def)

lemma eng_put_steps:
  "(eng_put e (Some m))\<lparr>eng_step := a, eng_cur_in_msg := b\<rparr> = eng_put (e\<lparr>eng_step := a, eng_cur_in_msg := b\<rparr>) (Some m)"
  "(eng_put e (Some m))\<lparr>eng_msk := k\<rparr> = eng_put (e\<lparr>eng_msk := k\<rparr>) (Some m)"
  "eng_classical (eng_put e (Some m)) = eng_classical e" "eng_c3 (eng_put e (Some m)) = eng_c3 e"
  by (simp_all add: eng_put_def)

section \<open>The calls of a method-4 conversation\<close>

text \<open>The progress of an engine that runs method 4; what it records.\<close>

definition eng_stage :: "eng_t \<Rightarrow> int" where
  "eng_stage e = (if eng_classical e = 0 then eng_step e else 0)"

definition eng_view :: "eng_t \<Rightarrow> bytes \<times> nat list" where
  "eng_view e = (eng_msk e, eng_msg_bytes e)"

definition eng_fresh :: "eng_t \<Rightarrow> bool" where
  "eng_fresh e \<longleftrightarrow> eng_inv e \<and> eng_idle e \<and> eng_in_len e = 0 \<and> eng_step e = 0 \<and> eng_classical e = 0"

lemma react_start:
  assumes "eng_idle e" "eng_in_len e = 0" "eng_step e = 0" "eng_classical e = 0"
    "edhoc4_i_make_msg1 C (eng_c4 e) E4_MAX_MSG r = Some (E4_OK, I, Some m, r')"
  defines "q \<equiv> eng_queue 1 (e\<lparr>eng_c4 := I, eng_step := 1, eng_cur_in_msg := 2\<rparr>) m"
  shows "eng_react C e [1] r = Some (Some (fst q), snd q, r')"
  using assms
  by (simp add: eng_react_def eng_idle_def eng_consume_def eng_step0_def eng_queue_def eng_put_steps Let_def split: prod.split)

lemma react_msg2:
  assumes "eng_inv e" "eng_idle e" "eng_step e = 1" "eng_classical e = 0" "eng_take e w = Some (t, Some m)"
    "edhoc4_i_handle_msg2 C (eng_c4 e) m E4_MAX_MSG r = Some (E4_OK, I, Some m', r')"
  defines "q \<equiv> eng_queue 3 (t\<lparr>eng_msg_bytes := (eng_msg_bytes t)[2 := length m], eng_c4 := I, eng_step := 2, eng_cur_in_msg := 4\<rparr>) m'"
  shows "eng_react C e w r = Some (Some (fst q), snd q, r')"
proof -
  have cs: "eng_consume e w = (0, t, Some m, False)" using assms(1,5) by (simp add: eng_take_Some)
  with assms(2-) eng_consume_frame [OF assms(1) cs] show ?thesis
    by (simp add: eng_react_def eng_idle_def eng_step1_def eng_queue_def eng_put_steps Let_def split: prod.split)
qed

lemma react_msg4:
  assumes "eng_inv e" "eng_idle e" "eng_step e = 2" "eng_take e w = Some (t, Some m)"
    "edhoc4_i_handle_msg4 C (eng_c4 e) m = Some (E4_OK, I)"
  shows "eng_react C e w r = Some (Some [0], t\<lparr>eng_msg_bytes := (eng_msg_bytes t)[4 := length m], eng_c4 := I,
    eng_msk := slice 0 64 (edhoc4_ctx.msk I), eng_step := 3\<rparr>, r)"
proof -
  have cs: "eng_consume e w = (0, t, Some m, False)" using assms(1,4) by (simp add: eng_take_Some)
  with assms(2-) eng_consume_frame [OF assms(1) cs] show ?thesis
    by (simp add: eng_react_def eng_idle_def eng_step2_def Let_def)
qed

interpretation engp: m4_peer eng_take eng_in_len "\<lambda>e. take (eng_in_pos e) (eng_in e)" eng_inv "eng_react C"
  eng_send_fragment eng_msg eng_out_pos eng_queue eng_c4 eng_stage eng_view
  C eng_fresh eng_c4 "\<lambda>i n (k, l). (k, l[nat i := n])" "\<lambda>i n (k, l). (k, l[nat i := n])" "\<lambda>k (_, l). (slice 0 64 k, l)"
  for C
proof (intro m4_peer.intro m4_peer_axioms.intro eap_peer.intro eap_peer_axioms.intro engr.frag_receiver_axioms, goal_cases)
  case (1 which)
  then show ?case by (intro eng_sender) auto
next
  case (2 e w r)
  then show ?case by (simp add: eng_react_def split: prod.split)
next
  case (3 e w e' r)
  then show ?case by (auto simp: eng_take_Some eng_idle_msg eng_idle_def eng_react_def)
next
  case (4 e)
  then show ?case by (simp add: eng_send_eq eng_stage_def eng_view_def)
next
  case (5 e w e' x)
  then show ?case
    by (cases x) (auto simp: eng_take_Some eng_stage_def eng_view_def eng_msg_def dest!: eng_consume_frame)
next
  case (6 which e m)
  then show ?case using eng_queue_frame [of e m which] by (auto simp: eng_stage_def eng_view_def)
next
  case (7 e r I m r')
  let ?t = "e\<lparr>eng_c4 := I, eng_step := 1, eng_cur_in_msg := 2\<rparr>"
  from 7 show ?case
    using react_start [of e C r I m r']
    by (intro exI [of _ ?t]) (simp add: eng_fresh_def eng_idle_msg, simp add: eng_stage_def eng_view_def eng_idle_def)
next
  case (8 e w t m r I m' r')
  let ?t = "t\<lparr>eng_msg_bytes := (eng_msg_bytes t)[2 := length m], eng_c4 := I, eng_step := 2, eng_cur_in_msg := 4\<rparr>"
  have st: "eng_idle e" "eng_step e = 1" "eng_classical e = 0" using 8 by (simp_all add: eng_idle_msg eng_stage_def split: if_splits)
  have t: "eng_idle t" "eng_classical t = 0"
    using 8 st by (auto simp: eng_take_Some eng_idle_def dest!: eng_consume_frame)
  from react_msg2 [OF 8(1) st 8(4,7)] 8 t show ?case
    by (intro exI [of _ ?t]) (simp add: eng_idle_msg, simp add: eng_stage_def eng_view_def eng_idle_def)
next
  case (9 e w t m r I)
  have st: "eng_idle e" "eng_step e = 2" "eng_classical e = 0" using 9 by (simp_all add: eng_idle_msg eng_stage_def split: if_splits)
  have "eng_classical t = 0" using 9 st by (auto simp: eng_take_Some dest!: eng_consume_frame)
  with react_msg4 [OF 9(1) st(1,2) 9(4,7)] 9 show ?case by (simp add: eng_stage_def eng_view_def)
qed

end
