(* ===== verification/Eap_Success.thy ===== *)
theory Eap_Success
  imports Eap_Run
begin

text \<open>
  EAP-EDHOC conversations that succeed: the engine and the FreeRADIUS module, both with
  fragmentation, reach EAP-Success with the same keys, for method 4 and for the methods 0 to 3.
\<close>

section \<open>Method 4 from end to end\<close>

definition m4_engine :: "edhoc4_creds \<Rightarrow> bytes \<Rightarrow> eng_t" where
  "m4_engine ue pk = (eng_zero 4)\<lparr>eng_c4 := edhoc4_init_initiator ue pk\<rparr>"

lemma m4_engine_sel:
  "eng_inv (m4_engine ue pk)" "eng_idle (m4_engine ue pk)" "eng_in_len (m4_engine ue pk) = 0" "eng_step (m4_engine ue pk) = 0"
  "eng_classical (m4_engine ue pk) = 0" "eng_c4 (m4_engine ue pk) = edhoc4_init_initiator ue pk"
  "eng_msg_bytes (m4_engine ue pk) = [0, 0, 0, 0, 0]"
  by (simp_all add: m4_engine_def eng_inv_zero) (simp_all add: eng_zero_def eng_idle_def)

lemma mppe_take: "mppe (take 64 k) = mppe k"
  by (simp add: mppe_def slice_take)

lemma m4_converses:
  assumes ok: "crypto_ok C" and ue: "creds_ok C ue" and aaa: "creds_ok C (server inst)" and pin: "ue_pub inst = edhoc4_creds.kem_pk ue"
  shows "\<exists>e s rq' r'. converse C inst rq 16 (m4_engine ue (edhoc4_creds.kem_pk (server inst))) zero_session [1] r = Some (e, s, rq', r') \<and>
    code rq' = PW_EAP_SUCCESS \<and> reply_attrs rq' = reply_attrs rq @ mppe (eng_msk e) \<and>
    eng_msk e = slice 0 64 (edhoc4_ctx.msk (sess_ctx s)) \<and> edhoc4_ctx.emsk (eng_c4 e) = edhoc4_ctx.emsk (sess_ctx s) \<and>
    eng_step e = 3 \<and> length (edhoc4_ctx.emsk (sess_ctx s)) = 64 \<and> eng_msg_bytes e = [0, 2354, 6000, 4975, 1232]"
proof -
  let ?e = "m4_engine ue (edhoc4_creds.kem_pk (server inst))"
  have "eng_fresh ?e" "eng_c4 ?e = edhoc4_init_initiator ue (edhoc4_creds.kem_pk (server inst))"
    using m4_engine_sel [of ue "edhoc4_creds.kem_pk (server inst)"] by (simp_all add: eng_fresh_def)
  note suc = engp.m4_success [OF ok ue aaa pin this, of rq r]
  obtain e s rq' r' where x: "converse C inst rq 16 ?e zero_session [1] r = Some (e, s, rq', r')" "code rq' = PW_EAP_SUCCESS"
    "reply_attrs rq' = reply_attrs rq @ mppe (edhoc4_ctx.msk (eng_c4 e))" "edhoc4_ctx.msk (eng_c4 e) = edhoc4_ctx.msk (sess_ctx s)"
    "edhoc4_ctx.emsk (eng_c4 e) = edhoc4_ctx.emsk (sess_ctx s)" "length (edhoc4_ctx.emsk (sess_ctx s)) = 64" "eng_stage e = 3"
    "eng_view e = (slice 0 64 (edhoc4_ctx.msk (eng_c4 e)), [0, 2354, 6000, 4975, 1232])"
    using suc m4_engine_sel(7) [of ue "edhoc4_creds.kem_pk (server inst)"] by (auto simp: eng_view_def)
  then show ?thesis
    by (intro exI [of _ e] exI [of _ s] exI [of _ rq'] exI [of _ r'])
      (simp add: eng_view_def eng_stage_def mppe_take split: if_splits)
qed



section \<open>Methods 0 to 3 from end to end\<close>

definition m03_engine :: "int \<Rightarrow> edhoc03_creds \<Rightarrow> edhoc03_peer \<Rightarrow> eng_t" where
  "m03_engine m ue pr = (eng_zero m)\<lparr>eng_c3 := edhoc03_init_initiator m ue pr\<rparr>"

lemma queue_outgoing_short:
  assumes "length m \<le> 997" "length m \<le> length (eng_out e)" "1 \<le> which" "which \<le> 4"
  shows "eng_queue_outgoing (eng_put e (Some m)) which =
    (0 # m, (count_frag_guarded which ((eng_put e (Some m))\<lparr>eng_cur_out_msg := which,
       eng_msg_bytes := (eng_msg_bytes e)[nat which := length m]\<rparr>))\<lparr>eng_out_len := 0, eng_out_pos := 0\<rparr>)"
  using assms by (simp add: eng_queue_outgoing_def eng_put_def Let_def poke_def)

lemma react_start03:
  assumes m: "m \<le> 3" and mk: "edhoc03_i_make_msg1 C (edhoc03_init_initiator m ue pr) E4_MAX_MSG r = Some (E3_OK, I, Some m1, r')"
    "length m1 = 34"
  obtains e where "eng_react C (m03_engine m ue pr) [1] r = Some (Some (0 # m1), e, r')" "eng_c3 e = I" "eng_step e = 1"
    "eng_classical e = 1" "eng_idle e" "eng_in_len e = 0" "eng_out_pos e = 0" "length (eng_out e) = 8192" "eng_msg_bytes e = [0, 34, 0, 0, 0]"
proof -
  let ?e = "(m03_engine m ue pr)\<lparr>eng_c3 := I, eng_step := 1, eng_cur_in_msg := 2\<rparr>"
  have q: "length m1 \<le> 997" "length m1 \<le> length (eng_out ?e)" using mk(2) by (simp_all add: m03_engine_def eng_zero_def)
  have "eng_react C (m03_engine m ue pr) [1] r = (case eng_queue_outgoing (eng_put ?e (Some m1)) 1 of (w, e) \<Rightarrow> Some (Some w, e, r'))"
    using mk m by (simp add: eng_react_def eng_consume_def eng_step0_def eng_put_steps m03_engine_def eng_zero_def Let_def)
  note this [unfolded queue_outgoing_short [OF q order_refl, simplified], simplified]
  then show thesis
    by (rule that) (use mk(2) m in \<open>simp_all add: eng_put_def m03_engine_def eng_zero_def eng_idle_def\<close>)
qed

lemma react_msg2_03:
  assumes e: "eng_classical e = 1" "eng_step e = 1" "eng_idle e" "eng_in_len e = 0" "length (eng_out e) = 8192"
    and h: "edhoc03_i_handle_msg2 C (eng_c3 e) m2 E4_MAX_MSG r = Some (E3_OK, I, Some m3, r')" "length m3 \<le> 997"
  obtains e' where "eng_react C e (0 # m2) r = Some (Some (0 # m3), e', r')" "eng_c3 e' = I" "eng_step e' = 2"
    "eng_msk e' = slice 0 64 (edhoc03_ctx.msk I)" "eng_msg_bytes e' = (eng_msg_bytes e)[2 := length m2, 3 := length m3]"
proof -
  define c where "c = (if 0 < length m2 then count_frag_guarded (eng_cur_in_msg e) e else e)"
  have cs: "eng_consume e (0 # m2) = (0, c, Some m2, False)" using e(4) by (simp add: eng_consume_def c_def Let_def)
  have c: "eng_msg_bytes c = eng_msg_bytes e" "eng_out c = eng_out e" "eng_classical c = 1" "eng_c3 c = eng_c3 e" "eng_step c = 1"
    using e by (simp_all add: c_def)
  let ?e = "c\<lparr>eng_msg_bytes := (eng_msg_bytes e)[2 := length m2], eng_c3 := I, eng_step := 2, eng_cur_in_msg := 4,
    eng_msk := take 64 (edhoc03_ctx.msk I)\<rparr>"
  have q: "length m3 \<le> 997" "length m3 \<le> length (eng_out ?e)" using e(5) c(2) h(2) by simp_all
  have "eng_react C e (0 # m2) r = (case eng_queue_outgoing (eng_put ?e (Some m3)) 3 of (w, e) \<Rightarrow> Some (Some w, e, r'))"
    using e(3) h c by (simp add: eng_react_def cs eng_step1_def eng_idle_def Let_def eng_put_steps)
  note this [unfolded queue_outgoing_short [OF q, of 3, simplified], simplified]
  then show thesis
    by (rule that) (simp_all add: eng_put_def)
qed

lemma m03_converses:
  assumes ok: "crypto_ok C" and ue: "creds03_ok C ue" and srv: "creds03_ok C (server03 inst)" and m: "edhoc03_method_valid m"
    and pin: "ue03_pub inst = pub_of ue" and have03: "have03 inst \<noteq> 0"
  shows "\<exists>e s rq' r'. converse C inst rq 2 (m03_engine m ue (pub_of (server03 inst))) zero_session [1] r = Some (e, s, rq', r') \<and>
    code rq' = PW_EAP_SUCCESS \<and> reply_attrs rq' = reply_attrs rq @ mppe (eng_msk e) \<and>
    eng_msk e = slice 0 64 (edhoc03_ctx.msk (sess_ctx03 s)) \<and> edhoc03_ctx.emsk (eng_c3 e) = edhoc03_ctx.emsk (sess_ctx03 s) \<and>
    length (edhoc03_ctx.emsk (sess_ctx03 s)) = 64 \<and> eng_msg_bytes e = [0, 34, if m = 0 \<or> m = 2 then 147 else 91, if m = 0 \<or> m = 1 then 115 else 59, 0]"
proof (rule run_method_steps_cap [OF ok ue srv m, of E4_MAX_MSG r], simp)
  fix I1 R1 I2 R2 m1 m2 m3 r1 r2
  assume st: "edhoc03_i_make_msg1 C (edhoc03_init_initiator m ue (pub_of (server03 inst))) E4_MAX_MSG r = Some (E3_OK, I1, Some m1, r1)"
    "edhoc03_r_handle_msg1 C (edhoc03_init_responder (server03 inst) (pub_of ue)) m1 E4_MAX_MSG r1 = Some (E3_OK, R1, Some m2, r2)"
    "edhoc03_i_handle_msg2 C I1 m2 E4_MAX_MSG r2 = Some (E3_OK, I2, Some m3, r2)"
    "edhoc03_r_handle_msg3 C R1 m3 E4_MAX_MSG r2 = Some (E3_OK, R2, Some [], r2)"
    and len: "length m1 = 34" "length m2 = (if method_resp_auth m = 1 then 91 else 147)"
      "length m3 = (if method_init_auth m = 1 then 59 else 115)"
    and agree: "edhoc03_ctx.msk I2 = edhoc03_ctx.msk R2" "edhoc03_ctx.emsk I2 = edhoc03_ctx.emsk R2" "edhoc03_ctx.is_done R2 = 1" "length (edhoc03_ctx.emsk R2) = 64"
    and m1: "m1 ! 0 = of_int m"
  have mm: "0 \<le> m" "m \<le> 3" using m by (simp_all add: edhoc03_method_valid_def)
  have m10: "unat (m1 ! 0) \<le> 3"
  proof -
    have "m = 0 \<or> m = 1 \<or> m = 2 \<or> m = 3" using mm by auto
    then show ?thesis unfolding m1 by auto
  qed
  have ln: "length m2 \<le> 997" "length m3 \<le> 997" using len by auto
  obtain e1 where a: "eng_react C (m03_engine m ue (pub_of (server03 inst))) [1] r = Some (Some (0 # m1), e1, r1)" "eng_c3 e1 = I1"
    "eng_step e1 = 1" "eng_classical e1 = 1" "eng_idle e1" "eng_in_len e1 = 0" "eng_out_pos e1 = 0" "length (eng_out e1) = 8192"
    "eng_msg_bytes e1 = [0, 34, 0, 0, 0]"
    by (rule react_start03 [OF mm(2) st(1) len(1)])
  obtain e2 where b: "eng_react C e1 (0 # m2) r2 = Some (Some (0 # m3), e2, r2)" "eng_c3 e2 = I2"
    "eng_msk e2 = slice 0 64 (edhoc03_ctx.msk I2)" "eng_msg_bytes e2 = (eng_msg_bytes e1)[2 := length m2, 3 := length m3]"
    by (rule react_msg2_03 [OF a(4,3,5,6,8) st(3) [folded a(2)] ln(2)])
  note c = classical_msg1 [OF have03 len(1) m10 ln(1) st(2) [folded pin]]
  have "edhoc03_ctx.is_done R2 \<noteq> 0" using agree by simp
  note d = classical_msg3 [OF st(4) this]
  have "converse C inst rq 2 (m03_engine m ue (pub_of (server03 inst))) zero_session [1] r =
      Some (e2, classical_opened R2, rq\<lparr>code := PW_EAP_SUCCESS, reply_attrs := reply_attrs rq @ mppe (edhoc03_ctx.msk R2)\<rparr>, r2)"
    using a(1) b(1) by (simp add: eval_nat_numeral server_turn_def c d)
  then show ?thesis
    using b a(9) agree len
    by (simp add: mppe_take classical_opened_def method_resp_auth_def method_init_auth_def)
qed

text \<open>
  C16.  Conversations of the methods 0 to 3 succeed.  With correct primitives, provisioned credentials
  and the classical credentials configured, the engine and the module reach EAP-Success in two round
  trips, without message 4; the keys of the reply are the halves of the engine's MSK and
  the EMSKs agree.
\<close>

theorem eap_edhoc03_succeeds:
  assumes ok: "crypto_ok C" and ue: "creds03_ok C ue" and srv: "creds03_ok C (server03 inst)" and m: "edhoc03_method_valid m"
    and pin: "ue03_pub inst = pub_of ue" and have03: "have03 inst \<noteq> 0"
  shows "\<exists>e s rq' r'. converse C inst rq 2 (m03_engine m ue (pub_of (server03 inst))) zero_session [1] r = Some (e, s, rq', r') \<and>
    code rq' = PW_EAP_SUCCESS \<and> reply_attrs rq' = reply_attrs rq @ mppe (eng_msk e) \<and>
    eng_msk e = slice 0 64 (edhoc03_ctx.msk (sess_ctx03 s)) \<and> edhoc03_ctx.emsk (eng_c3 e) = edhoc03_ctx.emsk (sess_ctx03 s) \<and>
    eng_msg_bytes e = [0, 34, if m = 0 \<or> m = 2 then 147 else 91, if m = 0 \<or> m = 1 then 115 else 59, 0]"
  using m03_converses [OF assms, of rq r] by blast

theorem eap_edhoc03_succeeds_witness:
  "\<exists>e s rq' r'. converse toy toy_inst toy_rq 2 (m03_engine 3 (toy_creds03 1) (pub_of (toy_creds03 2))) zero_session [1] () = Some (e, s, rq', r') \<and>
     code rq' = PW_EAP_SUCCESS \<and> reply_attrs rq' = mppe (eng_msk e)"
proof -
  have i: "server03 toy_inst = toy_creds03 2" "ue03_pub toy_inst = pub_of (toy_creds03 1)" "have03 toy_inst = 1"
    by (simp_all add: toy_inst_def)
  show ?thesis
    using eap_edhoc03_succeeds [OF toy_ok toy_creds03_ok [of 1], of toy_inst 3 toy_rq "()"] toy_creds03_ok [of 2]
    by (auto simp: i toy_rq_def edhoc03_method_valid_def)
qed

end
