(* ===== verification/Provision.thy ===== *)
theory Provision
  imports Eap_Success
begin

text \<open>
  The provisioning tools \<open>src/edhoc4/keygen.c\<close> and \<open>src/edhoc4/keygen03.c\<close>: they generate the
  credentials of server and UE and store both halves under one directory, from which the
  FreeRADIUS module and the engine load them.  The functions return the exit code of \<open>main\<close>, the
  files and the generator state; \<open>stk\<close> is what the uninitialised structures held.
\<close>

section \<open>The tools\<close>

definition save_pair :: "fsys \<Rightarrow> string \<Rightarrow> string \<Rightarrow> edhoc4_creds \<Rightarrow> int \<times> fsys" where
  "save_pair fs dir name c =
     (case edhoc4_creds_save fs (Some (cred_path dir (name @ ''.creds''))) (Some c) of (rc, fs) \<Rightarrow>
      if rc \<noteq> E4_OK then (1, fs)
      else case edhoc4_pub_save fs (Some (cred_path dir (name @ ''.pub''))) (Some c) of (rc, fs) \<Rightarrow>
      if rc \<noteq> E4_OK then (1, fs) else (0, fs))"

definition keygen ::
  "'r crypto \<Rightarrow> fsys \<Rightarrow> string option \<Rightarrow> edhoc4_creds \<Rightarrow> edhoc4_creds \<Rightarrow> 'r \<Rightarrow> (int \<times> fsys) \<times> 'r" where
  "keygen C fs argv1 stk stk' r =
     (let dir = (case argv1 of None \<Rightarrow> ''.'' | Some d \<Rightarrow> d)
      in if sodium_init C < 0 then ((1, fs), r)
      else case edhoc4_gen_creds C stk (Some [0x00, 0x00, 0x02]) r of ((rc, srv), r) \<Rightarrow>
      if rc \<noteq> E4_OK then ((1, fs), r)
      else case edhoc4_gen_creds C stk' (Some [0x00, 0x00, 0x01]) r of ((rc, ue), r) \<Rightarrow>
      if rc \<noteq> E4_OK then ((1, fs), r)
      else case save_pair fs dir ''server'' srv of (rc, fs) \<Rightarrow>
      if rc \<noteq> 0 then ((1, fs), r)
      else case save_pair fs dir ''ue'' ue of (rc, fs) \<Rightarrow>
      if rc \<noteq> 0 then ((1, fs), r) else ((0, fs), r))"

definition save_pair03 :: "fsys \<Rightarrow> string \<Rightarrow> string \<Rightarrow> edhoc03_creds option \<Rightarrow> int \<times> fsys" where
  "save_pair03 fs dir name c =
     (case edhoc03_creds_save fs (Some (cred_path dir (name @ ''.creds''))) c of (rc, fs) \<Rightarrow>
      if rc \<noteq> E3_OK then (1, fs)
      else case edhoc03_pub_save fs (Some (cred_path dir (name @ ''.pub''))) c of (rc, fs) \<Rightarrow>
      if rc \<noteq> E3_OK then (1, fs) else (0, fs))"

definition keygen03 ::
  "'r crypto \<Rightarrow> fsys \<Rightarrow> string option \<Rightarrow> edhoc03_creds \<Rightarrow> edhoc03_creds \<Rightarrow> 'r \<Rightarrow> (int \<times> fsys) \<times> 'r" where
  "keygen03 C fs argv1 stk stk' r =
     (let dir = (case argv1 of None \<Rightarrow> ''.'' | Some d \<Rightarrow> d)
      in if sodium_init C < 0 then ((1, fs), r)
      else case edhoc03_gen_creds C (Some stk) (Some [0x00, 0x00, 0x02]) r of ((rc, srv), r) \<Rightarrow>
      if rc \<noteq> E3_OK then ((1, fs), r)
      else case edhoc03_gen_creds C (Some stk') (Some [0x00, 0x00, 0x01]) r of ((rc, ue), r) \<Rightarrow>
      if rc \<noteq> E3_OK then ((1, fs), r)
      else case save_pair03 fs dir ''server03'' srv of (rc, fs) \<Rightarrow>
      if rc \<noteq> 0 then ((1, fs), r)
      else case save_pair03 fs dir ''ue03'' ue of (rc, fs) \<Rightarrow>
      if rc \<noteq> 0 then ((1, fs), r) else ((0, fs), r))"

section \<open>What they store\<close>

lemma save_blob_full:
  "writable fs p \<Longrightarrow> length b \<le> room fs \<Longrightarrow> save_blob fs p b = (True, fs\<lparr>files := (files fs)(p \<mapsto> b)\<rparr>)"
  by (simp add: save_blob_def Let_def)

text \<open>Sizes of classical credentials, and that their octets determine them.\<close>

lemma creds03_ok_bytes:
  assumes ok: "crypto_ok C" and c: "creds03_ok C c"
  shows "length (creds03_bytes c) = 163" "creds03_of_bytes (creds03_bytes c) = c"
    "peer03_of_bytes (peer03_bytes (pub_of c)) = pub_of c" "length (peer03_bytes (pub_of c)) = 64"
    "slice 0 32 (edhoc03_creds.sig_vk c) = edhoc03_creds.sig_vk c" "slice 0 32 (dh_pk c) = dh_pk c"
proof -
  obtain r where kp: "fst (crypto_sign_keypair C r) = (edhoc03_creds.sig_vk c, edhoc03_creds.sig_sk c)" using c by (auto simp: creds03_ok_def)
  obtain r' where "crypto_sign_keypair C r = ((edhoc03_creds.sig_vk c, edhoc03_creds.sig_sk c), r')" using kp by (metis prod.collapse)
  then have l: "length (edhoc03_creds.sig_vk c) = 32" "length (edhoc03_creds.sig_sk c) = 64"
    using crypto_okD(4) [OF ok] unfolding ed25519_ok_def by blast+
  have d: "length (dh_sk c) = 32" "length (dh_pk c) = 32" "length (edhoc03_creds.id_cred c) = 3"
    using c crypto_okD(3) [OF ok] by (simp_all add: creds03_ok_def x25519_base_len)
  show "length (creds03_bytes c) = 163" "creds03_of_bytes (creds03_bytes c) = c"
    "peer03_of_bytes (peer03_bytes (pub_of c)) = pub_of c" "length (peer03_bytes (pub_of c)) = 64"
    "slice 0 32 (edhoc03_creds.sig_vk c) = edhoc03_creds.sig_vk c" "slice 0 32 (dh_pk c) = dh_pk c"
    using l d by (simp_all add: creds03_bytes_def creds03_of_bytes_def peer03_bytes_def peer03_of_bytes_def slice_def pub_of_def)
qed

lemma save_pair_stores:
  assumes "creds_sized c" "\<And>p. writable fs p" "7523 \<le> room fs"
  shows "save_pair fs dir name c = (0, fs\<lparr>files := (files fs)(cred_path dir (name @ ''.creds'') \<mapsto> creds_bytes c,
    cred_path dir (name @ ''.pub'') \<mapsto> edhoc4_creds.kem_pk c)\<rparr>)"
  using assms length_creds_bytes [OF assms(1)]
  by (simp add: save_pair_def edhoc4_creds_save_def edhoc4_pub_save_def save_blob_full creds_sized_def)

lemma save_pair03_stores:
  assumes "crypto_ok C" "creds03_ok C c" "\<And>p. writable fs p" "7523 \<le> room fs"
  shows "save_pair03 fs dir name (Some c) = (0, fs\<lparr>files := (files fs)(cred_path dir (name @ ''.creds'') \<mapsto> creds03_bytes c,
    cred_path dir (name @ ''.pub'') \<mapsto> peer03_bytes (pub_of c))\<rparr>)"
proof -
  have "\<lparr>pub_sig_vk = slice 0 32 (edhoc03_creds.sig_vk c), pub_dh_pk = slice 0 32 (dh_pk c)\<rparr> = pub_of c"
    unfolding creds03_ok_bytes(5,6) [OF assms(1,2)] by (simp add: pub_of_def)
  then show ?thesis
    using assms creds03_ok_bytes(1,4) [OF assms(1,2)]
    by (simp add: save_pair03_def edhoc03_creds_save_def edhoc03_pub_save_def save_blob_full Let_def del: slice_0)
qed

lemma keygen_stores:
  assumes ok: "crypto_ok C" and fs: "\<And>p. writable fs p" "7523 \<le> room fs"
  obtains srv ue r' where "creds_ok C srv" "creds_ok C ue"
    "keygen C fs (Some dir) stk stk' r = ((0, fs\<lparr>files := (files fs)(
       cred_path dir ''server.creds'' \<mapsto> creds_bytes srv, cred_path dir ''server.pub'' \<mapsto> edhoc4_creds.kem_pk srv,
       cred_path dir ''ue.creds'' \<mapsto> creds_bytes ue, cred_path dir ''ue.pub'' \<mapsto> edhoc4_creds.kem_pk ue)\<rparr>), r')"
proof -
  have i: "length [0, 0, 2 :: byte] = 3" "length [0, 0, 1 :: byte] = 3" by simp_all
  obtain srv r1 where s: "edhoc4_gen_creds C stk (Some [0, 0, 2]) r = ((E4_OK, srv), r1)" "creds_ok C srv"
    using edhoc4_gen_creds_ok [OF ok i(1)] by blast
  obtain ue r2 where u: "edhoc4_gen_creds C stk' (Some [0, 0, 1]) r1 = ((E4_OK, ue), r2)" "creds_ok C ue"
    using edhoc4_gen_creds_ok [OF ok i(2)] by blast
  show thesis
    by (rule that [OF s(2) u(2)])
      (use s(1) u(1) fs crypto_okD(8) [OF ok] creds_ok_sized [OF ok s(2)] creds_ok_sized [OF ok u(2)] in
       \<open>simp add: keygen_def save_pair_stores\<close>)
qed

lemma keygen03_stores:
  assumes ok: "crypto_ok C" and fs: "\<And>p. writable fs p" "7523 \<le> room fs"
  obtains srv ue r' where "creds03_ok C srv" "creds03_ok C ue"
    "keygen03 C fs (Some dir) stk stk' r = ((0, fs\<lparr>files := (files fs)(
       cred_path dir ''server03.creds'' \<mapsto> creds03_bytes srv, cred_path dir ''server03.pub'' \<mapsto> peer03_bytes (pub_of srv),
       cred_path dir ''ue03.creds'' \<mapsto> creds03_bytes ue, cred_path dir ''ue03.pub'' \<mapsto> peer03_bytes (pub_of ue))\<rparr>), r')"
proof -
  have i: "length [0, 0, 2 :: byte] = 3" "length [0, 0, 1 :: byte] = 3" by simp_all
  obtain srv r1 where s: "edhoc03_gen_creds C (Some stk) (Some [0, 0, 2]) r = ((E3_OK, Some srv), r1)" "creds03_ok C srv"
    using edhoc03_gen_creds_ok [OF ok i(1)] by blast
  obtain ue r2 where u: "edhoc03_gen_creds C (Some stk') (Some [0, 0, 1]) r1 = ((E3_OK, Some ue), r2)" "creds03_ok C ue"
    using edhoc03_gen_creds_ok [OF ok i(2)] by blast
  show thesis
    by (rule that [OF s(2) u(2)])
      (use s(1) u(1) fs crypto_okD(8) [OF ok] in \<open>simp add: keygen03_def save_pair03_stores [OF ok s(2)] save_pair03_stores [OF ok u(2)]\<close>)
qed

text \<open>Names below a directory of at most 400 characters are not truncated, so they are distinct.\<close>

lemma cred_path_inj:
  "length dir \<le> 400 \<Longrightarrow> length a \<le> 100 \<Longrightarrow> length b \<le> 100 \<Longrightarrow> cred_path dir a = cred_path dir b \<longleftrightarrow> a = b"
  by (simp add: cred_path_def)

end
