(* ===== verification/Bench_Radius.thy ===== *)
theory Bench_Radius
  imports Prelude
begin

text \<open>
  The RADIUS client of \<open>src/benchmark/e2e_radius_bench.c\<close>: attributes, the Access-Request, the reply,
  and the exchange with retransmission.  OpenSSL's HMAC-MD5 is the parameter \<open>hmac\<close> (key,
  message).  \<open>None\<close> stands for a write past the end of a buffer.
\<close>

abbreviation (input) RAD_MAX_PKT :: nat where "RAD_MAX_PKT \<equiv> 4096"
abbreviation (input) EAP_CHUNK :: nat where "EAP_CHUNK \<equiv> 253"
abbreviation (input) RAD_ACCESS_REQUEST :: byte where "RAD_ACCESS_REQUEST \<equiv> 1"
abbreviation (input) RAD_ATTR_USER_NAME :: byte where "RAD_ATTR_USER_NAME \<equiv> 1"
abbreviation (input) RAD_ATTR_NAS_IP_ADDRESS :: byte where "RAD_ATTR_NAS_IP_ADDRESS \<equiv> 4"
abbreviation (input) RAD_ATTR_NAS_PORT :: byte where "RAD_ATTR_NAS_PORT \<equiv> 5"
abbreviation (input) RAD_ATTR_STATE :: byte where "RAD_ATTR_STATE \<equiv> 24"
abbreviation (input) RAD_ATTR_EAP_MESSAGE :: byte where "RAD_ATTR_EAP_MESSAGE \<equiv> 79"
abbreviation (input) RAD_ATTR_MESSAGE_AUTH :: byte where "RAD_ATTR_MESSAGE_AUTH \<equiv> 80"

section \<open>Packets\<close>

text \<open>\<open>attrs\<close> is what was written to \<open>attrs[RAD_MAX_PKT]\<close> so far.\<close>

definition put_attr :: "byte \<Rightarrow> bytes \<Rightarrow> bytes \<Rightarrow> bytes option" where
  "put_attr type val attrs =
     (if length attrs + 2 + length val > RAD_MAX_PKT then None
      else Some (attrs @ [type, of_nat (length val + 2)] @ val))"

function put_eap_chunks :: "bytes \<Rightarrow> bytes \<Rightarrow> bytes option" where
  "put_eap_chunks eap attrs =
     (let chunk = (if length eap > EAP_CHUNK then EAP_CHUNK else length eap)
      in case put_attr RAD_ATTR_EAP_MESSAGE (slice 0 chunk eap) attrs of
           None \<Rightarrow> None
         | Some attrs \<Rightarrow> if chunk < length eap then put_eap_chunks (drop chunk eap) attrs else Some attrs)"
  by pat_completeness auto
termination
  by (relation "measure (\<lambda>(eap, _). length eap)") (auto split: if_splits)

declare put_eap_chunks.simps [simp del]

definition build_access_request ::
  "(bytes \<Rightarrow> bytes \<Rightarrow> bytes) \<Rightarrow> bytes \<Rightarrow> bytes \<Rightarrow> byte \<Rightarrow> bytes \<Rightarrow> bytes \<Rightarrow> bytes \<Rightarrow> bytes option" where
  "build_access_request hmac g_secret g_identity rid auth eap state =
     Option.bind (put_attr RAD_ATTR_USER_NAME g_identity []) (\<lambda>attrs.
     Option.bind (put_attr RAD_ATTR_NAS_IP_ADDRESS [127, 0, 0, 1] attrs) (\<lambda>attrs.
     Option.bind (put_attr RAD_ATTR_NAS_PORT [0, 0, 0, 1] attrs) (\<lambda>attrs.
     Option.bind (if length state \<noteq> 0 then put_attr RAD_ATTR_STATE state attrs else Some attrs) (\<lambda>attrs.
     Option.bind (put_eap_chunks eap attrs) (\<lambda>attrs.
     let ma_off_in_attrs = length attrs
     in Option.bind (put_attr RAD_ATTR_MESSAGE_AUTH (zeros 16) attrs) (\<lambda>attrs.
        let plen = 20 + length attrs
        in if plen > RAD_MAX_PKT then None
           else let pkt = [RAD_ACCESS_REQUEST, rid] @ be16 plen @ auth @ attrs
                in Some (poke pkt (20 + ma_off_in_attrs + 2) (hmac g_secret pkt))))))))"

text \<open>The loop of \<open>parse_reply\<close>; \<open>rest\<close> is the packet from \<open>pos\<close> on.  \<open>eap\<close> and \<open>state\<close> are what
  the output arrays of 4096 and 256 octets hold.\<close>

function parse_reply_while :: "bytes \<Rightarrow> bytes \<Rightarrow> bytes \<Rightarrow> (bytes \<times> bytes) option" where
  "parse_reply_while rest eap state =
     (if 2 \<le> length rest then
        let t = rest ! 0;
            l = unat (rest ! 1)
        in if l < 2 \<or> l > length rest then Some (eap, state)
           else
           let v = slice 2 (l - 2) rest
           in if t = RAD_ATTR_EAP_MESSAGE then
                (if length eap + length v > RAD_MAX_PKT then None
                 else parse_reply_while (drop l rest) (eap @ v) state)
              else if t = RAD_ATTR_STATE then
                (if length v > 256 then None else parse_reply_while (drop l rest) eap v)
              else parse_reply_while (drop l rest) eap state
      else Some (eap, state))"
  by pat_completeness auto
termination
  by (relation "measure (\<lambda>(rest, _, _). length rest)") auto

declare parse_reply_while.simps [simp del]

text \<open>The inner \<open>None\<close> is the result \<open>-1\<close>; otherwise code, EAP payload and State.\<close>

definition parse_reply :: "bytes \<Rightarrow> (byte \<times> bytes \<times> bytes) option option" where
  "parse_reply pkt =
     (if length pkt < 20 then Some None
      else case parse_reply_while (drop 20 pkt) [] [] of
             None \<Rightarrow> None
           | Some (eap, state) \<Rightarrow> Some (Some (pkt ! 0, eap, state)))"

section \<open>The exchange\<close>

text \<open>What one round of the loop can meet: loss emulation on the way out, a failing \<open>send\<close>, the
  receive timeout, loss emulation on the way in, or a datagram.\<close>

datatype attempt = Drop_out | Send_failed | Timeout | Drop_in | Received bytes

primrec rad_tries :: "(bytes \<Rightarrow> 'n \<Rightarrow> attempt \<times> 'n) \<Rightarrow> nat \<Rightarrow> bytes \<Rightarrow> nat \<Rightarrow> 'n \<Rightarrow> bytes option \<times> nat \<times> 'n" where
  "rad_tries net 0 req g_retx n = (None, g_retx, n)"
| "rad_tries net (Suc t) req g_retx n =
     (case net req n of (a, n) \<Rightarrow>
        (case a of
           Drop_out \<Rightarrow> rad_tries net t req (g_retx + 1) n
         | Send_failed \<Rightarrow> (None, g_retx, n)
         | Timeout \<Rightarrow> rad_tries net t req (g_retx + 1) n
         | Drop_in \<Rightarrow> rad_tries net t req (g_retx + 1) n
         | Received resp \<Rightarrow> (Some (take RAD_MAX_PKT resp), g_retx, n)))"

definition rad_exchange :: "(bytes \<Rightarrow> 'n \<Rightarrow> attempt \<times> 'n) \<Rightarrow> int \<Rightarrow> bytes \<Rightarrow> nat \<Rightarrow> 'n \<Rightarrow> bytes option \<times> nat \<times> 'n" where
  "rad_exchange net g_max_retx req = rad_tries net (nat (g_max_retx + 1)) req"

section \<open>Requests read back\<close>

text \<open>The attributes of a request as octets.\<close>

definition attr1 :: "byte \<Rightarrow> bytes \<Rightarrow> bytes" where
  "attr1 t v = [t, of_nat (length v + 2)] @ v"

function chunks :: "bytes \<Rightarrow> bytes list" where
  "chunks eap = (if length eap > EAP_CHUNK then take EAP_CHUNK eap # chunks (drop EAP_CHUNK eap) else [eap])"
  by pat_completeness auto
termination
  by (relation "measure length") auto

declare chunks.simps [simp del]

lemma concat_chunks: "concat (chunks eap) = eap"
  by (induction eap rule: chunks.induct) (subst chunks.simps, simp)

lemma chunks_short: "v \<in> set (chunks eap) \<Longrightarrow> length v \<le> 253"
proof (induction eap rule: chunks.induct)
  case (1 eap)
  then show ?case by (subst (asm) (2) chunks.simps) (auto split: if_splits)
qed

lemma length_attr1 [simp]: "length (attr1 t v) = 2 + length v"
  by (simp add: attr1_def)

lemma put_attr_attr1: "put_attr t v a = (if length (a @ attr1 t v) > 4096 then None else Some (a @ attr1 t v))"
  by (simp add: put_attr_def attr1_def)

lemma put_eap_chunks_eq:
  "put_eap_chunks eap a =
     (let b = a @ concat (map (attr1 79) (chunks eap)) in if length b > 4096 then None else Some b)"
proof (induction eap a rule: put_eap_chunks.induct)
  case (1 eap a)
  show ?case
  proof (cases "length eap > 253")
    case True
    have "put_eap_chunks eap a =
        (if length (a @ attr1 79 (take 253 eap)) > 4096 then None else put_eap_chunks (drop 253 eap) (a @ attr1 79 (take 253 eap)))"
      using True by (subst put_eap_chunks.simps) (simp add: put_attr_attr1 Let_def)
    then show ?thesis
      using True "1.IH" [of 253 "a @ attr1 79 (take 253 eap)"]
      by (subst chunks.simps) (auto simp: put_attr_attr1 Let_def)
  next
    case False
    then show ?thesis
      by (subst put_eap_chunks.simps, subst chunks.simps) (simp add: put_attr_attr1 Let_def)
  qed
qed

lemma parse_attr1:
  assumes "length v \<le> 253"
  shows "parse_reply_while (attr1 t v @ rest) eap state =
    (if t = RAD_ATTR_EAP_MESSAGE then
       (if length eap + length v > 4096 then None else parse_reply_while rest (eap @ v) state)
     else if t = RAD_ATTR_STATE then parse_reply_while rest eap v
     else parse_reply_while rest eap state)"
proof -
  have "unat (of_nat (length v + 2) :: byte) = length v + 2" using assms by (simp only: unat_byte_of_nat) simp
  with assms show ?thesis
    by (subst parse_reply_while.simps) (simp add: attr1_def slice_def Let_def)
qed

lemma parse_chunks:
  "\<lbrakk>\<And>v. v \<in> set vs \<Longrightarrow> length v \<le> 253; length eap + length (concat vs) \<le> 4096\<rbrakk> \<Longrightarrow>
   parse_reply_while (concat (map (attr1 RAD_ATTR_EAP_MESSAGE) vs) @ rest) eap state =
     parse_reply_while rest (eap @ concat vs) state"
  by (induction vs arbitrary: eap) (simp_all add: parse_attr1)

lemma parse_end [simp]: "parse_reply_while [] eap state = Some (eap, state)"
  by (simp add: parse_reply_while.simps)

text \<open>All attributes but the last, and the packet with its authenticator still zero.\<close>

definition request_attrs1 :: "bytes \<Rightarrow> bytes \<Rightarrow> bytes \<Rightarrow> bytes" where
  "request_attrs1 ident state eap =
     attr1 RAD_ATTR_USER_NAME ident @ attr1 RAD_ATTR_NAS_IP_ADDRESS [127, 0, 0, 1] @ attr1 RAD_ATTR_NAS_PORT [0, 0, 0, 1] @
     (if state = [] then [] else attr1 RAD_ATTR_STATE state) @ concat (map (attr1 RAD_ATTR_EAP_MESSAGE) (chunks eap))"

definition request_size :: "bytes \<Rightarrow> bytes \<Rightarrow> bytes \<Rightarrow> nat" where
  "request_size ident state eap =
     52 + length ident + (if state = [] then 0 else 2 + length state) + length eap + 2 * length (chunks eap)"

lemma length_concat_attr1: "length (concat (map (attr1 t) vs)) = length (concat vs) + 2 * length vs"
  by (induction vs) simp_all

lemma length_request_attrs1: "length (request_attrs1 ident state eap) + 38 = request_size ident state eap"
  using length_concat_attr1 [of RAD_ATTR_EAP_MESSAGE "chunks eap"] by (simp add: request_attrs1_def request_size_def concat_chunks)

definition request_zeroed :: "byte \<Rightarrow> bytes \<Rightarrow> bytes \<Rightarrow> bytes \<Rightarrow> bytes \<Rightarrow> bytes" where
  "request_zeroed rid auth ident state eap =
     [RAD_ACCESS_REQUEST, rid] @ be16 (request_size ident state eap) @ auth @ request_attrs1 ident state eap @
     attr1 RAD_ATTR_MESSAGE_AUTH (zeros 16)"

lemma build_access_request_eq:
  "build_access_request hmac sec ident rid auth eap state =
     (if request_size ident state eap > 4096 then None
      else Some (poke (request_zeroed rid auth ident state eap) (22 + length (request_attrs1 ident state eap))
             (hmac sec (request_zeroed rid auth ident state eap))))"
proof -
  let ?a = "request_attrs1 ident state eap" and ?n = "request_size ident state eap"
  have n: "length ?a + 38 = ?n" by (rule length_request_attrs1)
  show ?thesis
  proof (cases "?n > 4096")
    case True
    then show ?thesis
      using n
      by (simp add: build_access_request_def put_attr_attr1 put_eap_chunks_eq Let_def request_attrs1_def split: if_splits)
  next
    case False
    show ?thesis
      using False n
      by (simp add: build_access_request_def put_attr_attr1 put_eap_chunks_eq Let_def request_attrs1_def request_zeroed_def
          split: if_splits)
  qed
qed

lemma chunks_count: "253 * length (chunks eap) \<le> length eap + 253"
proof (induction eap rule: chunks.induct)
  case (1 eap)
  then show ?case by (subst chunks.simps) auto
qed

text \<open>
  Requests of the benchmark client.  The packet is built exactly when it fits the 4096-octet
  buffers, which holds for every EAP packet the engine can produce; its length field is its
  length, \<open>parse_reply\<close> reads back the EAP payload, split into attributes of at most 253
  octets, and the State; and its Message-Authenticator is the HMAC of the packet with that field
  zero.
\<close>

theorem bench_request_roundtrip:
  assumes len: "length ident \<le> 253" "length state \<le> 253" "length auth = 16" and mac: "\<And>m. length (hmac sec m) = 16"
  shows "(if request_size ident state eap > 4096 then build_access_request hmac sec ident rid auth eap state = None
     else \<exists>pkt. build_access_request hmac sec ident rid auth eap state = Some pkt \<and>
       length pkt = request_size ident state eap \<and> get16 pkt 2 = length pkt \<and>
       parse_reply pkt = Some (Some (RAD_ACCESS_REQUEST, eap, state)) \<and>
       drop (length pkt - 16) pkt = hmac sec (take (length pkt - 16) pkt @ zeros 16)) \<and>
    (length eap \<le> 1005 \<longrightarrow> request_size ident state eap \<le> 4096)"
proof -
  let ?a = "request_attrs1 ident state eap" and ?n = "request_size ident state eap" and ?z = "request_zeroed rid auth ident state eap"
  have n: "length ?a + 38 = ?n" by (rule length_request_attrs1)
  define h where "h = [RAD_ACCESS_REQUEST, rid] @ be16 ?n @ auth @ ?a @ [RAD_ATTR_MESSAGE_AUTH, 18]"
  have z: "?z = h @ zeros 16" by (simp add: request_zeroed_def attr1_def h_def)
  have lh: "length h = 22 + length ?a" using len by (simp add: h_def)
  have p: "poke ?z (22 + length ?a) (hmac sec ?z) = h @ hmac sec ?z"
    using lh mac [of ?z] by (simp add: z poke_def)
  have parse: "parse_reply (h @ hmac sec ?z) = Some (Some (RAD_ACCESS_REQUEST, eap, state))" if "?n \<le> 4096"
  proof -
    have "[RAD_ATTR_MESSAGE_AUTH, 18] @ hmac sec ?z = attr1 RAD_ATTR_MESSAGE_AUTH (hmac sec ?z)" using mac [of ?z] by (simp add: attr1_def)
    then have "drop 20 (h @ hmac sec ?z) = ?a @ attr1 RAD_ATTR_MESSAGE_AUTH (hmac sec ?z)" using len by (simp add: be16_def h_def)
    moreover have "parse_reply_while (?a @ attr1 RAD_ATTR_MESSAGE_AUTH (hmac sec ?z)) [] [] = Some (eap, state)"
      using len mac [of ?z] that chunks_short [of _ eap] parse_attr1 [of "hmac sec ?z" RAD_ATTR_MESSAGE_AUTH "[]"]
      by (cases "state = []") (simp_all add: request_attrs1_def parse_attr1 parse_chunks concat_chunks request_size_def)
    ultimately show ?thesis using lh by (simp add: parse_reply_def) (simp add: h_def)
  qed
  have g: "get16 (h @ hmac sec ?z) 2 = ?n" if "?n \<le> 4096"
    using that get16_append_be16 [of ?n "auth @ ?a @ [RAD_ATTR_MESSAGE_AUTH, 18] @ hmac sec ?z"]
      get16_append_right [of "[RAD_ACCESS_REQUEST, rid]" 2] by (simp add: h_def)
  have size: "?n \<le> 4096" if "length eap \<le> 1005"
    using that len chunks_count [of eap] by (simp add: request_size_def)
  show ?thesis
  proof (intro conjI impI size)
    show "if ?n > 4096 then build_access_request hmac sec ident rid auth eap state = None
     else \<exists>pkt. build_access_request hmac sec ident rid auth eap state = Some pkt \<and> length pkt = ?n \<and> get16 pkt 2 = length pkt \<and>
       parse_reply pkt = Some (Some (RAD_ACCESS_REQUEST, eap, state)) \<and>
       drop (length pkt - 16) pkt = hmac sec (take (length pkt - 16) pkt @ zeros 16)"
    proof (cases "?n > 4096")
      case False
      have "length (h @ hmac sec ?z) = ?n" using lh n mac [of ?z] by simp
      moreover have "drop (?n - 16) (h @ hmac sec ?z) = hmac sec ?z" "take (?n - 16) (h @ hmac sec ?z) = h"
        using lh n by (simp_all only: drop_append take_append, simp_all)
      ultimately show ?thesis
        using False parse g
        by (simp only: build_access_request_eq p if_False option.inject simp_thms) (simp add: z)
    qed (simp add: build_access_request_eq)
  qed
qed

theorem bench_request_roundtrip_witness:
  "\<exists>pkt. build_access_request (\<lambda>k m. zeros 16) (ascii ''testing123'') (ascii ''edhoc-ue'') 7 (zeros 16) [2, 1, 0, 5, 1] [9] = Some pkt \<and>
     length pkt = 70 \<and> parse_reply pkt = Some (Some (1, [2, 1, 0, 5, 1], [9]))"
  using bench_request_roundtrip [of "ascii ''edhoc-ue''" "[9]" "zeros 16" "\<lambda>k m. zeros 16" "ascii ''testing123''" "[2, 1, 0, 5, 1]" 7]
  by (auto simp: request_size_def chunks.simps)

section \<open>Retransmission\<close>

text \<open>The outcomes of the first \<open>k\<close> rounds, as if each were tried.\<close>

primrec rounds :: "(bytes \<Rightarrow> 'n \<Rightarrow> attempt \<times> 'n) \<Rightarrow> bytes \<Rightarrow> nat \<Rightarrow> 'n \<Rightarrow> attempt list" where
  "rounds net req 0 n = []"
| "rounds net req (Suc k) n = (case net req n of (a, n) \<Rightarrow> a # rounds net req k n)"

definition lost :: "attempt \<Rightarrow> bool" where
  "lost a \<longleftrightarrow> a = Drop_out \<or> a = Timeout \<or> a = Drop_in"

lemma rad_tries_spec:
  "(case rad_tries net k req x n of (res, x', n') \<Rightarrow>
      (let bad = takeWhile lost (rounds net req k n); rest = dropWhile lost (rounds net req k n)
       in x' = x + length bad \<and>
          res = (case rest of Received d # _ \<Rightarrow> Some (take RAD_MAX_PKT d) | _ \<Rightarrow> None)))"
proof (induction k arbitrary: x n)
  case (Suc k)
  obtain a n1 where a: "net req n = (a, n1)" by fastforce
  from Suc [of n1 "x + 1"] show ?case
    by (cases a) (auto simp: a lost_def Let_def split: prod.splits)
qed simp

lemma length_rounds: "length (rounds net req k n) = k"
  by (induction k arbitrary: n) (simp_all split: prod.split)

text \<open>
  The exchange ends.  \<open>rad_exchange\<close> makes at most \<open>g_max_retx + 1\<close> attempts, none when that is not
  positive; it returns the first datagram that arrives, cut to the 4096-octet buffer, and fails when
  sending fails before that or when every attempt is lost; the retransmission counter grows by the number of
  attempts lost before.
\<close>

theorem rad_exchange_bounded:
  "\<exists>res x' n'. rad_exchange net g_max_retx req x n = (res, x', n') \<and>
    (let outcomes = rounds net req (nat (g_max_retx + 1)) n; bad = takeWhile lost outcomes
     in x' = x + length bad \<and> length bad \<le> nat (g_max_retx + 1) \<and>
        res = (if length bad = nat (g_max_retx + 1) then None
               else case outcomes ! length bad of Received d \<Rightarrow> Some (take RAD_MAX_PKT d) | _ \<Rightarrow> None))"
proof -
  let ?k = "nat (g_max_retx + 1)"
  let ?o = "rounds net req ?k n"
  have drop: "dropWhile lost ?o = drop (length (takeWhile lost ?o)) ?o" by (rule dropWhile_eq_drop)
  have le: "length (takeWhile lost ?o) \<le> ?k" using length_takeWhile_le [of lost ?o] by (simp add: length_rounds)
  have hd: "dropWhile lost ?o = ?o ! length (takeWhile lost ?o) # drop (Suc (length (takeWhile lost ?o))) ?o"
    if "length (takeWhile lost ?o) < ?k"
    unfolding drop using that Cons_nth_drop_Suc [of "length (takeWhile lost ?o)" ?o] by (simp add: length_rounds)
  obtain res x' n' where r: "rad_tries net ?k req x n = (res, x', n')" by (metis surj_pair)
  show ?thesis
  proof (cases "length (takeWhile lost ?o) = ?k")
    case True
    then have "dropWhile lost ?o = []" by (simp add: drop length_rounds)
    with True rad_tries_spec [where net = net and k = ?k and req = req and x = x and n = n] show ?thesis by (simp add: rad_exchange_def r Let_def)
  next
    case False
    with le hd rad_tries_spec [where net = net and k = ?k and req = req and x = x and n = n] show ?thesis
      by (simp add: rad_exchange_def r Let_def split: attempt.splits)
  qed
qed

section \<open>Bounds\<close>

text \<open>No datagram that \<open>rad_exchange\<close> delivers makes \<open>parse_reply\<close> overrun its arrays.\<close>

lemma parse_reply_while_total:
  "length eap + length rest \<le> 4096 \<Longrightarrow> parse_reply_while rest eap state \<noteq> None"
proof (induction rest eap state rule: parse_reply_while.induct)
  case (1 rest eap state)
  have "unat (rest ! 1) < 256" using unsigned_less [of "rest ! 1", where 'a = nat] by simp
  then show ?case using 1 by (subst parse_reply_while.simps) (auto simp: Let_def)
qed

lemma parse_reply_total:
  assumes "length pkt \<le> 4096"
  shows "parse_reply pkt \<noteq> None"
proof -
  have "parse_reply_while (drop 20 pkt) [] [] \<noteq> None" using assms by (intro parse_reply_while_total) simp
  then show ?thesis by (auto simp: parse_reply_def)
qed

end
