(* ===== verification/Ue_Eap.thy ===== *)
theory Ue_Eap
  imports Prelude
begin

text \<open>
  The UE's EAP codec (\<open>src/UERANSIM/src/lib/nas/eap.cpp\<close>) and the EAP element of its NAS messages
  (\<open>IEEapMessage\<close> of \<open>ie6.cpp\<close>), over the readers of \<open>utils/octet_view\<close>.  \<open>mem\<close> is the memory from the start of a
  view to the end of the allocation and \<open>sz\<close> the size the view was given.  \<open>None\<close> of a decoder is undefined
  behaviour: a read past \<open>mem\<close>, or a range whose end lies before its start.
\<close>

text \<open>How a call ends: \<open>Throws\<close> is an exception that leaves it.\<close>

datatype 'a cpp = Return 'a | Throws | Undefined | Diverges

section \<open>Packets\<close>

datatype ECode = REQUEST | RESPONSE | SUCCESS | FAILURE | INITIATE | FINISH

record eap_attributes =
  attributes :: "byte \<Rightarrow> bytes option"
  order_received :: "byte list"
  twoByteLengthAttributes :: "byte set"

datatype eap_body =
    No_type
  | EapAkaPrime byte eap_attributes
  | EapIdentity bytes
  | EapNotification bytes
  | EapEdhoc bytes

record eap_pdu =
  eap_code :: ECode
  eap_pdu_id :: byte
  eap_body :: eap_body

fun code_octet :: "ECode \<Rightarrow> byte" where
  "code_octet REQUEST = 1" | "code_octet RESPONSE = 2" | "code_octet SUCCESS = 3" | "code_octet FAILURE = 4"
| "code_octet INITIATE = 5" | "code_octet FINISH = 6"

definition code_of :: "byte \<Rightarrow> ECode option" where
  "code_of b = (if b = 1 then Some REQUEST else if b = 2 then Some RESPONSE else if b = 3 then Some SUCCESS
     else if b = 4 then Some FAILURE else if b = 5 then Some INITIATE else if b = 6 then Some FINISH else None)"

fun type_octet :: "eap_body \<Rightarrow> byte" where
  "type_octet No_type = 0" | "type_octet (EapAkaPrime _ _) = 50" | "type_octet (EapIdentity _) = 1"
| "type_octet (EapNotification _) = 2" | "type_octet (EapEdhoc _) = 56"

abbreviation (input) AT_PUB_HYBRID :: byte where "AT_PUB_HYBRID \<equiv> 0xA0"

definition empty_attributes :: eap_attributes where
  "empty_attributes = \<lparr>attributes = (\<lambda>_. None), order_received = [], twoByteLengthAttributes = {}\<rparr>"

definition putRawAttribute :: "byte \<Rightarrow> bytes \<Rightarrow> eap_attributes \<Rightarrow> eap_attributes" where
  "putRawAttribute key value a =
     a\<lparr>attributes := (attributes a)(key \<mapsto> value), order_received := order_received a @ [key]\<rparr>"

section \<open>Encoding\<close>

definition encode_attribute :: "eap_attributes \<Rightarrow> byte \<Rightarrow> bytes" where
  "encode_attribute a key =
     (case attributes a key of
        None \<Rightarrow> []
      | Some value \<Rightarrow>
          let lenUnit = (length value + 2 + 3) div 4
          in key # (if key \<in> twoByteLengthAttributes a then be16 lenUnit else [of_nat lenUnit]) @ value)"

fun encode_body :: "eap_body \<Rightarrow> bytes" where
  "encode_body No_type = []"
| "encode_body (EapAkaPrime subType a) = [subType, 0, 0] @ concat (map (encode_attribute a) (order_received a))"
| "encode_body (EapIdentity d) = d"
| "encode_body (EapNotification d) = d"
| "encode_body (EapEdhoc d) = d"

text \<open>The length field is written last and keeps 16 bits.\<close>

definition EncodeEapPdu :: "eap_pdu \<Rightarrow> bytes" where
  "EncodeEapPdu pdu =
     (if eap_body pdu = No_type then [code_octet (eap_code pdu), eap_pdu_id pdu] @ be16 4
      else let b = type_octet (eap_body pdu) # encode_body (eap_body pdu)
           in [code_octet (eap_code pdu), eap_pdu_id pdu] @ be16 (4 + length b) @ b)"

section \<open>Decoding\<close>

text \<open>\<open>read\<close> has no bound check.  \<open>readOctetString\<close> compares the end with the size of the view; its
  inner \<open>None\<close> is the \<open>out_of_range\<close> exception.  The index is at least as large as a negative length is, so the sum does not wrap
  around.\<close>

definition view_read :: "bytes \<Rightarrow> nat \<Rightarrow> byte option" where
  "view_read mem i = (if i < length mem then Some (mem ! i) else None)"

definition readOctetString :: "bytes \<Rightarrow> nat \<Rightarrow> nat \<Rightarrow> int \<Rightarrow> bytes option option" where
  "readOctetString mem sz i len =
     (if len = 0 then Some (Some [])
      else if int i + len > int sz then Some None
      else if len < 0 then None
      else if i + nat len > length mem then None
      else Some (Some (slice i (nat len) mem)))"

text \<open>The attribute loop of EAP-AKA', at index \<open>i\<close> with \<open>readBytes\<close> so far: the attributes and the final
  count, an exception, or undefined behaviour.  An attribute of length 0 asks for a negative range.\<close>

function attributes_while ::
  "bytes \<Rightarrow> nat \<Rightarrow> int \<Rightarrow> nat \<Rightarrow> int \<Rightarrow> eap_attributes \<Rightarrow> (eap_attributes \<times> int) option option" where
  "attributes_while mem sz innerLength i readBytes a =
     (if readBytes < innerLength then
        (case view_read mem i of
           None \<Rightarrow> None
         | Some t \<Rightarrow>
             if t = AT_PUB_HYBRID then
               (case (view_read mem (i + 1), view_read mem (i + 2)) of
                  (Some hi, Some lo) \<Rightarrow>
                    let attributeLength = unat hi * 256 + unat lo
                    in (case readOctetString mem sz (i + 3) (4 * int attributeLength - 3) of
                          None \<Rightarrow> None
                        | Some None \<Rightarrow> Some None
                        | Some (Some v) \<Rightarrow>
                            attributes_while mem sz innerLength (i + 3 + length v) (readBytes + 3 + int (length v))
                              (putRawAttribute t v a))
                | _ \<Rightarrow> None)
             else
               (case view_read mem (i + 1) of
                  None \<Rightarrow> None
                | Some l \<Rightarrow>
                    (case readOctetString mem sz (i + 2) (4 * int (unat l) - 2) of
                       None \<Rightarrow> None
                     | Some None \<Rightarrow> Some None
                     | Some (Some v) \<Rightarrow>
                         attributes_while mem sz innerLength (i + 2 + length v) (readBytes + 2 + int (length v))
                           (putRawAttribute t v a))))
      else Some (Some (a, readBytes)))"
  by pat_completeness auto

termination
  by (relation "measure (\<lambda>(mem, sz, inner, i, rb, a). nat (inner - rb))") auto

declare attributes_while.simps [simp del]

text \<open>The inner \<open>None\<close> is the null pointer, also where an exception was caught.\<close>

definition DecodeEapPdu :: "bytes \<Rightarrow> nat \<Rightarrow> eap_pdu option option" where
  "DecodeEapPdu mem sz =
     (case view_read mem 0 of
        None \<Rightarrow> None
      | Some c \<Rightarrow>
          (case code_of c of
             None \<Rightarrow> Some None
           | Some cd \<Rightarrow>
               (case (view_read mem 1, view_read mem 2, view_read mem 3) of
                  (Some ident, Some hi, Some lo) \<Rightarrow>
                    let len = unat hi * 256 + unat lo
                    in if len = 4 then Some (Some \<lparr>eap_code = cd, eap_pdu_id = ident, eap_body = No_type\<rparr>)
                       else
                       (case view_read mem 4 of
                          None \<Rightarrow> None
                        | Some type \<Rightarrow>
                            let innerLength = int len - 1 - 1 - 2 - 1;
                                raw = readOctetString mem sz 5 innerLength;
                                pdu = (\<lambda>b. \<lparr>eap_code = cd, eap_pdu_id = ident, eap_body = b\<rparr>)
                            in if type = 50 then
                                 (case view_read mem 5 of
                                    None \<Rightarrow> None
                                  | Some subType \<Rightarrow>
                                      if subType < 1 \<or> subType > 14 then Some None
                                      else if length mem < 8 then None
                                      else (case attributes_while mem sz innerLength 8 3 empty_attributes of
                                              None \<Rightarrow> None
                                            | Some None \<Rightarrow> Some None
                                            | Some (Some (a, readBytes)) \<Rightarrow>
                                                if readBytes \<noteq> innerLength then Some None
                                                else Some (Some (pdu (EapAkaPrime subType a)))))
                               else if type = 2 then map_option (map_option (pdu \<circ> EapNotification)) raw
                               else if type = 1 then map_option (map_option (pdu \<circ> EapIdentity)) raw
                               else if type = 56 then map_option (map_option (pdu \<circ> EapEdhoc)) raw
                               else Some None)
                | _ \<Rightarrow> None)))"

section \<open>The NAS element\<close>

text \<open>
  \<open>IEEapMessage::Decode\<close> decodes the packet and then prints it: first all of it, then, from offset
  8, as a sequence of attributes, whatever its type.  The length of an entry is taken from the
  packet; an entry of length 0 does not advance the loop.  In \<open>dump_ies\<close>, \<open>None\<close> is a loop that does
  not end.
\<close>

datatype dump_end = Dumped | Overread

definition ie_total_len :: "bytes \<Rightarrow> nat \<Rightarrow> nat option" where
  "ie_total_len mem offset =
     (case (view_read mem offset, view_read mem (offset + 1)) of
        (Some ie_type, Some l) \<Rightarrow>
          if ie_type = AT_PUB_HYBRID
          then map_option (\<lambda>lo. (unat l * 256 + unat lo) * 4) (view_read mem (offset + 2))
          else Some (unat l * 4)
      | _ \<Rightarrow> None)"

partial_function (option) dump_ies :: "bytes \<Rightarrow> nat \<Rightarrow> nat \<Rightarrow> dump_end option" where
  "dump_ies mem len offset =
     (if offset + 2 \<le> len then
        (case ie_total_len mem offset of
           None \<Rightarrow> Some Overread
         | Some n \<Rightarrow> if offset + n > length mem then Some Overread else dump_ies mem len (offset + n))
      else Some Dumped)"

text \<open>The element with its length \<open>len\<close>: \<open>None\<close> if the call does not return, \<open>Some None\<close> for undefined
  behaviour, else the packet (\<open>None\<close> for the null pointer).\<close>

definition IEEapMessage_Decode :: "bytes \<Rightarrow> nat \<Rightarrow> eap_pdu option option option" where
  "IEEapMessage_Decode mem len =
     (if len > length mem then Some None
      else case DecodeEapPdu mem len of
             None \<Rightarrow> Some None
           | Some eap \<Rightarrow>
               if len \<ge> 6 then
                 (case dump_ies mem len 8 of
                    None \<Rightarrow> None
                  | Some Overread \<Rightarrow> Some None
                  | Some Dumped \<Rightarrow> Some (Some eap))
               else Some (Some eap))"

end
