(* ===== verification/Ue.thy ===== *)
theory Ue
  imports Ue_Eap Frag Edhoc4
begin

text \<open>
  The UE's side of secondary authentication: the EAP-EDHOC state of \<open>NasSm\<close>
  (\<open>src/UERANSIM/src/ue/nas/sm/sm.hpp\<close>) and the functions of \<open>transport.cpp\<close> that work on it.  The
  operations return what is handed to \<open>sendSmMessage\<close> or \<open>sendSmCause\<close>, the state and the generator state;
  \<open>None\<close> where an EDHOC handler overruns a buffer.
\<close>

section \<open>State\<close>

record nas_sm =
  m_edhocCtx :: edhoc4_ctx
  m_edhocCreds :: edhoc4_creds
  m_edhocPeerPub :: bytes
  m_edhocRound :: int
  m_edhocProvisioned :: bool
  m_edhocIn :: bytes
  m_edhocInLen :: nat
  m_edhocInPos :: nat
  m_edhocOut :: bytes
  m_edhocOutLen :: nat
  m_edhocOutPos :: nat

definition nas_sm_init :: nas_sm where
  "nas_sm_init = \<lparr>m_edhocCtx = zero_ctx, m_edhocCreds = zero_creds, m_edhocPeerPub = zeros E4_XWING_PK,
     m_edhocRound = -1, m_edhocProvisioned = False,
     m_edhocIn = zeros E4_MAX_MSG, m_edhocInLen = 0, m_edhocInPos = 0,
     m_edhocOut = zeros E4_MAX_MSG, m_edhocOutLen = 0, m_edhocOutPos = 0\<rparr>"

text \<open>The environment: the two variables read with \<open>getenv\<close>, the files, and the configured SUPI.\<close>

record ue_env =
  env_ue_creds :: "string option"
  env_srv_pub :: "string option"
  ue_files :: fsys
  ue_supi :: "string option"

datatype ESmCause = INSUFFICIENT_RESOURCES | INVALID_MANDATORY_INFORMATION

section \<open>Fragments\<close>

text \<open>The wire data and the new \<open>payloadPos\<close>.\<close>

definition EncodeEdhocFragment :: "bytes \<Rightarrow> nat \<Rightarrow> nat \<Rightarrow> bytes \<times> nat" where
  "EncodeEdhocFragment payload payloadLen payloadPos =
     (if payloadPos > payloadLen then ([], payloadPos)
      else
        let remaining = payloadLen - payloadPos;
            fragCap = (if payloadPos = 0 then E4_EDHOC_FRAG_WIRE_MAX - E4_EDHOC_FRAG_HDR_LEN - E4_EDHOC_FRAG_LEN_LEN
                       else E4_EDHOC_FRAG_WIRE_MAX - E4_EDHOC_FRAG_HDR_LEN);
            fragLen = (if remaining < fragCap then remaining else fragCap);
            more = (remaining > fragLen);
            with_len = (payloadPos = 0 \<and> remaining > fragLen)
        in ([(if more then E4_EDHOC_FRAG_FLAG_MORE else 0) OR (if with_len then E4_EDHOC_FRAG_FLAG_LEN else 0)] @
            (if with_len then be16 payloadLen else []) @ slice payloadPos fragLen payload,
            payloadPos + fragLen))"

text \<open>The result, the three fields of the reassembly, the message (\<open>None\<close> for the null pointer) and \<open>needAck\<close>.  A
  failing call keeps the fields as far as it set them.\<close>

definition ParseEdhocWire :: "bytes \<Rightarrow> bytes \<Rightarrow> nat \<Rightarrow> nat \<Rightarrow> bool \<times> bytes \<times> nat \<times> nat \<times> bytes option \<times> bool" where
  "ParseEdhocWire wire inBuf inLen inPos =
     (if length wire = 0 then (False, inBuf, inLen, inPos, None, False)
      else
        let flags = wire ! 0;
            has_len = (flags AND E4_EDHOC_FRAG_FLAG_LEN \<noteq> 0);
            more = (flags AND E4_EDHOC_FRAG_FLAG_MORE \<noteq> 0);
            total = get16 wire 1;
            pos = (if has_len then 3 else 1)
        in if has_len \<and> length wire < 3 then (False, inBuf, inLen, inPos, None, False)
        else if has_len \<and> (total = 0 \<or> total > E4_MAX_MSG) then (False, inBuf, inLen, inPos, None, False)
        else if has_len \<and> inLen \<noteq> 0 \<and> inLen \<noteq> total then (False, inBuf, inLen, inPos, None, False)
        else
        let (inLen, inPos) = (if has_len \<and> inLen = 0 then (total, 0) else (inLen, inPos));
            payloadLen = length wire - pos
        in if length wire < pos then (False, inBuf, inLen, inPos, None, False)
        else if inLen > 0 then
          (if inPos + payloadLen > inLen then (False, inBuf, inLen, inPos, None, False)
           else
           let inBuf = poke inBuf inPos (drop pos wire);
               inPos = inPos + payloadLen
           in if more then (True, inBuf, inLen, inPos, None, True)
              else if inPos \<noteq> inLen then (False, inBuf, inLen, inPos, None, False)
              else (True, inBuf, 0, 0, Some (slice 0 inLen inBuf), False))
        else if more then (False, inBuf, inLen, inPos, None, False)
        else (True, inBuf, inLen, inPos, Some (drop pos wire), False))"

section \<open>Provisioning\<close>

definition ensureEdhocProvisioned :: "ue_env \<Rightarrow> nas_sm \<Rightarrow> bool \<times> nas_sm" where
  "ensureEdhocProvisioned E u =
     (if m_edhocProvisioned u then (True, u)
      else
        let credsPath = (case env_ue_creds E of None \<Rightarrow> ''/usr/local/etc/edhoc/ue.creds'' | Some p \<Rightarrow> p);
            pubPath = (case env_srv_pub E of None \<Rightarrow> ''/usr/local/etc/edhoc/server.pub'' | Some p \<Rightarrow> p)
        in case edhoc4_creds_load (ue_files E) (Some credsPath) (Some (m_edhocCreds u)) of (rc, c) \<Rightarrow>
        let u = u\<lparr>m_edhocCreds := the c\<rparr> in
        if rc \<noteq> E4_OK then (False, u)
        else case edhoc4_pub_load (ue_files E) (Some pubPath) (Some (m_edhocPeerPub u)) of (rc, pk) \<Rightarrow>
        let u = u\<lparr>m_edhocPeerPub := the pk\<rparr> in
        if rc \<noteq> E4_OK then (False, u)
        else (True, u\<lparr>m_edhocProvisioned := True\<rparr>))"

section \<open>EAP-EDHOC requests\<close>

datatype edhoc_reply = Edhoc_data bytes | Edhoc_cause ESmCause

text \<open>The common end of the branches: an \<open>rc\<close> other than \<open>E4_OK\<close> resets the state for a retry.\<close>

definition edhoc_protocol_error :: "nas_sm \<Rightarrow> edhoc_reply \<times> nas_sm" where
  "edhoc_protocol_error u =
     (Edhoc_cause INSUFFICIENT_RESOURCES,
      u\<lparr>m_edhocRound := -1, m_edhocInLen := 0, m_edhocInPos := 0, m_edhocOutLen := 0, m_edhocOutPos := 0\<rparr>)"

text \<open>The next fragment of the message in \<open>m_edhocOut\<close>, and the message of a handler placed there with its first
  fragment; \<open>E4_ERR_BUF\<close> if there is nothing to send.\<close>

definition edhoc_next_fragment :: "nas_sm \<Rightarrow> bytes \<times> nas_sm" where
  "edhoc_next_fragment u =
     (case EncodeEdhocFragment (m_edhocOut u) (m_edhocOutLen u) (m_edhocOutPos u) of
        (outData, p) \<Rightarrow> (outData, u\<lparr>m_edhocOutPos := p\<rparr>))"

definition edhoc_send_message :: "nas_sm \<Rightarrow> bytes \<Rightarrow> edhoc_reply \<times> nas_sm" where
  "edhoc_send_message u m =
     (case edhoc_next_fragment (u\<lparr>m_edhocOut := poke (m_edhocOut u) 0 m, m_edhocOutLen := length m, m_edhocOutPos := 0\<rparr>) of
        (outData, u) \<Rightarrow> if length outData = 0 then edhoc_protocol_error u else (Edhoc_data outData, u))"

definition edhoc_start :: "'r crypto \<Rightarrow> nas_sm \<Rightarrow> bytes \<Rightarrow> 'r \<Rightarrow> (edhoc_reply \<times> nas_sm \<times> 'r) option" where
  "edhoc_start C u inData r =
     (if \<not> (length inData = 1 \<and> inData ! 0 = 0x01) then Some (Edhoc_cause INVALID_MANDATORY_INFORMATION, u, r)
      else
        case edhoc4_i_make_msg1 C (edhoc4_init_initiator (m_edhocCreds u) (m_edhocPeerPub u)) E4_MAX_MSG r of
          None \<Rightarrow> None
        | Some (rc, c, out, r) \<Rightarrow>
            let u = u\<lparr>m_edhocCtx := c\<rparr>;
                (rep, u) = (if rc = E4_OK then edhoc_send_message (u\<lparr>m_edhocRound := 1\<rparr>) (the out) else edhoc_protocol_error u)
            in Some (rep, u, r))"

definition edhoc_continue :: "'r crypto \<Rightarrow> nas_sm \<Rightarrow> bytes \<Rightarrow> 'r \<Rightarrow> (edhoc_reply \<times> nas_sm \<times> 'r) option" where
  "edhoc_continue C u inData r =
     (case ParseEdhocWire inData (m_edhocIn u) (m_edhocInLen u) (m_edhocInPos u) of
        (ok, inBuf, inLen, inPos, msgData, needAck) \<Rightarrow>
        let u = u\<lparr>m_edhocIn := inBuf, m_edhocInLen := inLen, m_edhocInPos := inPos\<rparr>
        in if \<not> ok then Some (Edhoc_cause INVALID_MANDATORY_INFORMATION, u, r)
        else if needAck then Some (Edhoc_data [0x00], u, r)
        else if m_edhocRound u = 1 then
          (case edhoc4_i_handle_msg2 C (m_edhocCtx u) (the msgData) E4_MAX_MSG r of
             None \<Rightarrow> None
           | Some (rc, c, out, r) \<Rightarrow>
               let u = u\<lparr>m_edhocCtx := c\<rparr>;
                   (rep, u) = (if rc = E4_OK then edhoc_send_message (u\<lparr>m_edhocRound := 2\<rparr>) (the out) else edhoc_protocol_error u)
               in Some (rep, u, r))
        else if m_edhocRound u = 2 then
          (case edhoc4_i_handle_msg4 C (m_edhocCtx u) (the msgData) of
             None \<Rightarrow> None
           | Some (rc, c) \<Rightarrow>
               let u = u\<lparr>m_edhocCtx := c\<rparr>;
                   (rep, u) = (if rc = E4_OK then (Edhoc_data [0x00], u\<lparr>m_edhocRound := 3\<rparr>) else edhoc_protocol_error u)
               in Some (rep, u, r))
        else Some (Edhoc_data [0x00], u, r))"

text \<open>The branch for EAP-EDHOC of \<open>receivePduSessionAuthenticationCommand\<close>.\<close>

definition receive_eap_edhoc :: "'r crypto \<Rightarrow> ue_env \<Rightarrow> nas_sm \<Rightarrow> bytes \<Rightarrow> 'r \<Rightarrow> (edhoc_reply \<times> nas_sm \<times> 'r) option" where
  "receive_eap_edhoc C E u inData r =
     (case ensureEdhocProvisioned E u of (ok, u) \<Rightarrow>
        if \<not> ok then Some (Edhoc_cause INSUFFICIENT_RESOURCES, u, r)
        else if m_edhocOutPos u < m_edhocOutLen u then
          (case edhoc_next_fragment u of (outData, u) \<Rightarrow>
             if length outData = 0 then Some (Edhoc_cause INSUFFICIENT_RESOURCES, u, r)
             else Some (Edhoc_data outData, u, r))
        else if m_edhocRound u < 0 then edhoc_start C u inData r
        else edhoc_continue C u inData r)"

section \<open>Authentication commands\<close>

text \<open>\<open>Auth_complete psi pti eap\<close> is the response given to \<open>sendSmMessage\<close>, \<open>Sm_cause cause pti psi\<close> the call of
  \<open>sendSmCause\<close>.\<close>

datatype sm_output = Auth_complete byte byte eap_pdu | Sm_cause ESmCause byte byte

definition eap_response :: "eap_pdu \<Rightarrow> eap_body \<Rightarrow> eap_pdu" where
  "eap_response rq b = \<lparr>eap_code = RESPONSE, eap_pdu_id = eap_pdu_id rq, eap_body = b\<rparr>"

definition receivePduSessionAuthenticationCommand ::
  "'r crypto \<Rightarrow> ue_env \<Rightarrow> nas_sm \<Rightarrow> byte \<Rightarrow> byte \<Rightarrow> eap_pdu option \<Rightarrow> 'r \<Rightarrow> (sm_output \<times> nas_sm \<times> 'r) option" where
  "receivePduSessionAuthenticationCommand C E u psi pti eap r =
     (case eap of
        None \<Rightarrow> Some (Sm_cause INVALID_MANDATORY_INFORMATION pti psi, u, r)
      | Some rq \<Rightarrow>
          (case eap_body rq of
             EapEdhoc d \<Rightarrow>
               (case receive_eap_edhoc C E u d r of
                  None \<Rightarrow> None
                | Some (Edhoc_data w, u, r) \<Rightarrow> Some (Auth_complete psi pti (eap_response rq (EapEdhoc w)), u, r)
                | Some (Edhoc_cause c, u, r) \<Rightarrow> Some (Sm_cause c pti psi, u, r))
           | EapIdentity d \<Rightarrow>
               let identity = (case ue_supi E of None \<Rightarrow> ''imsi-000000000000000'' | Some s \<Rightarrow> s)
               in Some (Auth_complete psi pti (eap_response rq (EapIdentity (ascii identity))), u, r)
           | _ \<Rightarrow> Some (Auth_complete psi pti (eap_response rq (EapNotification (ascii ''UNSUPPORTED-EAP''))), u, r)))"

end
