(* ===== verification/Ue_Eap_Props.thy ===== *)
theory Ue_Eap_Props
  imports Ue_Eap Frag
begin

text \<open>
  The UE's EAP codec: what it sends it reads back, and when the EAP element of a NAS message is decoded
  at all.
\<close>

section \<open>Round trip\<close>

lemma code_of_octet [simp]: "code_of (code_octet c) = Some c"
  by (cases c) (simp_all add: code_of_def)

lemma view_read_simps [simp]:
  "view_read (x # xs) 0 = Some x" "view_read (x # xs) (Suc i) = view_read xs i"
  "view_read (x # xs) (numeral k) = view_read xs (pred_numeral k)" "view_read (x # xs) 1 = view_read xs 0"
  by (simp_all add: view_read_def numeral_eq_Suc)

lemma be16_octets:
  assumes "n < 65536"
  obtains hi lo where "be16 n = [hi, lo]" "unat hi * 256 + unat lo = n"
proof
  show "be16 n = [of_nat (n div 256), of_nat (n mod 256)]" by (simp add: be16_def)
  show "unat (of_nat (n div 256) :: byte) * 256 + unat (of_nat (n mod 256) :: byte) = n"
    using get16_be16_mod [of n] assms by (simp add: get16_def be16_def)
qed

definition raw_body :: "eap_body \<Rightarrow> bool" where
  "raw_body b \<longleftrightarrow> (\<forall>s a. b \<noteq> EapAkaPrime s a) \<and> length (encode_body b) \<le> 65530"

lemma decode_packet:
  assumes "code_of c = Some cd" "length d \<le> 65530" "(t, body) = (2, EapNotification d) \<or> (t, body) = (1, EapIdentity d) \<or> (t, body) = (56, EapEdhoc d)"
  shows "DecodeEapPdu (c # ident # be16 (length d + 5) @ t # d @ rest) (length d + 5) =
    Some (Some \<lparr>eap_code = cd, eap_pdu_id = ident, eap_body = body\<rparr>)"
proof -
  obtain hi lo where b: "be16 (length d + 5) = [hi, lo]" "unat hi * 256 + unat lo = length d + 5"
    using be16_octets [of "length d + 5"] assms(2) by auto
  have raw: "readOctetString (c # ident # hi # lo # t # d @ rest) (length d + 5) 5 (int (length d)) = Some (Some d)" for t
    by (auto simp: readOctetString_def slice_def numeral_eq_Suc)
  from assms(3) show ?thesis
    using assms(1) b(2) by (elim disjE) (simp_all add: b(1) DecodeEapPdu_def Let_def raw)
qed

lemma eap_pdu_decodes:
  assumes "raw_body (eap_body p)"
  shows "DecodeEapPdu (EncodeEapPdu p @ rest) (length (EncodeEapPdu p)) = Some (Some p)"
proof (cases "eap_body p = No_type")
  case True
  obtain hi lo where "be16 4 = [hi, lo]" "unat hi * 256 + unat lo = 4" using be16_octets [of 4] by auto
  with True show ?thesis by (cases p) (simp add: EncodeEapPdu_def DecodeEapPdu_def)
next
  case False
  let ?d = "encode_body (eap_body p)" and ?t = "type_octet (eap_body p)"
  have "(?t, eap_body p) = (2, EapNotification ?d) \<or> (?t, eap_body p) = (1, EapIdentity ?d) \<or> (?t, eap_body p) = (56, EapEdhoc ?d)"
    using False assms by (cases "eap_body p") (auto simp: raw_body_def)
  note dec = decode_packet [OF code_of_octet [of "eap_code p"] _ this, of "eap_pdu_id p" rest]
  have enc: "length (EncodeEapPdu p) = length ?d + 5"
    "EncodeEapPdu p @ rest = code_octet (eap_code p) # eap_pdu_id p # be16 (length ?d + 5) @ ?t # ?d @ rest"
    using False by (simp_all add: EncodeEapPdu_def Let_def add.commute)
  show ?thesis unfolding enc using dec assms by (simp add: raw_body_def)
qed

text \<open>
  Every packet the UE sends in secondary authentication (Identity, Notification, EDHOC data of up to 65530
  octets, or no type) decodes to itself, also when other octets follow it in memory.
\<close>

theorem eap_pdu_roundtrip:
  assumes "raw_body (eap_body p)"
  shows "DecodeEapPdu (EncodeEapPdu p @ rest) (length (EncodeEapPdu p)) = Some (Some p)"
  by (rule eap_pdu_decodes [OF assms])

theorem eap_pdu_roundtrip_witness:
  "DecodeEapPdu (EncodeEapPdu \<lparr>eap_code = RESPONSE, eap_pdu_id = 7, eap_body = EapEdhoc [0]\<rparr> @ []) 6 =
     Some (Some \<lparr>eap_code = RESPONSE, eap_pdu_id = 7, eap_body = EapEdhoc [0]\<rparr>)"
  using eap_pdu_roundtrip [of "\<lparr>eap_code = RESPONSE, eap_pdu_id = 7, eap_body = EapEdhoc [0]\<rparr>" "[]"]
  by (simp add: raw_body_def EncodeEapPdu_def)

section \<open>The dump of the element\<close>

text \<open>The offsets at which \<open>dump_ies\<close> starts an entry, up to the one that ends the walk: past the
  element, not readable, or with an entry of length 0.\<close>

function walk_end :: "bytes \<Rightarrow> nat \<Rightarrow> nat \<Rightarrow> nat" where
  "walk_end mem len offset =
     (if offset + 2 \<le> len then
        (case ie_total_len mem offset of
           None \<Rightarrow> offset
         | Some n \<Rightarrow> if n = 0 \<or> offset + n > length mem then offset else walk_end mem len (offset + n))
      else offset)"
  by pat_completeness auto
termination
  by (relation "measure (\<lambda>(mem, len, offset). len - offset)") auto

declare walk_end.simps [simp del]

lemma ie_total_len_bound: "ie_total_len mem offset = Some n \<Longrightarrow> offset < length mem"
  by (auto simp: ie_total_len_def view_read_def split: option.splits if_splits)

lemma dump_ies_stuck:
  assumes "offset + 2 \<le> len" "ie_total_len mem offset = Some 0"
  shows "dump_ies mem len offset = None"
proof (rule ccontr)
  assume "dump_ies mem len offset \<noteq> None"
  then obtain x where ret: "dump_ies mem len offset = Some x" by blast
  have "\<not> (offset + 2 \<le> len \<and> ie_total_len mem offset = Some 0)"
  proof (rule dump_ies.raw_induct [where P = "\<lambda>mem len offset _. \<not> (offset + 2 \<le> len \<and> ie_total_len mem offset = Some 0)", OF _ ret])
    fix f mem len offset x
    assume IH: "\<And>mem len offset x. f mem len offset = Some x \<Longrightarrow> \<not> (offset + 2 \<le> len \<and> ie_total_len mem offset = Some 0)"
      and eq: "(if offset + 2 \<le> len then
        (case ie_total_len mem offset of
           None \<Rightarrow> Some Overread
         | Some n \<Rightarrow> if offset + n > length mem then Some Overread else f mem len (offset + n))
      else Some Dumped) = Some x"
    show "\<not> (offset + 2 \<le> len \<and> ie_total_len mem offset = Some 0)"
      using eq IH [of mem len offset] ie_total_len_bound [of mem offset 0] by auto
  qed
  with assms show False by blast
qed

text \<open>How the walk ends decides how the dump ends.\<close>

lemma dump_ies_walk:
  "dump_ies mem len offset =
     (let o' = walk_end mem len offset
      in if o' + 2 \<le> len then (if ie_total_len mem o' = Some 0 then None else Some Overread) else Some Dumped)"
proof (induction mem len offset rule: walk_end.induct)
  case (1 mem len offset)
  show ?case
  proof (cases "offset + 2 \<le> len \<and> ie_total_len mem offset = Some 0")
    case True
    then show ?thesis by (simp add: dump_ies_stuck walk_end.simps [of mem len offset])
  next
    case False
    then show ?thesis
      using 1 by (subst dump_ies.simps, subst walk_end.simps) (auto split: option.split)
  qed
qed

text \<open>
  C28.  When the UE gets past the EAP element of a NAS message.  The element is decoded exactly when it is in
  memory, the packet decodes without undefined behaviour, and the walk of the attribute dump
  leaves the element; if the walk meets an entry of length 0 first, the call never returns.  Elements of
  fewer than 10 octets, such as Start and acknowledgements, are not walked at all.
\<close>

theorem ie_eap_decode_outcome:
  "(IEEapMessage_Decode mem len = Some (Some eap) \<longleftrightarrow>
      len \<le> length mem \<and> DecodeEapPdu mem len = Some eap \<and> (len < 10 \<or> len < walk_end mem len 8 + 2)) \<and>
   (IEEapMessage_Decode mem len = None \<longleftrightarrow>
      len \<le> length mem \<and> DecodeEapPdu mem len \<noteq> None \<and> 10 \<le> len \<and>
      walk_end mem len 8 + 2 \<le> len \<and> ie_total_len mem (walk_end mem len 8) = Some 0)"
proof (cases "len < 10")
  case True
  then have "walk_end mem len 8 = 8" by (simp add: walk_end.simps)
  with True show ?thesis by (auto simp: IEEapMessage_Decode_def dump_ies_walk split: option.split)
next
  case False
  then show ?thesis
    by (auto simp: IEEapMessage_Decode_def dump_ies_walk Let_def split: option.split dump_end.split if_splits)
qed

text \<open>
  A valid EAP-EDHOC request on which the UE hangs.  Take a message of more than 997 octets whose second
  octet is 0 and whose first is not 0xA0.  The EAP-Request with its first fragment decodes to exactly that
  fragment, but the NAS element that carries it is never decoded: the dump reads the message as attributes, and
  the first one has length 0.
\<close>

theorem edhoc_fragment_hangs:
  fixes m rest :: bytes and ident :: byte
  assumes "997 < length m" "length m \<le> 8192" "m ! 0 \<noteq> 0xA0" "m ! 1 = 0"
  defines "p \<equiv> \<lparr>eap_code = REQUEST, eap_pdu_id = ident, eap_body = EapEdhoc (frag_wire m 0)\<rparr>"
  shows "DecodeEapPdu (EncodeEapPdu p @ rest) (length (EncodeEapPdu p)) = Some (Some p) \<and>
    IEEapMessage_Decode (EncodeEapPdu p @ rest) (length (EncodeEapPdu p)) = None"
proof -
  obtain ys where tk: "take 997 m = m ! 0 # 0 # ys"
    using assms(1,4) by (cases m; cases "tl m") (auto simp: numeral_eq_Suc)
  have w: "frag_wire m 0 = 0xC0 # be16 (length m) @ take 997 m" "length (take 997 m) = 997"
    using assms(1) by (simp_all add: frag_wire_def frag_size_def Let_def)
  then have "raw_body (eap_body p)" by (simp add: p_def raw_body_def)
  note dec = eap_pdu_decodes [OF this, of rest]
  obtain h l h' l' where b: "be16 1005 = [h, l]" "be16 (length m) = [h', l']" by (simp add: be16_def)
  have enc: "EncodeEapPdu p = [1, ident, h, l, 56, 0xC0, h', l', m ! 0, 0] @ ys"
    using w b tk by (simp add: EncodeEapPdu_def p_def Let_def)
  have "ie_total_len (EncodeEapPdu p @ rest) 8 = Some 0"
    using assms(3) by (simp add: enc ie_total_len_def)
  then have "dump_ies (EncodeEapPdu p @ rest) (length (EncodeEapPdu p)) 8 = None"
    by (intro dump_ies_stuck) (simp_all add: enc)
  with dec show ?thesis by (simp add: IEEapMessage_Decode_def) (simp add: enc)
qed

theorem edhoc_fragment_hangs_witness:
  "\<exists>p. DecodeEapPdu (EncodeEapPdu p @ []) (length (EncodeEapPdu p)) = Some (Some p) \<and>
     IEEapMessage_Decode (EncodeEapPdu p @ []) (length (EncodeEapPdu p)) = None"
  using edhoc_fragment_hangs [of "replicate 6000 0" 3 "[]"] by auto

end
