(* ===== verification/Ue_Props.thy ===== *)
theory Ue_Props
  imports Ue Ue_Eap_Props Eap_Peer
begin

text \<open>
  The UE in secondary authentication: its invariant, the handshake behind every state it reaches, how
  it answers, and its conversation with the FreeRADIUS module, for which it keeps the contract \<open>m4_peer\<close>.
\<close>

section \<open>The invariant\<close>

definition ue_stage_ok :: "int \<Rightarrow> bool \<Rightarrow> bool" where
  "ue_stage_ok n provisioned \<longleftrightarrow> n = -1 \<or> provisioned \<and> n \<in> {1, 2, 3}"

definition ue_inv :: "nas_sm \<Rightarrow> bool" where
  "ue_inv u \<longleftrightarrow> length (m_edhocIn u) = E4_MAX_MSG \<and> length (m_edhocOut u) = E4_MAX_MSG \<and>
     m_edhocInPos u \<le> m_edhocInLen u \<and> m_edhocInLen u \<le> E4_MAX_MSG \<and>
     m_edhocOutPos u \<le> m_edhocOutLen u \<and> m_edhocOutLen u \<le> E4_MAX_MSG \<and>
     creds_sized (m_edhocCreds u) \<and> length (m_edhocPeerPub u) = E4_XWING_PK \<and>
     ue_stage_ok (m_edhocRound u) (m_edhocProvisioned u)"

lemma ue_inv_init: "ue_inv nas_sm_init"
  by (simp add: ue_inv_def ue_stage_ok_def nas_sm_init_def creds_sized_def zero_creds_def)

lemma ue_inv_ctx [simp]: "ue_inv (u\<lparr>m_edhocCtx := c\<rparr>) = ue_inv u"
  by (simp add: ue_inv_def)

lemma creds_load_sized:
  assumes "creds_sized old" "edhoc4_creds_load fs (Some p) (Some old) = (rc, c)"
  shows "creds_sized (the c)"
  using assms length_creds_bytes [OF assms(1)]
  by (auto simp: edhoc4_creds_load_def load_blob_def creds_sized_def creds_of_bytes_def Let_def split: option.splits if_splits)

lemma pub_load_length:
  assumes "edhoc4_pub_load fs (Some p) (Some old) = (rc, pk)"
  shows "length (the pk) = length old"
  using assms by (auto simp: edhoc4_pub_load_def load_blob_def Let_def split: option.splits if_splits)

lemma ensure_provisioned:
  assumes "ue_inv u" "ensureEdhocProvisioned E u = (ok, u')"
  shows "ue_inv u' \<and> m_edhocRound u' = m_edhocRound u \<and> m_edhocCtx u' = m_edhocCtx u \<and>
    m_edhocInLen u' = m_edhocInLen u \<and> m_edhocOutLen u' = m_edhocOutLen u \<and> m_edhocOutPos u' = m_edhocOutPos u \<and>
    (ok \<longrightarrow> m_edhocProvisioned u') \<and> (m_edhocProvisioned u \<longrightarrow> ok \<and> u' = u)"
proof (cases "m_edhocProvisioned u")
  case True
  then show ?thesis using assms by (auto simp: ensureEdhocProvisioned_def)
next
  case False
  then have st: "m_edhocRound u = -1" using assms(1) by (simp add: ue_inv_def ue_stage_ok_def)
  let ?cp = "case env_ue_creds E of None \<Rightarrow> ''/usr/local/etc/edhoc/ue.creds'' | Some p \<Rightarrow> p"
  let ?pp = "case env_srv_pub E of None \<Rightarrow> ''/usr/local/etc/edhoc/server.pub'' | Some p \<Rightarrow> p"
  obtain rc c where c: "edhoc4_creds_load (ue_files E) (Some ?cp) (Some (m_edhocCreds u)) = (rc, c)" by fastforce
  obtain rc' pk where pk: "edhoc4_pub_load (ue_files E) (Some ?pp) (Some (m_edhocPeerPub u)) = (rc', pk)" by fastforce
  have "creds_sized (the c)" "length (the pk) = length (m_edhocPeerPub u)"
    using creds_load_sized [OF _ c] pub_load_length [OF pk] assms(1) by (simp_all add: ue_inv_def)
  then show ?thesis
    using assms(2) False assms(1) st
    unfolding ensureEdhocProvisioned_def Let_def c
    by (cases "rc = E4_OK"; cases "rc' = E4_OK") (auto simp: pk ue_inv_def ue_stage_ok_def)
qed

section \<open>Fragmentation\<close>

definition ue_msg :: "nas_sm \<Rightarrow> bytes" where
  "ue_msg u = (if m_edhocOutPos u < m_edhocOutLen u then take (m_edhocOutLen u) (m_edhocOut u) else [])"

definition ue_pos :: "nas_sm \<Rightarrow> nat" where
  "ue_pos u = (if m_edhocOutPos u < m_edhocOutLen u then m_edhocOutPos u else 0)"

definition ue_queue :: "int \<Rightarrow> nas_sm \<Rightarrow> bytes \<Rightarrow> bytes \<times> nas_sm" where
  "ue_queue which u m =
     edhoc_next_fragment (u\<lparr>m_edhocOut := poke (m_edhocOut u) 0 m, m_edhocOutLen := length m, m_edhocOutPos := 0\<rparr>)"

definition ue_take :: "nas_sm \<Rightarrow> bytes \<Rightarrow> (nas_sm \<times> bytes option) option" where
  "ue_take u w =
     (case ParseEdhocWire w (m_edhocIn u) (m_edhocInLen u) (m_edhocInPos u) of
        (ok, b, l, p, m, ack) \<Rightarrow>
          if \<not> ok then None else Some (u\<lparr>m_edhocIn := b, m_edhocInLen := l, m_edhocInPos := p\<rparr>, if ack then None else m))"

definition ue_ready :: "nas_sm \<Rightarrow> bool" where
  "ue_ready u \<longleftrightarrow> ue_inv u \<and> m_edhocProvisioned u"

lemma length_ue_msg: "ue_inv u \<Longrightarrow> length (ue_msg u) = (if m_edhocOutPos u < m_edhocOutLen u then m_edhocOutLen u else 0)"
  by (simp add: ue_msg_def ue_inv_def)

lemma ue_msg_Nil: "ue_inv u \<Longrightarrow> ue_msg u = [] \<longleftrightarrow> \<not> m_edhocOutPos u < m_edhocOutLen u"
  using length_ue_msg [of u] by (auto simp: ue_msg_def)

lemma encode_fragment_eq:
  assumes "pos < len" "len \<le> length payload"
  shows "EncodeEdhocFragment payload len pos = (frag_wire (take len payload) pos, pos + frag_size (take len payload) pos)"
proof -
  define n where "n = frag_size (take len payload) pos"
  have n: "(if len - pos < (if pos = 0 then 1000 - 1 - 2 else 1000 - 1) then len - pos else (if pos = 0 then 1000 - 1 - 2 else 1000 - 1)) = n"
    using assms by (simp add: frag_size_def n_def)
  have sl: "slice pos n (take len payload) = slice pos n payload"
    using frag_size_le [of pos "take len payload"] assms unfolding n_def by (intro slice_take) simp
  have l: "length (take len payload) = len" using assms by simp
  show ?thesis
    using assms(1) unfolding EncodeEdhocFragment_def frag_wire_def n_def [symmetric] Let_def sl l n by simp
qed

lemma next_fragment_eq:
  assumes "ue_inv u" "m_edhocOutPos u < m_edhocOutLen u"
  shows "edhoc_next_fragment u =
    (frag_wire (ue_msg u) (m_edhocOutPos u), u\<lparr>m_edhocOutPos := m_edhocOutPos u + frag_size (ue_msg u) (m_edhocOutPos u)\<rparr>)"
  using assms by (simp add: edhoc_next_fragment_def encode_fragment_eq ue_msg_def ue_inv_def)

lemma ue_msg_advance:
  "m_edhocOutPos u < m_edhocOutLen u \<Longrightarrow> ue_msg (u\<lparr>m_edhocOutPos := p\<rparr>) = (if p < m_edhocOutLen u then ue_msg u else [])"
  by (simp add: ue_msg_def)

lemma next_fragment_inv:
  assumes "ue_inv u" "m_edhocOutPos u < m_edhocOutLen u"
  shows "ue_inv (u\<lparr>m_edhocOutPos := m_edhocOutPos u + frag_size (ue_msg u) (m_edhocOutPos u)\<rparr>)"
  using assms frag_size_le [of "m_edhocOutPos u" "ue_msg u"] by (simp add: length_ue_msg) (simp add: ue_inv_def)

lemma queue_short_eq:
  assumes "ue_inv u" "length m \<le> 997"
  shows "ue_queue which u m =
    (0 # m, u\<lparr>m_edhocOut := poke (m_edhocOut u) 0 m, m_edhocOutLen := length m, m_edhocOutPos := length m\<rparr>)"
  using assms by (simp add: ue_queue_def edhoc_next_fragment_def EncodeEdhocFragment_def poke_def Let_def)

lemma queued_inv:
  assumes "ue_inv u" "length m \<le> 8192"
  shows "ue_inv (u\<lparr>m_edhocOut := poke (m_edhocOut u) 0 m, m_edhocOutLen := length m, m_edhocOutPos := 0\<rparr>)"
    "ue_inv (u\<lparr>m_edhocOut := poke (m_edhocOut u) 0 m, m_edhocOutLen := length m, m_edhocOutPos := length m\<rparr>)"
  using assms by (simp_all add: ue_inv_def)

lemma ue_sender: "frag_queue edhoc_next_fragment ue_msg ue_pos ue_ready (ue_queue which)"
proof (unfold_locales, goal_cases)
  case (1 u)
  then show ?case by (auto simp: ue_ready_def ue_pos_def length_ue_msg next_fragment_eq split: if_splits)
next
  case (2 u)
  then have "ue_inv u" "m_edhocOutPos u < m_edhocOutLen u" by (auto simp: ue_ready_def length_ue_msg split: if_splits)
  with 2 show ?case by (simp add: ue_pos_def length_ue_msg next_fragment_eq ue_msg_advance)
next
  case (3 u)
  then have "ue_inv u" "m_edhocOutPos u < m_edhocOutLen u" by (auto simp: ue_ready_def length_ue_msg split: if_splits)
  with 3 show ?case by (simp add: ue_pos_def length_ue_msg next_fragment_eq ue_msg_advance)
next
  case (4 u)
  then show ?case
    by (auto simp: ue_ready_def ue_pos_def length_ue_msg next_fragment_eq next_fragment_inv split: if_splits)
next
  case (5 u m)
  then show ?case using queued_inv(2) [of u m] by (simp add: ue_ready_def queue_short_eq) (simp add: ue_msg_def)
next
  case (6 u m)
  let ?q = "u\<lparr>m_edhocOut := poke (m_edhocOut u) 0 m, m_edhocOutLen := length m, m_edhocOutPos := 0\<rparr>"
  have "ue_ready ?q" using 6 queued_inv(1) [of u m] by (simp add: ue_ready_def)
  moreover have "ue_msg ?q = m" using 6 by (auto simp: ue_msg_def poke_def)
  ultimately show ?case by (intro exI [of _ ?q]) (simp add: ue_queue_def ue_pos_def)
qed

interpretation ues: frag_queue edhoc_next_fragment ue_msg ue_pos ue_ready "ue_queue which" for which
  by (rule ue_sender)

interpretation uer: frag_receiver ue_take m_edhocInLen "\<lambda>u. take (m_edhocInPos u) (m_edhocIn u)" ue_ready
proof (unfold_locales, goal_cases)
  case (1 u d)
  then show ?case by (simp add: ue_take_def ParseEdhocWire_def Let_def) (auto simp: ue_ready_def ue_inv_def)
next
  case (2 u n d)
  then show ?case
    by (simp add: ue_take_def ParseEdhocWire_def Let_def) (auto simp: ue_ready_def ue_inv_def poke_def)
next
  case (3 u d)
  then have "m_edhocInPos u + length d \<le> m_edhocInLen u" by (simp add: ue_ready_def ue_inv_def min_def split: if_splits)
  with 3 show ?case
    by (simp add: ue_take_def ParseEdhocWire_def Let_def) (auto simp: ue_ready_def ue_inv_def take_poke_end)
next
  case (4 u d)
  then have n: "m_edhocInPos u + length d = m_edhocInLen u" by (simp add: ue_ready_def ue_inv_def min_def split: if_splits)
  moreover have "take (m_edhocInLen u) (poke (m_edhocIn u) (m_edhocInPos u) d) = take (m_edhocInPos u) (m_edhocIn u) @ d"
    using take_poke_end [of "m_edhocInPos u" "m_edhocIn u" d] 4 n by (simp add: ue_ready_def ue_inv_def)
  ultimately show ?case
    using 4 by (simp add: ue_take_def ParseEdhocWire_def Let_def) (auto simp: ue_ready_def ue_inv_def)
qed

section \<open>Steps\<close>

lemma parse_inv:
  assumes "ue_inv u" "ParseEdhocWire w (m_edhocIn u) (m_edhocInLen u) (m_edhocInPos u) = (ok, b, l, p, m, ack)"
  shows "ue_inv (u\<lparr>m_edhocIn := b, m_edhocInLen := l, m_edhocInPos := p\<rparr>) \<and> (ok \<and> \<not> ack \<longrightarrow> m \<noteq> None)"
proof -
  have "sat (\<lambda>x. \<forall>ok b l p m ack. x = (ok, b, l, p, m, ack) \<longrightarrow>
      ue_inv (u\<lparr>m_edhocIn := b, m_edhocInLen := l, m_edhocInPos := p\<rparr>) \<and> (ok \<and> \<not> ack \<longrightarrow> m \<noteq> None))
    (ParseEdhocWire w (m_edhocIn u) (m_edhocInLen u) (m_edhocInPos u))"
    unfolding ParseEdhocWire_def
    by (intro sat_rules) (use assms(1) in \<open>auto simp: ue_inv_def split: if_splits\<close>)
  with assms(2) show ?thesis by (auto dest!: satD)
qed

lemma send_message_eq:
  assumes "ue_inv u" "length m \<le> 8192"
  shows "edhoc_send_message u m = (Edhoc_data (fst (ue_queue which u m)), snd (ue_queue which u m)) \<and>
    fst (ue_queue which u m) \<noteq> [] \<and> length (fst (ue_queue which u m)) \<le> 1000 \<and> ue_inv (snd (ue_queue which u m)) \<and>
    m_edhocRound (snd (ue_queue which u m)) = m_edhocRound u \<and> m_edhocCtx (snd (ue_queue which u m)) = m_edhocCtx u \<and>
    m_edhocCreds (snd (ue_queue which u m)) = m_edhocCreds u \<and> m_edhocPeerPub (snd (ue_queue which u m)) = m_edhocPeerPub u \<and>
    m_edhocProvisioned (snd (ue_queue which u m)) = m_edhocProvisioned u \<and> m_edhocInLen (snd (ue_queue which u m)) = m_edhocInLen u"
proof (cases "length m \<le> 997")
  case True
  then show ?thesis
    using assms queued_inv(2) [of u m] queue_short_eq [of u m which] by (simp add: edhoc_send_message_def ue_queue_def)
next
  case False
  let ?q = "u\<lparr>m_edhocOut := poke (m_edhocOut u) 0 m, m_edhocOutLen := length m, m_edhocOutPos := 0\<rparr>"
  have q: "ue_inv ?q" "m_edhocOutPos ?q < m_edhocOutLen ?q" using queued_inv(1) [OF assms] False by auto
  have "frag_wire (ue_msg ?q) 0 \<noteq> []" using frag_wire_pos [of "ue_msg ?q" 0] by auto
  then show ?thesis
    using next_fragment_eq [OF q] next_fragment_inv [OF q] length_frag_wire [of "ue_msg ?q" 0]
    by (simp add: edhoc_send_message_def ue_queue_def)
qed

lemma send_message_wire:
  "edhoc_send_message u m = (Edhoc_data (fst (ue_queue which u m)), snd (ue_queue which u m))"
  by (simp add: edhoc_send_message_def ue_queue_def edhoc_next_fragment_def EncodeEdhocFragment_def Let_def)

text \<open>The handshake that a state stands for.\<close>

definition ue_made_msg1 :: "'r crypto \<Rightarrow> nas_sm \<Rightarrow> edhoc4_ctx \<Rightarrow> bool" where
  "ue_made_msg1 C u I \<longleftrightarrow>
     (\<exists>r m r'. edhoc4_i_make_msg1 C (edhoc4_init_initiator (m_edhocCreds u) (m_edhocPeerPub u)) E4_MAX_MSG r = Some (E4_OK, I, Some m, r'))"

definition ue_took_msg2 :: "'r crypto \<Rightarrow> nas_sm \<Rightarrow> edhoc4_ctx \<Rightarrow> bool" where
  "ue_took_msg2 C u I \<longleftrightarrow>
     (\<exists>I1 m2 r m3 r'. ue_made_msg1 C u I1 \<and> edhoc4_i_handle_msg2 C I1 m2 E4_MAX_MSG r = Some (E4_OK, I, Some m3, r'))"

definition ue_took_msg4 :: "'r crypto \<Rightarrow> nas_sm \<Rightarrow> edhoc4_ctx \<Rightarrow> bool" where
  "ue_took_msg4 C u I \<longleftrightarrow> (\<exists>I2 m4. ue_took_msg2 C u I2 \<and> edhoc4_i_handle_msg4 C I2 m4 = Some (E4_OK, I))"

definition ue_handshake :: "'r crypto \<Rightarrow> nas_sm \<Rightarrow> bool" where
  "ue_handshake C u \<longleftrightarrow>
     (m_edhocRound u = 1 \<longrightarrow> ue_made_msg1 C u (m_edhocCtx u)) \<and>
     (m_edhocRound u = 2 \<longrightarrow> ue_took_msg2 C u (m_edhocCtx u)) \<and>
     (m_edhocRound u = 3 \<longrightarrow> ue_took_msg4 C u (m_edhocCtx u))"

lemma ue_history_cong:
  assumes "m_edhocCreds u' = m_edhocCreds u" "m_edhocPeerPub u' = m_edhocPeerPub u"
  shows "ue_made_msg1 C u' = ue_made_msg1 C u" "ue_took_msg2 C u' = ue_took_msg2 C u" "ue_took_msg4 C u' = ue_took_msg4 C u"
  using assms by (simp_all add: fun_eq_iff ue_made_msg1_def ue_took_msg2_def ue_took_msg4_def)

text \<open>What a call may answer and how the round may change: not at all, forward by a handshake message, or
  back to the start with a cause.\<close>

definition ue_step_ok :: "'r crypto \<Rightarrow> nas_sm \<Rightarrow> (edhoc_reply \<times> nas_sm \<times> 'r) option \<Rightarrow> bool" where
  "ue_step_ok C u x \<longleftrightarrow>
     (case x of None \<Rightarrow> True
      | Some (rep, u', r) \<Rightarrow> ue_inv u' \<and> ue_handshake C u' \<and>
          (case rep of
             Edhoc_data w \<Rightarrow> w \<noteq> [] \<and> length w \<le> 1000 \<and>
               (m_edhocRound u' = m_edhocRound u \<or> m_edhocRound u = -1 \<and> m_edhocRound u' = 1 \<or>
                m_edhocRound u \<in> {1, 2} \<and> m_edhocRound u' = m_edhocRound u + 1)
           | Edhoc_cause c \<Rightarrow> m_edhocRound u' = m_edhocRound u \<or> m_edhocRound u' = -1 \<and> m_edhocOutLen u' = 0 \<and> m_edhocInLen u' = 0))"

lemma ue_step_ok_simps [simp]:
  "ue_step_ok C u None"
  "ue_step_ok C u (Some (Edhoc_cause c, u', r)) \<longleftrightarrow> ue_inv u' \<and> ue_handshake C u' \<and>
     (m_edhocRound u' = m_edhocRound u \<or> m_edhocRound u' = -1 \<and> m_edhocOutLen u' = 0 \<and> m_edhocInLen u' = 0)"
  by (simp_all add: ue_step_ok_def)

lemma protocol_error_ok:
  assumes "ue_inv u"
  shows "ue_step_ok C v (case edhoc_protocol_error u of (rep, u') \<Rightarrow> Some (rep, u', r))"
  using assms by (simp add: edhoc_protocol_error_def ue_handshake_def ue_inv_def ue_stage_ok_def)

lemma edhoc_start_ok:
  assumes ok: "crypto_ok C" and u: "ue_inv u" "m_edhocProvisioned u" "m_edhocRound u = -1"
  shows "ue_step_ok C u (edhoc_start C u d r)"
proof -
  let ?m1 = "edhoc4_i_make_msg1 C (edhoc4_init_initiator (m_edhocCreds u) (m_edhocPeerPub u)) E4_MAX_MSG r"
  show ?thesis
  proof (cases ?m1)
    case None
    with u show ?thesis by (simp add: edhoc_start_def ue_handshake_def)
  next
    case (Some x)
    obtain rc c out r' where x: "?m1 = Some (rc, c, out, r')" using Some by (cases x) auto
    let ?u = "u\<lparr>m_edhocCtx := c, m_edhocRound := 1\<rparr>"
    have q: "ue_inv ?u" using u by (simp add: ue_inv_def ue_stage_ok_def)
    show ?thesis
    proof (cases "rc = E4_OK")
      case True
      then obtain m where m: "out = Some m" "length m \<le> 8192"
        using out_ok_handlers(1) [OF ok, of 8192 "edhoc4_init_initiator (m_edhocCreds u) (m_edhocPeerPub u)" r] x
        by (cases out) (auto simp: out_ok_def)
      have "ue_made_msg1 C u c" using x True m by (auto simp: ue_made_msg1_def)
      then show ?thesis
        using send_message_eq [OF q m(2), of 1] x True m u
          ue_history_cong [of "snd (ue_queue 1 ?u m)" u C]
        by (simp add: edhoc_start_def ue_step_ok_def ue_handshake_def)
    next
      case False
      with x u protocol_error_ok [of "u\<lparr>m_edhocCtx := c\<rparr>" C u r'] show ?thesis
        by (simp add: edhoc_start_def ue_handshake_def Let_def)
    qed
  qed
qed

lemma edhoc_continue_ok:
  assumes ok: "crypto_ok C" and u: "ue_inv u" "ue_handshake C u"
  shows "ue_step_ok C u (edhoc_continue C u d r)"
proof -
  obtain good b l p m ack where ps: "ParseEdhocWire d (m_edhocIn u) (m_edhocInLen u) (m_edhocInPos u) = (good, b, l, p, m, ack)"
    by (metis prod_cases6)
  let ?v = "u\<lparr>m_edhocIn := b, m_edhocInLen := l, m_edhocInPos := p\<rparr>"
  have v: "ue_inv ?v" using parse_inv [OF u(1) ps] by simp
  have same: "ue_made_msg1 C ?v = ue_made_msg1 C u" "ue_took_msg2 C ?v = ue_took_msg2 C u" "ue_took_msg4 C ?v = ue_took_msg4 C u"
    by (rule ue_history_cong; simp)+
  have hv: "ue_handshake C ?v" using u(2) by (simp add: ue_handshake_def same)
  have pr: "m_edhocProvisioned u" if "m_edhocRound u \<noteq> -1" using u(1) that by (simp add: ue_inv_def ue_stage_ok_def)
  consider "\<not> good \<or> ack" | "good" "\<not> ack" "m_edhocRound u = 1" | "good" "\<not> ack" "m_edhocRound u = 2"
    | "good" "\<not> ack" "m_edhocRound u \<noteq> 1" "m_edhocRound u \<noteq> 2" by blast
  then show ?thesis
  proof cases
    case 1
    then show ?thesis using v hv by (cases good) (simp_all add: edhoc_continue_def ps ue_step_ok_def Let_def)
  next
    case 2
    let ?h = "edhoc4_i_handle_msg2 C (m_edhocCtx u) (the m) E4_MAX_MSG r"
    show ?thesis
    proof (cases ?h)
      case None
      with 2 show ?thesis by (simp add: edhoc_continue_def ps)
    next
      case (Some x)
      obtain rc c out r' where x: "?h = Some (rc, c, out, r')" using Some by (cases x) auto
      show ?thesis
      proof (cases "rc = E4_OK")
        case True
        then obtain w where w: "out = Some w" "length w \<le> 8192"
          using out_ok_handlers(3) [OF ok, of 8192 "m_edhocCtx u" "the m" r] x by (cases out) (auto simp: out_ok_def)
        let ?u = "?v\<lparr>m_edhocCtx := c, m_edhocRound := 2\<rparr>"
        have q: "ue_inv ?u" using v pr 2 by (simp add: ue_inv_def ue_stage_ok_def)
        have "ue_took_msg2 C u c" using u(2) 2 x True w unfolding ue_handshake_def ue_took_msg2_def by blast
        then show ?thesis
          using send_message_eq [OF q w(2), of 3] x True w 2 ue_history_cong [of "snd (ue_queue 3 ?u w)" u C]
          by (simp add: edhoc_continue_def ps ue_step_ok_def ue_handshake_def Let_def)
      next
        case False
        with x 2 v protocol_error_ok [of "?v\<lparr>m_edhocCtx := c\<rparr>" C u r'] show ?thesis
          by (simp add: edhoc_continue_def ps Let_def)
      qed
    qed
  next
    case 3
    let ?h = "edhoc4_i_handle_msg4 C (m_edhocCtx u) (the m)"
    show ?thesis
    proof (cases ?h)
      case None
      with 3 show ?thesis by (simp add: edhoc_continue_def ps)
    next
      case (Some x)
      obtain rc c where x: "?h = Some (rc, c)" using Some by (cases x) auto
      show ?thesis
      proof (cases "rc = E4_OK")
        case True
        let ?u = "?v\<lparr>m_edhocCtx := c, m_edhocRound := 3\<rparr>"
        have q: "ue_inv ?u" using v pr 3 by (simp add: ue_inv_def ue_stage_ok_def)
        have "ue_took_msg4 C u c" using u(2) 3 x True unfolding ue_handshake_def ue_took_msg4_def by blast
        then show ?thesis
          using x True q 3 ue_history_cong [of ?u u C] by (simp add: edhoc_continue_def ps ue_step_ok_def ue_handshake_def Let_def)
      next
        case False
        with x 3 v protocol_error_ok [of "?v\<lparr>m_edhocCtx := c\<rparr>" C u r] show ?thesis
          by (simp add: edhoc_continue_def ps Let_def)
      qed
    qed
  next
    case 4
    then show ?thesis using v hv by (simp add: edhoc_continue_def ps ue_step_ok_def)
  qed
qed

lemma ensure_handshake:
  assumes "ue_inv u" "ue_handshake C u" "ensureEdhocProvisioned E u = (ok, u')"
  shows "ue_handshake C u'"
proof (cases "m_edhocProvisioned u")
  case True
  then show ?thesis using ensure_provisioned [OF assms(1,3)] assms(2) by simp
next
  case False
  then show ?thesis
    using ensure_provisioned [OF assms(1,3)] assms(1) by (simp add: ue_handshake_def ue_inv_def ue_stage_ok_def)
qed

lemma receive_edhoc_ok:
  assumes ok: "crypto_ok C" and u: "ue_inv u" "ue_handshake C u"
  shows "ue_step_ok C u (receive_eap_edhoc C E u d r)"
proof -
  obtain good v where e: "ensureEdhocProvisioned E u = (good, v)" by fastforce
  note v = ensure_provisioned [OF u(1) e] and hv = ensure_handshake [OF u e]
  have rd: "m_edhocRound v = m_edhocRound u" using v by simp
  have st: "ue_step_ok C u x = ue_step_ok C v x" for x unfolding ue_step_ok_def rd by (rule refl)
  consider "\<not> good" | "good" "m_edhocOutPos v < m_edhocOutLen v"
    | "good" "\<not> m_edhocOutPos v < m_edhocOutLen v" "m_edhocRound v < 0"
    | "good" "\<not> m_edhocOutPos v < m_edhocOutLen v" "\<not> m_edhocRound v < 0" by blast
  then show ?thesis
  proof cases
    case 1
    then show ?thesis using v hv by (simp add: receive_eap_edhoc_def e)
  next
    case 2
    let ?v = "v\<lparr>m_edhocOutPos := m_edhocOutPos v + frag_size (ue_msg v) (m_edhocOutPos v)\<rparr>"
    have vi: "ue_inv v" using v by simp
    have "ue_handshake C ?v" using hv ue_history_cong [of ?v v C] by (simp add: ue_handshake_def)
    then show ?thesis
      using 2 v next_fragment_eq [OF vi 2(2)] next_fragment_inv [OF vi 2(2)]
        frag_wire_pos [of "ue_msg v" "m_edhocOutPos v"] length_frag_wire [of "ue_msg v" "m_edhocOutPos v"]
      by (simp add: receive_eap_edhoc_def e ue_step_ok_def)
  next
    case 3
    then have "m_edhocRound v = -1" using v by (auto simp: ue_inv_def ue_stage_ok_def)
    with 3 v edhoc_start_ok [OF ok, of v d r] show ?thesis by (simp add: receive_eap_edhoc_def e st)
  next
    case 4
    with v hv edhoc_continue_ok [OF ok, of v d r] show ?thesis by (simp add: receive_eap_edhoc_def e st)
  qed
qed

section \<open>Commands\<close>

text \<open>The states of a UE that has received any number of Authentication Commands, in any environments.\<close>

inductive ue_reach :: "'r crypto \<Rightarrow> nas_sm \<Rightarrow> bool" for C where
  boot: "ue_reach C nas_sm_init"
| command: "ue_reach C u \<Longrightarrow>
    receivePduSessionAuthenticationCommand C E u psi pti eap r = Some (out, u', r') \<Longrightarrow> ue_reach C u'"

lemma command_ok:
  assumes ok: "crypto_ok C" and u: "ue_inv u" "ue_handshake C u"
    and run: "receivePduSessionAuthenticationCommand C E u psi pti eap r = Some (out, u', r')"
  shows "ue_inv u' \<and> ue_handshake C u'"
proof -
  have "ue_inv v \<and> ue_handshake C v" if "receive_eap_edhoc C E u d r = Some (rep, v, r1)" for d rep v r1
    using receive_edhoc_ok [OF ok u, of E d r] that by (simp add: ue_step_ok_def)
  with run u show ?thesis
    by (auto simp: receivePduSessionAuthenticationCommand_def Let_def split: option.splits eap_body.splits edhoc_reply.splits)
qed

lemma ue_reach_inv:
  assumes "crypto_ok C" "ue_reach C u"
  shows "ue_inv u \<and> ue_handshake C u"
  using assms(2)
proof induction
  case boot
  then show ?case by (simp add: ue_inv_init) (simp add: ue_handshake_def nas_sm_init_def)
qed (use command_ok [OF assms(1)] in blast)

text \<open>
  C5.  The UE finishes only after a complete handshake.  In every state it can reach in which the
  handshake counts as complete, message 1 was made from the UE's loaded credentials and the pinned key of the
  DN-AAA, some message 2 was accepted by that context, and message 4 by the context that resulted; the
  context the UE holds is the one after message 4.
\<close>

theorem ue_done_authenticated:
  assumes "crypto_ok C" "ue_reach C u" "m_edhocRound u = 3"
  shows "m_edhocProvisioned u \<and>
    (\<exists>r1 I1 m1 r1' m2 r2 I2 m3 r2' m4.
       edhoc4_i_make_msg1 C (edhoc4_init_initiator (m_edhocCreds u) (m_edhocPeerPub u)) E4_MAX_MSG r1 = Some (E4_OK, I1, Some m1, r1') \<and>
       edhoc4_i_handle_msg2 C I1 m2 E4_MAX_MSG r2 = Some (E4_OK, I2, Some m3, r2') \<and>
       edhoc4_i_handle_msg4 C I2 m4 = Some (E4_OK, m_edhocCtx u))"
  using ue_reach_inv [OF assms(1,2)] assms(3)
  unfolding ue_handshake_def ue_took_msg4_def ue_took_msg2_def ue_made_msg1_def ue_inv_def ue_stage_ok_def by simp blast


section \<open>Conversations with the module\<close>

text \<open>The UE as a peer: a cause ends the conversation.\<close>

definition ue_react :: "'r crypto \<Rightarrow> ue_env \<Rightarrow> nas_sm \<Rightarrow> bytes \<Rightarrow> 'r \<Rightarrow> (bytes option \<times> nas_sm \<times> 'r) option" where
  "ue_react C E u w r =
     (case receive_eap_edhoc C E u w r of
        None \<Rightarrow> None
      | Some (Edhoc_data d, u, r) \<Rightarrow> Some (Some d, u, r)
      | Some (Edhoc_cause c, u, r) \<Rightarrow> Some (None, u, r))"

definition ue_fresh :: "ue_env \<Rightarrow> nas_sm \<Rightarrow> bool" where
  "ue_fresh E u \<longleftrightarrow> ue_inv u \<and> fst (ensureEdhocProvisioned E u) \<and> m_edhocRound u = -1 \<and>
     \<not> m_edhocOutPos u < m_edhocOutLen u \<and> m_edhocInLen u = 0"

definition ue_initial :: "ue_env \<Rightarrow> nas_sm \<Rightarrow> edhoc4_ctx" where
  "ue_initial E u = (case ensureEdhocProvisioned E u of (_, v) \<Rightarrow> edhoc4_init_initiator (m_edhocCreds v) (m_edhocPeerPub v))"

lemma ensure_ready [simp]: "m_edhocProvisioned u \<Longrightarrow> ensureEdhocProvisioned E u = (True, u)"
  by (simp add: ensureEdhocProvisioned_def)

lemma ue_take_Some:
  assumes "ue_inv u" "ue_take u w = Some (t, x)"
  obtains b l p m ack where "ParseEdhocWire w (m_edhocIn u) (m_edhocInLen u) (m_edhocInPos u) = (True, b, l, p, m, ack)"
    "t = u\<lparr>m_edhocIn := b, m_edhocInLen := l, m_edhocInPos := p\<rparr>" "x = (if ack then None else m)" "\<not> ack \<Longrightarrow> m \<noteq> None"
proof -
  obtain ok b l p m ack where ps: "ParseEdhocWire w (m_edhocIn u) (m_edhocInLen u) (m_edhocInPos u) = (ok, b, l, p, m, ack)"
    by (metis prod_cases6)
  with assms parse_inv [OF assms(1) ps] show thesis by (intro that [of b l p m ack]) (auto simp: ue_take_def split: if_splits)
qed

lemma ue_take_message:
  assumes "ue_inv u" "ue_take u w = Some (t, Some m)"
  obtains b l p where "ParseEdhocWire w (m_edhocIn u) (m_edhocInLen u) (m_edhocInPos u) = (True, b, l, p, Some m, False)"
    "t = u\<lparr>m_edhocIn := b, m_edhocInLen := l, m_edhocInPos := p\<rparr>"
  using assms by (auto elim!: ue_take_Some split: if_splits)

interpretation uep: m4_peer ue_take m_edhocInLen "\<lambda>u. take (m_edhocInPos u) (m_edhocIn u)" ue_ready "ue_react C E"
  edhoc_next_fragment ue_msg ue_pos ue_queue m_edhocCtx m_edhocRound "\<lambda>_. ()"
  C "ue_fresh E" "ue_initial E" "\<lambda>_ _ _. ()" "\<lambda>_ _ _. ()" "\<lambda>_ _. ()"
  for C E
proof (intro m4_peer.intro m4_peer_axioms.intro eap_peer.intro eap_peer_axioms.intro uer.frag_receiver_axioms ue_sender, goal_cases)
  case (1 u w r)
  then have i: "ue_inv u" "m_edhocOutPos u < m_edhocOutLen u" "m_edhocProvisioned u"
    by (auto simp: ue_ready_def length_ue_msg split: if_splits)
  with frag_wire_pos [of "ue_msg u" "m_edhocOutPos u"] show ?case
    by (simp add: ue_react_def receive_eap_edhoc_def next_fragment_eq)
next
  case (2 u w u' r)
  then have i: "ue_inv u" "\<not> m_edhocOutPos u < m_edhocOutLen u" "m_edhocProvisioned u"
    by (simp_all add: ue_ready_def ue_msg_Nil)
  from ue_take_Some [OF i(1) 2(4)] show ?case
    by (rule) (use i 2(3) in \<open>auto simp: ue_react_def receive_eap_edhoc_def edhoc_continue_def Let_def split: if_splits\<close>)
next
  case (3 u)
  then have "ue_inv u" "m_edhocOutPos u < m_edhocOutLen u"
    by (auto simp: ue_ready_def length_ue_msg split: if_splits)
  then show ?case by (simp add: next_fragment_eq)
next
  case (4 u w u' x)
  then have "ue_inv u" by (simp add: ue_ready_def)
  from ue_take_Some [OF this 4(2)] show ?case by (rule) (auto simp: ue_msg_def)
next
  case (5 which u m)
  then show ?case using send_message_eq [of u m which] by (simp add: ue_ready_def)
next
  case (6 u r I m r')
  obtain ok v where e: "ensureEdhocProvisioned E u = (ok, v)" by fastforce
  have u: "ue_inv u" "ok" "m_edhocRound u = -1" "\<not> m_edhocOutPos u < m_edhocOutLen u" "m_edhocInLen u = 0"
    using 6(1) by (simp_all add: ue_fresh_def e)
  note v = ensure_provisioned [OF u(1) e]
  let ?t = "v\<lparr>m_edhocCtx := I, m_edhocRound := 1\<rparr>"
  have "ue_react C E u [1] r = Some (Some (fst (ue_queue 1 ?t m)), snd (ue_queue 1 ?t m), r')"
    using u v 6(2) by (simp add: ue_react_def receive_eap_edhoc_def e edhoc_start_def ue_initial_def send_message_wire [where which = 1] Let_def)
  moreover have "ue_ready ?t" using u v by (simp add: ue_ready_def ue_inv_def ue_stage_ok_def)
  ultimately show ?case using u v by (intro exI [of _ ?t]) (simp add: ue_msg_def)
next
  case (7 u w t m r I m' r')
  then have i: "ue_inv u" "\<not> m_edhocOutPos u < m_edhocOutLen u" "m_edhocProvisioned u" by (simp_all add: ue_ready_def ue_msg_Nil)
  obtain b l p where ps: "ParseEdhocWire w (m_edhocIn u) (m_edhocInLen u) (m_edhocInPos u) = (True, b, l, p, Some m, False)"
    and t: "t = u\<lparr>m_edhocIn := b, m_edhocInLen := l, m_edhocInPos := p\<rparr>"
    by (rule ue_take_message [OF i(1) 7(4)])
  let ?t = "t\<lparr>m_edhocCtx := I, m_edhocRound := 2\<rparr>"
  have re: "ue_react C E u w r = Some (Some (fst (ue_queue 3 ?t m')), snd (ue_queue 3 ?t m'), r')"
    using i 7(3,7) by (simp add: ue_react_def receive_eap_edhoc_def edhoc_continue_def ps send_message_wire [where which = 3] Let_def t)
  have "ue_ready ?t" using 7(5) by (simp add: ue_ready_def ue_inv_def ue_stage_ok_def)
  with re i 7(6) show ?case by (intro exI [of _ ?t]) (simp add: ue_msg_def t)
next
  case (8 u w t m r I)
  then have i: "ue_inv u" "\<not> m_edhocOutPos u < m_edhocOutLen u" "m_edhocProvisioned u" by (simp_all add: ue_ready_def ue_msg_Nil)
  obtain b l p where "ParseEdhocWire w (m_edhocIn u) (m_edhocInLen u) (m_edhocInPos u) = (True, b, l, p, Some m, False)"
    by (rule ue_take_message [OF i(1) 8(4)])
  with i 8(3,7) show ?case by (simp add: ue_react_def receive_eap_edhoc_def edhoc_continue_def Let_def)
qed

definition creds_file :: "ue_env \<Rightarrow> string" where
  "creds_file E = (case env_ue_creds E of None \<Rightarrow> ''/usr/local/etc/edhoc/ue.creds'' | Some p \<Rightarrow> p)"

definition pub_file :: "ue_env \<Rightarrow> string" where
  "pub_file E = (case env_srv_pub E of None \<Rightarrow> ''/usr/local/etc/edhoc/server.pub'' | Some p \<Rightarrow> p)"

lemma provisioned_from_files:
  assumes "creds_sized ue" "length pk = E4_XWING_PK"
    "files (ue_files E) (creds_file E) = Some (creds_bytes ue)" "files (ue_files E) (pub_file E) = Some pk"
  shows "ensureEdhocProvisioned E nas_sm_init =
    (True, nas_sm_init\<lparr>m_edhocCreds := ue, m_edhocPeerPub := pk, m_edhocProvisioned := True\<rparr>)"
proof -
  have "creds_sized zero_creds" by (simp add: creds_sized_def zero_creds_def)
  with assms have "edhoc4_creds_load (ue_files E) (Some (creds_file E)) (Some zero_creds) = (E4_OK, Some ue)"
    "edhoc4_pub_load (ue_files E) (Some (pub_file E)) (Some (zeros 1216)) = (E4_OK, Some pk)"
    by (simp_all add: load_creds_exact load_pub_exact)
  then show ?thesis
    by (simp add: ensureEdhocProvisioned_def nas_sm_init_def flip: creds_file_def pub_file_def)
qed

text \<open>
  The conversation from power-on: a UE that has just been started and finds its credentials and the
  DN-AAA's public key in the files, and the FreeRADIUS module with the matching keys, reach EAP-Success from the Start request
  in 16 round trips.
\<close>

lemma ue_converses:
  assumes ok: "crypto_ok C" and ue: "creds_ok C ue" and aaa: "creds_ok C (server inst)" and pin: "ue_pub inst = edhoc4_creds.kem_pk ue"
    and fs: "files (ue_files E) (creds_file E) = Some (creds_bytes ue)"
      "files (ue_files E) (pub_file E) = Some (edhoc4_creds.kem_pk (server inst))"
  shows "\<exists>u s rq' r'. converse_by (ue_react C E) C inst rq 16 nas_sm_init zero_session [1] r = Some (u, s, rq', r') \<and>
    code rq' = PW_EAP_SUCCESS \<and> reply_attrs rq' = reply_attrs rq @ mppe (edhoc4_ctx.msk (m_edhocCtx u)) \<and>
    edhoc4_ctx.msk (m_edhocCtx u) = edhoc4_ctx.msk (sess_ctx s) \<and> edhoc4_ctx.emsk (m_edhocCtx u) = edhoc4_ctx.emsk (sess_ctx s) \<and>
    length (edhoc4_ctx.emsk (sess_ctx s)) = 64 \<and> m_edhocRound u = 3"
proof -
  have "creds_sized ue" "length (edhoc4_creds.kem_pk (server inst)) = E4_XWING_PK"
    using creds_ok_sized [OF ok ue] creds_ok_sized [OF ok aaa] by (simp_all add: creds_sized_def)
  note e = provisioned_from_files [OF this fs]
  have "ue_fresh E nas_sm_init" using e ue_inv_init by (simp add: ue_fresh_def) (simp add: nas_sm_init_def)
  moreover have "ue_initial E nas_sm_init = edhoc4_init_initiator ue (edhoc4_creds.kem_pk (server inst))"
    by (simp add: ue_initial_def e)
  ultimately show ?thesis using uep.m4_success [OF ok ue aaa pin, of E nas_sm_init rq r] by blast
qed

definition toy_env :: ue_env where
  "toy_env = \<lparr>env_ue_creds = Some ''c'', env_srv_pub = None,
     ue_files = \<lparr>files = [''c'' \<mapsto> creds_bytes (toy_creds 1), ''/usr/local/etc/edhoc/server.pub'' \<mapsto> edhoc4_creds.kem_pk (toy_creds 2)],
       writable = (\<lambda>_. False), room = 0\<rparr>, ue_supi = None\<rparr>"

lemma toy_env_files:
  "files (ue_files toy_env) (creds_file toy_env) = Some (creds_bytes (toy_creds 1))"
  "files (ue_files toy_env) (pub_file toy_env) = Some (edhoc4_creds.kem_pk (server toy_inst))"
  by (simp_all add: toy_env_def creds_file_def pub_file_def toy_inst_def)

lemma toy_inst_creds: "server toy_inst = toy_creds 2" "ue_pub toy_inst = edhoc4_creds.kem_pk (toy_creds 1)"
  by (simp_all add: toy_inst_def)

text \<open>The states of a UE in conversation are reachable by commands.\<close>

lemma react_reach:
  assumes "ue_reach C u" "ue_react C E u w r = Some (x, u', r')"
  shows "ue_reach C u'"
proof -
  obtain out where "receivePduSessionAuthenticationCommand C E u 0 0 (Some \<lparr>eap_code = REQUEST, eap_pdu_id = 0, eap_body = EapEdhoc w\<rparr>) r =
      Some (out, u', r')"
    using assms(2)
    by (auto simp: ue_react_def receivePduSessionAuthenticationCommand_def split: option.splits edhoc_reply.splits)
  with assms(1) show ?thesis by (rule ue_reach.command)
qed

lemma converse_reach:
  "converse_by (ue_react C E) C inst rq n u s w r = Some (u', s', rq', r') \<Longrightarrow> ue_reach C u \<Longrightarrow> ue_reach C u'"
proof (induction n arbitrary: u s w r)
  case (Suc n)
  then obtain w1 u1 r1 where a: "ue_react C E u w r = Some (Some w1, u1, r1)"
    "server_turn C inst rq (converse_by (ue_react C E) C inst rq n) u1 s w1 r1 = Some (u', s', rq', r')"
    by (auto split: option.splits)
  have "ue_reach C u1" using react_reach [OF Suc.prems(2) a(1)] .
  with a(2) Suc.IH show ?case
    by (auto simp: server_turn_def split: option.splits if_splits)
qed simp

lemma toy_done: "\<exists>u. ue_reach toy u \<and> m_edhocRound u = 3"
proof -
  obtain u s rq' r' where u: "converse_by (ue_react toy toy_env) toy toy_inst toy_rq 16 nas_sm_init zero_session [1] () = Some (u, s, rq', r')"
    "m_edhocRound u = 3"
    using ue_converses [OF toy_ok toy_creds_ok [of 1] _ _ toy_env_files, of toy_rq "()"] toy_creds_ok [of 2] by (auto simp: toy_inst_creds)
  from converse_reach [OF u(1) ue_reach.boot] u(2) show ?thesis by blast
qed

theorem ue_done_authenticated_witness:
  "\<exists>(u :: nas_sm) I2 m4. m_edhocRound u = 3 \<and> edhoc4_i_handle_msg4 toy I2 m4 = Some (E4_OK, m_edhocCtx u)"
proof -
  obtain u where u: "ue_reach toy u" "m_edhocRound u = 3" using toy_done by blast
  then obtain I2 m4 where "edhoc4_i_handle_msg4 toy I2 m4 = Some (E4_OK, m_edhocCtx u)"
    using ue_done_authenticated [OF toy_ok u] by (elim conjE exE)
  with u(2) show ?thesis by (intro exI conjI)
qed


section \<open>A second authentication\<close>

lemma empty_message1:
  "server_turn C inst rq cont u zero_session [0] r = None"
proof -
  have "edhoc_consume_incoming zero_session [0] = (E4_OK, zero_session, Some [], False)"
    by (rule consume_single_eq) (simp add: zero_session_def)
  then show ?thesis
    by (simp add: server_turn_def mod_process_def zero_session_def mod_round0_def mod_fail_def edhoc4_r_handle_msg1_def
        edhoc4_init_responder_def Let_def)
qed

text \<open>
  C29.  A UE that has completed one handshake does not start another.  Given the Start request again, it
  acknowledges it as it does any message after the last and keeps its state, and the module, waiting for
  message 1, fails: every further conversation ends without success, however many round trips it is given.
\<close>

theorem ue_second_start_fails:
  assumes "ue_inv u" "m_edhocRound u = 3" "\<not> m_edhocOutPos u < m_edhocOutLen u" "m_edhocInLen u = 0"
  shows "receive_eap_edhoc C E u [1] r = Some (Edhoc_data [0], u, r) \<and>
    converse_by (ue_react C E) C inst rq n u zero_session [1] r = None"
proof -
  have p: "m_edhocProvisioned u" using assms(1,2) by (simp add: ue_inv_def ue_stage_ok_def)
  have "u\<lparr>m_edhocIn := m_edhocIn u, m_edhocInLen := 0, m_edhocInPos := m_edhocInPos u\<rparr> = u" using assms(4) by (cases u) simp
  then have a: "receive_eap_edhoc C E u [1] r = Some (Edhoc_data [0], u, r)"
    using assms p by (simp add: receive_eap_edhoc_def edhoc_continue_def ParseEdhocWire_def Let_def)
  then show ?thesis by (cases n) (simp_all add: ue_react_def empty_message1)
qed

theorem ue_second_start_fails_witness:
  "\<exists>u. m_edhocRound u = 3 \<and> converse_by (ue_react toy toy_env) toy toy_inst toy_rq 16 u zero_session [1] () = None"
proof -
  let ?u = "nas_sm_init\<lparr>m_edhocRound := 3, m_edhocProvisioned := True\<rparr>"
  have "ue_inv ?u" using ue_inv_init by (simp add: ue_inv_def ue_stage_ok_def)
  from ue_second_start_fails [OF this, of toy toy_env "()" toy_inst toy_rq 16] show ?thesis
    by (intro exI [of _ ?u]) (simp add: nas_sm_init_def)
qed

end
