(* ===== verification/Md5.thy ===== *)
theory Md5
  imports Prelude
begin

text \<open>
  The MD5 and HMAC-MD5 of \<open>src/open5gs/src/upf/eap-relay.c\<close>, on 32-bit words and octet
  buffers as the code has them.  The locale \<open>stream_hash\<close> states what a streaming hash
  promises (the digest depends only on the concatenation of what was fed to it, and is
  the reference hash of that); it is interpreted on the code's context, and HMAC is shown
  to be RFC 2104 inside it.
\<close>

type_synonym w32 = "32 word"
type_synonym md5_state = "w32 \<times> w32 \<times> w32 \<times> w32"

record md5_ctx_t =
  state :: md5_state
  bit_len :: "64 word"
  buffer :: bytes
  buffer_len :: nat

section \<open>The compression function\<close>

definition md5_rotl :: "w32 \<Rightarrow> nat \<Rightarrow> w32" where
  "md5_rotl x n = push_bit n x OR drop_bit (32 - n) x"

definition md5_f :: "w32 \<Rightarrow> w32 \<Rightarrow> w32 \<Rightarrow> w32" where "md5_f x y z = (x AND y) OR (NOT x AND z)"
definition md5_g :: "w32 \<Rightarrow> w32 \<Rightarrow> w32 \<Rightarrow> w32" where "md5_g x y z = (x AND z) OR (y AND NOT z)"
definition md5_h :: "w32 \<Rightarrow> w32 \<Rightarrow> w32 \<Rightarrow> w32" where "md5_h x y z = x XOR y XOR z"
definition md5_i :: "w32 \<Rightarrow> w32 \<Rightarrow> w32 \<Rightarrow> w32" where "md5_i x y z = y XOR (x OR NOT z)"

text \<open>
  The macro \<open>MD5_STEP\<close>; its 64 uses name the variables in the cyclic order
  \<open>abcd, dabc, cdab, bcda\<close>, which is the rotation of the tuple here.  A table lists
  message word, constant and shift of the sixteen uses of a round.
\<close>

definition MD5_STEP :: "(w32 \<Rightarrow> w32 \<Rightarrow> w32 \<Rightarrow> w32) \<Rightarrow> md5_state \<Rightarrow> w32 \<Rightarrow> w32 \<Rightarrow> nat \<Rightarrow> md5_state" where
  "MD5_STEP f st x t s =
     (case st of (a, b, c, d) \<Rightarrow> (d, md5_rotl (a + (f b c d + x + t)) s + b, b, c))"

definition md5_table1 :: "(nat \<times> w32 \<times> nat) list" where
  "md5_table1 =
    [(0, 0xd76aa478, 7), (1, 0xe8c7b756, 12), (2, 0x242070db, 17), (3, 0xc1bdceee, 22),
     (4, 0xf57c0faf, 7), (5, 0x4787c62a, 12), (6, 0xa8304613, 17), (7, 0xfd469501, 22),
     (8, 0x698098d8, 7), (9, 0x8b44f7af, 12), (10, 0xffff5bb1, 17), (11, 0x895cd7be, 22),
     (12, 0x6b901122, 7), (13, 0xfd987193, 12), (14, 0xa679438e, 17), (15, 0x49b40821, 22)]"

definition md5_table2 :: "(nat \<times> w32 \<times> nat) list" where
  "md5_table2 =
    [(1, 0xf61e2562, 5), (6, 0xc040b340, 9), (11, 0x265e5a51, 14), (0, 0xe9b6c7aa, 20),
     (5, 0xd62f105d, 5), (10, 0x02441453, 9), (15, 0xd8a1e681, 14), (4, 0xe7d3fbc8, 20),
     (9, 0x21e1cde6, 5), (14, 0xc33707d6, 9), (3, 0xf4d50d87, 14), (8, 0x455a14ed, 20),
     (13, 0xa9e3e905, 5), (2, 0xfcefa3f8, 9), (7, 0x676f02d9, 14), (12, 0x8d2a4c8a, 20)]"

definition md5_table3 :: "(nat \<times> w32 \<times> nat) list" where
  "md5_table3 =
    [(5, 0xfffa3942, 4), (8, 0x8771f681, 11), (11, 0x6d9d6122, 16), (14, 0xfde5380c, 23),
     (1, 0xa4beea44, 4), (4, 0x4bdecfa9, 11), (7, 0xf6bb4b60, 16), (10, 0xbebfbc70, 23),
     (13, 0x289b7ec6, 4), (0, 0xeaa127fa, 11), (3, 0xd4ef3085, 16), (6, 0x04881d05, 23),
     (9, 0xd9d4d039, 4), (12, 0xe6db99e5, 11), (15, 0x1fa27cf8, 16), (2, 0xc4ac5665, 23)]"

definition md5_table4 :: "(nat \<times> w32 \<times> nat) list" where
  "md5_table4 =
    [(0, 0xf4292244, 6), (7, 0x432aff97, 10), (14, 0xab9423a7, 15), (5, 0xfc93a039, 21),
     (12, 0x655b59c3, 6), (3, 0x8f0ccc92, 10), (10, 0xffeff47d, 15), (1, 0x85845dd1, 21),
     (8, 0x6fa87e4f, 6), (15, 0xfe2ce6e0, 10), (6, 0xa3014314, 15), (13, 0x4e0811a1, 21),
     (4, 0xf7537e82, 6), (11, 0xbd3af235, 10), (2, 0x2ad7d2bb, 15), (9, 0xeb86d391, 21)]"

definition md5_round ::
  "(w32 \<Rightarrow> w32 \<Rightarrow> w32 \<Rightarrow> w32) \<Rightarrow> w32 list \<Rightarrow> (nat \<times> w32 \<times> nat) list \<Rightarrow> md5_state \<Rightarrow> md5_state" where
  "md5_round f m tbl st = fold (\<lambda>(k, t, s) st. MD5_STEP f st (m ! k) t s) tbl st"

definition le32 :: "bytes \<Rightarrow> nat \<Rightarrow> w32" where
  "le32 b i = ucast (b ! i) OR push_bit 8 (ucast (b ! (i + 1))) OR push_bit 16 (ucast (b ! (i + 2))) OR
     push_bit 24 (ucast (b ! (i + 3)))"

definition md5_transform :: "md5_state \<Rightarrow> bytes \<Rightarrow> md5_state" where
  "md5_transform st block =
     (let m = map (\<lambda>i. le32 block (i * 4)) [0..<16];
          r1 = md5_round md5_f m md5_table1 st;
          r2 = md5_round md5_g m md5_table2 r1;
          r3 = md5_round md5_h m md5_table3 r2;
          r4 = md5_round md5_i m md5_table4 r3
      in case (st, r4) of ((a0, b0, c0, d0), (a, b, c, d)) \<Rightarrow> (a0 + a, b0 + b, c0 + c, d0 + d))"

section \<open>The streaming interface\<close>

definition md5_iv :: md5_state where
  "md5_iv = (0x67452301, 0xefcdab89, 0x98badcfe, 0x10325476)"

text \<open>\<open>buf\<close> is what the uninitialised buffer holds.\<close>

definition md5_init :: "bytes \<Rightarrow> md5_ctx_t" where
  "md5_init buf = \<lparr>state = md5_iv, bit_len = 0, buffer = buf, buffer_len = 0\<rparr>"

function md5_update_while :: "md5_state \<Rightarrow> bytes \<Rightarrow> nat \<Rightarrow> md5_state \<times> nat" where
  "md5_update_while st data i =
     (if i + 63 < length data then md5_update_while (md5_transform st (slice i 64 data)) data (i + 64)
      else (st, i))"
  by pat_completeness auto
termination
  by (relation "measure (\<lambda>(st, data, i). length data - i)") auto

declare md5_update_while.simps [simp del]

definition md5_update :: "md5_ctx_t \<Rightarrow> bytes \<Rightarrow> md5_ctx_t" where
  "md5_update ctx data =
     (if length data = 0 then ctx
      else
        let ctx = ctx\<lparr>bit_len := bit_len ctx + of_nat (length data) * 8\<rparr>;
            space = 64 - buffer_len ctx
        in if buffer_len ctx > 0 \<and> length data < space
           then ctx\<lparr>buffer := poke (buffer ctx) (buffer_len ctx) data, buffer_len := buffer_len ctx + length data\<rparr>
           else
             let (ctx, i) =
                   (if buffer_len ctx > 0
                    then let buf = poke (buffer ctx) (buffer_len ctx) (slice 0 space data)
                         in (ctx\<lparr>buffer := buf, state := md5_transform (state ctx) buf, buffer_len := 0\<rparr>, space)
                    else (ctx, 0));
                 (st, i) = md5_update_while (state ctx) data i;
                 ctx = ctx\<lparr>state := st\<rparr>
             in if i < length data
                then ctx\<lparr>buffer_len := length data - i, buffer := poke (buffer ctx) 0 (drop i data)\<rparr>
                else ctx)"

definition le64_bytes :: "64 word \<Rightarrow> bytes" where
  "le64_bytes n = map (\<lambda>i. ucast (drop_bit (8 * i) n AND 0xff)) [0..<8]"

definition le32_bytes :: "w32 \<Rightarrow> bytes" where
  "le32_bytes v = [ucast (v AND 0xff), ucast (drop_bit 8 v AND 0xff), ucast (drop_bit 16 v AND 0xff),
     ucast (drop_bit 24 v AND 0xff)]"

definition md5_out :: "md5_state \<Rightarrow> bytes" where
  "md5_out st = (case st of (a, b, c, d) \<Rightarrow> le32_bytes a @ le32_bytes b @ le32_bytes c @ le32_bytes d)"

definition md5_final :: "md5_ctx_t \<Rightarrow> bytes" where
  "md5_final ctx =
     (let bl = bit_len ctx;
          pad = 0x80 # zeros 127;
          len_le = le64_bytes bl;
          pad_len = (if buffer_len ctx < 56 then 56 - buffer_len ctx else 120 - buffer_len ctx);
          ctx = (md5_update ctx (slice 0 pad_len pad))\<lparr>bit_len := bl\<rparr>;
          ctx = (md5_update ctx len_le)\<lparr>bit_len := bl\<rparr>
      in md5_out (state ctx))"

definition md5_hash :: "bytes \<Rightarrow> bytes" where
  "md5_hash data = md5_final (md5_update (md5_init (zeros 64)) data)"

definition hmac_md5 :: "bytes \<Rightarrow> bytes \<Rightarrow> bytes" where
  "hmac_md5 key data =
     (let key = (if length key > 64 then md5_hash key else key);
          k_ipad = map (\<lambda>i. if i < length key then 0x36 XOR key ! i else 0x36) [0..<64];
          k_opad = map (\<lambda>i. if i < length key then 0x5c XOR key ! i else 0x5c) [0..<64];
          tk = md5_final (md5_update (md5_update (md5_init (zeros 64)) k_ipad) data)
      in md5_final (md5_update (md5_update (md5_init (zeros 64)) k_opad) tk))"

section \<open>The reference hash\<close>

text \<open>RFC 1321: whole blocks are absorbed in order; the message is padded with \<open>0x80\<close>,
  zeros up to 56 modulo 64, and its length in bits as 64 bits, low octet first.\<close>

function absorb :: "md5_state \<Rightarrow> bytes \<Rightarrow> md5_state \<times> bytes" where
  "absorb st data = (if length data < 64 then (st, data) else absorb (md5_transform st (take 64 data)) (drop 64 data))"
  by pat_completeness auto
termination
  by (relation "measure (\<lambda>(st, data). length data)") auto

declare absorb.simps [simp del]

definition md5_padding :: "nat \<Rightarrow> bytes" where
  "md5_padding n = 0x80 # zeros ((119 - n mod 64) mod 64) @ le64_bytes (of_nat (8 * n))"

definition md5_ref :: "bytes \<Rightarrow> bytes" where
  "md5_ref m = md5_out (fst (absorb md5_iv (m @ md5_padding (length m))))"

definition rfc2104_hmac :: "(bytes \<Rightarrow> bytes) \<Rightarrow> bytes \<Rightarrow> bytes \<Rightarrow> bytes" where
  "rfc2104_hmac H key m =
     (let k0 = (if length key > 64 then H key else key);
          k = k0 @ zeros (64 - length k0)
      in H (map (\<lambda>b. b XOR 0x5c) k @ H (map (\<lambda>b. b XOR 0x36) k @ m)))"

lemma absorb_short: "length data < 64 \<Longrightarrow> absorb st data = (st, data)"
  by (simp add: absorb.simps)

lemma absorb_append: "absorb st (xs @ ys) = (case absorb st xs of (st', rest) \<Rightarrow> absorb st' (rest @ ys))"
proof (induction st xs rule: absorb.induct)
  case (1 st data)
  show ?case
  proof (cases "length data < 64")
    case True
    then show ?thesis by (simp add: absorb_short)
  next
    case False
    then have "absorb st (data @ ys) = absorb (md5_transform st (take 64 data)) (drop 64 data @ ys)"
      "absorb st data = absorb (md5_transform st (take 64 data)) (drop 64 data)"
      by (subst absorb.simps, simp)+
    with 1 False show ?thesis by simp
  qed
qed

lemma length_absorb_rest: "length (snd (absorb st data)) = length data mod 64"
  by (induction st data rule: absorb.induct) (subst absorb.simps, simp add: le_mod_geq)

lemma absorb_rest_short: "absorb st data = (st', rest) \<Longrightarrow> length rest < 64"
  using length_absorb_rest [of st data] by simp

lemma md5_update_while_absorb:
  assumes "i \<le> length data"
  shows "case md5_update_while st data i of (st', j) \<Rightarrow> j \<le> length data \<and> absorb st (drop i data) = (st', drop j data)"
  using assms
proof (induction st data i rule: md5_update_while.induct)
  case (1 st data i)
  show ?case
  proof (cases "i + 63 < length data")
    case True
    have "absorb st (drop i data) = absorb (md5_transform st (slice i 64 data)) (drop (i + 64) data)"
      using True by (subst absorb.simps) (auto simp: slice_def add.commute)
    moreover have "md5_update_while st data i = md5_update_while (md5_transform st (slice i 64 data)) data (i + 64)"
      using True by (subst md5_update_while.simps) simp
    ultimately show ?thesis using 1(1) True by simp
  next
    case False
    with 1 show ?thesis by (subst md5_update_while.simps) (simp add: absorb_short)
  qed
qed

section \<open>Streaming\<close>

text \<open>
  What a streaming hash promises.  \<open>fed c m\<close>: the context \<open>c\<close> has been fed the octets
  \<open>m\<close> in some number of calls.
\<close>

locale stream_hash =
  fixes init :: 'c and update :: "'c \<Rightarrow> bytes \<Rightarrow> 'c" and final :: "'c \<Rightarrow> bytes"
    and fed :: "'c \<Rightarrow> bytes \<Rightarrow> bool" and H :: "bytes \<Rightarrow> bytes"
  assumes fed_init: "fed init []"
    and fed_update: "fed c m \<Longrightarrow> fed (update c d) (m @ d)"
    and fed_final: "fed c m \<Longrightarrow> final c = H m"
begin

lemma fed_updates: "fed c m \<Longrightarrow> fed (fold (\<lambda>d c. update c d) ds c) (m @ concat ds)"
proof (induction ds arbitrary: c m)
  case (Cons d ds)
  from Cons.IH [OF fed_update [OF Cons.prems]] show ?case by simp
qed simp

lemma chunking: "final (fold (\<lambda>d c. update c d) ds init) = H (concat ds)"
  using fed_final [OF fed_updates [OF fed_init, of ds]] by simp

lemma final1: "final (update init m) = H m"
  using chunking [of "[m]"] by simp

lemma final2: "final (update (update init a) b) = H (a @ b)"
  using chunking [of "[a, b]"] by simp

end

definition md5_absorbed :: "md5_ctx_t \<Rightarrow> bytes \<Rightarrow> bool" where
  "md5_absorbed c m \<longleftrightarrow> length (buffer c) = 64 \<and> buffer_len c < 64 \<and>
     absorb md5_iv m = (state c, take (buffer_len c) (buffer c))"

lemma md5_absorbed_len: "md5_absorbed c m \<Longrightarrow> buffer_len c = length m mod 64"
  using length_absorb_rest [of md5_iv m] by (simp add: md5_absorbed_def)

lemma md5_absorbed_bit_len [simp]: "md5_absorbed (c\<lparr>bit_len := b\<rparr>) m = md5_absorbed c m"
  by (simp add: md5_absorbed_def)

lemma md5_absorbed_update:
  assumes "md5_absorbed c m"
  shows "md5_absorbed (md5_update c d) (m @ d)"
proof -
  let ?bl = "buffer_len c" and ?rest = "take (buffer_len c) (buffer c)"
  have c: "length (buffer c) = 64" "?bl < 64" "absorb md5_iv m = (state c, ?rest)"
    using assms unfolding md5_absorbed_def by blast+
  have step: "absorb md5_iv (m @ d) = absorb (state c) (?rest @ d)" 
    using absorb_append [of md5_iv m d] by (simp only: c(3) prod.case)
  consider "d = []" | "d \<noteq> []" "?bl > 0" "length d < 64 - ?bl" | "d \<noteq> []" "?bl > 0" "\<not> length d < 64 - ?bl"
    | "d \<noteq> []" "?bl = 0" by (metis gr0I)
  then show ?thesis
  proof cases
    case 1
    then show ?thesis using assms by (simp add: md5_update_def)
  next
    case 2
    then show ?thesis
      using c step by (simp add: md5_update_def Let_def md5_absorbed_def absorb_short poke_def)
  next
    case 3
    let ?buf = "poke (buffer c) ?bl (take (64 - ?bl) d)"
    have buf: "?buf = ?rest @ take (64 - ?bl) d" "length ?buf = 64"
      using 3 c by (simp_all add: poke_def)
    have "absorb (state c) (?rest @ d) = absorb (md5_transform (state c) ?buf) (drop (64 - ?bl) d)"
      using 3 c(1,2) by (subst absorb.simps) (auto simp: buf)
    moreover obtain st j where w: "md5_update_while (md5_transform (state c) ?buf) d (64 - ?bl) = (st, j)"
      by fastforce
    ultimately have a: "absorb md5_iv (m @ d) = (st, drop j d)" "j \<le> length d"
      using md5_update_while_absorb [of "64 - ?bl" d "md5_transform (state c) ?buf"] 3 step by simp_all
    have "length (drop j d) < 64" using absorb_rest_short a(1) by blast
    then show ?thesis
      using 3 c w a buf by (auto simp: md5_update_def Let_def md5_absorbed_def poke_def)
  next
    case 4
    obtain st j where w: "md5_update_while (state c) d 0 = (st, j)" by fastforce
    with 4 have a: "absorb md5_iv (m @ d) = (st, drop j d)" "j \<le> length d"
      using md5_update_while_absorb [of 0 d "state c"] step by simp_all
    have "length (drop j d) < 64" using absorb_rest_short a(1) by blast
    then show ?thesis
      using 4 c w a by (auto simp: md5_update_def Let_def md5_absorbed_def poke_def)
  qed
qed

lemma md5_update_bit_len: "bit_len (md5_update c d) = bit_len c + of_nat (length d) * 8"
  by (simp add: md5_update_def Let_def split: prod.split)

definition md5_fed :: "md5_ctx_t \<Rightarrow> bytes \<Rightarrow> bool" where
  "md5_fed c m \<longleftrightarrow> md5_absorbed c m \<and> bit_len c = of_nat (8 * length m)"

lemma length_le64 [simp]: "length (le64_bytes n) = 8"
  by (simp add: le64_bytes_def)

lemma md5_pad_slice:
  assumes "n < 64"
  shows "slice 0 (if n < 56 then 56 - n else 120 - n) (0x80 # zeros 127) = 0x80 # zeros ((119 - n) mod 64)"
proof (cases "n < 56")
  case True
  have "(119 - n) mod 64 = 55 - n"
    using True mod_add_self2 [of "55 - n" 64] by simp
  moreover have "56 - n = Suc (55 - n)" using True by simp
  ultimately show ?thesis using True by simp
next
  case False
  with assms obtain k where "120 - n = Suc k" "(119 - n) mod 64 = k" "k \<le> 127"
    by (cases "120 - n") simp_all
  with False show ?thesis by simp
qed

lemma md5_fed_final:
  assumes "md5_fed c m"
  shows "md5_final c = md5_ref m"
proof -
  let ?n = "length m mod 64"
  have bl: "buffer_len c = ?n" and b: "bit_len c = of_nat (8 * length m)" and a: "md5_absorbed c m"
    using assms md5_absorbed_len by (simp_all add: md5_fed_def)
  have n: "?n < 64" by simp
  define p where "p = 0x80 # zeros ((119 - ?n) mod 64)"
  define c1 where "c1 = (md5_update c p)\<lparr>bit_len := bit_len c\<rparr>"
  define c2 where "c2 = (md5_update c1 (le64_bytes (bit_len c)))\<lparr>bit_len := bit_len c\<rparr>"
  have "md5_absorbed c2 ((m @ p) @ le64_bytes (bit_len c))"
    unfolding c2_def c1_def md5_absorbed_bit_len
    by (rule md5_absorbed_update) (simp add: md5_absorbed_update [OF a])
  then have "fst (absorb md5_iv (m @ md5_padding (length m))) = state c2"
    by (simp add: md5_absorbed_def p_def b md5_padding_def)
  moreover have "md5_final c = md5_out (state c2)"
    unfolding md5_final_def Let_def bl md5_pad_slice [OF n] p_def [symmetric] c1_def [symmetric] c2_def [symmetric] ..
  ultimately show ?thesis by (simp add: md5_ref_def)
qed

lemma md5_fed_update: "md5_fed c m \<Longrightarrow> md5_fed (md5_update c d) (m @ d)"
  by (simp add: md5_fed_def md5_absorbed_update md5_update_bit_len algebra_simps)

interpretation md5s: stream_hash "md5_init (zeros 64)" md5_update md5_final md5_fed md5_ref
proof
  show "md5_fed (md5_init (zeros 64)) []"
    by (simp add: md5_fed_def md5_absorbed_def md5_init_def absorb_short)
qed (fact md5_fed_update md5_fed_final)+

text \<open>
  C40.  MD5 streaming.  Whatever the chunks it is fed in and whatever the uninitialised
  buffer held, the context's digest is the RFC 1321 hash of their concatenation.
\<close>

theorem md5_streaming:
  assumes "length buf = 64"
  shows "md5_final (fold (\<lambda>d c. md5_update c d) ds (md5_init buf)) = md5_ref (concat ds) \<and>
    md5_hash m = md5_ref m"
proof -
  have "md5_fed (md5_init buf) []"
    using assms by (simp add: md5_fed_def md5_absorbed_def md5_init_def absorb_short)
  from md5s.fed_final [OF md5s.fed_updates [OF this, of ds]] show ?thesis
    by (simp add: md5_hash_def md5s.final1)
qed

theorem md5_streaming_witness:
  "md5_final (fold (\<lambda>d c. md5_update c d) [ascii ''ab'', ascii ''c''] (md5_init (replicate 64 0xaa))) =
   [0x90, 0x01, 0x50, 0x98, 0x3c, 0xd2, 0x4f, 0xb0, 0xd6, 0x96, 0x3f, 0x7d, 0x28, 0xe1, 0x7f, 0x72]"
proof -
  have "md5_ref (ascii ''abc'') =
      [0x90, 0x01, 0x50, 0x98, 0x3c, 0xd2, 0x4f, 0xb0, 0xd6, 0x96, 0x3f, 0x7d, 0x28, 0xe1, 0x7f, 0x72]"
    by code_simp
  then show ?thesis
    using md5_streaming [of "replicate 64 0xaa" "[ascii ''ab'', ascii ''c'']" "[]"] by (simp add: ascii_def)
qed

lemma hmac_pad_map:
  assumes "length k \<le> 64"
  shows "map (\<lambda>i. if i < length k then w XOR k ! i else w) [0..<64] = map (\<lambda>b. b XOR w) (k @ zeros (64 - length k))"
  using assms by (intro nth_equalityI) (simp_all add: nth_append xor.commute)

lemma length_md5_out [simp]: "length (md5_out st) = 16"
  by (simp add: md5_out_def le32_bytes_def split: prod.split)

lemma length_md5_ref [simp]: "length (md5_ref m) = 16"
  by (simp add: md5_ref_def)

text \<open>
  \<open>hmac_md5\<close> is HMAC of RFC 2104 over MD5 for keys of every length.
\<close>

theorem hmac_md5_rfc2104: "hmac_md5 key data = rfc2104_hmac md5_ref key data"
proof -
  let ?k = "if length key > 64 then md5_ref key else key"
  have k: "length ?k \<le> 64" by simp
  have h: "md5_hash = md5_ref" by (rule ext) (simp add: md5_hash_def md5s.final1)
  show ?thesis
    unfolding hmac_md5_def rfc2104_hmac_def Let_def h hmac_pad_map [OF k] md5s.final2 ..
qed

end
