(* ===== verification/Radius.thy ===== *)
theory Radius
  imports Md5
begin

text \<open>
  The RADIUS client of \<open>src/open5gs/src/upf/eap-relay.c\<close>: attributes, the Access-Request,
  verification and parsing of the reply.  A buffer filled from its start is the list of
  the octets written so far, \<open>*pos\<close> its length; a return of \<open>-1\<close> is \<open>None\<close>.  The C
  library's \<open>rand\<close> is the parameter \<open>rnd\<close> with an explicit state.
\<close>

abbreviation (input) EAP_RELAY_RESULT_ACCEPT :: byte where "EAP_RELAY_RESULT_ACCEPT \<equiv> 0"
abbreviation (input) EAP_RELAY_RESULT_REJECT :: byte where "EAP_RELAY_RESULT_REJECT \<equiv> 1"
abbreviation (input) EAP_RELAY_RESULT_CHALLENGE :: byte where "EAP_RELAY_RESULT_CHALLENGE \<equiv> 2"
abbreviation (input) EAP_RELAY_RESULT_ERROR :: byte where "EAP_RELAY_RESULT_ERROR \<equiv> 3"
abbreviation (input) RADIUS_CODE_ACCESS_REQUEST :: byte where "RADIUS_CODE_ACCESS_REQUEST \<equiv> 1"
abbreviation (input) RADIUS_CODE_ACCESS_ACCEPT :: byte where "RADIUS_CODE_ACCESS_ACCEPT \<equiv> 2"
abbreviation (input) RADIUS_CODE_ACCESS_REJECT :: byte where "RADIUS_CODE_ACCESS_REJECT \<equiv> 3"
abbreviation (input) RADIUS_CODE_ACCESS_CHALLENGE :: byte where "RADIUS_CODE_ACCESS_CHALLENGE \<equiv> 11"
abbreviation (input) RADIUS_ATTR_USER_NAME :: byte where "RADIUS_ATTR_USER_NAME \<equiv> 1"
abbreviation (input) RADIUS_ATTR_SERVICE_TYPE :: byte where "RADIUS_ATTR_SERVICE_TYPE \<equiv> 6"
abbreviation (input) RADIUS_ATTR_STATE :: byte where "RADIUS_ATTR_STATE \<equiv> 24"
abbreviation (input) RADIUS_ATTR_NAS_PORT_TYPE :: byte where "RADIUS_ATTR_NAS_PORT_TYPE \<equiv> 61"
abbreviation (input) RADIUS_ATTR_EAP_MESSAGE :: byte where "RADIUS_ATTR_EAP_MESSAGE \<equiv> 79"
abbreviation (input) RADIUS_ATTR_MESSAGE_AUTHENTICATOR :: byte where "RADIUS_ATTR_MESSAGE_AUTHENTICATOR \<equiv> 80"
abbreviation (input) RADIUS_HEADER_LEN :: nat where "RADIUS_HEADER_LEN \<equiv> 20"
abbreviation (input) RADIUS_MAX_PACKET_LEN :: nat where "RADIUS_MAX_PACKET_LEN \<equiv> 4096"
abbreviation (input) RADIUS_MAX_ATTR_VALUE :: nat where "RADIUS_MAX_ATTR_VALUE \<equiv> 253"

section \<open>Building the request\<close>

function radius_append_attr :: "bytes \<Rightarrow> nat \<Rightarrow> byte \<Rightarrow> bytes \<Rightarrow> bytes option" where
  "radius_append_attr buf cap type data =
     (if length data > 0 then
        let chunk = (if length data > RADIUS_MAX_ATTR_VALUE then RADIUS_MAX_ATTR_VALUE else length data)
        in if length buf + 2 + chunk > cap then None
           else radius_append_attr (buf @ [type, of_nat (2 + chunk)] @ slice 0 chunk data) cap type (drop chunk data)
      else Some buf)"
  by pat_completeness auto
termination
  by (relation "measure (\<lambda>(buf, cap, type, data). length data)") (auto split: if_splits)

declare radius_append_attr.simps [simp del]

definition radius_append_u16_attr :: "bytes \<Rightarrow> nat \<Rightarrow> byte \<Rightarrow> nat \<Rightarrow> bytes option" where
  "radius_append_u16_attr buf cap type v = radius_append_attr buf cap type (be16 v)"

text \<open>The identifier counter \<open>g_radius_identifier\<close> and the generator state are threaded.\<close>

type_synonym 'r radius_env = "byte \<times> 'r"

definition radius_build_request ::
  "(nat \<Rightarrow> 'r \<Rightarrow> bytes \<times> 'r) \<Rightarrow> bytes option \<Rightarrow> bytes \<Rightarrow> bytes option \<Rightarrow> bytes option \<Rightarrow> nat \<Rightarrow> 'r radius_env \<Rightarrow>
   bytes option \<times> 'r radius_env" where
  "radius_build_request rnd username st eap secret req_cap env =
     (case (username, eap, secret) of
        (Some u, Some e, Some sec) \<Rightarrow>
          if length u > RADIUS_MAX_ATTR_VALUE then (None, env)
          else if RADIUS_HEADER_LEN + 2 + length u + 2 + 2 + length e + 18 > req_cap then (None, env)
          else
          let gid = fst env + 1;
              (auth, r) = rnd 16 (snd env);
              req = [RADIUS_CODE_ACCESS_REQUEST, gid, 0, 0] @ auth;
              attrs = Option.bind (radius_append_attr req req_cap RADIUS_ATTR_USER_NAME u) (\<lambda>req.
                Option.bind (radius_append_u16_attr req req_cap RADIUS_ATTR_SERVICE_TYPE 2) (\<lambda>req.
                Option.bind (radius_append_u16_attr req req_cap RADIUS_ATTR_NAS_PORT_TYPE 5) (\<lambda>req.
                Option.bind (if length st > 0 then radius_append_attr req req_cap RADIUS_ATTR_STATE st else Some req) (\<lambda>req.
                radius_append_attr req req_cap RADIUS_ATTR_EAP_MESSAGE e))))
          in (case attrs of
                None \<Rightarrow> (None, (gid, r))
              | Some req \<Rightarrow>
                  let ma_pos = length req + 2
                  in if length req + 18 > req_cap then (None, (gid, r))
                  else
                  let req = req @ [RADIUS_ATTR_MESSAGE_AUTHENTICATOR, 18] @ zeros 16
                  in if length req > RADIUS_MAX_PACKET_LEN then (None, (gid, r))
                  else
                  let req = poke req 2 (be16 (length req));
                      digest = hmac_md5 sec req
                  in (Some (poke req ma_pos digest), (gid, r)))
      | _ \<Rightarrow> (None, env))"

section \<open>Parsing and verifying the reply\<close>

function radius_parse_while ::
  "bytes \<Rightarrow> nat \<Rightarrow> nat \<Rightarrow> nat \<Rightarrow> nat \<Rightarrow> bytes \<times> bytes \<Rightarrow> (bytes \<times> bytes) option" where
  "radius_parse_while resp scap ecap packet_len pos se =
     (if pos + 2 \<le> packet_len then
        let type = resp ! pos;
            alen = unat (resp ! (pos + 1));
            data_len = alen - 2;
            data = slice (pos + 2) data_len resp
        in if alen < 2 \<or> pos + alen > packet_len then None
           else if type = RADIUS_ATTR_STATE then
             (if length (fst se) + data_len > scap then None
              else radius_parse_while resp scap ecap packet_len (pos + alen) (fst se @ data, snd se))
           else if type = RADIUS_ATTR_EAP_MESSAGE then
             (if length (snd se) + data_len > ecap then None
              else radius_parse_while resp scap ecap packet_len (pos + alen) (fst se, snd se @ data))
           else radius_parse_while resp scap ecap packet_len (pos + alen) se
      else Some se)"
  by pat_completeness auto
termination
  by (relation "measure (\<lambda>(resp, scap, ecap, packet_len, pos, se). packet_len - pos)") auto

declare radius_parse_while.simps [simp del]

definition radius_parse_response :: "bytes \<Rightarrow> nat \<Rightarrow> nat \<Rightarrow> (byte \<times> bytes \<times> bytes) option" where
  "radius_parse_response resp scap ecap =
     (if length resp < RADIUS_HEADER_LEN then None
      else
        let code = resp ! 0;
            packet_len = get16 resp 2
        in if packet_len > length resp \<or> packet_len < RADIUS_HEADER_LEN then None
           else case radius_parse_while resp scap ecap packet_len RADIUS_HEADER_LEN ([], []) of
             None \<Rightarrow> None
           | Some (st, eap) \<Rightarrow>
               if code = RADIUS_CODE_ACCESS_ACCEPT then Some (EAP_RELAY_RESULT_ACCEPT, st, eap)
               else if code = RADIUS_CODE_ACCESS_REJECT then Some (EAP_RELAY_RESULT_REJECT, st, eap)
               else if code = RADIUS_CODE_ACCESS_CHALLENGE then Some (EAP_RELAY_RESULT_CHALLENGE, st, eap)
               else None)"

text \<open>\<open>ma_off\<close> is \<open>None\<close> for the code's \<open>-1\<close>.\<close>

function radius_verify_while :: "bytes \<Rightarrow> nat \<Rightarrow> nat \<Rightarrow> bool \<times> nat option \<Rightarrow> (bool \<times> nat option) option" where
  "radius_verify_while tmp packet_len pos hm =
     (if pos + 2 \<le> packet_len then
        let type = tmp ! pos;
            alen = unat (tmp ! (pos + 1));
            has_eap = (fst hm \<or> type = RADIUS_ATTR_EAP_MESSAGE)
        in if alen < 2 \<or> pos + alen > packet_len then None
           else if type = RADIUS_ATTR_MESSAGE_AUTHENTICATOR then
             (if alen \<noteq> 18 then None
              else if snd hm \<noteq> None then None
              else radius_verify_while tmp packet_len (pos + alen) (has_eap, Some (pos + 2)))
           else radius_verify_while tmp packet_len (pos + alen) (has_eap, snd hm)
      else Some hm)"
  by pat_completeness auto
termination
  by (relation "measure (\<lambda>(tmp, packet_len, pos, hm). packet_len - pos)") auto

declare radius_verify_while.simps [simp del]

definition radius_verify_response :: "bytes \<Rightarrow> bytes \<Rightarrow> bytes \<Rightarrow> bool" where
  "radius_verify_response req resp secret =
     (if length req < RADIUS_HEADER_LEN \<or> length resp < RADIUS_HEADER_LEN then False
      else if resp ! 1 \<noteq> req ! 1 then False
      else
        let packet_len = get16 resp 2
        in if packet_len < RADIUS_HEADER_LEN \<or> packet_len > length resp \<or> packet_len > RADIUS_MAX_PACKET_LEN
           then False
           else
           let tmp = poke (slice 0 packet_len resp) 4 (slice 4 16 req)
           in case radius_verify_while tmp packet_len RADIUS_HEADER_LEN (False, None) of
             None \<Rightarrow> False
           | Some (has_eap, ma_off) \<Rightarrow>
               if has_eap \<and> ma_off = None then False
               else if (case ma_off of
                          None \<Rightarrow> False
                        | Some off \<Rightarrow>
                            \<not> memcmp_eq (slice off 16 tmp) (hmac_md5 secret (poke tmp off (zeros 16))) 16)
               then False
               else
                 let digest = md5_final (md5_update (md5_update (md5_init (zeros 64)) tmp) secret)
                 in memcmp_eq digest (slice 4 16 resp) 16)"

section \<open>The attributes of a packet\<close>

text \<open>
  The attributes as RFC 2865 has them: type, length (of the whole attribute) and value,
  from \<open>pos\<close> on, each with its position.  As in the code, a single octet left at the end
  is ignored.
\<close>

function radius_tlvs :: "bytes \<Rightarrow> nat \<Rightarrow> nat \<Rightarrow> (nat \<times> byte \<times> bytes) list option" where
  "radius_tlvs buf packet_len pos =
     (if pos + 2 \<le> packet_len then
        let alen = unat (buf ! (pos + 1))
        in if alen < 2 \<or> pos + alen > packet_len then None
           else map_option (Cons (pos, buf ! pos, slice (pos + 2) (alen - 2) buf)) (radius_tlvs buf packet_len (pos + alen))
      else Some [])"
  by pat_completeness auto
termination
  by (relation "measure (\<lambda>(buf, packet_len, pos). packet_len - pos)") auto

declare radius_tlvs.simps [simp del]

fun fold_opt :: "('a \<Rightarrow> 's \<Rightarrow> 's option) \<Rightarrow> 'a list \<Rightarrow> 's \<Rightarrow> 's option" where
  "fold_opt f [] s = Some s"
| "fold_opt f (x # xs) s = Option.bind (f x s) (fold_opt f xs)"

lemma fold_opt_append: "fold_opt f (xs @ ys) s = Option.bind (fold_opt f xs s) (fold_opt f ys)"
proof (induction xs arbitrary: s)
  case (Cons x xs)
  then show ?case by (cases "f x s") simp_all
qed simp

text \<open>
  The contract of a loop over the attributes: each turn checks the attribute's length and
  hands position, type and value to \<open>step\<close>.  Then the loop is a fold over the
  attributes of the packet.
\<close>

locale attr_walker =
  fixes walk :: "bytes \<Rightarrow> nat \<Rightarrow> nat \<Rightarrow> 's \<Rightarrow> 's option"
    and step :: "nat \<times> byte \<times> bytes \<Rightarrow> 's \<Rightarrow> 's option"
  assumes walk_turn: "pos + 2 \<le> plen \<Longrightarrow> plen \<le> length buf \<Longrightarrow> walk buf plen pos s =
      (let alen = unat (buf ! (pos + 1))
       in if alen < 2 \<or> pos + alen > plen then None
          else Option.bind (step (pos, buf ! pos, slice (pos + 2) (alen - 2) buf) s) (walk buf plen (pos + alen)))"
    and walk_exit: "\<not> pos + 2 \<le> plen \<Longrightarrow> walk buf plen pos s = Some s"
begin

lemma walk_fold:
  "plen \<le> length buf \<Longrightarrow> walk buf plen pos s = Option.bind (radius_tlvs buf plen pos) (\<lambda>l. fold_opt step l s)"
proof (induction buf plen pos arbitrary: s rule: radius_tlvs.induct)
  case (1 buf plen pos)
  let ?alen = "unat (buf ! (pos + 1))" and ?x = "(pos, buf ! pos, slice (pos + 2) (unat (buf ! (pos + 1)) - 2) buf)"
  consider "\<not> pos + 2 \<le> plen" | "pos + 2 \<le> plen" "?alen < 2 \<or> pos + ?alen > plen"
    | "pos + 2 \<le> plen" "\<not> (?alen < 2 \<or> pos + ?alen > plen)" by blast
  then show ?case
  proof cases
    case 1
    then show ?thesis by (simp add: walk_exit radius_tlvs.simps)
  next
    case 2
    with "1.prems" show ?thesis by (subst radius_tlvs.simps) (simp add: walk_turn)
  next
    case 3
    have "walk buf plen pos s = Option.bind (step ?x s) (walk buf plen (pos + ?alen))"
      using 3 "1.prems" by (simp add: walk_turn Let_def)
    moreover have "radius_tlvs buf plen pos = map_option (Cons ?x) (radius_tlvs buf plen (pos + ?alen))"
      using 3 by (subst radius_tlvs.simps) (simp add: Let_def)
    moreover have "walk buf plen (pos + ?alen) t =
        Option.bind (radius_tlvs buf plen (pos + ?alen)) (\<lambda>l. fold_opt step l t)" for t
      using 3 "1.prems" by (intro "1.IH") simp_all
    ultimately show ?thesis
      by (cases "step ?x s"; cases "radius_tlvs buf plen (pos + ?alen)") simp_all
  qed
qed

end

definition parse_attr :: "nat \<Rightarrow> nat \<Rightarrow> nat \<times> byte \<times> bytes \<Rightarrow> bytes \<times> bytes \<Rightarrow> (bytes \<times> bytes) option" where
  "parse_attr scap ecap a se =
     (case (a, se) of ((pos, t, v), (st, eap)) \<Rightarrow>
        if t = RADIUS_ATTR_STATE then (if length st + length v > scap then None else Some (st @ v, eap))
        else if t = RADIUS_ATTR_EAP_MESSAGE then (if length eap + length v > ecap then None else Some (st, eap @ v))
        else Some se)"

definition verify_attr :: "nat \<times> byte \<times> bytes \<Rightarrow> bool \<times> nat option \<Rightarrow> (bool \<times> nat option) option" where
  "verify_attr a hm =
     (case a of (pos, t, v) \<Rightarrow>
        if t = RADIUS_ATTR_MESSAGE_AUTHENTICATOR
        then (if length v \<noteq> 16 \<or> snd hm \<noteq> None then None else Some (fst hm, Some (pos + 2)))
        else Some (fst hm \<or> t = RADIUS_ATTR_EAP_MESSAGE, snd hm))"

interpretation pw: attr_walker "\<lambda>buf. radius_parse_while buf scap ecap" "parse_attr scap ecap"
proof
  fix pos plen :: nat and buf :: bytes and s :: "bytes \<times> bytes"
  assume "pos + 2 \<le> plen" "plen \<le> length buf"
  then show "radius_parse_while buf scap ecap plen pos s =
      (let alen = unat (buf ! (pos + 1))
       in if alen < 2 \<or> pos + alen > plen then None
          else Option.bind (parse_attr scap ecap (pos, buf ! pos, slice (pos + 2) (alen - 2) buf) s)
                 (radius_parse_while buf scap ecap plen (pos + alen)))"
    by (subst radius_parse_while.simps) (cases s, auto simp: Let_def parse_attr_def)
qed (simp add: radius_parse_while.simps)

interpretation vw: attr_walker radius_verify_while verify_attr
proof
  fix pos plen :: nat and buf :: bytes and s :: "bool \<times> nat option"
  assume "pos + 2 \<le> plen" "plen \<le> length buf"
  then show "radius_verify_while buf plen pos s =
      (let alen = unat (buf ! (pos + 1))
       in if alen < 2 \<or> pos + alen > plen then None
          else Option.bind (verify_attr (pos, buf ! pos, slice (pos + 2) (alen - 2) buf) s)
                 (radius_verify_while buf plen (pos + alen)))"
    by (subst radius_verify_while.simps) (cases s, auto simp: Let_def verify_attr_def)
qed (simp add: radius_verify_while.simps)

end
