(* ===== verification/Radius_Props.thy ===== *)
theory Radius_Props
  imports Radius
begin

text \<open>
  Properties of the RADIUS client: what the attributes it writes mean, the round trip of
  a reply, what an accepted reply has proved, and the shape of the requests.
\<close>

section \<open>Writing attributes\<close>

text \<open>The encoding of a value as attributes of at most 253 octets, and the attributes it
  consists of when it starts at \<open>pos\<close>.\<close>

function attr_list :: "nat \<Rightarrow> byte \<Rightarrow> bytes \<Rightarrow> (nat \<times> byte \<times> bytes) list" where
  "attr_list pos t d =
     (if d = [] then [] else (pos, t, take 253 d) # attr_list (pos + 2 + length (take 253 d)) t (drop 253 d))"
  by pat_completeness auto
termination
  by (relation "measure (\<lambda>(pos, t, d). length d)") auto

declare attr_list.simps [simp del]

definition attr_enc :: "byte \<Rightarrow> bytes \<Rightarrow> bytes" where
  "attr_enc t d = concat (map (\<lambda>(pos, t, v). [t, of_nat (2 + length v)] @ v) (attr_list 0 t d))"

lemma attr_list_shift: "attr_list (pos + k) t d = map (\<lambda>(p, x). (p + k, x)) (attr_list pos t d)"
proof (induction pos t d arbitrary: k rule: attr_list.induct)
  case (1 pos t d)
  show ?case
  proof (cases "d = []")
    case False
    then have "attr_list (pos + 2 + length (take 253 d) + k) t (drop 253 d) =
        map (\<lambda>(p, x). (p + k, x)) (attr_list (pos + 2 + length (take 253 d)) t (drop 253 d))"
      by (rule "1.IH")
    with False show ?thesis
      by (subst attr_list.simps, subst attr_list.simps [of pos]) (simp add: ac_simps)
  qed (simp add: attr_list.simps)
qed

lemma attr_enc_Nil [simp]: "attr_enc t [] = []"
  by (simp add: attr_enc_def attr_list.simps)

lemma attr_enc_step:
  assumes "d \<noteq> []"
  shows "attr_enc t d = [t, of_nat (2 + length (take 253 d))] @ take 253 d @ attr_enc t (drop 253 d)"
proof -
  have "attr_list (2 + length (take 253 d)) t (drop 253 d) =
      map (\<lambda>(p, x). (p + (2 + length (take 253 d)), x)) (attr_list 0 t (drop 253 d))"
    using attr_list_shift [of 0 "2 + length (take 253 d)"] by simp
  with assms show ?thesis
    unfolding attr_enc_def by (subst attr_list.simps) (simp add: case_prod_unfold comp_def)
qed

lemma length_attr_enc_ge: "length d \<le> length (attr_enc t d)"
proof (induction "length d" arbitrary: d rule: less_induct)
  case less
  show ?case
  proof (cases "d = []")
    case False
    then have "length (drop 253 d) \<le> length (attr_enc t (drop 253 d))" by (intro less) simp
    with False show ?thesis by (simp add: attr_enc_step)
  qed simp
qed

lemma radius_append_attr_enc:
  "radius_append_attr buf cap t d =
     (if d = [] \<or> length buf + length (attr_enc t d) \<le> cap then Some (buf @ attr_enc t d) else None)"
proof (induction buf cap t d rule: radius_append_attr.induct)
  case (1 buf cap t d)
  let ?chunk = "if length d > 253 then 253 else length d"
  have c: "take ?chunk d = take 253 d" "drop ?chunk d = drop 253 d" "length (take 253 d) = ?chunk" by simp_all
  show ?case
  proof (cases "d = []")
    case False
    let ?buf = "buf @ [t, of_nat (2 + length (take 253 d))] @ take 253 d"
    have split: "attr_enc t d = [t, of_nat (2 + length (take 253 d))] @ take 253 d @ attr_enc t (drop 253 d)"
      by (rule attr_enc_step [OF False])
    have unf: "radius_append_attr buf cap t d =
        (if length ?buf > cap then None else radius_append_attr ?buf cap t (drop 253 d))"
      using False c by (subst radius_append_attr.simps) (simp add: Let_def)
    show ?thesis
    proof (cases "length ?buf > cap")
      case True
      then show ?thesis using False unf split by simp
    next
      case le: False
      have "radius_append_attr ?buf cap t (drop 253 d) =
          (if drop 253 d = [] \<or> length ?buf + length (attr_enc t (drop 253 d)) \<le> cap
           then Some (?buf @ attr_enc t (drop 253 d)) else None)"
        using "1.IH" [of ?chunk] False le c by simp
      with False le unf split show ?thesis by auto
    qed
  qed (simp add: radius_append_attr.simps)
qed

lemma tlvs_attr_enc:
  assumes "length pre + length (attr_enc t d) \<le> plen"
  shows "radius_tlvs (pre @ attr_enc t d @ suf) plen (length pre) =
    map_option ((@) (attr_list (length pre) t d))
      (radius_tlvs (pre @ attr_enc t d @ suf) plen (length pre + length (attr_enc t d)))"
  using assms
proof (induction "length d" arbitrary: d pre rule: less_induct)
  case less
  show ?case
  proof (cases "d = []")
    case True
    then show ?thesis
      by (cases "radius_tlvs (pre @ suf) plen (length pre)") (simp_all add: attr_list.simps)
  next
    case False
    let ?v = "take 253 d" and ?w = "drop 253 d"
    let ?hd = "[t, of_nat (2 + length ?v) :: byte] @ ?v"
    let ?buf = "pre @ attr_enc t d @ suf"
    have enc: "attr_enc t d = ?hd @ attr_enc t ?w" using attr_enc_step [OF False] by simp
    have buf: "?buf = (pre @ ?hd) @ attr_enc t ?w @ suf" by (simp add: enc)
    have al: "unat (of_nat (2 + length ?v) :: byte) = 2 + length ?v"
      unfolding unat_byte_of_nat by simp
    have at: "?buf ! length pre = t" "?buf ! (length pre + 1) = of_nat (2 + length ?v)"
      "slice (length pre + 2) (length ?v) ?buf = ?v"
      by (simp_all add: enc nth_append slice_def)
    have len: "length (pre @ ?hd) = length pre + (2 + length ?v)"
      "length pre + length (attr_enc t d) = length (pre @ ?hd) + length (attr_enc t ?w)" by (simp_all add: enc)
    have "length pre + (2 + length ?v) \<le> plen" using less.prems len by linarith
    then have "radius_tlvs ?buf plen (length pre) =
        map_option (Cons (length pre, t, ?v)) (radius_tlvs ?buf plen (length (pre @ ?hd)))"
      using at al len(1) by (subst radius_tlvs.simps) (simp add: Let_def)
    moreover have "radius_tlvs ?buf plen (length (pre @ ?hd)) =
        map_option ((@) (attr_list (length (pre @ ?hd)) t ?w))
          (radius_tlvs ?buf plen (length (pre @ ?hd) + length (attr_enc t ?w)))"
      unfolding buf using False less.prems len by (intro less.hyps) (simp_all del: append_assoc)
    moreover have "attr_list (length pre) t d = (length pre, t, ?v) # attr_list (length (pre @ ?hd)) t ?w"
      using False len(1) by (subst attr_list.simps) (simp add: ac_simps)
    ultimately show ?thesis
      unfolding len(2)
      by (cases "radius_tlvs ?buf plen (length (pre @ ?hd) + length (attr_enc t ?w))") simp_all
  qed
qed

lemma tlvs_one:
  assumes "length v \<le> 253" "length pre + 2 + length v \<le> plen"
  shows "radius_tlvs (pre @ [t, of_nat (2 + length v)] @ v @ suf) plen (length pre) =
    map_option (Cons (length pre, t, v))
      (radius_tlvs (pre @ [t, of_nat (2 + length v)] @ v @ suf) plen (length pre + 2 + length v))"
proof (cases "v = []")
  case True
  then show ?thesis using assms by (subst radius_tlvs.simps) (simp add: nth_append slice_def)
next
  case False
  have e: "attr_enc t v = [t, of_nat (2 + length v)] @ v" using attr_enc_step [OF False, of t] assms(1) by simp
  have l: "attr_list (length pre) t v = [(length pre, t, v)]"
    using False assms(1) by (simp add: attr_list.simps)
  from tlvs_attr_enc [of pre t v plen suf] assms(2) show ?thesis by (simp add: e l)
qed

lemma tlvs_end [simp]: "radius_tlvs buf plen plen = Some []"
  by (simp add: radius_tlvs.simps)

lemma attr_list_types: "(p, x, v) \<in> set (attr_list pos t d) \<Longrightarrow> x = t"
  by (induction pos t d rule: attr_list.induct) (subst (asm) (2) attr_list.simps, auto split: if_splits)

lemma attr_list_concat: "concat (map (\<lambda>(p, x, v). v) (attr_list pos t d)) = d"
  by (induction pos t d rule: attr_list.induct) (subst attr_list.simps, simp)

section \<open>Reading attributes\<close>

definition attr_vals :: "byte \<Rightarrow> (nat \<times> byte \<times> bytes) list \<Rightarrow> bytes" where
  "attr_vals t l = concat (map (\<lambda>(p, x, v). v) (filter (\<lambda>(p, x, v). x = t) l))"

lemma attr_vals_simps [simp]:
  "attr_vals t [] = []" "attr_vals t ((p, x, v) # l) = (if x = t then v @ attr_vals t l else attr_vals t l)"
  "attr_vals t (l @ l') = attr_vals t l @ attr_vals t l'"
  by (simp_all add: attr_vals_def)

lemma attr_vals_attr_list: "attr_vals x (attr_list pos t d) = (if x = t then d else [])"
proof -
  have "filter (\<lambda>(p, y, v). y = x) (attr_list pos t d) = (if x = t then attr_list pos t d else [])"
    using attr_list_types by (force simp: filter_id_conv filter_empty_conv)
  then show ?thesis by (simp add: attr_vals_def attr_list_concat)
qed

lemma fold_parse_attr:
  assumes "length st \<le> scap" "length eap \<le> ecap"
  shows "fold_opt (parse_attr scap ecap) l (st, eap) =
    (if length st + length (attr_vals 24 l) \<le> scap \<and> length eap + length (attr_vals 79 l) \<le> ecap
     then Some (st @ attr_vals 24 l, eap @ attr_vals 79 l) else None)"
  using assms
proof (induction l arbitrary: st eap)
  case (Cons a l)
  obtain p t v where a: "a = (p, t, v)" by (cases a)
  consider "t = 24" | "t = 79" | "t \<noteq> 24" "t \<noteq> 79" by blast
  then show ?case using Cons by cases (auto simp: a parse_attr_def)
qed simp

lemma radius_parse_response_tlvs:
  "radius_parse_response resp scap ecap =
     (if length resp < 20 \<or> get16 resp 2 > length resp \<or> get16 resp 2 < 20 then None
      else Option.bind (radius_tlvs resp (get16 resp 2) 20) (\<lambda>l.
        if length (attr_vals 24 l) \<le> scap \<and> length (attr_vals 79 l) \<le> ecap
        then map_option (\<lambda>r. (r, attr_vals 24 l, attr_vals 79 l))
               (if resp ! 0 = 2 then Some 0 else if resp ! 0 = 3 then Some 1 else if resp ! 0 = 11 then Some 2 else None)
        else None))"
  by (cases "radius_tlvs resp (get16 resp 2) 20")
    (simp_all add: radius_parse_response_def pw.walk_fold fold_parse_attr Let_def)

text \<open>
  C39.  A reply survives the wire: for an Access-Accept, -Reject or -Challenge whose
  attributes are State and EAP-Message values split as \<open>radius_append_attr\<close> splits them
  and a Message-Authenticator, \<open>radius_parse_response\<close> returns the result code and
  exactly the two values, as long as they fit the caller's buffers.
\<close>

theorem radius_parse_response_roundtrip:
  assumes hdr: "length hdr = 20" "hdr ! 0 = code" "get16 hdr 2 = 20 + length (attr_enc 24 st) + length (attr_enc 79 eap) + 18"
    and code: "code = 2 \<or> code = 3 \<or> code = 11" and ma: "length ma = 16"
    and fit: "length st \<le> scap" "length eap \<le> ecap"
    and packet: "Option.bind (radius_append_attr hdr cap RADIUS_ATTR_STATE st)
      (\<lambda>b. radius_append_attr b cap RADIUS_ATTR_EAP_MESSAGE eap) = Some pkt"
  shows "radius_parse_response (pkt @ [RADIUS_ATTR_MESSAGE_AUTHENTICATOR, 18] @ ma) scap ecap =
    Some (if code = 2 then EAP_RELAY_RESULT_ACCEPT else if code = 3 then EAP_RELAY_RESULT_REJECT
          else EAP_RELAY_RESULT_CHALLENGE, st, eap)"
proof -
  have pkt: "pkt = hdr @ attr_enc 24 st @ attr_enc 79 eap"
    using packet by (auto simp: radius_append_attr_enc split: if_splits)
  let ?r = "pkt @ [80, 18] @ ma"
  let ?n = "20 + length (attr_enc 24 st) + length (attr_enc 79 eap) + 18"
  have n: "length ?r = ?n" "get16 ?r 2 = ?n" "?r ! 0 = code"
    using hdr ma by (simp_all add: pkt get16_def nth_append)
  have "radius_tlvs ?r ?n 20 = Some (attr_list 20 24 st @ attr_list (20 + length (attr_enc 24 st)) 79 eap @
      [(20 + length (attr_enc 24 st) + length (attr_enc 79 eap), 80, ma)])"
    using tlvs_attr_enc [of hdr 24 st ?n "attr_enc 79 eap @ [80, 18] @ ma"]
      tlvs_attr_enc [of "hdr @ attr_enc 24 st" 79 eap ?n "[80, 18] @ ma"]
      tlvs_one [of ma "hdr @ attr_enc 24 st @ attr_enc 79 eap" ?n 80 "[]"] hdr(1) ma
    by (simp add: pkt add.assoc)
  with n code fit show ?thesis
    by (auto simp: radius_parse_response_tlvs attr_vals_attr_list)
qed

theorem radius_parse_response_roundtrip_witness:
  "radius_parse_response ([11, 5, 0, 49] @ zeros 16 @ [24, 4, 1, 2] @ [79, 7, 9, 8, 7, 6, 5] @ [80, 18] @ zeros 16) 2048 8192 =
   Some (2, [1, 2], [9, 8, 7, 6, 5])"
  using radius_parse_response_roundtrip [of "[11, 5, 0, 49] @ zeros 16" 11 "[1, 2]" "[9, 8, 7, 6, 5]" "zeros 16"
      2048 8192 4096 "[11, 5, 0, 49] @ zeros 16 @ [24, 4, 1, 2] @ [79, 7, 9, 8, 7, 6, 5]"]
  by (simp add: radius_append_attr_enc attr_enc_step get16_def nth_append)

section \<open>What verification proves\<close>

definition mas :: "(nat \<times> byte \<times> bytes) list \<Rightarrow> (nat \<times> byte \<times> bytes) list" where
  "mas l = filter (\<lambda>(p, t, v). t = RADIUS_ATTR_MESSAGE_AUTHENTICATOR) l"

definition has_attr :: "byte \<Rightarrow> (nat \<times> byte \<times> bytes) list \<Rightarrow> bool" where
  "has_attr t l \<longleftrightarrow> list_ex (\<lambda>(p, x, v). x = t) l"

lemma fold_verify_attr:
  "fold_opt verify_attr l (he, ma) =
    (case mas l of
       [] \<Rightarrow> Some (he \<or> has_attr 79 l, ma)
     | [(p, t, v)] \<Rightarrow> if length v = 16 \<and> ma = None then Some (he \<or> has_attr 79 l, Some (p + 2)) else None
     | _ \<Rightarrow> None)"
  by (induction l arbitrary: he ma) (auto simp: verify_attr_def mas_def has_attr_def split: list.splits)

text \<open>
  The reply \<open>resp\<close> answers \<open>req\<close> under the shared secret, after RFC 2865 and RFC 3579:
  the identifiers match, the length field is sound, the attributes are well formed, at
  most one of them is a Message-Authenticator (and one is there when there is an
  EAP-Message), it is the HMAC of the packet with the Request Authenticator in place and
  itself zeroed, and the Response Authenticator is the MD5 of the packet with the Request
  Authenticator in place, followed by the secret.
\<close>

definition radius_authentic :: "bytes \<Rightarrow> bytes \<Rightarrow> bytes \<Rightarrow> bool" where
  "radius_authentic req resp secret \<longleftrightarrow>
     20 \<le> length req \<and> 20 \<le> get16 resp 2 \<and> get16 resp 2 \<le> length resp \<and> get16 resp 2 \<le> 4096 \<and>
     resp ! 1 = req ! 1 \<and>
     (let n = get16 resp 2;
          tmp = take 4 resp @ slice 4 16 req @ slice 20 (n - 20) resp
      in (case radius_tlvs tmp n 20 of
            None \<Rightarrow> False
          | Some l \<Rightarrow>
              (case mas l of
                 [] \<Rightarrow> \<not> has_attr 79 l
               | [(p, t, v)] \<Rightarrow> length v = 16 \<and>
                   v = rfc2104_hmac md5_ref secret (take (p + 2) tmp @ zeros 16 @ drop (p + 18) tmp)
               | _ \<Rightarrow> False)) \<and>
         slice 4 16 resp = md5_ref (tmp @ secret))"

lemma tlvs_slice:
  assumes "radius_tlvs buf n pos = Some l" "(p, t, v) \<in> set l"
  shows "v = slice (p + 2) (length v) buf \<and> pos \<le> p \<and> p + 2 + length v \<le> n"
  using assms
proof (induction buf n pos arbitrary: l rule: radius_tlvs.induct)
  case (1 buf n pos)
  show ?case
  proof (cases "pos + 2 \<le> n \<and> \<not> (unat (buf ! (pos + 1)) < 2 \<or> pos + unat (buf ! (pos + 1)) > n)")
    case True
    then obtain l' where l': "radius_tlvs buf n (pos + unat (buf ! (pos + 1))) = Some l'"
      "l = (pos, buf ! pos, slice (pos + 2) (unat (buf ! (pos + 1)) - 2) buf) # l'"
      using "1.prems"(1) by (subst (asm) radius_tlvs.simps) (auto simp: Let_def)
    show ?thesis
    proof (cases "(p, t, v) \<in> set l'")
      case in_tail: True
      then show ?thesis using "1.IH" [OF _ refl _ l'(1)] True by fastforce
    next
      case False
      with l'(2) "1.prems"(2) True show ?thesis by (auto simp: slice_def)
    qed
  next
    case False
    with "1.prems" show ?thesis by (subst (asm) radius_tlvs.simps) (auto split: if_splits)
  qed
qed

lemma radius_verify_response_iff:
  "radius_verify_response req resp secret \<longleftrightarrow> radius_authentic req resp secret"
proof (cases "20 \<le> length req \<and> 20 \<le> get16 resp 2 \<and> get16 resp 2 \<le> length resp \<and> get16 resp 2 \<le> 4096 \<and> resp ! 1 = req ! 1")
  case False
  then show ?thesis by (auto simp: radius_verify_response_def radius_authentic_def Let_def)
next
  case True
  let ?n = "get16 resp 2"
  define tmp where "tmp = take 4 resp @ slice 4 16 req @ slice 20 (?n - 20) resp"
  have m: "min (length req - 4) 16 = 16" "min (length resp - 20) (?n - 20) = ?n - 20"
    using True by (auto simp: min_def)
  have tmp: "poke (take ?n resp) 4 (slice 4 16 req) = tmp" "length tmp = ?n"
    using True m by (simp_all add: poke_def tmp_def slice_def drop_take)
  have app: "take 4 resp @ slice 4 16 req @ slice 20 (?n - 20) resp @ x = tmp @ x" for x by (simp add: tmp_def)
  have h: "memcmp_eq (md5_ref x) (slice 4 16 resp) 16 \<longleftrightarrow> slice 4 16 resp = md5_ref x" for x
    using True by (auto simp: memcmp_eq_def)
  have hl: "length (rfc2104_hmac md5_ref k m) = 16" for k m by (simp add: rfc2104_hmac_def Let_def)
  show ?thesis
  proof (cases "radius_tlvs tmp ?n 20")
    case None
    then show ?thesis
      using True by (simp add: radius_verify_response_def radius_authentic_def Let_def tmp vw.walk_fold flip: tmp_def)
  next
    case (Some l)
    have v: "slice (p + 2) 16 tmp = v \<and> poke tmp (p + 2) (zeros 16) = take (p + 2) tmp @ zeros 16 @ drop (p + 18) tmp"
      if "mas l = [(p, t, v)]" "length v = 16" for p t v
    proof -
      have "(p, t, v) \<in> set l" using that(1) by (metis filter_is_subset list.set_intros(1) mas_def subsetD)
      with tlvs_slice [OF Some this] that(2) show ?thesis by (simp add: poke_def add.commute)
    qed
    with True Some show ?thesis
      by (auto simp: radius_verify_response_def radius_authentic_def Let_def tmp vw.walk_fold fold_verify_attr
          hmac_md5_rfc2104 md5s.final2 h memcmp_eq_def hl app simp flip: tmp_def split: list.split)
  qed
qed

text \<open>
  C13.  \<open>radius_verify_response\<close> accepts a reply exactly when it is authentic in the sense
  of RFC 2865 and RFC 3579 for the request it answers.
\<close>

theorem radius_verify_response_authentic:
  "radius_verify_response req resp secret \<longleftrightarrow> radius_authentic req resp secret"
  by (rule radius_verify_response_iff)

section \<open>The Access-Request\<close>

definition request_attrs :: "bytes \<Rightarrow> bytes \<Rightarrow> bytes \<Rightarrow> bytes" where
  "request_attrs u st e =
     attr_enc RADIUS_ATTR_USER_NAME u @ [RADIUS_ATTR_SERVICE_TYPE, 4, 0, 2] @ [RADIUS_ATTR_NAS_PORT_TYPE, 4, 0, 5] @
     attr_enc RADIUS_ATTR_STATE st @ attr_enc RADIUS_ATTR_EAP_MESSAGE e"

lemma append_u16:
  "v < 65536 \<Longrightarrow> radius_append_u16_attr buf cap t v =
     (if length buf + 4 \<le> cap then Some (buf @ [t, 4] @ be16 v) else None)"
  by (auto simp: radius_append_u16_attr_def radius_append_attr_enc attr_enc_step be16_def)

lemma radius_build_request_eq:
  assumes auth: "rnd 16 r = (auth, r')" "length auth = 16"
  shows "radius_build_request rnd (Some u) st (Some e) (Some sec) 8192 (gid, r) =
    (let n = 38 + length (request_attrs u st e);
         zeroed = [1, gid + 1] @ be16 n @ auth @ request_attrs u st e @ [80, 18] @ zeros 16
     in if length u > 253 \<or> 44 + length u + length e > 8192 then (None, (gid, r))
        else if n > 4096 then (None, (gid + 1, r'))
        else (Some (take (n - 16) zeroed @ hmac_md5 sec zeroed), (gid + 1, r')))"
proof (cases "length u > 253 \<or> 44 + length u + length e > 8192")
  case True
  then show ?thesis by (auto simp: radius_build_request_def Let_def)
next
  case False
  let ?b = "request_attrs u st e" and ?h = "[1, gid + 1, 0, 0] @ auth"
  let ?n = "38 + length ?b"
  define attrs where "attrs = Option.bind (radius_append_attr ?h 8192 1 u) (\<lambda>req.
      Option.bind (radius_append_u16_attr req 8192 6 2) (\<lambda>req.
      Option.bind (radius_append_u16_attr req 8192 61 5) (\<lambda>req.
      Option.bind (if length st > 0 then radius_append_attr req 8192 24 st else Some req) (\<lambda>req.
      radius_append_attr req 8192 79 e))))"
  have attrs: "attrs = Some (?h @ ?b)" if "20 + length ?b \<le> 8192"
    using that auth(2) by (simp add: attrs_def radius_append_attr_enc append_u16 request_attrs_def be16_def)
  have some: "req = ?h @ ?b" if "attrs = Some req" for req
    using that by (auto simp: attrs_def radius_append_attr_enc append_u16 request_attrs_def be16_def
        split: bind_splits if_splits)
  have unf: "radius_build_request rnd (Some u) st (Some e) (Some sec) 8192 (gid, r) =
      (case attrs of None \<Rightarrow> (None, (gid + 1, r'))
       | Some req \<Rightarrow>
          let ma_pos = length req + 2
          in if length req + 18 > 8192 then (None, (gid + 1, r'))
          else let req = req @ [80, 18] @ zeros 16
          in if length req > 4096 then (None, (gid + 1, r'))
          else let req = poke req 2 (be16 (length req)); digest = hmac_md5 sec req
          in (Some (poke req ma_pos digest), (gid + 1, r')))"
    using False auth(1) unfolding attrs_def by (simp add: radius_build_request_def Let_def split: option.split)
  have len_hmac: "length (hmac_md5 sec x) = 16" for x by (simp add: hmac_md5_rfc2104 rfc2104_hmac_def Let_def)
  show ?thesis
  proof (cases "?n \<le> 4096")
    case True
    with attrs False auth(2) show ?thesis
      by (simp add: unf Let_def poke_def len_hmac)
  next
    case over: False
    then show ?thesis
      using False auth(2) some by (cases attrs) (simp_all add: unf Let_def)
  qed
qed

lemma tlvs_request:
  assumes "length h = 20" "length ma = 16"
  shows "radius_tlvs (h @ request_attrs u st e @ [80, 18] @ ma) (38 + length (request_attrs u st e)) 20 =
    Some (let p1 = 20 + length (attr_enc 1 u); p2 = p1 + 8 + length (attr_enc 24 st)
     in attr_list 20 1 u @ [(p1, 6, [0, 2]), (p1 + 4, 61, [0, 5])] @ attr_list (p1 + 8) 24 st @
        attr_list p2 79 e @ [(20 + length (request_attrs u st e), 80, ma)])"
proof -
  let ?n = "38 + length (request_attrs u st e)"
  let ?u = "attr_enc 1 u" and ?s = "attr_enc 24 st" and ?e = "attr_enc 79 e"
  let ?sv = "[6, 4, 0, 2] :: bytes" and ?np = "[61, 4, 0, 5] :: bytes"
  have n: "?n = 46 + length ?u + length ?s + length ?e" by (simp add: request_attrs_def)
  have buf: "h @ request_attrs u st e @ [80, 18] @ ma = h @ ?u @ ?sv @ ?np @ ?s @ ?e @ [80, 18] @ ma"
    by (simp add: request_attrs_def)
  show ?thesis
    unfolding buf
    using tlvs_attr_enc [of h 1 u ?n "?sv @ ?np @ ?s @ ?e @ [80, 18] @ ma"]
      tlvs_one [of "[0, 2]" "h @ ?u" ?n 6 "?np @ ?s @ ?e @ [80, 18] @ ma"]
      tlvs_one [of "[0, 5]" "h @ ?u @ ?sv" ?n 61 "?s @ ?e @ [80, 18] @ ma"]
      tlvs_attr_enc [of "h @ ?u @ ?sv @ ?np" 24 st ?n "?e @ [80, 18] @ ma"]
      tlvs_attr_enc [of "h @ ?u @ ?sv @ ?np @ ?s" 79 e ?n "[80, 18] @ ma"]
      tlvs_one [of ma "h @ ?u @ ?sv @ ?np @ ?s @ ?e" ?n 80 "[]"] assms
    unfolding n by (simp add: Let_def request_attrs_def add.assoc)
qed

lemma mas_simps [simp]:
  "mas [] = []" "mas ((p, t, v) # l) = (if t = 80 then (p, t, v) # mas l else mas l)" "mas (l @ l') = mas l @ mas l'"
  by (simp_all add: mas_def)

lemma mas_attr_list: "t \<noteq> 80 \<Longrightarrow> mas (attr_list pos t d) = []"
  using attr_list_types by (force simp: mas_def filter_empty_conv)



end
