(* ===== verification/Relay.thy ===== *)
theory Relay
  imports Radius_Props
begin

text \<open>
  The relay service of \<open>src/open5gs/src/upf/eap-relay.c\<close>: one RADIUS exchange, the wire
  format between SMF and relay, the processing of a datagram and the life cycle of the
  service.  The operating system is the record \<open>os\<close>: environment variables, address
  parsing, and what comes back (if anything) for a datagram sent to an address.
\<close>

record os =
  getenv :: "string \<Rightarrow> string option"
  socket_ok :: bool
  inet_pton_ok :: "string \<Rightarrow> bool"
  sendrecv :: "string \<Rightarrow> nat \<Rightarrow> bytes \<Rightarrow> bytes option"
    \<comment> \<open>address, port, datagram; \<open>None\<close> when \<open>sendto\<close> or \<open>recvfrom\<close> fails or times out\<close>

section \<open>Ports from the environment\<close>

text \<open>The C library's \<open>strtol(s, &end, 10)\<close>: the value (saturated to \<open>long\<close>) and the rest
  of the string from \<open>end\<close> on.\<close>

definition c_isspace :: "char \<Rightarrow> bool" where
  "c_isspace c \<longleftrightarrow> c = CHR '' '' \<or> 9 \<le> (of_char c :: nat) \<and> (of_char c :: nat) \<le> 13"

definition c_isdigit :: "char \<Rightarrow> bool" where
  "c_isdigit c \<longleftrightarrow> 48 \<le> (of_char c :: nat) \<and> (of_char c :: nat) \<le> 57"

definition digits_val :: "string \<Rightarrow> int" where
  "digits_val ds = foldl (\<lambda>n c. 10 * n + (of_char c - 48)) 0 ds"

definition strtol10 :: "string \<Rightarrow> int \<times> string" where
  "strtol10 s =
     (let s1 = dropWhile c_isspace s;
          neg = (s1 \<noteq> [] \<and> hd s1 = CHR ''-'');
          s2 = (if s1 \<noteq> [] \<and> (hd s1 = CHR ''-'' \<or> hd s1 = CHR ''+'') then tl s1 else s1);
          ds = takeWhile c_isdigit s2;
          v = (if neg then - digits_val ds else digits_val ds)
      in if ds = [] then (0, s)
         else (max (- (2 ^ 63)) (min (2 ^ 63 - 1) v), dropWhile c_isdigit s2))"

definition get_port_from_env :: "os \<Rightarrow> string \<Rightarrow> nat \<Rightarrow> nat" where
  "get_port_from_env E name default_port =
     (case getenv E name of
        None \<Rightarrow> default_port
      | Some v \<Rightarrow>
          if v = [] then default_port
          else case strtol10 v of (p, rest) \<Rightarrow>
            if rest \<noteq> [] \<or> p < 1 \<or> p > 65535 then default_port else nat p)"

section \<open>A RADIUS exchange\<close>

definition env_or :: "os \<Rightarrow> string list \<Rightarrow> string \<Rightarrow> string" where
  "env_or E names dflt =
     foldr (\<lambda>n d. case getenv E n of None \<Rightarrow> d | Some v \<Rightarrow> if v = [] then d else v) names dflt"

definition radius_exchange ::
  "os \<Rightarrow> (nat \<Rightarrow> 'r \<Rightarrow> bytes \<times> 'r) \<Rightarrow> bytes \<Rightarrow> bytes \<Rightarrow> bytes \<Rightarrow> nat \<Rightarrow> nat \<Rightarrow> 'r radius_env \<Rightarrow>
   (byte \<times> bytes \<times> bytes) option \<times> 'r radius_env" where
  "radius_exchange E rnd username st eap scap ecap env =
     (let radius_addr = env_or E [''OPEN5GS_RADIUS_ADDR'', ''OPEN5GS_RADIUS_SERVER''] ''127.0.0.1'';
          secret = ascii (env_or E [''OPEN5GS_RADIUS_SECRET''] ''testing123'');
          radius_port = get_port_from_env E ''OPEN5GS_RADIUS_PORT'' 1812
      in case radius_build_request rnd (Some username) st (Some eap) (Some secret) 8192 env of
           (None, env') \<Rightarrow> (None, env')
         | (Some req, env') \<Rightarrow>
             (if \<not> socket_ok E then None
              else if \<not> inet_pton_ok E radius_addr then None
              else case sendrecv E radius_addr radius_port req of
                     None \<Rightarrow> None
                   | Some dgram \<Rightarrow>
                       let resp = take 8192 dgram
                       in if \<not> radius_verify_response req resp secret then None
                          else radius_parse_response resp scap ecap, env'))"

section \<open>The relay's wire format\<close>

abbreviation (input) EAP_RELAY_MAGIC_REQ :: bytes where "EAP_RELAY_MAGIC_REQ \<equiv> [0xE5, 0xE5, 0xDE, 0xAD]"
abbreviation (input) EAP_RELAY_MAGIC_RESP :: bytes where "EAP_RELAY_MAGIC_RESP \<equiv> [0xE5, 0xE5, 0xBE, 0xEF]"
abbreviation (input) EAP_RELAY_VERSION :: byte where "EAP_RELAY_VERSION \<equiv> 1"

text \<open>The lengths are 16-bit: \<open>st\<close> and \<open>eap\<close> are what the two (pointer, length) pairs denote.\<close>

definition write_response :: "byte \<Rightarrow> bytes \<Rightarrow> bytes \<Rightarrow> bytes" where
  "write_response result st eap =
     EAP_RELAY_MAGIC_RESP @ [EAP_RELAY_VERSION, result] @ be16 (length st) @ be16 (length eap) @ st @ eap"

text \<open>
  \<open>buf\<close> is the datagram, \<open>stale\<close> what the receive buffer holds behind it.  The user name
  is a C string, so it ends at the first zero octet.
\<close>

definition process_req ::
  "os \<Rightarrow> (nat \<Rightarrow> 'r \<Rightarrow> bytes \<times> 'r) \<Rightarrow> bytes \<Rightarrow> bytes \<Rightarrow> 'r radius_env \<Rightarrow> bytes \<times> 'r radius_env" where
  "process_req E rnd buf stale env =
     (let err = write_response EAP_RELAY_RESULT_ERROR [] []; mem = buf @ stale in
      if length buf < 10 then (err, env)
      else if slice 0 4 mem \<noteq> EAP_RELAY_MAGIC_REQ then (err, env)
      else
        let version = mem ! 4;
            uname_len = unat (mem ! 6);
            state_len = get16 mem 7;
            eap_len = get16 mem 9;
            need = 11 + uname_len + state_len + eap_len
        in if version \<noteq> EAP_RELAY_VERSION then (err, env)
           else if length buf < need then (err, env)
           else
           let username = takeWhile (\<lambda>c. c \<noteq> 0) (slice 11 uname_len mem);
               st = slice (11 + uname_len) state_len mem;
               eap = slice (11 + uname_len + state_len) eap_len mem
           in case radius_exchange E rnd username st eap 2048 8192 env of
                (None, env') \<Rightarrow> (err, env')
              | (Some (result, rst, reap), env') \<Rightarrow>
                  (write_response result (take (length rst mod 65536) rst) (take (length reap mod 65536) reap), env'))"

section \<open>The service\<close>

text \<open>One turn of \<open>relay_main\<close>: a failed \<open>recvfrom\<close> sends nothing, a datagram (cut to the
  8192 octets of the buffer) is answered.\<close>

datatype recv_event = RecvFailed | Datagram bytes

definition relay_turn ::
  "os \<Rightarrow> (nat \<Rightarrow> 'r \<Rightarrow> bytes \<times> 'r) \<Rightarrow> recv_event \<Rightarrow> bytes \<Rightarrow> 'r radius_env \<Rightarrow> bytes option \<times> 'r radius_env" where
  "relay_turn E rnd ev stale env =
     (case ev of
        RecvFailed \<Rightarrow> (None, env)
      | Datagram d \<Rightarrow>
          (case process_req E rnd (take 8192 d) stale env of (resp, env') \<Rightarrow>
             (if length resp > 0 then Some resp else None, env')))"

text \<open>
  \<open>g_running\<close>, \<open>g_sock\<close> (\<open>None\<close> for \<open>-1\<close>) and whether the thread exists; \<open>stopping\<close> marks
  the interval in which \<open>upf_eap_relay_stop\<close> waits in \<open>pthread_join\<close>.
\<close>

record 'r relay =
  g_running :: bool
  g_sock :: "int option"
  g_thread :: bool
  stopping :: bool
  radius_env :: "'r radius_env"
  sent :: "bytes list"

datatype ogs_rc = OGS_OK | OGS_ERROR

text \<open>What \<open>socket\<close> returns and whether \<open>bind\<close> and \<open>pthread_create\<close> succeed.\<close>

definition upf_eap_relay_start ::
  "os \<Rightarrow> int \<Rightarrow> bool \<Rightarrow> bool \<Rightarrow> 'r relay \<Rightarrow> ogs_rc \<times> 'r relay" where
  "upf_eap_relay_start E fd bind_ok thread_ok s =
     (if g_running s then (OGS_OK, s)
      else
        let bind_addr = env_or E [''OPEN5GS_EAP_RELAY_ADDR''] ''127.0.0.1'' in
        if fd < 0 then (OGS_ERROR, s\<lparr>g_sock := None\<rparr>)
        else if \<not> inet_pton_ok E bind_addr then (OGS_ERROR, s\<lparr>g_sock := None\<rparr>)
        else if \<not> bind_ok then (OGS_ERROR, s\<lparr>g_sock := None\<rparr>)
        else if \<not> thread_ok then (OGS_ERROR, s\<lparr>g_running := False, g_sock := None\<rparr>)
        else (OGS_OK, s\<lparr>g_running := True, g_sock := Some fd, g_thread := True\<rparr>))"

text \<open>\<open>upf_eap_relay_stop\<close> up to \<open>pthread_join\<close>.\<close>

definition upf_eap_relay_stop :: "'r relay \<Rightarrow> 'r relay" where
  "upf_eap_relay_stop s =
     (if \<not> g_running s then s else s\<lparr>g_running := False, g_sock := None, stopping := True\<rparr>)"

text \<open>
  The main thread starts and stops the service and does nothing else while it waits in
  \<open>pthread_join\<close>; the relay thread serves a turn while \<open>g_running\<close> holds and ends
  otherwise.
\<close>

inductive relay_step :: "os \<Rightarrow> (nat \<Rightarrow> 'r \<Rightarrow> bytes \<times> 'r) \<Rightarrow> 'r relay \<Rightarrow> 'r relay \<Rightarrow> bool" for E rnd where
  start: "\<not> stopping s \<Longrightarrow> relay_step E rnd s (snd (upf_eap_relay_start E fd b t s))"
| stop: "\<not> stopping s \<Longrightarrow> relay_step E rnd s (upf_eap_relay_stop s)"
| turn: "g_thread s \<Longrightarrow> relay_turn E rnd ev stale (radius_env s) = (out, env') \<Longrightarrow>
    relay_step E rnd s (s\<lparr>radius_env := env', sent := sent s @ (case out of None \<Rightarrow> [] | Some d \<Rightarrow> [d])\<rparr>)"
| leave: "g_thread s \<Longrightarrow> \<not> g_running s \<Longrightarrow> relay_step E rnd s (s\<lparr>g_thread := False\<rparr>)"
| joined: "stopping s \<Longrightarrow> \<not> g_thread s \<Longrightarrow> relay_step E rnd s (s\<lparr>stopping := False\<rparr>)"

inductive_cases relay_stepE: "relay_step E rnd s s'"

inductive relay_reach :: "os \<Rightarrow> (nat \<Rightarrow> 'r \<Rightarrow> bytes \<times> 'r) \<Rightarrow> 'r relay \<Rightarrow> bool" for E rnd where
  boot: "relay_reach E rnd \<lparr>g_running = False, g_sock = None, g_thread = False, stopping = False,
     radius_env = env, sent = []\<rparr>"
| step: "relay_reach E rnd s \<Longrightarrow> relay_step E rnd s s' \<Longrightarrow> relay_reach E rnd s'"

end
