(* ===== verification/Smf_Client.thy ===== *)
theory Smf_Client
  imports Relay
begin

text \<open>
  \<open>src/open5gs/src/smf/radius-client.c\<close>: the SMF's side of the relay protocol, and the
  properties of the protocol as a whole: requests and responses survive the wire, what the
  relay answers fits its buffers and rests on an authentic RADIUS reply, and the service's
  life cycle.
\<close>

abbreviation (input) EAP_RELAY_MAX_USER_LEN :: nat where "EAP_RELAY_MAX_USER_LEN \<equiv> 255"
abbreviation (input) EAP_RELAY_MAX_STATE_LEN :: nat where "EAP_RELAY_MAX_STATE_LEN \<equiv> 2048"
abbreviation (input) EAP_RELAY_MAX_EAP_LEN :: nat where "EAP_RELAY_MAX_EAP_LEN \<equiv> 8192"

definition smf_get_port_from_env :: "os \<Rightarrow> string \<Rightarrow> nat \<Rightarrow> nat" where
  "smf_get_port_from_env E name default_port =
     (case getenv E name of
        None \<Rightarrow> default_port
      | Some v \<Rightarrow>
          if v = [] then default_port
          else case strtol10 v of (p, rest) \<Rightarrow>
            if rest \<noteq> [] \<or> p < 1 \<or> p > 65535 then default_port else nat p)"

text \<open>The block that fills \<open>req\<close>, and the block that reads \<open>resp\<close>.\<close>

definition smf_encode_req :: "bytes \<Rightarrow> bytes \<Rightarrow> bytes \<Rightarrow> bytes" where
  "smf_encode_req username st eap =
     EAP_RELAY_MAGIC_REQ @ [EAP_RELAY_VERSION, 0, of_nat (length username)] @ be16 (length st) @ be16 (length eap) @
     username @ st @ eap"

definition smf_decode_resp :: "bytes \<Rightarrow> nat \<Rightarrow> nat \<Rightarrow> (byte \<times> bytes \<times> bytes) option" where
  "smf_decode_resp resp scap ecap =
     (if length resp < 10 then None
      else if slice 0 4 resp \<noteq> EAP_RELAY_MAGIC_RESP then None
      else if resp ! 4 \<noteq> EAP_RELAY_VERSION then None
      else
        let out_state_len = get16 resp 6;
            out_eap_len = get16 resp 8;
            body_need = 10 + out_state_len + out_eap_len
        in if length resp < body_need then None
           else if out_state_len > scap \<or> out_eap_len > ecap then None
           else Some (resp ! 5, slice 10 out_state_len resp, slice (10 + out_state_len) out_eap_len resp))"

text \<open>\<open>None\<close> is \<open>OGS_ERROR\<close>; the result, state and EAP lengths are read by the caller only
  after \<open>OGS_OK\<close>.\<close>

definition smf_eap_relay_exchange ::
  "os \<Rightarrow> bytes option \<Rightarrow> bytes \<Rightarrow> bytes option \<Rightarrow> nat \<Rightarrow> nat \<Rightarrow> (byte \<times> bytes \<times> bytes) option" where
  "smf_eap_relay_exchange E username st eap scap ecap =
     (case (username, eap) of
        (Some u, Some e) \<Rightarrow>
          let relay_addr = env_or E [''OPEN5GS_EAP_RELAY_ADDR''] ''127.0.0.1'';
              relay_port = smf_get_port_from_env E ''OPEN5GS_EAP_RELAY_PORT'' 3870
          in if length u > EAP_RELAY_MAX_USER_LEN then None
             else if length st > EAP_RELAY_MAX_STATE_LEN \<or> length e > EAP_RELAY_MAX_EAP_LEN then None
             else if \<not> socket_ok E then None
             else if \<not> inet_pton_ok E relay_addr then None
             else (case sendrecv E relay_addr relay_port (smf_encode_req u st e) of
                     None \<Rightarrow> None
                   | Some dgram \<Rightarrow> smf_decode_resp (take 16384 dgram) scap ecap)
      | _ \<Rightarrow> None)"

section \<open>The wire format\<close>

lemma get16_be16_at:
  "length pre = k \<Longrightarrow> n < 65536 \<Longrightarrow> get16 (pre @ be16 n @ suf) k = n"
  using get16_append_be16 [of n suf] by (simp add: get16_append_right)

lemma smf_decode_write:
  assumes "length st < 65536" "length eap < 65536"
  shows "smf_decode_resp (write_response result st eap) scap ecap =
    (if length st > scap \<or> length eap > ecap then None else Some (result, st, eap))"
proof -
  let ?w = "write_response result st eap" and ?h = "[0xE5, 0xE5, 0xBE, 0xEF, 1, result] :: bytes"
  have w: "?w = ?h @ be16 (length st) @ be16 (length eap) @ st @ eap" by (simp add: write_response_def)
  have g: "get16 ?w 6 = length st" "get16 ?w 8 = length eap"
    using get16_be16_at [of ?h 6 "length st" "be16 (length eap) @ st @ eap"]
      get16_be16_at [of "?h @ be16 (length st)" 8 "length eap" "st @ eap"] assms
    unfolding w by simp_all
  have "slice 10 (length st) ?w = st" "slice (10 + length st) (length eap) ?w = eap"
    "slice 0 4 ?w = [0xE5, 0xE5, 0xBE, 0xEF]" "?w ! 4 = 1" "?w ! 5 = result" "length ?w = 10 + length st + length eap"
    using slice_at [of "?h @ be16 (length st) @ be16 (length eap)" 10 st eap]
      slice_at [of "?h @ be16 (length st) @ be16 (length eap) @ st" "10 + length st" eap "[]"]
    by (simp_all add: w)
  with g show ?thesis by (simp add: smf_decode_resp_def Let_def)
qed

lemma process_req_encoded:
  assumes "length u \<le> 255" "0 \<notin> set u" "length st \<le> 2048" "length eap \<le> 8192"
    and "take 8192 (smf_encode_req u st eap) = buf"
  shows "process_req E rnd buf stale env =
    (if 11 + length u + length st + length eap > 8192 then (write_response EAP_RELAY_RESULT_ERROR [] [], env)
     else case radius_exchange E rnd u st eap 2048 8192 env of
       (None, env') \<Rightarrow> (write_response EAP_RELAY_RESULT_ERROR [] [], env')
     | (Some (result, rst, reap), env') \<Rightarrow>
         (write_response result (take (length rst mod 65536) rst) (take (length reap mod 65536) reap), env'))"
proof -
  let ?h = "[0xE5, 0xE5, 0xDE, 0xAD, 1, 0, of_nat (length u)] :: bytes" and ?m = "smf_encode_req u st eap"
  have m: "?m = ?h @ be16 (length st) @ be16 (length eap) @ u @ st @ eap" by (simp add: smf_encode_req_def)
  have len: "length ?m = 11 + length u + length st + length eap" by (simp add: m)
  have ul: "unat (of_nat (length u) :: byte) = length u" using assms(1) by (simp add: unat_byte_of_nat)
  have pre: "buf @ stale = ?h @ be16 (length st) @ be16 (length eap) @ drop 11 (buf @ stale)" "11 \<le> length buf"
    using assms(5) by (auto simp: m be16_def)
  have g: "get16 (buf @ stale) 7 = length st" "get16 (buf @ stale) 9 = length eap"
    using get16_be16_at [of ?h 7 "length st" "be16 (length eap) @ drop 11 (buf @ stale)"]
      get16_be16_at [of "?h @ be16 (length st)" 9 "length eap" "drop 11 (buf @ stale)"] assms pre(1)
    by simp_all
  have hd: "slice 0 4 (buf @ stale) = [0xE5, 0xE5, 0xDE, 0xAD]" "(buf @ stale) ! 4 = 1"
    "(buf @ stale) ! 6 = of_nat (length u)"
    by (subst pre(1), simp)+
  show ?thesis
  proof (cases "length ?m > 8192")
    case True
    then have "length buf = 8192" using assms(5) by auto
    with True len g hd ul show ?thesis by (simp add: process_req_def Let_def)
  next
    case False
    then have buf: "buf = ?m" using assms(5) by simp
    have "slice 11 (length u) (buf @ stale) = u" "slice (11 + length u) (length st) (buf @ stale) = st"
      "slice (11 + length u + length st) (length eap) (buf @ stale) = eap"
      using slice_at [of "?h @ be16 (length st) @ be16 (length eap)" 11 u "st @ eap @ stale"]
        slice_at [of "?h @ be16 (length st) @ be16 (length eap) @ u" "11 + length u" st "eap @ stale"]
        slice_at [of "?h @ be16 (length st) @ be16 (length eap) @ u @ st" "11 + length u + length st" eap stale]
      by (simp_all add: buf m)
    moreover have tw: "takeWhile (\<lambda>c. c \<noteq> 0) u = u" using assms(2) by (simp add: takeWhile_eq_all_conv) metis
    ultimately show ?thesis using False len buf g hd ul pre(2) by (simp add: process_req_def Let_def tw)
  qed
qed

section \<open>What the relay answers\<close>

lemma tlvs_total:
  assumes "radius_tlvs buf n pos = Some l" "pos \<le> n" "a \<noteq> b"
  shows "pos + length (attr_vals a l) + length (attr_vals b l) \<le> n"
  using assms
proof (induction buf n pos arbitrary: l rule: radius_tlvs.induct)
  case (1 buf n pos)
  show ?case
  proof (cases "pos + 2 \<le> n \<and> \<not> (unat (buf ! (pos + 1)) < 2 \<or> pos + unat (buf ! (pos + 1)) > n)")
    case True
    let ?al = "unat (buf ! (pos + 1))"
    obtain l' where l': "radius_tlvs buf n (pos + ?al) = Some l'"
      "l = (pos, buf ! pos, slice (pos + 2) (?al - 2) buf) # l'"
      using "1.prems"(1) True by (subst (asm) radius_tlvs.simps) (auto simp: Let_def)
    have "pos + ?al + length (attr_vals a l') + length (attr_vals b l') \<le> n"
      using "1.IH" [OF _ refl _ l'(1)] True "1.prems"(3) by simp
    then show ?thesis using True "1.prems"(3) by (auto simp: l'(2) min_def)
  next
    case False
    with "1.prems" show ?thesis by (subst (asm) radius_tlvs.simps) (auto split: if_splits)
  qed
qed

text \<open>The only answers of the exchange come from an authentic reply and are short.\<close>

lemma radius_exchange_authentic:
  assumes "radius_exchange E rnd u st eap scap ecap env = (Some (result, rst, reap), env')"
  shows "\<exists>req addr port dgram. sendrecv E addr port req = Some dgram \<and>
      radius_authentic req (take 8192 dgram) (ascii (env_or E [''OPEN5GS_RADIUS_SECRET''] ''testing123'')) \<and>
      radius_parse_response (take 8192 dgram) scap ecap = Some (result, rst, reap) \<and>
      length rst + length reap \<le> 4076"
proof -
  let ?sec = "ascii (env_or E [''OPEN5GS_RADIUS_SECRET''] ''testing123'')"
  obtain req addr port dgram where x: "sendrecv E addr port req = Some dgram"
    "radius_verify_response req (take 8192 dgram) ?sec"
    "radius_parse_response (take 8192 dgram) scap ecap = Some (result, rst, reap)"
    using assms
    by (auto simp: radius_exchange_def Let_def split: prod.splits option.splits if_splits)
  let ?r = "take 8192 dgram"
  have a: "radius_authentic req ?r ?sec" using x(2) by (simp add: radius_verify_response_iff)
  obtain l where l: "radius_tlvs ?r (get16 ?r 2) 20 = Some l" "rst = attr_vals 24 l" "reap = attr_vals 79 l" "20 \<le> get16 ?r 2"
    using x(3) by (auto simp: radius_parse_response_tlvs split: bind_splits if_splits)
  have "get16 ?r 2 \<le> 4096" using a by (simp add: radius_authentic_def)
  with tlvs_total [OF l(1,4), of 24 79] have "length rst + length reap \<le> 4076" by (simp add: l)
  with x a show ?thesis by blast
qed

lemma length_write_response [simp]: "length (write_response r st eap) = 10 + length st + length eap"
  by (simp add: write_response_def)

lemma write_response_not_Nil [simp]: "write_response r st eap \<noteq> []"
  by (simp add: write_response_def)

lemma process_req_cases:
  obtains "fst (process_req E rnd buf stale env) = write_response EAP_RELAY_RESULT_ERROR [] []"
  | result rst reap u st eap env' where "radius_exchange E rnd u st eap 2048 8192 env = (Some (result, rst, reap), env')"
    "fst (process_req E rnd buf stale env) = write_response result rst reap"
    "length rst + length reap \<le> 4076"
proof -
  define pr where "pr = process_req E rnd buf stale env"
  have "sat (\<lambda>x. fst x = write_response EAP_RELAY_RESULT_ERROR [] [] \<or>
      (\<exists>result rst reap u st eap env'. radius_exchange E rnd u st eap 2048 8192 env = (Some (result, rst, reap), env') \<and>
         fst x = write_response result (take (length rst mod 65536) rst) (take (length reap mod 65536) reap)))
    (process_req E rnd buf stale env)"
    unfolding process_req_def by (intro sat_rules; simp only: fst_conv; blast)
  then consider "fst pr = write_response EAP_RELAY_RESULT_ERROR [] []"
    | result rst reap u st eap env' where "radius_exchange E rnd u st eap 2048 8192 env = (Some (result, rst, reap), env')"
      "fst pr = write_response result (take (length rst mod 65536) rst) (take (length reap mod 65536) reap)"
    unfolding sat_def pr_def by blast
  then show thesis
  proof cases
    case 2
    with radius_exchange_authentic [OF 2(1)] have "length rst + length reap \<le> 4076" by blast
    with 2 that(2) show ?thesis by (simp add: pr_def)
  qed (use that(1) in \<open>simp add: pr_def\<close>)
qed

text \<open>
  C31.  What the relay may answer.  Every answer fits the 8192-octet buffer (it has at most
  4086 octets), decodes at the SMF without loss, and carries a result other than
  \<open>ERROR\<close> only when a RADIUS reply arrived that is authentic for the request sent and
  parses to exactly this result, state and EAP payload.
\<close>

theorem process_req_answers:
  "\<exists>result rst reap. fst (process_req E rnd buf stale env) = write_response result rst reap \<and>
     length (write_response result rst reap) \<le> 4086 \<and>
     smf_decode_resp (write_response result rst reap) 4096 8192 = Some (result, rst, reap) \<and>
     (result = EAP_RELAY_RESULT_ERROR \<and> rst = [] \<and> reap = [] \<or>
      (\<exists>req addr port dgram. sendrecv E addr port req = Some dgram \<and>
         radius_authentic req (take 8192 dgram) (ascii (env_or E [''OPEN5GS_RADIUS_SECRET''] ''testing123'')) \<and>
         radius_parse_response (take 8192 dgram) 2048 8192 = Some (result, rst, reap)))"
proof (cases rule: process_req_cases [of E rnd buf stale env])
  case 1
  have "smf_decode_resp (write_response 3 [] []) 4096 8192 = Some (3, [], [])"
    using smf_decode_write [of "[]" "[]" 3 4096 8192] by simp
  with 1 show ?thesis by (intro exI [of _ 3] exI [of _ "[]"]) simp
next
  case (2 result rst reap u st eap env')
  have "smf_decode_resp (write_response result rst reap) 4096 8192 = Some (result, rst, reap)"
    using 2(3) smf_decode_write [of rst reap result 4096 8192] by simp
  moreover have "length (write_response result rst reap) \<le> 4086" using 2(3) by simp
  ultimately show ?thesis using 2(2) radius_exchange_authentic [OF 2(1)] by blast
qed

text \<open>
  C30.  SMF and relay understand each other.  When the datagram the SMF sends is answered
  by the relay, the exchange returns what the relay's RADIUS exchange returns for exactly
  the SMF's user name, state and EAP payload, and \<open>ERROR\<close> when that fails or when the
  encoded request exceeds the relay's 8192-octet buffer.
\<close>

theorem smf_relay_end_to_end:
  assumes args: "length u \<le> 255" "0 \<notin> set u" "length st \<le> 2048" "length eap \<le> 8192"
    and os: "socket_ok S" "inet_pton_ok S (env_or S [''OPEN5GS_EAP_RELAY_ADDR''] ''127.0.0.1'')"
    and relay: "sendrecv S = (\<lambda>addr port d. fst (relay_turn E rnd (Datagram d) stale env))"
    and cap: "4096 \<le> scap" "8192 \<le> ecap"
  shows "smf_eap_relay_exchange S (Some u) st (Some eap) scap ecap =
    (if 11 + length u + length st + length eap > 8192 then Some (EAP_RELAY_RESULT_ERROR, [], [])
     else Some (case fst (radius_exchange E rnd u st eap 2048 8192 env) of
        None \<Rightarrow> (EAP_RELAY_RESULT_ERROR, [], [])
      | Some res \<Rightarrow> res))"
proof -
  let ?p = "process_req E rnd (take 8192 (smf_encode_req u st eap)) stale env"
  have sr: "sendrecv S a q (smf_encode_req u st eap) = Some (fst ?p)" for a q
  proof (cases rule: process_req_cases [of E rnd "take 8192 (smf_encode_req u st eap)" stale env])
    case 1
    then show ?thesis by (cases ?p) (simp add: relay relay_turn_def)
  next
    case 2
    then show ?thesis by (cases ?p) (simp add: relay relay_turn_def)
  qed
  have d: "smf_decode_resp (take 16384 (write_response r a b)) scap ecap = Some (r, a, b)"
    if "length a + length b \<le> 4076" for r a b
    using that cap smf_decode_write [of a b r scap ecap] by simp
  have x: "smf_eap_relay_exchange S (Some u) st (Some eap) scap ecap = smf_decode_resp (take 16384 (fst ?p)) scap ecap"
    using args os sr by (simp add: smf_eap_relay_exchange_def Let_def)
  show ?thesis
  proof (cases "fst (radius_exchange E rnd u st eap 2048 8192 env)")
    case None
    then show ?thesis
      using process_req_encoded [OF args refl, of E rnd stale env] d [of "[]" "[]" 3] unfolding x
      by (cases "radius_exchange E rnd u st eap 2048 8192 env") simp
  next
    case (Some res)
    obtain result rst reap env' where re: "radius_exchange E rnd u st eap 2048 8192 env = (Some (result, rst, reap), env')"
      using Some by (cases "radius_exchange E rnd u st eap 2048 8192 env"; cases res) auto
    have len: "length rst + length reap \<le> 4076" using radius_exchange_authentic [OF re] by blast
    show ?thesis
      using process_req_encoded [OF args refl, of E rnd stale env] d [of "[]" "[]" 3] d [OF len, of result] len re unfolding x
      by simp
  qed
qed

text \<open>An operating system in which nothing answers, and one in which the relay does.\<close>

definition silent_os :: os where
  "silent_os = \<lparr>getenv = (\<lambda>_. None), socket_ok = True, inet_pton_ok = (\<lambda>_. True), sendrecv = (\<lambda>_ _ _. None)\<rparr>"

theorem smf_relay_end_to_end_witness:
  "smf_eap_relay_exchange
     (silent_os\<lparr>sendrecv := (\<lambda>addr port d. fst (relay_turn silent_os (\<lambda>n r. (zeros n, r)) (Datagram d) [] (0, ())))\<rparr>)
     (Some (ascii ''imsi-1'')) [] (Some [2, 1, 0, 5, 1]) 4096 8192 = Some (EAP_RELAY_RESULT_ERROR, [], [])"
proof -
  have "fst (radius_exchange silent_os (\<lambda>n r. (zeros n, r)) (ascii ''imsi-1'') [] [2, 1, 0, 5, 1] 2048 8192 (0, ())) = None"
    by (simp add: radius_exchange_def silent_os_def Let_def split: prod.split option.split)
  then show ?thesis
    using smf_relay_end_to_end [of "ascii ''imsi-1''" "[]" "[2, 1, 0, 5, 1]"
        "silent_os\<lparr>sendrecv := (\<lambda>addr port d. fst (relay_turn silent_os (\<lambda>n r. (zeros n, r)) (Datagram d) [] (0, ())))\<rparr>"
        silent_os "\<lambda>n r. (zeros n, r)" "[]" "(0, ())" 4096 8192]
    by (simp add: ascii_def silent_os_def)
qed

section \<open>The service\<close>

definition relay_inv :: "'r relay \<Rightarrow> bool" where
  "relay_inv s \<longleftrightarrow>
     (g_running s \<longrightarrow> g_sock s \<noteq> None \<and> g_thread s \<and> \<not> stopping s) \<and>
     (\<not> g_running s \<longrightarrow> g_sock s = None) \<and> (g_thread s \<longrightarrow> g_running s \<or> stopping s) \<and>
     (\<forall>d \<in> set (sent s). take 5 d = [0xE5, 0xE5, 0xBE, 0xEF, 1] \<and> 10 \<le> length d \<and> length d \<le> 4086)"

lemma relay_turn_sent:
  assumes "relay_turn E rnd ev stale env = (Some d, env')"
  shows "take 5 d = [0xE5, 0xE5, 0xBE, 0xEF, 1] \<and> 10 \<le> length d \<and> length d \<le> 4086"
proof -
  obtain b where "process_req E rnd b stale env = (d, env')"
    using assms by (auto simp: relay_turn_def split: recv_event.splits prod.splits if_splits)
  then have b: "d = fst (process_req E rnd b stale env)" by simp
  show ?thesis
    by (rule process_req_cases [of E rnd b stale env]) (auto simp: b write_response_def)
qed

lemma relay_step_inv: "relay_step E rnd s s' \<Longrightarrow> relay_inv s \<Longrightarrow> relay_inv s'"
proof (induction rule: relay_step.induct)
  case (start s fd b t)
  then show ?case by (auto simp: relay_inv_def upf_eap_relay_start_def Let_def)
next
  case (stop s)
  then show ?case by (auto simp: relay_inv_def upf_eap_relay_stop_def)
next
  case (turn s ev stale out env')
  then show ?case using relay_turn_sent [of E rnd ev stale "radius_env s"]
    by (cases out) (auto simp: relay_inv_def)
qed (auto simp: relay_inv_def)

text \<open>
  C32.  The relay service.  In every reachable state a running service has an open socket
  and its thread, a stopped one has none left open, the thread outlives \<open>g_running\<close> only
  while \<open>upf_eap_relay_stop\<close> waits for it, and everything it ever sent is a versioned
  response of at most 4086 octets.
\<close>

theorem relay_reach_inv:
  assumes "relay_reach E rnd s"
  shows "relay_inv s"
  using assms
proof induction
  case (boot env)
  then show ?case by (simp add: relay_inv_def)
next
  case (step s s')
  then show ?case using relay_step_inv by blast
qed

theorem relay_reach_inv_witness:
  "relay_inv (snd (upf_eap_relay_start silent_os 5 True True
     \<lparr>g_running = False, g_sock = None, g_thread = False, stopping = False, radius_env = (0, ()), sent = []\<rparr>))"
proof -
  let ?s = "\<lparr>g_running = False, g_sock = None, g_thread = False, stopping = False, radius_env = (0, ()), sent = []\<rparr>"
  have "relay_reach silent_os (\<lambda>n r. (zeros n, r)) (snd (upf_eap_relay_start silent_os 5 True True ?s))"
    by (rule relay_reach.step [OF relay_reach.boot relay_step.start]) simp
  then show ?thesis by (rule relay_reach_inv)
qed

section \<open>Ports\<close>

lemma isdigitD:
  assumes "c_isdigit c"
  shows "\<not> c_isspace c" "c \<noteq> CHR ''-''" "c \<noteq> CHR ''+''"
  using assms by (auto simp: c_isdigit_def c_isspace_def)

lemma strtol10_numeral:
  assumes "list_all c_isdigit v" "v \<noteq> []"
  shows "strtol10 v = (max (- (2 ^ 63)) (min (2 ^ 63 - 1) (digits_val v)), [])"
proof -
  have "c_isdigit (hd v)" using assms by (cases v) simp_all
  then have "dropWhile c_isspace v = v" using isdigitD assms(2) by (cases v) simp_all
  moreover have w: "takeWhile c_isdigit v = v" "dropWhile c_isdigit v = []"
    using assms(1) by (simp_all add: list_all_iff takeWhile_eq_all_conv dropWhile_eq_Nil_conv)
  ultimately show ?thesis using isdigitD [OF \<open>c_isdigit (hd v)\<close>] assms(2) by (simp add: strtol10_def Let_def w)
qed

lemma strtol10_rest:
  assumes v: "v \<noteq> []" "\<not> c_isdigit (last v)"
  shows "snd (strtol10 v) \<noteq> []"
proof -
  define s1 where "s1 = dropWhile c_isspace v"
  define s2 where "s2 = (if s1 \<noteq> [] \<and> (hd s1 = CHR ''-'' \<or> hd s1 = CHR ''+'') then tl s1 else s1)"
  have "last s1 = last v" if "s1 \<noteq> []"
    using that takeWhile_dropWhile_id [of c_isspace v] unfolding s1_def by (metis last_appendR)
  then have l: "last s2 = last v" if "s2 \<noteq> []"
    using that by (auto simp: s2_def last_tl split: if_splits)
  have "dropWhile c_isdigit s2 \<noteq> []" if "takeWhile c_isdigit s2 \<noteq> []"
  proof
    assume "dropWhile c_isdigit s2 = []"
    moreover have "s2 \<noteq> []" using that by auto
    ultimately have "c_isdigit (last s2)" by (simp add: dropWhile_eq_Nil_conv)
    with l [OF \<open>s2 \<noteq> []\<close>] v(2) show False by simp
  qed
  then show ?thesis using v(1) by (simp add: strtol10_def Let_def flip: s1_def s2_def)
qed

text \<open>
  \<open>get_port_from_env\<close>: a variable that is a decimal numeral between 1 and 65535 sets
  the port; when it is unset, empty, a numeral out of range or does not end in a digit, the
  default stays.
  Whatever the environment, the result is the default or between 1 and 65535, and both
  programs read the same port.
\<close>

theorem get_port_from_env_spec:
  "(case getenv E name of
      None \<Rightarrow> get_port_from_env E name d = d
    | Some v \<Rightarrow> if list_all c_isdigit v
              then get_port_from_env E name d =
                (if 1 \<le> digits_val v \<and> digits_val v \<le> 65535 then nat (digits_val v) else d)
              else if \<not> c_isdigit (last v) then get_port_from_env E name d = d else True) \<and>
   (get_port_from_env E name d = d \<or> 1 \<le> get_port_from_env E name d \<and> get_port_from_env E name d \<le> 65535) \<and>
   smf_get_port_from_env E name d = get_port_from_env E name d"
proof (cases "getenv E name")
  case None
  then show ?thesis by (simp add: get_port_from_env_def smf_get_port_from_env_def)
next
  case v: (Some v)
  obtain p rest where st: "strtol10 v = (p, rest)" by fastforce
  have "v = [] \<or> list_all c_isdigit v \<and> v \<noteq> [] \<or> \<not> list_all c_isdigit v \<and> v \<noteq> []" by blast
  then show ?thesis
  proof (elim disjE)
    assume "v = []"
    with v show ?thesis by (simp add: get_port_from_env_def smf_get_port_from_env_def digits_val_def)
  next
    assume "list_all c_isdigit v \<and> v \<noteq> []"
    with v strtol10_numeral [of v] show ?thesis
      by (auto simp: get_port_from_env_def smf_get_port_from_env_def list_all_iff)
  next
    assume "\<not> list_all c_isdigit v \<and> v \<noteq> []"
    with v st strtol10_rest [of v] show ?thesis
      by (auto simp: get_port_from_env_def smf_get_port_from_env_def)
  qed
qed

end
