(* ===== verification/Nas.thy ===== *)
theory Nas
  imports Prelude "HOL-Library.Monad_Syntax"
begin

text \<open>
  The NAS codec of \<open>src/open5gs/lib/nas/5gs\<close> for the three PDU session authentication messages:
  packet buffers (\<open>lib/core/ogs-pkbuf.h\<close>), the length-value elements of \<open>ies.c\<close>, and the encoder
  and decoder of the messages.  \<open>None\<close> of an encoder is a failed \<open>ogs_assert\<close>, \<open>None\<close> of a decoder
  a negative return.
\<close>

abbreviation (input) OGS_NAS_EXTENDED_PROTOCOL_DISCRIMINATOR_5GSM :: byte where
  "OGS_NAS_EXTENDED_PROTOCOL_DISCRIMINATOR_5GSM \<equiv> 0x2E"
abbreviation (input) OGS_NAS_EXTENDED_PROTOCOL_DISCRIMINATOR_5GMM :: byte where
  "OGS_NAS_EXTENDED_PROTOCOL_DISCRIMINATOR_5GMM \<equiv> 0x7E"
abbreviation (input) PDU_SESSION_AUTHENTICATION_COMMAND :: byte where "PDU_SESSION_AUTHENTICATION_COMMAND \<equiv> 197"
abbreviation (input) PDU_SESSION_AUTHENTICATION_COMPLETE :: byte where "PDU_SESSION_AUTHENTICATION_COMPLETE \<equiv> 198"
abbreviation (input) PDU_SESSION_AUTHENTICATION_RESULT :: byte where "PDU_SESSION_AUTHENTICATION_RESULT \<equiv> 199"
abbreviation (input) EAP_MESSAGE_TYPE :: byte where "EAP_MESSAGE_TYPE \<equiv> 0x78"
abbreviation (input) EPCO_TYPE :: byte where "EPCO_TYPE \<equiv> 0x7B"
abbreviation (input) OGS_MAX_SDU_LEN :: nat where "OGS_MAX_SDU_LEN \<equiv> 32768"
abbreviation (input) OGS_NAS_HEADROOM :: nat where "OGS_NAS_HEADROOM \<equiv> 16"

section \<open>Packet buffers\<close>

text \<open>A buffer being read is its remaining octets; \<open>ogs_pkbuf_pull\<close> gives the octets passed and
  the rest.  A buffer being written is the octets written and the number still available; the
  encoders advance with an asserted pull and copy behind the new position.\<close>

definition ogs_pkbuf_pull :: "bytes \<Rightarrow> nat \<Rightarrow> (bytes \<times> bytes) option" where
  "ogs_pkbuf_pull buf n = (if n > length buf then None else Some (take n buf, drop n buf))"

type_synonym pkbuf_out = "bytes \<times> nat"

definition pkbuf_put :: "bytes \<Rightarrow> pkbuf_out \<Rightarrow> pkbuf_out option" where
  "pkbuf_put data p = (if length data > snd p then None else Some (fst p @ data, snd p - length data))"

section \<open>Information elements\<close>

text \<open>An element is its buffer, \<open>None\<close> for the null pointer; its length field has 16 bits.\<close>

definition ogs_nas_5gs_encode_optional_type :: "byte \<Rightarrow> pkbuf_out \<Rightarrow> pkbuf_out option" where
  "ogs_nas_5gs_encode_optional_type type = pkbuf_put [type]"

definition ogs_nas_5gs_encode_eap_message :: "bytes option \<Rightarrow> pkbuf_out \<Rightarrow> pkbuf_out option" where
  "ogs_nas_5gs_encode_eap_message eap p =
     do { buffer \<leftarrow> eap;
          p \<leftarrow> pkbuf_put (be16 (length buffer)) p;
          pkbuf_put buffer p }"

definition ogs_nas_5gs_decode_eap_message :: "bytes \<Rightarrow> (bytes \<times> bytes) option" where
  "ogs_nas_5gs_decode_eap_message buf =
     (if length buf < 2 then None
      else do { (element, rest) \<leftarrow> ogs_pkbuf_pull buf (get16 buf 0 + 2);
                Some (drop 2 element, rest) })"

definition ogs_nas_5gs_encode_extended_protocol_configuration_options ::
  "bytes option \<Rightarrow> pkbuf_out \<Rightarrow> pkbuf_out option" where
  "ogs_nas_5gs_encode_extended_protocol_configuration_options epco p =
     do { buffer \<leftarrow> epco;
          p \<leftarrow> pkbuf_put (be16 (length buffer)) p;
          pkbuf_put buffer p }"

definition ogs_nas_5gs_decode_extended_protocol_configuration_options :: "bytes \<Rightarrow> (bytes \<times> bytes) option" where
  "ogs_nas_5gs_decode_extended_protocol_configuration_options buf =
     (if length buf < 2 then None
      else do { (element, rest) \<leftarrow> ogs_pkbuf_pull buf (get16 buf 0 + 2);
                Some (drop 2 element, rest) })"

section \<open>Messages\<close>

text \<open>The three message structures have the same members.\<close>

record nas_auth_t =
  eap_message :: "bytes option"
  presencemask :: "64 word"
  epco :: "bytes option"

record nas_gsm_t =
  extended_protocol_discriminator :: byte
  pdu_session_identity :: byte
  procedure_transaction_identity :: byte
  message_type :: byte
  auth :: nas_auth_t

definition zero_auth :: nas_auth_t where
  "zero_auth = \<lparr>eap_message = None, presencemask = 0, epco = None\<rparr>"

definition encode_epco_option :: "nas_auth_t \<Rightarrow> pkbuf_out \<Rightarrow> pkbuf_out option" where
  "encode_epco_option m p =
     do { p \<leftarrow> ogs_nas_5gs_encode_optional_type EPCO_TYPE p;
          ogs_nas_5gs_encode_extended_protocol_configuration_options (epco m) p }"

definition ogs_nas_5gs_encode_pdu_session_authentication_command :: "nas_auth_t \<Rightarrow> pkbuf_out \<Rightarrow> pkbuf_out option" where
  "ogs_nas_5gs_encode_pdu_session_authentication_command m p =
     do { p \<leftarrow> ogs_nas_5gs_encode_eap_message (eap_message m) p;
          if presencemask m AND 1 \<noteq> 0 then encode_epco_option m p else Some p }"

definition ogs_nas_5gs_encode_pdu_session_authentication_complete :: "nas_auth_t \<Rightarrow> pkbuf_out \<Rightarrow> pkbuf_out option" where
  "ogs_nas_5gs_encode_pdu_session_authentication_complete m p =
     do { p \<leftarrow> ogs_nas_5gs_encode_eap_message (eap_message m) p;
          if presencemask m AND 1 \<noteq> 0 then encode_epco_option m p else Some p }"

definition ogs_nas_5gs_encode_pdu_session_authentication_result :: "nas_auth_t \<Rightarrow> pkbuf_out \<Rightarrow> pkbuf_out option" where
  "ogs_nas_5gs_encode_pdu_session_authentication_result m p =
     do { p \<leftarrow> (if presencemask m AND 1 \<noteq> 0
                 then do { p \<leftarrow> ogs_nas_5gs_encode_optional_type EAP_MESSAGE_TYPE p;
                           ogs_nas_5gs_encode_eap_message (eap_message m) p }
                 else Some p);
          if presencemask m AND 2 \<noteq> 0 then encode_epco_option m p else Some p }"

text \<open>What the encoder needs from the rest of the library: \<open>nas_mm\<close> is \<open>ogs_nas_5gmm_encode\<close>,
  \<open>nas_sm\<close> encodes the remaining 5GSM messages, \<open>nas_mem\<close> says whether \<open>ogs_pkbuf_alloc\<close>
  succeeds.  In the results the inner \<open>None\<close> is the null pointer.\<close>

record nas_env =
  nas_mm :: "nas_gsm_t \<Rightarrow> bytes option option"
  nas_sm :: "nas_gsm_t \<Rightarrow> pkbuf_out \<Rightarrow> pkbuf_out option option"
  nas_mem :: bool

definition ogs_nas_5gsm_encode :: "nas_env \<Rightarrow> nas_gsm_t \<Rightarrow> bytes option option" where
  "ogs_nas_5gsm_encode N message =
     (if \<not> nas_mem N then Some None
      else do {
        p \<leftarrow> pkbuf_put [extended_protocol_discriminator message, pdu_session_identity message,
                       procedure_transaction_identity message, message_type message]
               ([], OGS_MAX_SDU_LEN - OGS_NAS_HEADROOM);
        if message_type message = PDU_SESSION_AUTHENTICATION_COMMAND
        then map_option (Some \<circ> fst) (ogs_nas_5gs_encode_pdu_session_authentication_command (auth message) p)
        else if message_type message = PDU_SESSION_AUTHENTICATION_COMPLETE
        then map_option (Some \<circ> fst) (ogs_nas_5gs_encode_pdu_session_authentication_complete (auth message) p)
        else if message_type message = PDU_SESSION_AUTHENTICATION_RESULT
        then map_option (Some \<circ> fst) (ogs_nas_5gs_encode_pdu_session_authentication_result (auth message) p)
        else map_option (map_option fst) (nas_sm N message p) })"

text \<open>The asserted equality of the discriminators of the union's two members reads the same
  octet twice.\<close>

definition ogs_nas_5gs_plain_encode :: "nas_env \<Rightarrow> nas_gsm_t \<Rightarrow> bytes option option" where
  "ogs_nas_5gs_plain_encode N message =
     (if extended_protocol_discriminator message = OGS_NAS_EXTENDED_PROTOCOL_DISCRIMINATOR_5GMM then nas_mm N message
      else if extended_protocol_discriminator message = OGS_NAS_EXTENDED_PROTOCOL_DISCRIMINATOR_5GSM
      then ogs_nas_5gsm_encode N message
      else Some None)"

section \<open>Decoding\<close>

definition option_type :: "byte \<Rightarrow> byte" where
  "option_type b = (if b \<ge> 0x80 then b AND 0xf0 else b)"

lemma pull_shorter: "ogs_pkbuf_pull buf n = Some (a, rest) \<Longrightarrow> buf = a @ rest \<and> length a = n"
  by (auto simp: ogs_pkbuf_pull_def split: if_splits)

lemma decode_epco_shorter:
  "ogs_nas_5gs_decode_extended_protocol_configuration_options buf = Some (v, rest) \<Longrightarrow> length buf = 2 + length v + length rest"
  by (auto simp: ogs_nas_5gs_decode_extended_protocol_configuration_options_def ogs_pkbuf_pull_def
      split: if_splits bind_splits)

lemma decode_eap_shorter:
  "ogs_nas_5gs_decode_eap_message buf = Some (v, rest) \<Longrightarrow> length buf = 2 + length v + length rest"
  by (auto simp: ogs_nas_5gs_decode_eap_message_def ogs_pkbuf_pull_def split: if_splits bind_splits)

text \<open>The loop over optional elements of Command and Complete, and that of Result.  The pull of
  one octet cannot fail inside the loop.\<close>

function auth_options_while :: "bytes \<Rightarrow> nas_auth_t \<Rightarrow> nat \<Rightarrow> (nas_auth_t \<times> nat) option" where
  "auth_options_while buf m decoded =
     (case buf of
        [] \<Rightarrow> Some (m, decoded)
      | b # buf \<Rightarrow>
          if option_type b = EPCO_TYPE then
            (case ogs_nas_5gs_decode_extended_protocol_configuration_options buf of
               None \<Rightarrow> None
             | Some (v, rest) \<Rightarrow>
                 auth_options_while rest (m\<lparr>epco := Some v, presencemask := presencemask m OR 1\<rparr>)
                   (decoded + 1 + (2 + length v)))
          else auth_options_while buf m (decoded + 1))"
  by pat_completeness auto

termination
  by (relation "measure (\<lambda>(buf, _, _). length buf)") (auto dest: decode_epco_shorter)

function result_options_while :: "bytes \<Rightarrow> nas_auth_t \<Rightarrow> nat \<Rightarrow> (nas_auth_t \<times> nat) option" where
  "result_options_while buf m decoded =
     (case buf of
        [] \<Rightarrow> Some (m, decoded)
      | b # buf \<Rightarrow>
          if option_type b = EAP_MESSAGE_TYPE then
            (case ogs_nas_5gs_decode_eap_message buf of
               None \<Rightarrow> None
             | Some (v, rest) \<Rightarrow>
                 result_options_while rest (m\<lparr>eap_message := Some v, presencemask := presencemask m OR 1\<rparr>)
                   (decoded + 1 + (2 + length v)))
          else if option_type b = EPCO_TYPE then
            (case ogs_nas_5gs_decode_extended_protocol_configuration_options buf of
               None \<Rightarrow> None
             | Some (v, rest) \<Rightarrow>
                 result_options_while rest (m\<lparr>epco := Some v, presencemask := presencemask m OR 2\<rparr>)
                   (decoded + 1 + (2 + length v)))
          else result_options_while buf m (decoded + 1))"
  by pat_completeness auto

termination
  by (relation "measure (\<lambda>(buf, _, _). length buf)") (auto dest: decode_epco_shorter decode_eap_shorter)

declare auth_options_while.simps [simp del] result_options_while.simps [simp del]

definition ogs_nas_5gs_decode_pdu_session_authentication_command :: "nas_auth_t \<Rightarrow> bytes \<Rightarrow> (nas_auth_t \<times> nat) option" where
  "ogs_nas_5gs_decode_pdu_session_authentication_command m buf =
     do { (e, rest) \<leftarrow> ogs_nas_5gs_decode_eap_message buf;
          auth_options_while rest (m\<lparr>eap_message := Some e\<rparr>) (2 + length e) }"

definition ogs_nas_5gs_decode_pdu_session_authentication_complete :: "nas_auth_t \<Rightarrow> bytes \<Rightarrow> (nas_auth_t \<times> nat) option" where
  "ogs_nas_5gs_decode_pdu_session_authentication_complete m buf =
     do { (e, rest) \<leftarrow> ogs_nas_5gs_decode_eap_message buf;
          auth_options_while rest (m\<lparr>eap_message := Some e\<rparr>) (2 + length e) }"

definition ogs_nas_5gs_decode_pdu_session_authentication_result :: "nas_auth_t \<Rightarrow> bytes \<Rightarrow> (nas_auth_t \<times> nat) option" where
  "ogs_nas_5gs_decode_pdu_session_authentication_result m buf = result_options_while buf m 0"

text \<open>\<open>ogs_nas_5gsm_decode\<close> on these three types; \<open>other\<close> stands for the remaining ones.  The
  message, and the number of octets decoded.\<close>

definition ogs_nas_5gsm_decode ::
  "(nas_gsm_t \<Rightarrow> bytes \<Rightarrow> (nas_gsm_t \<times> nat) option) \<Rightarrow> bytes \<Rightarrow> (nas_gsm_t \<times> nat) option" where
  "ogs_nas_5gsm_decode other buf =
     do { (h, rest) \<leftarrow> ogs_pkbuf_pull buf 4;
          let message = \<lparr>extended_protocol_discriminator = h ! 0, pdu_session_identity = h ! 1,
                         procedure_transaction_identity = h ! 2, message_type = h ! 3, auth = zero_auth\<rparr>
          in if h ! 3 = PDU_SESSION_AUTHENTICATION_COMMAND
             then map_option (\<lambda>(a, n). (message\<lparr>auth := a\<rparr>, 4 + n))
                    (ogs_nas_5gs_decode_pdu_session_authentication_command (auth message) rest)
             else if h ! 3 = PDU_SESSION_AUTHENTICATION_COMPLETE
             then map_option (\<lambda>(a, n). (message\<lparr>auth := a\<rparr>, 4 + n))
                    (ogs_nas_5gs_decode_pdu_session_authentication_complete (auth message) rest)
             else if h ! 3 = PDU_SESSION_AUTHENTICATION_RESULT
             then map_option (\<lambda>(a, n). (message\<lparr>auth := a\<rparr>, 4 + n))
                    (ogs_nas_5gs_decode_pdu_session_authentication_result (auth message) rest)
             else map_option (\<lambda>(m, n). (m, 4 + n)) (other message rest) }"

end
