(* ===== verification/Nas_Props.thy ===== *)
theory Nas_Props
  imports Nas
begin

text \<open>
  The authentication messages as octets: the encoder against the format of a length-value
  element, the decoder as its inverse, and the decoder on arbitrary octets.
\<close>

section \<open>The format\<close>

definition lv :: "bytes \<Rightarrow> bytes" where
  "lv b = be16 (length b) @ b"

definition tlv_opt :: "byte \<Rightarrow> bytes option \<Rightarrow> bytes" where
  "tlv_opt t v = (case v of None \<Rightarrow> [] | Some b \<Rightarrow> t # lv b)"

definition auth_body :: "nas_gsm_t \<Rightarrow> bytes" where
  "auth_body message =
     (if message_type message = PDU_SESSION_AUTHENTICATION_RESULT
      then tlv_opt EAP_MESSAGE_TYPE (eap_message (auth message))
      else lv (case eap_message (auth message) of None \<Rightarrow> [] | Some e \<Rightarrow> e)) @
     tlv_opt EPCO_TYPE (epco (auth message))"

definition auth_octets :: "nas_gsm_t \<Rightarrow> bytes" where
  "auth_octets message =
     [extended_protocol_discriminator message, pdu_session_identity message,
      procedure_transaction_identity message, message_type message] @ auth_body message"

text \<open>The mandatory element is there and the presence mask names the optional ones.\<close>

definition auth_wf :: "nas_gsm_t \<Rightarrow> bool" where
  "auth_wf message \<longleftrightarrow>
     (let m = auth message
      in if message_type message = PDU_SESSION_AUTHENTICATION_RESULT
         then presencemask m = (if eap_message m = None then 0 else 1) OR (if epco m = None then 0 else 2)
         else (message_type message = PDU_SESSION_AUTHENTICATION_COMMAND \<or>
               message_type message = PDU_SESSION_AUTHENTICATION_COMPLETE) \<and>
              eap_message m \<noteq> None \<and> presencemask m = (if epco m = None then 0 else 1))"

lemma length_lv [simp]: "length (lv b) = 2 + length b"
  by (simp add: lv_def)

lemma tlv_opt_simps [simp]: "tlv_opt t None = []" "tlv_opt t (Some b) = t # lv b"
  by (simp_all add: tlv_opt_def)

section \<open>Encoding\<close>

lemma pkbuf_put_put:
  "Option.bind (pkbuf_put a p) (pkbuf_put b) = pkbuf_put (a @ b) p"
  by (auto simp: pkbuf_put_def)

lemma encode_eap_put: "ogs_nas_5gs_encode_eap_message (Some b) = pkbuf_put (lv b)"
  by (rule ext) (simp add: ogs_nas_5gs_encode_eap_message_def lv_def pkbuf_put_put)

lemma encode_epco_put:
  "epco m = Some b \<Longrightarrow> encode_epco_option m p = pkbuf_put (EPCO_TYPE # lv b) p"
  using pkbuf_put_put [of "be16 (length b)" _ b] pkbuf_put_put [of "[EPCO_TYPE]" p "lv b"]
  by (simp add: encode_epco_option_def ogs_nas_5gs_encode_extended_protocol_configuration_options_def
      ogs_nas_5gs_encode_optional_type_def lv_def)

lemma pkbuf_put_Nil [simp]: "pkbuf_put [] p = Some p"
  by (simp add: pkbuf_put_def)

lemma encode_auth_put:
  assumes "auth_wf message" "nas_mem N"
  shows "ogs_nas_5gsm_encode N message =
    map_option (Some \<circ> fst) (pkbuf_put (auth_octets message) ([], OGS_MAX_SDU_LEN - OGS_NAS_HEADROOM))"
proof -
  let ?m = "auth message"
  have put: "Option.bind (pkbuf_put a p) (\<lambda>p. map_option g (pkbuf_put b p)) = map_option g (pkbuf_put (a @ b) p)"
    for a b p and g :: "pkbuf_out \<Rightarrow> bytes option"
    by (auto simp: pkbuf_put_def)
  have one: "encode_epco_option ?m p = pkbuf_put (tlv_opt EPCO_TYPE (epco ?m)) p" if "epco ?m \<noteq> None" for p
    using that encode_epco_put [of ?m _ p] by auto
  have lead: "(if presencemask ?m AND 1 \<noteq> 0 then encode_epco_option ?m p else Some p) =
      pkbuf_put (tlv_opt EPCO_TYPE (epco ?m)) p" if "message_type message \<noteq> PDU_SESSION_AUTHENTICATION_RESULT" for p
    using assms that one [of p] by (cases "epco ?m") (auto simp: auth_wf_def Let_def)
  show ?thesis
  proof (cases "message_type message = PDU_SESSION_AUTHENTICATION_RESULT")
    case False
    then obtain e where e: "eap_message ?m = Some e" using assms by (auto simp: auth_wf_def Let_def)
    have enc: "ogs_nas_5gs_encode_pdu_session_authentication_command ?m p = pkbuf_put (auth_body message) p"
      "ogs_nas_5gs_encode_pdu_session_authentication_complete ?m p = pkbuf_put (auth_body message) p" for p
      using False
      by (simp_all add: ogs_nas_5gs_encode_pdu_session_authentication_command_def lead e encode_eap_put pkbuf_put_put
          ogs_nas_5gs_encode_pdu_session_authentication_complete_def auth_body_def)
    have "message_type message = PDU_SESSION_AUTHENTICATION_COMMAND \<or>
        message_type message = PDU_SESSION_AUTHENTICATION_COMPLETE"
      using False assms by (simp add: auth_wf_def Let_def)
    then show ?thesis using assms(2) by (elim disjE) (simp_all add: ogs_nas_5gsm_encode_def enc put auth_octets_def)
  next
    case True
    have eap: "(if presencemask ?m AND 1 \<noteq> 0
         then Option.bind (ogs_nas_5gs_encode_optional_type EAP_MESSAGE_TYPE p) (ogs_nas_5gs_encode_eap_message (eap_message ?m))
         else Some p) = pkbuf_put (tlv_opt EAP_MESSAGE_TYPE (eap_message ?m)) p" for p
      using True assms pkbuf_put_put [of "[EAP_MESSAGE_TYPE]" p]
      by (cases "eap_message ?m"; cases "epco ?m")
        (auto simp: auth_wf_def Let_def encode_eap_put ogs_nas_5gs_encode_optional_type_def)
    have epco: "(if presencemask ?m AND 2 \<noteq> 0 then encode_epco_option ?m p else Some p) =
        pkbuf_put (tlv_opt EPCO_TYPE (epco ?m)) p" for p
      using True assms one [of p] by (cases "eap_message ?m"; cases "epco ?m") (auto simp: auth_wf_def Let_def)
    have "ogs_nas_5gs_encode_pdu_session_authentication_result ?m p = pkbuf_put (auth_body message) p" for p
      using True by (simp add: ogs_nas_5gs_encode_pdu_session_authentication_result_def eap epco pkbuf_put_put auth_body_def)
    with True assms(2) show ?thesis by (simp add: ogs_nas_5gsm_encode_def put auth_octets_def)
  qed
qed

lemma plain_encode_auth:
  assumes "auth_wf message" "extended_protocol_discriminator message = OGS_NAS_EXTENDED_PROTOCOL_DISCRIMINATOR_5GSM"
    "length (auth_octets message) \<le> 32752"
  shows "ogs_nas_5gs_plain_encode N message = Some (if nas_mem N then Some (auth_octets message) else None)"
  using assms encode_auth_put [of message N]
  by (cases "nas_mem N") (simp_all add: ogs_nas_5gs_plain_encode_def pkbuf_put_def, simp add: ogs_nas_5gsm_encode_def)

section \<open>Decoding\<close>

lemma decode_eap_lv:
  assumes "length b < 65536"
  shows "ogs_nas_5gs_decode_eap_message (lv b @ rest) = Some (b, rest)"
    "ogs_nas_5gs_decode_extended_protocol_configuration_options (lv b @ rest) = Some (b, rest)"
  using assms
  by (simp_all add: ogs_nas_5gs_decode_eap_message_def lv_def ogs_pkbuf_pull_def
      ogs_nas_5gs_decode_extended_protocol_configuration_options_def)

lemma option_type_simps [simp]: "option_type EAP_MESSAGE_TYPE = EAP_MESSAGE_TYPE" "option_type EPCO_TYPE = EPCO_TYPE"
  by (simp_all add: option_type_def)

lemma options_Nil [simp]:
  "auth_options_while [] m d = Some (m, d)" "result_options_while [] m d = Some (m, d)"
  by (simp_all add: auth_options_while.simps result_options_while.simps)

lemma auth_options_tlv:
  "\<lbrakk>\<And>b. v = Some b \<Longrightarrow> length b < 65536; epco m = None\<rbrakk> \<Longrightarrow>
   auth_options_while (tlv_opt EPCO_TYPE v) m d =
     Some (m\<lparr>epco := v, presencemask := presencemask m OR (if v = None then 0 else 1)\<rparr>, d + length (tlv_opt EPCO_TYPE v))"
  using decode_eap_lv [where rest = "[]"]
  by (cases v) (simp_all add: auth_options_while.simps [of "_ # _"])

lemma result_options_tlv:
  "\<lbrakk>\<And>b. v = Some b \<Longrightarrow> length b < 65536; epco m = None\<rbrakk> \<Longrightarrow>
   result_options_while (tlv_opt EPCO_TYPE v) m d =
     Some (m\<lparr>epco := v, presencemask := presencemask m OR (if v = None then 0 else 2)\<rparr>, d + length (tlv_opt EPCO_TYPE v))"
  using decode_eap_lv [where rest = "[]"]
  by (cases v) (simp_all add: result_options_while.simps [of "_ # _"])

lemma result_options_eap:
  "\<lbrakk>\<And>b. v = Some b \<Longrightarrow> length b < 65536; eap_message m = None\<rbrakk> \<Longrightarrow>
   result_options_while (tlv_opt EAP_MESSAGE_TYPE v @ rest) m d =
     result_options_while rest (m\<lparr>eap_message := v, presencemask := presencemask m OR (if v = None then 0 else 1)\<rparr>)
       (d + length (tlv_opt EAP_MESSAGE_TYPE v))"
  by (cases v; cases m) (simp_all add: result_options_while.simps [of "_ # _"] decode_eap_lv)

lemma decode_auth_octets:
  assumes wf: "auth_wf message" and len: "length (auth_octets message) < 65536"
  shows "ogs_nas_5gsm_decode other (auth_octets message) = Some (message, length (auth_octets message))"
proof -
  obtain d i t ty m where msg: "message = \<lparr>extended_protocol_discriminator = d, pdu_session_identity = i,
      procedure_transaction_identity = t, message_type = ty, auth = m\<rparr>" by (cases message)
  have be: "length b < 65536" if "eap_message m = Some b" for b
    using len that by (auto simp: auth_octets_def auth_body_def msg split: if_splits)
  have bp: "length b < 65536" if "epco m = Some b" for b
    using len that by (auto simp: auth_octets_def auth_body_def msg split: if_splits)
  show ?thesis
  proof (cases "ty = PDU_SESSION_AUTHENTICATION_RESULT")
    case True
    then show ?thesis
      using wf result_options_tlv [OF bp] result_options_eap [OF be]
      by (cases m) (simp add: msg auth_octets_def auth_body_def ogs_nas_5gsm_decode_def ogs_pkbuf_pull_def zero_auth_def
          ogs_nas_5gs_decode_pdu_session_authentication_result_def auth_wf_def Let_def)
  next
    case False
    then obtain e where e: "eap_message m = Some e" using wf by (auto simp: auth_wf_def Let_def msg)
    show ?thesis
      using wf False e auth_options_tlv [OF bp] decode_eap_lv(1) [OF be [OF e]]
      by (cases m) (auto simp: msg auth_octets_def auth_body_def ogs_nas_5gsm_decode_def ogs_pkbuf_pull_def zero_auth_def
          ogs_nas_5gs_decode_pdu_session_authentication_command_def
          ogs_nas_5gs_decode_pdu_session_authentication_complete_def auth_wf_def Let_def)
  qed
qed

text \<open>
  The authentication messages survive the wire.  The encoder writes a well-formed Command,
  Complete or Result in the format of the standard, fails its assertion exactly when the message exceeds the
  32752 octets of a packet buffer, and the decoder reads back the same message and consumes
  all of it.
\<close>

theorem nas_auth_roundtrip:
  assumes "auth_wf message" "nas_mem N"
  shows "if length (auth_octets message) \<le> 32752
    then ogs_nas_5gsm_encode N message = Some (Some (auth_octets message)) \<and>
         ogs_nas_5gsm_decode other (auth_octets message) = Some (message, length (auth_octets message))
    else ogs_nas_5gsm_encode N message = None"
  using encode_auth_put [OF assms] decode_auth_octets [OF assms(1), of other]
  by (simp add: pkbuf_put_def)

theorem nas_auth_roundtrip_witness:
  "ogs_nas_5gsm_encode \<lparr>nas_mm = (\<lambda>_. None), nas_sm = (\<lambda>_ _. None), nas_mem = True\<rparr>
     \<lparr>extended_protocol_discriminator = 0x2E, pdu_session_identity = 1, procedure_transaction_identity = 0,
      message_type = 199, auth = \<lparr>eap_message = Some [3, 1, 0, 4], presencemask = 1, epco = None\<rparr>\<rparr> =
   Some (Some [0x2E, 1, 0, 199, 0x78, 0, 4, 3, 1, 0, 4])"
  using nas_auth_roundtrip [of "\<lparr>extended_protocol_discriminator = 0x2E, pdu_session_identity = 1,
      procedure_transaction_identity = 0, message_type = 199,
      auth = \<lparr>eap_message = Some [3, 1, 0, 4], presencemask = 1, epco = None\<rparr>\<rparr>"
      "\<lparr>nas_mm = (\<lambda>_. None), nas_sm = (\<lambda>_ _. None), nas_mem = True\<rparr>" "\<lambda>_ _. None"]
  by (simp add: auth_wf_def auth_octets_def auth_body_def lv_def be16_def)

section \<open>Arbitrary input\<close>

lemma auth_options_consumes:
  "auth_options_while buf m d = Some (m', n) \<Longrightarrow> n = d + length buf \<and> eap_message m' = eap_message m"
proof (induction buf m d rule: auth_options_while.induct)
  case (1 buf m d)
  show ?case
  proof (cases buf)
    case (Cons b buf')
    show ?thesis
      using "1.prems" "1.IH" [OF Cons]
      by (auto simp: Cons auth_options_while.simps [of "b # buf'"] split: if_splits option.splits prod.splits
          dest!: decode_epco_shorter) (metis add.assoc)+
  qed (use 1 in simp)
qed

lemma result_options_consumes:
  "result_options_while buf m d = Some (m', n) \<Longrightarrow> n = d + length buf"
proof (induction buf m d rule: result_options_while.induct)
  case (1 buf m d)
  show ?case
  proof (cases buf)
    case (Cons b buf')
    show ?thesis
      using "1.prems" "1.IH" [OF Cons]
      by (auto simp: Cons result_options_while.simps [of "b # buf'"] split: if_splits option.splits prod.splits
          dest!: decode_epco_shorter decode_eap_shorter) (metis add.assoc)+
  qed (use 1 in simp)
qed

end
