(* ===== verification/Smf_Auth.thy ===== *)
theory Smf_Auth
  imports Smf_Client Nas_Props
begin

text \<open>
  Secondary authentication in the 5G core: the state \<open>sec_auth\<close> of a session and the functions of
  \<open>src/open5gs/src/smf/gsm-sm.c\<close> that drive it, the NAS messages they send
  (\<open>gsm-build.c\<close> and the encoder of \<open>lib/nas/5gs\<close>), and the branch of the AMF's
  \<open>namf-handler.c\<close> that passes them on to the UE.
\<close>

abbreviation (input) SMF_SEC_AUTH_STATE_MAX :: nat where "SMF_SEC_AUTH_STATE_MAX \<equiv> 4096"
abbreviation (input) SMF_SEC_AUTH_EAP_MAX :: nat where "SMF_SEC_AUTH_EAP_MAX \<equiv> 8192"

section \<open>The session and its messages\<close>

record smf_sess_t =
  psi :: byte
  pti :: byte
  in_progress :: bool
  sec_eap_id :: byte
  sec_state :: bytes
  state_len :: nat
  t_start :: bool

text \<open>\<open>gsm_build_pdu_session_authentication_command\<close> and \<open>_result\<close>.  As in the encoder the outer
  \<open>None\<close> of this and the following functions is a failed \<open>ogs_assert\<close>, the inner one a null
  pointer.\<close>

definition gsm_build_pdu_session_authentication_command ::
  "nas_env \<Rightarrow> smf_sess_t \<Rightarrow> bytes \<Rightarrow> bytes option option" where
  "gsm_build_pdu_session_authentication_command N sess eap =
     (if length eap = 0 then None
      else ogs_nas_5gs_plain_encode N
             \<lparr>extended_protocol_discriminator = OGS_NAS_EXTENDED_PROTOCOL_DISCRIMINATOR_5GSM,
              pdu_session_identity = psi sess, procedure_transaction_identity = pti sess,
              message_type = PDU_SESSION_AUTHENTICATION_COMMAND,
              auth = zero_auth\<lparr>eap_message := Some eap\<rparr>\<rparr>)"

definition gsm_build_pdu_session_authentication_result ::
  "nas_env \<Rightarrow> smf_sess_t \<Rightarrow> bytes option \<Rightarrow> bytes option option" where
  "gsm_build_pdu_session_authentication_result N sess eap =
     ogs_nas_5gs_plain_encode N
       \<lparr>extended_protocol_discriminator = OGS_NAS_EXTENDED_PROTOCOL_DISCRIMINATOR_5GSM,
        pdu_session_identity = psi sess, procedure_transaction_identity = pti sess,
        message_type = PDU_SESSION_AUTHENTICATION_RESULT,
        auth = (case eap of
                  None \<Rightarrow> zero_auth
                | Some e \<Rightarrow>
                    if length e > 0
                    then zero_auth\<lparr>presencemask := presencemask zero_auth OR 1, eap_message := Some e\<rparr>
                    else zero_auth)\<rparr>"

section \<open>The SMF\<close>

text \<open>The N1 messages handed to \<open>smf_namf_comm_send_n1_n2_message_transfer\<close>: none if building
  failed.\<close>

definition smf_send_secondary_auth_command :: "nas_env \<Rightarrow> smf_sess_t \<Rightarrow> bytes \<Rightarrow> bytes list option" where
  "smf_send_secondary_auth_command N sess eap =
     (if \<not> (length eap > 0 \<and> length eap \<le> 65535) then None
      else case gsm_build_pdu_session_authentication_command N sess eap of
             None \<Rightarrow> None
           | Some n1smbuf \<Rightarrow> (case n1smbuf of None \<Rightarrow> Some [] | Some n1 \<Rightarrow> Some [n1]))"

definition smf_send_secondary_auth_result :: "nas_env \<Rightarrow> smf_sess_t \<Rightarrow> bytes option \<Rightarrow> bytes list option" where
  "smf_send_secondary_auth_result N sess eap =
     (if \<not> (case eap of None \<Rightarrow> 0 | Some e \<Rightarrow> length e) \<le> 65535 then None
      else case gsm_build_pdu_session_authentication_result N sess eap of
             None \<Rightarrow> None
           | Some n1smbuf \<Rightarrow> (case n1smbuf of None \<Rightarrow> Some [] | Some n1 \<Rightarrow> Some [n1]))"

text \<open>Every operation returns the session and the N1 messages sent.  \<open>sec_auth_finish\<close> is the
  sequence that closes a run: the result, then the two assignments.\<close>

definition sec_auth_finish :: "nas_env \<Rightarrow> smf_sess_t \<Rightarrow> bytes option \<Rightarrow> (smf_sess_t \<times> bytes list) option" where
  "sec_auth_finish N sess eap =
     (case smf_send_secondary_auth_result N sess eap of
        None \<Rightarrow> None
      | Some out \<Rightarrow> Some (sess\<lparr>in_progress := False, state_len := 0\<rparr>, out))"

definition smf_sec_auth_relay_and_deliver ::
  "os \<Rightarrow> nas_env \<Rightarrow> bytes \<Rightarrow> smf_sess_t \<Rightarrow> bytes \<Rightarrow> (smf_sess_t \<times> bytes list) option" where
  "smf_sec_auth_relay_and_deliver E N supi sess eap_in =
     (case smf_eap_relay_exchange E (Some supi) (slice 0 (state_len sess) (sec_state sess)) (Some eap_in)
             SMF_SEC_AUTH_STATE_MAX SMF_SEC_AUTH_EAP_MAX of
        None \<Rightarrow> sec_auth_finish N sess None
      | Some (out_result, out_state, out_eap) \<Rightarrow>
          if length out_state > SMF_SEC_AUTH_STATE_MAX then sec_auth_finish N sess None
          else
          let sess = sess\<lparr>sec_state := (if length out_state \<noteq> 0 then poke (sec_state sess) 0 out_state else sec_state sess),
                          state_len := length out_state\<rparr>
          in if out_result = EAP_RELAY_RESULT_CHALLENGE then
               (if length out_eap = 0 then sec_auth_finish N sess None
                else case smf_send_secondary_auth_command N sess out_eap of
                       None \<Rightarrow> None
                     | Some out \<Rightarrow> Some (sess, out))
             else if out_result = EAP_RELAY_RESULT_ACCEPT then sec_auth_finish N sess (Some out_eap)
             else if out_result = EAP_RELAY_RESULT_REJECT then sec_auth_finish N sess (Some out_eap)
             else sec_auth_finish N sess None)"

text \<open>The EAP-Response/Identity in \<open>eap_identity[26]\<close>.\<close>

definition eap_identity :: "byte \<Rightarrow> bytes \<Rightarrow> bytes" where
  "eap_identity eid supi =
     (let id_len = (if length supi > 26 - 5 then 26 - 5 else length supi);
          eap_total = 5 + id_len
      in [2, eid] @ be16 eap_total @ [1] @ slice 0 id_len supi)"

definition smf_start_secondary_auth :: "os \<Rightarrow> nas_env \<Rightarrow> bytes \<Rightarrow> smf_sess_t \<Rightarrow> (smf_sess_t \<times> bytes list) option" where
  "smf_start_secondary_auth E N supi sess =
     (if in_progress sess then Some (sess, [])
      else
        let sess = sess\<lparr>in_progress := True, state_len := 0, sec_eap_id := 1\<rparr>
        in smf_sec_auth_relay_and_deliver E N supi sess (eap_identity (sec_eap_id sess) supi))"

text \<open>\<open>eap\<close> is \<open>complete->eap_message\<close>, \<open>None\<close> for the null buffer.\<close>

definition smf_handle_secondary_auth_complete ::
  "os \<Rightarrow> nas_env \<Rightarrow> bytes \<Rightarrow> smf_sess_t \<Rightarrow> bytes option \<Rightarrow> (smf_sess_t \<times> bytes list) option" where
  "smf_handle_secondary_auth_complete E N supi sess eap =
     (case eap of
        None \<Rightarrow> sec_auth_finish N sess None
      | Some e \<Rightarrow>
          if length e = 0 then sec_auth_finish N sess None
          else smf_sec_auth_relay_and_deliver E N supi sess e)"

text \<open>The three events of \<open>smf_gsm_state_operational\<close> that concern secondary authentication:
  the resource setup response (with the result of its handler), the start timer, which runs once,
  and the UE's Authentication Complete.\<close>

datatype sec_event = Setup_Rsp bool | Timer_Start | Auth_Complete "bytes option"

fun sec_auth_event :: "os \<Rightarrow> nas_env \<Rightarrow> bytes \<Rightarrow> sec_event \<Rightarrow> smf_sess_t \<Rightarrow> (smf_sess_t \<times> bytes list) option" where
  "sec_auth_event E N supi (Setup_Rsp ok) sess =
     Some (if \<not> ok then sess else if \<not> in_progress sess then sess\<lparr>t_start := True\<rparr> else sess, [])"
| "sec_auth_event E N supi Timer_Start sess = smf_start_secondary_auth E N supi (sess\<lparr>t_start := False\<rparr>)"
| "sec_auth_event E N supi (Auth_Complete eap) sess = smf_handle_secondary_auth_complete E N supi sess eap"

section \<open>The AMF\<close>

text \<open>The case of no N2 container in \<open>amf_namf_comm_handle_n1_n2_message_transfer\<close>.\<close>

datatype amf_action = Amf_error | Dl_nas_transport bytes | Gsm_reject_and_remove bytes

definition amf_n1_only :: "bytes option \<Rightarrow> amf_action" where
  "amf_n1_only n1buf =
     (case n1buf of
        None \<Rightarrow> Amf_error
      | Some n1 \<Rightarrow>
          if length n1 > 3 \<and> (n1 ! 3 = PDU_SESSION_AUTHENTICATION_COMMAND \<or> n1 ! 3 = PDU_SESSION_AUTHENTICATION_RESULT)
          then Dl_nas_transport n1 else Gsm_reject_and_remove n1)"

end
