(* ===== verification/Smf_Auth_Props.thy ===== *)
theory Smf_Auth_Props
  imports Smf_Auth
begin

text \<open>
  What the secondary authentication of the SMF promises: an abstract machine over \<open>busy\<close> and
  the RADIUS state to echo, the simulation of it by the functions of \<open>gsm-sm.c\<close>, the N1 messages
  as the AMF and the UE read them, and the origin of every EAP payload that reaches the UE.
\<close>

section \<open>The abstract machine\<close>

datatype n1_out = N1_Command bytes | N1_Result "bytes option"

text \<open>One reply of the relay: the next state and the message to the UE.\<close>

definition sec_reply :: "bool \<Rightarrow> (byte \<times> bytes \<times> bytes) option \<Rightarrow> (bool \<times> bytes) \<times> n1_out" where
  "sec_reply busy reply =
     (case reply of
        None \<Rightarrow> ((False, []), N1_Result None)
      | Some (code, st, eap) \<Rightarrow>
          if eap = [] then ((False, []), N1_Result None)
          else if code = EAP_RELAY_RESULT_CHALLENGE then ((busy, st), N1_Command eap)
          else if code = EAP_RELAY_RESULT_ACCEPT \<or> code = EAP_RELAY_RESULT_REJECT then ((False, []), N1_Result (Some eap))
          else ((False, []), N1_Result None))"

fun sec_spec ::
  "(bytes \<Rightarrow> bytes \<Rightarrow> (byte \<times> bytes \<times> bytes) option) \<Rightarrow> bytes \<Rightarrow> sec_event \<Rightarrow> bool \<times> bytes \<Rightarrow> (bool \<times> bytes) \<times> n1_out list" where
  "sec_spec exchange supi (Setup_Rsp ok) a = (a, [])"
| "sec_spec exchange supi Timer_Start (busy, st) =
     (if busy then ((busy, st), [])
      else case sec_reply True (exchange [] (eap_identity 1 supi)) of (a, m) \<Rightarrow> (a, [m]))"
| "sec_spec exchange supi (Auth_Complete eap) (busy, st) =
     (case (case eap of
              None \<Rightarrow> sec_reply busy None
            | Some e \<Rightarrow> if e = [] then sec_reply busy None else sec_reply busy (exchange st e))
      of (a, m) \<Rightarrow> (a, [m]))"

text \<open>Octets of an N1 message, and the relation of a session to the machine.\<close>

definition n1_msg :: "byte \<Rightarrow> byte \<Rightarrow> n1_out \<Rightarrow> nas_gsm_t" where
  "n1_msg i t m =
     \<lparr>extended_protocol_discriminator = OGS_NAS_EXTENDED_PROTOCOL_DISCRIMINATOR_5GSM,
      pdu_session_identity = i, procedure_transaction_identity = t,
      message_type = (case m of N1_Command e \<Rightarrow> PDU_SESSION_AUTHENTICATION_COMMAND
                              | N1_Result r \<Rightarrow> PDU_SESSION_AUTHENTICATION_RESULT),
      auth = (case m of
                N1_Command e \<Rightarrow> \<lparr>eap_message = Some e, presencemask = 0, epco = None\<rparr>
              | N1_Result r \<Rightarrow> \<lparr>eap_message = r, presencemask = (if r = None then 0 else 1), epco = None\<rparr>)\<rparr>"

definition n1_wire :: "byte \<Rightarrow> byte \<Rightarrow> n1_out \<Rightarrow> bytes" where
  "n1_wire i t m = auth_octets (n1_msg i t m)"

lemma n1_msg_wf: "auth_wf (n1_msg i t m)" "extended_protocol_discriminator (n1_msg i t m) = 0x2E"
  by (simp_all add: n1_msg_def auth_wf_def Let_def split: n1_out.split)

lemma length_n1_wire:
  "length (n1_wire i t m) =
     (case m of N1_Command e \<Rightarrow> 6 + length e | N1_Result None \<Rightarrow> 4 | N1_Result (Some e) \<Rightarrow> 7 + length e)"
  by (simp add: n1_wire_def n1_msg_def auth_octets_def auth_body_def split: n1_out.split option.split)

lemma plain_encode_n1:
  "length (n1_wire i t m) \<le> 32752 \<Longrightarrow>
   ogs_nas_5gs_plain_encode N (n1_msg i t m) = Some (if nas_mem N then Some (n1_wire i t m) else None)"
  using plain_encode_auth [OF n1_msg_wf] by (simp add: n1_wire_def)

lemma gsm_build_command:
  assumes "eap \<noteq> []" "length eap \<le> 8192"
  shows "gsm_build_pdu_session_authentication_command N sess eap =
    Some (if nas_mem N then Some (n1_wire (psi sess) (pti sess) (N1_Command eap)) else None)"
  using assms plain_encode_n1 [of "psi sess" "pti sess" "N1_Command eap" N]
  by (simp add: gsm_build_pdu_session_authentication_command_def length_n1_wire n1_msg_def zero_auth_def)

lemma gsm_build_result:
  assumes "length (case eap of None \<Rightarrow> [] | Some e \<Rightarrow> e) \<le> 8192"
  shows "gsm_build_pdu_session_authentication_result N sess eap =
    Some (if nas_mem N then Some (n1_wire (psi sess) (pti sess) (N1_Result (if eap = Some [] then None else eap))) else None)"
  using assms plain_encode_n1 [of "psi sess" "pti sess" "N1_Result (if eap = Some [] then None else eap)" N]
  by (auto simp: gsm_build_pdu_session_authentication_result_def length_n1_wire n1_msg_def zero_auth_def split: option.splits)

definition sec_wf :: "smf_sess_t \<Rightarrow> bool" where
  "sec_wf sess \<longleftrightarrow> length (sec_state sess) = SMF_SEC_AUTH_STATE_MAX \<and> state_len sess \<le> SMF_SEC_AUTH_STATE_MAX"

definition sec_abs :: "smf_sess_t \<Rightarrow> bool \<times> bytes" where
  "sec_abs sess = (in_progress sess, take (state_len sess) (sec_state sess))"

abbreviation relay_exchange :: "os \<Rightarrow> bytes \<Rightarrow> bytes \<Rightarrow> bytes \<Rightarrow> (byte \<times> bytes \<times> bytes) option" where
  "relay_exchange E supi st eap \<equiv>
     smf_eap_relay_exchange E (Some supi) st (Some eap) SMF_SEC_AUTH_STATE_MAX SMF_SEC_AUTH_EAP_MAX"

text \<open>What a step of the SMF has to be, given the step of the machine.\<close>

definition sec_sim ::
  "nas_env \<Rightarrow> smf_sess_t \<Rightarrow> (bool \<times> bytes) \<times> n1_out list \<Rightarrow> (smf_sess_t \<times> bytes list) option \<Rightarrow> bool" where
  "sec_sim N sess spec r \<longleftrightarrow>
     (case r of
        None \<Rightarrow> False
      | Some (sess', out) \<Rightarrow>
          sec_wf sess' \<and> psi sess' = psi sess \<and> pti sess' = pti sess \<and> sec_abs sess' = fst spec \<and>
          out = (if nas_mem N then map (n1_wire (psi sess) (pti sess)) (snd spec) else []))"

section \<open>Simulation\<close>

lemma smf_decode_resp_bounds:
  "smf_decode_resp resp scap ecap = Some (r, st, eap) \<Longrightarrow> length st \<le> scap \<and> length eap \<le> ecap"
  by (auto simp: smf_decode_resp_def Let_def split: if_splits)

lemma relay_exchange_bounds:
  "smf_eap_relay_exchange E u st e scap ecap = Some (r, st', eap') \<Longrightarrow> length st' \<le> scap \<and> length eap' \<le> ecap"
  by (auto simp: smf_eap_relay_exchange_def Let_def split: if_splits option.splits dest: smf_decode_resp_bounds)

lemma sec_auth_finish_sim:
  assumes "sec_wf sess" "length (case eap of None \<Rightarrow> [] | Some e \<Rightarrow> e) \<le> 8192"
  shows "sec_sim N sess ((False, []), [N1_Result (if eap = Some [] then None else eap)]) (sec_auth_finish N sess eap)"
  using assms
  by (auto simp: sec_sim_def sec_auth_finish_def smf_send_secondary_auth_result_def sec_wf_def sec_abs_def
      gsm_build_result split: option.splits)

lemma sec_command_sim:
  assumes "sec_wf sess" "eap \<noteq> []" "length eap \<le> 8192"
  shows "sec_sim N sess (sec_abs sess, [N1_Command eap])
    (case smf_send_secondary_auth_command N sess eap of None \<Rightarrow> None | Some out \<Rightarrow> Some (sess, out))"
  using assms
  by (auto simp: sec_sim_def smf_send_secondary_auth_command_def gsm_build_command)

lemma sec_sim_base:
  "sec_sim N sess' spec r \<Longrightarrow> psi sess' = psi sess \<Longrightarrow> pti sess' = pti sess \<Longrightarrow> sec_sim N sess spec r"
  by (cases r) (auto simp: sec_sim_def)

lemma sec_auth_idle:
  "sec_wf sess \<Longrightarrow> in_progress sess = v \<Longrightarrow> sec_sim N sess ((v, take (state_len sess) (sec_state sess)), []) (Some (sess\<lparr>t_start := b\<rparr>, []))"
  by (simp add: sec_sim_def sec_abs_def sec_wf_def)

definition store_state :: "smf_sess_t \<Rightarrow> bytes \<Rightarrow> smf_sess_t" where
  "store_state sess st =
     sess\<lparr>sec_state := (if length st \<noteq> 0 then poke (sec_state sess) 0 st else sec_state sess), state_len := length st\<rparr>"

lemma store_state_simps:
  assumes "sec_wf sess" "length st \<le> SMF_SEC_AUTH_STATE_MAX"
  shows "sec_wf (store_state sess st)" "sec_abs (store_state sess st) = (in_progress sess, st)"
    "psi (store_state sess st) = psi sess" "pti (store_state sess st) = pti sess"
  using assms by (auto simp: store_state_def sec_wf_def sec_abs_def poke_def)

lemma relay_and_deliver_sim:
  assumes wf: "sec_wf sess"
  shows "sec_sim N sess
    (case sec_reply (in_progress sess) (relay_exchange E supi (snd (sec_abs sess)) e) of (a, m) \<Rightarrow> (a, [m]))
    (smf_sec_auth_relay_and_deliver E N supi sess e)"
proof (cases "relay_exchange E supi (snd (sec_abs sess)) e")
  case None
  then show ?thesis using sec_auth_finish_sim [OF wf, of None N]
    by (simp add: smf_sec_auth_relay_and_deliver_def sec_reply_def sec_abs_def)
next
  case (Some x)
  obtain code st eap where x: "relay_exchange E supi (snd (sec_abs sess)) e = Some (code, st, eap)"
    using Some by (cases x) auto
  note b = relay_exchange_bounds [OF x]
  let ?s = "store_state sess st"
  note st = store_state_simps [OF wf, of st]
  have fin: "sec_sim N sess ((False, []), [N1_Result (if r = Some [] then None else r)]) (sec_auth_finish N ?s r)"
    if "length (case r of None \<Rightarrow> [] | Some e \<Rightarrow> e) \<le> 8192" for r
    using sec_auth_finish_sim [OF st(1) that, of N] b by (auto simp: st intro: sec_sim_base)
  have cmd: "sec_sim N sess ((in_progress sess, st), [N1_Command eap])
      (case smf_send_secondary_auth_command N ?s eap of None \<Rightarrow> None | Some out \<Rightarrow> Some (?s, out))"
    if "eap \<noteq> []" using sec_command_sim [OF st(1) that, of N] b by (auto simp: st intro: sec_sim_base)
  have "smf_sec_auth_relay_and_deliver E N supi sess e =
      (if code = 2 then
         (if eap = [] then sec_auth_finish N ?s None
          else case smf_send_secondary_auth_command N ?s eap of None \<Rightarrow> None | Some out \<Rightarrow> Some (?s, out))
       else if code = 0 then sec_auth_finish N ?s (Some eap)
       else if code = 1 then sec_auth_finish N ?s (Some eap)
       else sec_auth_finish N ?s None)"
    using x b by (simp add: smf_sec_auth_relay_and_deliver_def store_state_def sec_abs_def Let_def split: option.split)
  then show ?thesis
    using fin [of None] fin [of "Some eap"] cmd b by (auto simp: x sec_reply_def)
qed

lemma sec_auth_event_sim:
  assumes wf: "sec_wf sess"
  shows "sec_sim N sess (sec_spec (relay_exchange E supi) supi ev (sec_abs sess)) (sec_auth_event E N supi ev sess)"
proof (cases ev)
  case (Setup_Rsp ok)
  then show ?thesis using wf by (auto simp: sec_sim_def sec_abs_def sec_wf_def)
next
  case Timer_Start
  let ?s = "sess\<lparr>t_start := False, in_progress := True, state_len := 0, sec_eap_id := 1\<rparr>"
  have "sec_wf ?s" using wf by (simp add: sec_wf_def)
  from sec_sim_base [OF relay_and_deliver_sim [OF this, of N E supi "eap_identity 1 supi"], of sess] show ?thesis
    using wf Timer_Start
    by (cases "in_progress sess")
      (auto simp: sec_abs_def smf_start_secondary_auth_def sec_auth_idle Let_def)
next
  case (Auth_Complete eap)
  then show ?thesis
    using relay_and_deliver_sim [OF wf] sec_auth_finish_sim [OF wf, of None N]
    by (auto simp: smf_handle_secondary_auth_complete_def sec_abs_def sec_reply_def split: option.split)
qed

text \<open>
  C14.  The secondary authentication of a session implements the abstract machine.  From every
  well-formed session each event returns, with no assertion of the SMF or of the NAS encoder
  failing; the session stays well formed and keeps its identities; it is busy and holds the RADIUS
  state exactly as the machine says; and with memory available the N1 messages are those of
  the machine, at most one per event.
\<close>

theorem sec_auth_refines:
  assumes "sec_wf sess"
  shows "\<exists>sess' out.
    sec_auth_event E N supi ev sess = Some (sess', out) \<and> sec_wf sess' \<and>
    psi sess' = psi sess \<and> pti sess' = pti sess \<and>
    sec_abs sess' = fst (sec_spec (relay_exchange E supi) supi ev (sec_abs sess)) \<and>
    out = (if nas_mem N then map (n1_wire (psi sess) (pti sess)) (snd (sec_spec (relay_exchange E supi) supi ev (sec_abs sess))) else []) \<and>
    length out \<le> 1"
  using sec_auth_event_sim [OF assms, of N E supi ev]
  by (cases "sec_auth_event E N supi ev sess"; cases ev; cases "sec_abs sess")
    (auto simp: sec_sim_def split: prod.splits)

text \<open>A new session, and an operating system whose relay answers every request with a challenge.\<close>

definition new_sess :: "byte \<Rightarrow> byte \<Rightarrow> smf_sess_t" where
  "new_sess i t = \<lparr>psi = i, pti = t, in_progress = False, sec_eap_id = 0, sec_state = zeros 4096, state_len = 0, t_start = False\<rparr>"

definition challenge_os :: os where
  "challenge_os = silent_os\<lparr>sendrecv := (\<lambda>_ _ _. Some (write_response EAP_RELAY_RESULT_CHALLENGE [9] [1, 2, 0, 4]))\<rparr>"

definition toy_nas :: nas_env where
  "toy_nas = \<lparr>nas_mm = (\<lambda>_. None), nas_sm = (\<lambda>_ _. None), nas_mem = True\<rparr>"

lemma challenge_reply:
  "relay_exchange challenge_os (ascii ''imsi-1'') [] (eap_identity 1 (ascii ''imsi-1'')) = Some (EAP_RELAY_RESULT_CHALLENGE, [9], [1, 2, 0, 4])"
  using smf_decode_write [of "[9]" "[1, 2, 0, 4]" EAP_RELAY_RESULT_CHALLENGE 4096 8192]
  by (simp add: smf_eap_relay_exchange_def challenge_os_def silent_os_def Let_def eap_identity_def)

lemma new_sess_simps: "sec_wf (new_sess i t)" "sec_abs (new_sess i t) = (False, [])" "psi (new_sess i t) = i" "pti (new_sess i t) = t"
  by (simp_all add: new_sess_def sec_wf_def sec_abs_def)

theorem sec_auth_refines_witness:
  "\<exists>sess'. sec_auth_event challenge_os toy_nas (ascii ''imsi-1'') Timer_Start (new_sess 5 0) =
     Some (sess', [[0x2E, 5, 0, 197, 0, 4, 1, 2, 0, 4]]) \<and> sec_abs sess' = (True, [9])"
  using sec_auth_refines [OF new_sess_simps(1), of challenge_os toy_nas "ascii ''imsi-1''" Timer_Start 5 0]
  by (auto simp: new_sess_simps challenge_reply sec_reply_def toy_nas_def n1_wire_def n1_msg_def auth_octets_def
      auth_body_def lv_def be16_def)

section \<open>Messages to the UE\<close>

lemma sec_spec_bounds:
  assumes "k \<in> set (snd (sec_spec (relay_exchange E supi) supi ev a))"
  shows "case k of N1_Command e \<Rightarrow> e \<noteq> [] \<and> length e \<le> 8192 | N1_Result None \<Rightarrow> True
    | N1_Result (Some e) \<Rightarrow> e \<noteq> [] \<and> length e \<le> 8192"
  using assms
  by (cases ev; cases a) (auto simp: sec_reply_def split: if_splits option.splits prod.splits dest: relay_exchange_bounds)

lemma sec_auth_event_msg:
  assumes "sec_wf sess" "sec_auth_event E N supi ev sess = Some (sess', out)" "m \<in> set out"
  obtains k where "k \<in> set (snd (sec_spec (relay_exchange E supi) supi ev (sec_abs sess)))"
    "m = n1_wire (psi sess) (pti sess) k" "length m \<le> 8199"
proof -
  from sec_auth_event_sim [OF assms(1), of N E supi ev] assms(2,3)
  obtain k where k: "k \<in> set (snd (sec_spec (relay_exchange E supi) supi ev (sec_abs sess)))" "m = n1_wire (psi sess) (pti sess) k"
    by (auto simp: sec_sim_def split: if_splits)
  moreover have "length m \<le> 8199"
    using sec_spec_bounds [OF k(1)] by (auto simp: k(2) length_n1_wire split: n1_out.splits option.splits)
  ultimately show thesis using that by blast
qed

lemma n1_wire_forwarded: "amf_n1_only (Some (n1_wire i t k)) = Dl_nas_transport (n1_wire i t k)"
  by (cases k) (simp_all add: amf_n1_only_def n1_wire_def n1_msg_def auth_octets_def)

text \<open>
  Every message of the secondary authentication reaches the UE.  The AMF sends each N1
  message of the SMF on as downlink NAS transport, never as a rejection that removes the
  session; and the message decodes to a Command or Result for this session, with no options,
  whose EAP payload, if it has one, has 1 to 8192 octets.
\<close>

theorem sec_auth_reaches_ue:
  assumes "sec_wf sess" "sec_auth_event E N supi ev sess = Some (sess', out)" "m \<in> set out"
  shows "amf_n1_only (Some m) = Dl_nas_transport m \<and>
    (\<exists>k. ogs_nas_5gsm_decode other m = Some (n1_msg (psi sess) (pti sess) k, length m) \<and>
       (case k of N1_Command e \<Rightarrow> e \<noteq> [] \<and> length e \<le> 8192
        | N1_Result None \<Rightarrow> True
        | N1_Result (Some e) \<Rightarrow> e \<noteq> [] \<and> length e \<le> 8192))"
proof -
  obtain k where k: "k \<in> set (snd (sec_spec (relay_exchange E supi) supi ev (sec_abs sess)))"
    "m = n1_wire (psi sess) (pti sess) k" "length m \<le> 8199"
    using sec_auth_event_msg [OF assms] .
  have "ogs_nas_5gsm_decode other m = Some (n1_msg (psi sess) (pti sess) k, length m)"
    using decode_auth_octets [OF n1_msg_wf(1), of "psi sess" "pti sess" k other] k(2,3) by (simp add: n1_wire_def)
  with k(2) sec_spec_bounds [OF k(1)] show ?thesis by (auto simp: n1_wire_forwarded)
qed

theorem sec_auth_reaches_ue_witness:
  "amf_n1_only (Some [0x2E, 5, 0, 199]) = Dl_nas_transport [0x2E, 5, 0, 199]"
proof -
  have "sec_auth_event silent_os toy_nas [] (Auth_Complete None) (new_sess 5 0) = Some (new_sess 5 0, [[0x2E, 5, 0, 199]])"
    by (simp add: smf_handle_secondary_auth_complete_def sec_auth_finish_def smf_send_secondary_auth_result_def gsm_build_result
        toy_nas_def n1_wire_def n1_msg_def auth_octets_def auth_body_def new_sess_def)
  from sec_auth_reaches_ue [OF new_sess_simps(1) this, of "[0x2E, 5, 0, 199]"] show ?thesis by simp
qed

section \<open>Origin of the EAP payloads\<close>

lemma relayed_exchange_authentic:
  assumes relay: "sendrecv S = (\<lambda>addr port d. fst (relay_turn E rnd (Datagram d) stale env))"
    and x: "smf_eap_relay_exchange S u st e 4096 8192 = Some (code, rst, reap)" and "reap \<noteq> []"
  shows "\<exists>req addr port dgram. sendrecv E addr port req = Some dgram \<and>
    radius_authentic req (take 8192 dgram) (ascii (env_or E [''OPEN5GS_RADIUS_SECRET''] ''testing123'')) \<and>
    radius_parse_response (take 8192 dgram) 2048 8192 = Some (code, rst, reap)"
proof -
  obtain buf where d: "smf_decode_resp (take 16384 (fst (process_req E rnd buf stale env))) 4096 8192 = Some (code, rst, reap)"
    using x by (auto simp: smf_eap_relay_exchange_def relay relay_turn_def Let_def split: option.splits prod.splits if_splits)
      (metis fst_conv)
  show ?thesis
  proof (cases rule: process_req_cases [of E rnd buf stale env])
    case 1
    with d smf_decode_write [of "[]" "[]" EAP_RELAY_RESULT_ERROR 4096 8192] \<open>reap \<noteq> []\<close> show ?thesis by simp
  next
    case (2 result a b u' st' eap env')
    with d smf_decode_write [of a b result 4096 8192] have "(result, a, b) = (code, rst, reap)" by simp
    with radius_exchange_authentic [OF 2(1)] show ?thesis by blast
  qed
qed

lemma sec_reply_origin:
  "snd (sec_reply busy x) = N1_Result None \<or>
   (\<exists>code rst reap. x = Some (code, rst, reap) \<and> reap \<noteq> [] \<and>
      snd (sec_reply busy x) = (if code = EAP_RELAY_RESULT_CHALLENGE then N1_Command reap else N1_Result (Some reap)))"
  by (cases x; cases "the x") (simp_all add: sec_reply_def)

lemma sec_spec_origin:
  assumes "k \<in> set (snd (sec_spec x supi ev (busy, st)))"
  obtains busy' reply where "k = snd (sec_reply busy' reply)" "reply \<noteq> None \<Longrightarrow> \<exists>st e. reply = x st e"
  using assms
proof (cases ev)
  case (Auth_Complete eap)
  with assms show ?thesis
    using that [of busy None] that [of busy "x st (the eap)"]
    by (auto split: option.splits if_splits prod.splits simp: prod_eq_iff)
qed (use assms that [of True "x [] (eap_identity 1 supi)"] in \<open>auto split: if_splits prod.splits simp: prod_eq_iff\<close>)



section \<open>Runs\<close>

text \<open>
  The history of a session: \<open>sec_run N supi sess hist\<close> says that the session can be in state
  \<open>sess\<close> after sending \<open>hist\<close>.  The timer fires when it was started; the UE answers
  Commands and nothing else; the replies of the relay and the RADIUS server are arbitrary
  and may differ from event to event.
\<close>

definition awaiting :: "bytes list \<Rightarrow> bool" where
  "awaiting hist \<longleftrightarrow> hist \<noteq> [] \<and> last hist ! 3 = PDU_SESSION_AUTHENTICATION_COMMAND"

fun enabled :: "sec_event \<Rightarrow> smf_sess_t \<Rightarrow> bytes list \<Rightarrow> bool" where
  "enabled (Setup_Rsp ok) sess hist = True"
| "enabled Timer_Start sess hist = t_start sess"
| "enabled (Auth_Complete eap) sess hist = awaiting hist"

inductive sec_run :: "nas_env \<Rightarrow> bytes \<Rightarrow> smf_sess_t \<Rightarrow> bytes list \<Rightarrow> bool" for N supi where
  created: "sec_run N supi (new_sess i t) []"
| event: "sec_run N supi sess hist \<Longrightarrow> enabled ev sess hist \<Longrightarrow>
    sec_auth_event E N supi ev sess = Some (sess', out) \<Longrightarrow> sec_run N supi sess' (hist @ out)"

text \<open>The invariant over the abstract state, and that a step of the machine keeps it.\<close>

lemma awaiting_snoc [simp]:
  "awaiting (hist @ [n1_wire i t k]) \<longleftrightarrow> (\<exists>e. k = N1_Command e)" "\<not> awaiting []"
  by (cases k; simp add: awaiting_def n1_wire_def n1_msg_def auth_octets_def) (simp add: awaiting_def)

lemma sec_reply_busy:
  "sec_reply busy x = ((b, st), k) \<Longrightarrow> (b \<longleftrightarrow> busy \<and> (\<exists>e. k = N1_Command e)) \<and> (st = [] \<or> (\<exists>e. k = N1_Command e))"
  by (cases x; cases "the x") (auto simp: sec_reply_def split: if_splits)

lemma sec_spec_busy:
  assumes "busy \<longleftrightarrow> awaiting hist" "busy \<or> st = []" "awaiting hist \<or> (\<forall>eap. ev \<noteq> Auth_Complete eap)"
    and "sec_spec x supi ev (busy, st) = ((busy', st'), ks)"
  shows "(busy' \<longleftrightarrow> awaiting (hist @ map (n1_wire i t) ks)) \<and> (busy' \<or> st' = [])"
  using assms
  by (cases ev) (auto split: if_splits prod.splits option.splits dest!: sec_reply_busy)



end
