(* ===== verification/Ue_Nas.thy ===== *)
theory Ue_Nas
  imports Ue_Props Smf_Auth_Props
begin

text \<open>
  The UE's NAS codec for the PDU session authentication messages (\<open>src/UERANSIM/src/lib/nas\<close>: \<open>encode.cpp\<close>,
  \<open>msg.cpp\<close>, \<open>base.hpp\<close>, \<open>ie6.cpp\<close>) against the codec of the network.
\<close>

section \<open>Messages\<close>

record ue_epco =
  configurationProtocol :: byte
  extension :: bool
  epco_options :: bytes

text \<open>The elements of a message; in \<open>ua_eap\<close> the outer \<open>None\<close> is an absent element, the inner one the null pointer.\<close>

record ue_auth_msg =
  ua_eap :: "eap_pdu option option"
  ua_epco :: "ue_epco option"

abbreviation (input) FIVEG_SM_STATUS :: byte where "FIVEG_SM_STATUS \<equiv> 0xD6"

section \<open>Encoding\<close>

definition EncodeIe6 :: "bytes \<Rightarrow> bytes" where
  "EncodeIe6 v = be16 (length v) @ v"

definition epco_encode :: "ue_epco \<Rightarrow> bytes" where
  "epco_encode e = (configurationProtocol e OR (if extension e then 0x80 else 0)) # epco_options e"

fun cause_octet :: "ESmCause \<Rightarrow> byte" where
  "cause_octet INSUFFICIENT_RESOURCES = 0x1A" | "cause_octet INVALID_MANDATORY_INFORMATION = 0x60"

definition encode_complete :: "byte \<Rightarrow> byte \<Rightarrow> eap_pdu \<Rightarrow> ue_epco option \<Rightarrow> bytes" where
  "encode_complete i t p e =
     [OGS_NAS_EXTENDED_PROTOCOL_DISCRIMINATOR_5GSM, i, t, PDU_SESSION_AUTHENTICATION_COMPLETE] @ EncodeIe6 (EncodeEapPdu p) @
     (case e of None \<Rightarrow> [] | Some x \<Rightarrow> EPCO_TYPE # EncodeIe6 (epco_encode x))"

text \<open>The payload container that \<open>sendSmMessage\<close> and \<open>sendSmCause\<close> put into the uplink NAS transport; the
  UE's Complete has no options.\<close>

fun sm_payload :: "sm_output \<Rightarrow> bytes" where
  "sm_payload (Auth_complete i t p) = encode_complete i t p None"
| "sm_payload (Sm_cause c t i) = [OGS_NAS_EXTENDED_PROTOCOL_DISCRIMINATOR_5GSM, i, t, FIVEG_SM_STATUS, cause_octet c]"

section \<open>Decoding\<close>

text \<open>The value of an optional element and the index behind it.  The length field is read unchecked.\<close>

definition epco_decode :: "bytes \<Rightarrow> nat \<Rightarrow> nat \<Rightarrow> (ue_epco \<times> nat) cpp" where
  "epco_decode mem i len =
     (case view_read mem i of
        None \<Rightarrow> Undefined
      | Some oct \<Rightarrow>
          (case readOctetString mem (length mem) (i + 1) (int len - 1) of
             None \<Rightarrow> Undefined
           | Some None \<Rightarrow> Throws
           | Some (Some v) \<Rightarrow>
               Return (\<lparr>configurationProtocol = oct AND 7, extension = (oct AND 0x80 \<noteq> 0), epco_options = v\<rparr>, i + 1 + length v)))"

lemma epco_decode_index: "epco_decode mem i len = Return (e, i') \<Longrightarrow> i < i'"
  by (auto simp: epco_decode_def split: option.splits)

text \<open>The loop of \<open>DecodeViaBuilder\<close> over the optional elements registered for the message.\<close>

function options_while :: "byte list \<Rightarrow> bytes \<Rightarrow> nat \<Rightarrow> ue_auth_msg \<Rightarrow> ue_auth_msg cpp" where
  "options_while registered mem i m =
     (if i < length mem then
        let iei = mem ! i;
            key = (if iei \<in> set registered then iei else drop_bit 4 iei)
        in if key \<notin> set registered then Throws
        else if length mem < i + 3 then Undefined
        else
        let len = get16 mem (i + 1)
        in if key = EAP_MESSAGE_TYPE then
             (case IEEapMessage_Decode (drop (i + 3) mem) len of
                None \<Rightarrow> Diverges
              | Some None \<Rightarrow> Undefined
              | Some (Some eap) \<Rightarrow> options_while registered mem (i + 3 + len) (m\<lparr>ua_eap := Some eap\<rparr>))
           else
             (case epco_decode mem (i + 3) len of
                Return (e, i') \<Rightarrow> options_while registered mem i' (m\<lparr>ua_epco := Some e\<rparr>)
              | Throws \<Rightarrow> Throws | Undefined \<Rightarrow> Undefined | Diverges \<Rightarrow> Diverges)
      else Return m)"
  by pat_completeness auto

termination
  by (relation "measure (\<lambda>(registered, mem, i, m). length mem - i)") (auto dest!: epco_decode_index)

declare options_while.simps [simp del]

text \<open>\<open>DecodeNasMessage\<close> on a payload container: \<open>mm\<close> stands for mobility management messages and \<open>other\<close> for
  the remaining session management messages.\<close>

definition DecodeNasMessage ::
  "(bytes \<Rightarrow> (byte \<times> byte \<times> byte \<times> ue_auth_msg) cpp) \<Rightarrow> (bytes \<Rightarrow> (byte \<times> byte \<times> byte \<times> ue_auth_msg) cpp) \<Rightarrow>
   bytes \<Rightarrow> (byte \<times> byte \<times> byte \<times> ue_auth_msg) cpp" where
  "DecodeNasMessage mm other mem =
     (let fin = (\<lambda>x. case x of Return m \<Rightarrow> Return (mem ! 1, mem ! 2, mem ! 3, m)
                      | Throws \<Rightarrow> Throws | Undefined \<Rightarrow> Undefined | Diverges \<Rightarrow> Diverges)
      in if length mem = 0 then Undefined
      else if mem ! 0 = OGS_NAS_EXTENDED_PROTOCOL_DISCRIMINATOR_5GMM then mm mem
      else if length mem < 4 then Undefined
      else if mem ! 3 = PDU_SESSION_AUTHENTICATION_COMMAND \<or> mem ! 3 = PDU_SESSION_AUTHENTICATION_COMPLETE then
        (if length mem < 6 then Undefined
         else case IEEapMessage_Decode (drop 6 mem) (get16 mem 4) of
                None \<Rightarrow> Diverges
              | Some None \<Rightarrow> Undefined
              | Some (Some eap) \<Rightarrow>
                  fin (options_while [EPCO_TYPE] mem (6 + get16 mem 4) \<lparr>ua_eap = Some eap, ua_epco = None\<rparr>))
      else if mem ! 3 = PDU_SESSION_AUTHENTICATION_RESULT then
        fin (options_while [EAP_MESSAGE_TYPE, EPCO_TYPE] mem 4 \<lparr>ua_eap = None, ua_epco = None\<rparr>)
      else other mem)"

section \<open>The two codecs\<close>

text \<open>What the UE makes of an EAP element holding the packet \<open>e\<close>.\<close>

definition ue_reads :: "bytes \<Rightarrow> (eap_pdu option \<Rightarrow> 'a) \<Rightarrow> 'a cpp" where
  "ue_reads e f = (case IEEapMessage_Decode e (length e) of
     None \<Rightarrow> Diverges | Some None \<Rightarrow> Undefined | Some (Some p) \<Rightarrow> Return (f p))"

lemma options_end [simp]: "length mem \<le> i \<Longrightarrow> options_while registered mem i m = Return m"
  by (simp add: options_while.simps)

lemma ue_decodes_command:
  assumes "length e < 65536"
  shows "DecodeNasMessage mm other (n1_wire i t (N1_Command e)) =
    ue_reads e (\<lambda>p. (i, t, PDU_SESSION_AUTHENTICATION_COMMAND, \<lparr>ua_eap = Some p, ua_epco = None\<rparr>))"
proof -
  have w: "n1_wire i t (N1_Command e) = [0x2E, i, t, 197] @ be16 (length e) @ e"
    by (simp add: n1_wire_def n1_msg_def auth_octets_def auth_body_def lv_def)
  have g: "get16 ([0x2E, i, t, 197] @ be16 (length e) @ e) 4 = length e"
    using assms get16_append_right [of "[0x2E, i, t, 197]" 4 "be16 (length e) @ e"] by simp
  have d: "drop 6 ([0x2E, i, t, 197] @ be16 (length e) @ e) = e" by (simp add: be16_def)
  show ?thesis
    unfolding w DecodeNasMessage_def ue_reads_def Let_def g d by (simp split: option.split)
qed

lemma ue_decodes_result:
  assumes "length (case r of None \<Rightarrow> [] | Some e \<Rightarrow> e) < 65536"
  shows "DecodeNasMessage mm other (n1_wire i t (N1_Result r)) =
    (case r of
       None \<Rightarrow> Return (i, t, PDU_SESSION_AUTHENTICATION_RESULT, \<lparr>ua_eap = None, ua_epco = None\<rparr>)
     | Some e \<Rightarrow> ue_reads e (\<lambda>p. (i, t, PDU_SESSION_AUTHENTICATION_RESULT, \<lparr>ua_eap = Some p, ua_epco = None\<rparr>)))"
proof (cases r)
  case None
  then show ?thesis by (simp add: n1_wire_def n1_msg_def auth_octets_def auth_body_def DecodeNasMessage_def)
next
  case (Some e)
  have w: "n1_wire i t (N1_Result (Some e)) = [0x2E, i, t, 199, 0x78] @ be16 (length e) @ e"
    by (simp add: n1_wire_def n1_msg_def auth_octets_def auth_body_def lv_def)
  have g: "get16 ([0x2E, i, t, 199, 0x78] @ be16 (length e) @ e) 5 = length e"
    using assms Some get16_append_right [of "[0x2E, i, t, 199, 0x78]" 5 "be16 (length e) @ e"] by simp
  have d: "drop 7 ([0x2E, i, t, 199, 0x78] @ be16 (length e) @ e) = e" by (simp add: be16_def)
  have "options_while [0x78, 0x7B] ([0x2E, i, t, 199, 0x78] @ be16 (length e) @ e) 4 m =
      ue_reads e (\<lambda>p. m\<lparr>ua_eap := Some p\<rparr>)" for m
    using g d by (subst options_while.simps) (simp add: ue_reads_def split: option.split)
  then show ?thesis
    unfolding Some w DecodeNasMessage_def Let_def by (simp add: ue_reads_def split: option.split)
qed

lemma smf_decodes_complete:
  assumes "length (EncodeEapPdu p) < 65530"
  shows "ogs_nas_5gsm_decode other (sm_payload (Auth_complete i t p)) =
    Some (\<lparr>extended_protocol_discriminator = OGS_NAS_EXTENDED_PROTOCOL_DISCRIMINATOR_5GSM, pdu_session_identity = i,
            procedure_transaction_identity = t, message_type = PDU_SESSION_AUTHENTICATION_COMPLETE,
            auth = \<lparr>eap_message = Some (EncodeEapPdu p), presencemask = 0, epco = None\<rparr>\<rparr>,
          6 + length (EncodeEapPdu p))"
proof -
  let ?m = "\<lparr>extended_protocol_discriminator = OGS_NAS_EXTENDED_PROTOCOL_DISCRIMINATOR_5GSM, pdu_session_identity = i,
            procedure_transaction_identity = t, message_type = PDU_SESSION_AUTHENTICATION_COMPLETE,
            auth = \<lparr>eap_message = Some (EncodeEapPdu p), presencemask = 0, epco = None\<rparr>\<rparr>"
  have "auth_wf ?m" by (simp add: auth_wf_def)
  moreover have o: "sm_payload (Auth_complete i t p) = auth_octets ?m"
    by (simp add: encode_complete_def EncodeIe6_def auth_octets_def auth_body_def lv_def)
  moreover have "length (auth_octets ?m) = 6 + length (EncodeEapPdu p)"
    by (simp add: auth_octets_def auth_body_def)
  ultimately show ?thesis using decode_auth_octets [of ?m other] assms by simp
qed



end
