(* ===== verification/Ue_Keys.thy ===== *)
theory Ue_Keys
  imports Ue_Eap
begin

text \<open>
  The UE's key derivation (\<open>src/UERANSIM/src/lib/crypt/crypt.cpp\<close>, \<open>src/ue/nas/keys.cpp\<close>) and the attribute store of its
  EAP-AKA' packets (\<open>src/lib/nas/eap.cpp\<close>).  \<open>H key msg\<close> is \<open>HmacSha256\<close>, whose result has 32 octets.
\<close>

section \<open>Results of calls\<close>

fun cpp_bind :: "'a cpp \<Rightarrow> ('a \<Rightarrow> 'b cpp) \<Rightarrow> 'b cpp" where
  "cpp_bind (Return x) f = f x"
| "cpp_bind Throws f = Throws"
| "cpp_bind Undefined f = Undefined"
| "cpp_bind Diverges f = Diverges"

text \<open>\<open>OctetString::subCopy\<close> does not check its range.\<close>

definition subCopy :: "nat \<Rightarrow> nat \<Rightarrow> bytes \<Rightarrow> bytes cpp" where
  "subCopy index len v = (if index + len \<le> length v then Return (slice index len v) else Undefined)"

definition subCopy_rest :: "nat \<Rightarrow> bytes \<Rightarrow> bytes cpp" where
  "subCopy_rest index v = (if index \<le> length v then Return (drop index v) else Undefined)"

section \<open>The KDF and the PRF'\<close>

definition CalculateKdfKey :: "(bytes \<Rightarrow> bytes \<Rightarrow> bytes) \<Rightarrow> bytes \<Rightarrow> byte \<Rightarrow> bytes list \<Rightarrow> bytes" where
  "CalculateKdfKey H key fc parameters = H key (fc # concat (map (\<lambda>p. p @ be16 (length p)) parameters))"

function CalculatePrfPrime_while :: "(bytes \<Rightarrow> bytes) \<Rightarrow> bytes \<Rightarrow> nat \<Rightarrow> nat \<Rightarrow> bytes list \<Rightarrow> bytes list" where
  "CalculatePrfPrime_while h input round i T =
     (if i < round then
        let s = (if i = 0 then input @ [of_nat (i + 1)] else T ! (i - 1) @ input @ [of_nat (i + 1)])
        in CalculatePrfPrime_while h input round (i + 1) (T @ [h s])
      else T)"
  by pat_completeness auto
termination by (relation "measure (\<lambda>(h, input, round, i, T). round - i)") auto

declare CalculatePrfPrime_while.simps [simp del]

text \<open>The result is a whole number of blocks and thus longer than asked for.\<close>

definition CalculatePrfPrime :: "(bytes \<Rightarrow> bytes \<Rightarrow> bytes) \<Rightarrow> bytes \<Rightarrow> bytes \<Rightarrow> nat \<Rightarrow> bytes cpp" where
  "CalculatePrfPrime H key input outputLength =
     (let round = outputLength div 32 + 1
      in if length key \<noteq> 32 \<and> length key \<noteq> 64 then Throws
         else if round > 254 then Throws
         else Return (concat (CalculatePrfPrime_while (H key) input round 0 [])))"

section \<open>Keys\<close>

fun decimal :: "nat \<Rightarrow> string" where
  "decimal n = (if n < 10 then [char_of (48 + n)] else decimal (n div 10) @ [char_of (48 + n mod 10)])"

declare decimal.simps [simp del]

text \<open>\<open>%03d\<close>.\<close>

definition decimal3 :: "nat \<Rightarrow> string" where
  "decimal3 n = replicate (3 - length (decimal n)) (CHR ''0'') @ decimal n"

definition ConstructServingNetworkName :: "nat \<Rightarrow> nat \<Rightarrow> string cpp" where
  "ConstructServingNetworkName mcc mnc =
     (let b = ''5G:mnc'' @ decimal3 mnc @ ''.mcc'' @ decimal3 mcc @ ''.3gppnetwork.org''
      in if length b + 1 > 40 then Undefined else if length b \<noteq> 32 then Throws else Return b)"

record ue_keys =
  keys_abba :: bytes
  kAusf :: bytes
  kSeaf :: bytes
  kAmf :: bytes
  kNasInt :: bytes
  kNasEnc :: bytes

definition DeriveKeysSeafAmf :: "(bytes \<Rightarrow> bytes \<Rightarrow> bytes) \<Rightarrow> string \<Rightarrow> string \<Rightarrow> ue_keys \<Rightarrow> ue_keys" where
  "DeriveKeysSeafAmf H supi snn k =
     (let seaf = CalculateKdfKey H (kAusf k) 0x6C [ascii snn]
      in k\<lparr>kSeaf := seaf, kAmf := CalculateKdfKey H seaf 0x6D [ascii supi, keys_abba k]\<rparr>)"

definition DeriveNasKeys :: "(bytes \<Rightarrow> bytes \<Rightarrow> bytes) \<Rightarrow> byte \<Rightarrow> byte \<Rightarrow> ue_keys \<Rightarrow> ue_keys" where
  "DeriveNasKeys H ciphering integrity k =
     k\<lparr>kNasEnc := slice 16 16 (CalculateKdfKey H (kAmf k) 0x69 [[0x01], [ciphering]]),
       kNasInt := slice 16 16 (CalculateKdfKey H (kAmf k) 0x69 [[0x02], [integrity]])\<rparr>"

definition CalculateKAusfFor5gAka :: "(bytes \<Rightarrow> bytes \<Rightarrow> bytes) \<Rightarrow> bytes \<Rightarrow> bytes \<Rightarrow> string \<Rightarrow> bytes \<Rightarrow> bytes" where
  "CalculateKAusfFor5gAka H ck ik snn sqnXorAk = CalculateKdfKey H (ck @ ik) 0x6A [ascii snn, sqnXorAk]"

definition CalculateCkPrimeIkPrime ::
  "(bytes \<Rightarrow> bytes \<Rightarrow> bytes) \<Rightarrow> bytes \<Rightarrow> bytes \<Rightarrow> string \<Rightarrow> bytes \<Rightarrow> bytes \<times> bytes" where
  "CalculateCkPrimeIkPrime H ck ik snn sqnXorAk =
     (let res = CalculateKdfKey H (ck @ ik) 0x20 [ascii snn, sqnXorAk]
      in (take (length ck) res, drop (length ck) res))"

definition CalculateMk :: "(bytes \<Rightarrow> bytes \<Rightarrow> bytes) \<Rightarrow> bytes \<Rightarrow> bytes \<Rightarrow> string \<Rightarrow> bytes cpp" where
  "CalculateMk H ckPrime ikPrime supi =
     CalculatePrfPrime H (ikPrime @ ckPrime) (ascii (''EAP-AKA'' @ [CHR 0x27] @ supi)) 208"

definition CalculateMkFs :: "(bytes \<Rightarrow> bytes \<Rightarrow> bytes) \<Rightarrow> bytes \<Rightarrow> bytes \<Rightarrow> bytes \<Rightarrow> string \<Rightarrow> bytes cpp" where
  "CalculateMkFs H ikPrime ckPrime sharedSecret supi =
     cpp_bind (subCopy 0 32 sharedSecret) (\<lambda>shared32.
       CalculatePrfPrime H ((ikPrime @ ckPrime) @ shared32) (ascii (''EAP-AKA'' @ [CHR 0x27] @ '' FS'' @ supi)) 208)"

text \<open>\<open>CalculateKAusfForEapAkaPrimeFs\<close> and \<open>CalculateKAusfForEapAkaPrimeFsHPQC\<close> are the same function.\<close>

definition CalculateKAusfForEapAkaPrimeFs :: "bytes \<Rightarrow> bytes cpp" where
  "CalculateKAusfForEapAkaPrimeFs mk =
     (if length mk < 160 then Throws else Return (take 32 (slice 96 64 mk)))"

definition CalculateKAusfForEapAkaPrime :: "bytes \<Rightarrow> bytes cpp" where
  "CalculateKAusfForEapAkaPrime mk = cpp_bind (subCopy_rest 144 mk) (subCopy 0 32)"

definition CalculateResStar :: "(bytes \<Rightarrow> bytes \<Rightarrow> bytes) \<Rightarrow> bytes \<Rightarrow> string \<Rightarrow> bytes \<Rightarrow> bytes \<Rightarrow> bytes" where
  "CalculateResStar H key snn rand res =
     (let out = CalculateKdfKey H key 0x6B [ascii snn, rand, res] in drop (length out - 16) out)"

definition xor_octets :: "bytes \<Rightarrow> bytes \<Rightarrow> bytes" where
  "xor_octets a b = map2 (\<lambda>x y. x XOR y) a b"

definition CalculateAuts :: "bytes \<Rightarrow> bytes \<Rightarrow> bytes \<Rightarrow> bytes" where
  "CalculateAuts sqn ak macS = xor_octets sqn ak @ macS"

section \<open>Attributes of EAP-AKA' packets\<close>

abbreviation (input) AT_RAND :: byte where "AT_RAND \<equiv> 1"
abbreviation (input) AT_AUTN :: byte where "AT_AUTN \<equiv> 2"
abbreviation (input) AT_RES :: byte where "AT_RES \<equiv> 3"
abbreviation (input) AT_AUTS :: byte where "AT_AUTS \<equiv> 4"
abbreviation (input) AT_MAC :: byte where "AT_MAC \<equiv> 0x0B"
abbreviation (input) AT_CLIENT_ERROR_CODE :: byte where "AT_CLIENT_ERROR_CODE \<equiv> 22"
abbreviation (input) AT_KDF_INPUT :: byte where "AT_KDF_INPUT \<equiv> 0x17"
abbreviation (input) AT_KDF :: byte where "AT_KDF \<equiv> 0x18"
abbreviation (input) AT_PUB_ECDHE :: byte where "AT_PUB_ECDHE \<equiv> 0x98"
abbreviation (input) AT_KDF_FS :: byte where "AT_KDF_FS \<equiv> 0x99"

text \<open>\<open>getRand\<close>, \<open>getMac\<close> and \<open>getAutn\<close> skip two reserved octets.\<close>

definition getReserved :: "byte \<Rightarrow> eap_attributes \<Rightarrow> bytes" where
  "getReserved t a = (case attributes a t of None \<Rightarrow> [] | Some v \<Rightarrow> if length v < 2 then [] else drop 2 v)"

definition getKdf :: "eap_attributes \<Rightarrow> nat" where
  "getKdf a = (case attributes a AT_KDF of None \<Rightarrow> 0 | Some v \<Rightarrow> if length v \<noteq> 2 then 0 else get16 v 0)"

definition getKdfInput :: "eap_attributes \<Rightarrow> bytes" where
  "getKdfInput a =
     (case attributes a AT_KDF_INPUT of
        None \<Rightarrow> []
      | Some v \<Rightarrow> if length v < 2 then [] else if get16 v 0 + 2 > length v then [] else slice 2 (get16 v 0) v)"

definition getAttribute :: "byte \<Rightarrow> eap_attributes \<Rightarrow> bytes" where
  "getAttribute t a = (case attributes a t of None \<Rightarrow> [] | Some v \<Rightarrow> v)"

definition putRes :: "bytes \<Rightarrow> eap_attributes \<Rightarrow> eap_attributes" where
  "putRes v = putRawAttribute AT_RES (be16 (length v * 8) @ v)"

definition putMac :: "bytes \<Rightarrow> eap_attributes \<Rightarrow> eap_attributes" where
  "putMac v = putRawAttribute AT_MAC (be16 0 @ v)"

definition replaceMac :: "bytes \<Rightarrow> eap_attributes \<Rightarrow> eap_attributes" where
  "replaceMac v a = a\<lparr>attributes := (attributes a)(AT_MAC \<mapsto> be16 0 @ v)\<rparr>"

definition putKdf :: "nat \<Rightarrow> eap_attributes \<Rightarrow> eap_attributes" where
  "putKdf n = putRawAttribute AT_KDF (be16 n)"

definition putClientErrorCode :: "nat \<Rightarrow> eap_attributes \<Rightarrow> eap_attributes" where
  "putClientErrorCode n = putRawAttribute AT_CLIENT_ERROR_CODE (be16 n)"

definition putAuts :: "bytes \<Rightarrow> eap_attributes \<Rightarrow> eap_attributes" where
  "putAuts = putRawAttribute AT_AUTS"

definition putRawAttributeWith2ByteLength :: "byte \<Rightarrow> bytes \<Rightarrow> eap_attributes \<Rightarrow> eap_attributes" where
  "putRawAttributeWith2ByteLength key value a =
     a\<lparr>attributes := (attributes a)(key \<mapsto> value), order_received := order_received a @ [key],
       twoByteLengthAttributes := insert key (twoByteLengthAttributes a)\<rparr>"

text \<open>The MAC is computed over the packet encoded again, with the attributes in the order received.\<close>

definition copy_attributes :: "eap_attributes \<Rightarrow> eap_attributes" where
  "copy_attributes a =
     foldl (\<lambda>c t. case attributes a t of
                     None \<Rightarrow> c
                   | Some v \<Rightarrow> if t = AT_PUB_HYBRID then putRawAttributeWith2ByteLength t v c else putRawAttribute t v c)
       empty_attributes (order_received a)"

definition mac_input :: "ECode \<Rightarrow> byte \<Rightarrow> byte \<Rightarrow> eap_attributes \<Rightarrow> bytes" where
  "mac_input cd ident subType a =
     EncodeEapPdu \<lparr>eap_code = cd, eap_pdu_id = ident, eap_body = EapAkaPrime subType (replaceMac (zeros 16) (copy_attributes a))\<rparr>"

definition ue_CalculateMac :: "(bytes \<Rightarrow> bytes \<Rightarrow> bytes) \<Rightarrow> bytes \<Rightarrow> ECode \<Rightarrow> byte \<Rightarrow> byte \<Rightarrow> eap_attributes \<Rightarrow> bytes" where
  "ue_CalculateMac H kaut cd ident subType a = take 16 (H kaut (mac_input cd ident subType a))"

end
