(* ===== verification/Ogs_Kdf.thy ===== *)
theory Ogs_Kdf
  imports Kdf
begin

text \<open>
  The key derivation functions of the core network (\<open>src/open5gs/lib/crypt/ogs-kdf.c\<close>): the KDF of TS 33.220
  with the derivations of TS 33.501 that authentication uses, and the PRF' of EAP-AKA' with its forward-secret
  variants.  \<open>H key msg\<close> is HMAC-SHA256 and \<open>S\<close> is SHA-256, as computed by \<open>ogs_hmac_sha256\<close> and
  \<open>ogs_sha256\<close>.  \<open>None\<close> is a failing \<open>ogs_assert\<close>.
\<close>

abbreviation (input) OGS_KEY_LEN :: nat where "OGS_KEY_LEN \<equiv> 16"
abbreviation (input) OGS_RAND_LEN :: nat where "OGS_RAND_LEN \<equiv> 16"
abbreviation (input) OGS_SQN_XOR_AK_LEN :: nat where "OGS_SQN_XOR_AK_LEN \<equiv> 6"
abbreviation (input) OGS_SHA256_DIGEST_SIZE :: nat where "OGS_SHA256_DIGEST_SIZE \<equiv> 32"
abbreviation (input) MAX_NUM_OF_KDF_PARAM :: nat where "MAX_NUM_OF_KDF_PARAM \<equiv> 16"
abbreviation (input) MK_LEN :: nat where "MK_LEN \<equiv> 208"

section \<open>The common function\<close>

text \<open>The length of a parameter is kept in 16 bits; the list of parameters ends at the first of length 0.\<close>

definition kdf_len :: "bytes \<Rightarrow> nat" where
  "kdf_len p = length p mod 65536"

definition ogs_kdf_common :: "(bytes \<Rightarrow> bytes \<Rightarrow> bytes) \<Rightarrow> bytes \<Rightarrow> byte \<Rightarrow> bytes list \<Rightarrow> bytes option" where
  "ogs_kdf_common H key fc param =
     (if key = [] \<or> fc = 0 \<or> param = [] \<or> kdf_len (hd param) = 0 then None
      else Some (H key (fc # concat (map (\<lambda>p. take (kdf_len p) p @ be16 (kdf_len p))
                                   (takeWhile (\<lambda>p. kdf_len p \<noteq> 0) (take MAX_NUM_OF_KDF_PARAM param))))))"

section \<open>5G AKA\<close>

definition ogs_kdf_kausf :: "(bytes \<Rightarrow> bytes \<Rightarrow> bytes) \<Rightarrow> bytes \<Rightarrow> bytes \<Rightarrow> string \<Rightarrow> bytes \<Rightarrow> bytes option" where
  "ogs_kdf_kausf H ck ik serving_network_name autn =
     ogs_kdf_common H (take OGS_KEY_LEN ck @ take OGS_KEY_LEN ik) 0x6A
       [ascii serving_network_name, take OGS_SQN_XOR_AK_LEN autn]"

definition ogs_kdf_xres_star ::
  "(bytes \<Rightarrow> bytes \<Rightarrow> bytes) \<Rightarrow> bytes \<Rightarrow> bytes \<Rightarrow> string \<Rightarrow> bytes \<Rightarrow> bytes \<Rightarrow> bytes option" where
  "ogs_kdf_xres_star H ck ik serving_network_name rand xres =
     (if xres = [] then None
      else map_option (slice OGS_KEY_LEN OGS_KEY_LEN)
        (ogs_kdf_common H (take OGS_KEY_LEN ck @ take OGS_KEY_LEN ik) 0x6B
           [ascii serving_network_name, take OGS_RAND_LEN rand, xres]))"

definition ogs_kdf_hxres_star :: "(bytes \<Rightarrow> bytes) \<Rightarrow> bytes \<Rightarrow> bytes \<Rightarrow> bytes" where
  "ogs_kdf_hxres_star S rand xres_star =
     slice OGS_KEY_LEN OGS_KEY_LEN (S (take OGS_RAND_LEN rand @ take OGS_KEY_LEN xres_star))"

definition ogs_kdf_kseaf :: "(bytes \<Rightarrow> bytes \<Rightarrow> bytes) \<Rightarrow> string \<Rightarrow> bytes \<Rightarrow> bytes option" where
  "ogs_kdf_kseaf H serving_network_name kausf =
     ogs_kdf_common H (take OGS_SHA256_DIGEST_SIZE kausf) 0x6C [ascii serving_network_name]"

text \<open>\<open>ogs_id_get_value\<close> takes what stands between the first two hyphens.\<close>

definition ogs_id_get_value :: "string \<Rightarrow> string option" where
  "ogs_id_get_value s =
     (case dropWhile (\<lambda>c. c \<noteq> CHR ''-'') s of [] \<Rightarrow> None | _ # t \<Rightarrow> Some (takeWhile (\<lambda>c. c \<noteq> CHR ''-'') t))"

definition ogs_kdf_kamf :: "(bytes \<Rightarrow> bytes \<Rightarrow> bytes) \<Rightarrow> string \<Rightarrow> bytes \<Rightarrow> bytes \<Rightarrow> bytes option" where
  "ogs_kdf_kamf H supi abba kseaf =
     (if abba = [] then None
      else case ogs_id_get_value supi of
        None \<Rightarrow> None
      | Some val \<Rightarrow> ogs_kdf_common H (take OGS_SHA256_DIGEST_SIZE kseaf) 0x6D [ascii val, abba])"

definition ogs_kdf_nas_5gs :: "(bytes \<Rightarrow> bytes \<Rightarrow> bytes) \<Rightarrow> byte \<Rightarrow> byte \<Rightarrow> bytes \<Rightarrow> bytes option" where
  "ogs_kdf_nas_5gs H algorithm_type_distinguishers algorithm_identity kamf =
     map_option (slice 16 16)
       (ogs_kdf_common H (take OGS_SHA256_DIGEST_SIZE kamf) 0x69 [[algorithm_type_distinguishers], [algorithm_identity]])"

section \<open>EAP-AKA'\<close>

text \<open>CK' and IK'.  The input buffer has 1024 octets; the outer \<open>None\<close> is a write past it.\<close>

definition ogs_kdf_ckprime_ikprime ::
  "(bytes \<Rightarrow> bytes \<Rightarrow> bytes) \<Rightarrow> bytes \<Rightarrow> bytes \<Rightarrow> string \<Rightarrow> bytes \<Rightarrow> (bytes \<times> bytes) option" where
  "ogs_kdf_ckprime_ikprime H ck ik snn sqn_xor_ak =
     (let input = [0x20] @ ascii snn @ be16 (length snn) @ take 6 sqn_xor_ak @ [0x00, 0x06]
      in if length input > 1024 then None
         else let out = H (take 16 ck @ take 16 ik) input in Some (take 16 out, slice 16 16 out))"

text \<open>The loop of \<open>ogs_kdf_prf_prime\<close>, with its one-octet counter.\<close>

function prf_while :: "(bytes \<Rightarrow> bytes) \<Rightarrow> bytes \<Rightarrow> nat \<Rightarrow> byte \<Rightarrow> bytes \<Rightarrow> bytes \<Rightarrow> bytes" where
  "prf_while h input offset round T_prev mk_out =
     (if offset < MK_LEN then
        let T = h (if round = 1 then input @ [round] else T_prev @ input @ [round]);
            copy_len = (if MK_LEN - offset > 32 then 32 else MK_LEN - offset)
        in prf_while h input (offset + copy_len) (round + 1) T (mk_out @ take copy_len T)
      else mk_out)"
  by pat_completeness auto
termination by (relation "measure (\<lambda>(h, input, offset, rest). MK_LEN - offset)") auto

declare prf_while.simps [simp del]

text \<open>\<open>mem\<close> says whether \<open>ogs_malloc\<close> succeeds; \<open>None\<close> is the return value false.\<close>

definition ogs_kdf_prf_prime ::
  "(bytes \<Rightarrow> bytes \<Rightarrow> bytes) \<Rightarrow> bool \<Rightarrow> bytes \<Rightarrow> bytes \<Rightarrow> bytes \<Rightarrow> bytes option" where
  "ogs_kdf_prf_prime H mem ik_prime ck_prime identity =
     (let key = take 16 ik_prime @ take 16 ck_prime;
          input = ascii (''EAP-AKA'' @ [CHR 0x27]) @ identity
      in if \<not> mem then None else Some (prf_while (H key) input 0 1 (zeros 32) []))"

text \<open>\<open>ogs_calculate_prf_prime\<close> computes all blocks first and then copies as much of them as was asked for.\<close>

function prf_blocks_while :: "(bytes \<Rightarrow> bytes) \<Rightarrow> bytes \<Rightarrow> nat \<Rightarrow> nat \<Rightarrow> bytes list \<Rightarrow> bytes list" where
  "prf_blocks_while h input round i T =
     (if i < round then
        prf_blocks_while h input round (i + 1)
          (T @ [h ((if i = 0 then input else T ! (i - 1) @ input) @ [of_nat (i + 1)])])
      else T)"
  by pat_completeness auto
termination by (relation "measure (\<lambda>(h, input, round, i, T). round - i)") auto

declare prf_blocks_while.simps [simp del]

fun prf_copy :: "nat \<Rightarrow> bytes list \<Rightarrow> nat \<Rightarrow> bytes \<Rightarrow> bytes" where
  "prf_copy output_len [] out_pos out = out"
| "prf_copy output_len (t # T) out_pos out =
     (let copy_len = (if out_pos + 32 > output_len then output_len - out_pos else 32)
      in prf_copy output_len T (out_pos + copy_len) (out @ take copy_len t))"

text \<open>The outer \<open>None\<close> is a write past the 4096-octet buffer of a round, the inner one \<open>OGS_ERROR\<close>.\<close>

definition ogs_calculate_prf_prime :: "(bytes \<Rightarrow> bytes \<Rightarrow> bytes) \<Rightarrow> bytes \<Rightarrow> bytes \<Rightarrow> nat \<Rightarrow> bytes option option" where
  "ogs_calculate_prf_prime H key input output_len =
     (let round = output_len div 32 + 1
      in if length key \<noteq> 32 \<and> length key \<noteq> 64 then Some None
         else if round > 254 then Some None
         else if (if round = 1 then 0 else 32) + length input + 1 > 4096 then None
         else Some (Some (prf_copy output_len (prf_blocks_while (H key) input round 0 []) 0 [])))"

definition ogs_kdf_prf_prime_fs ::
  "(bytes \<Rightarrow> bytes \<Rightarrow> bytes) \<Rightarrow> bool \<Rightarrow> bytes \<Rightarrow> bytes \<Rightarrow> bytes \<Rightarrow> bytes \<Rightarrow> bytes option option" where
  "ogs_kdf_prf_prime_fs H mem ik_prime ck_prime shared_secret identity =
     (let key = take 16 ik_prime @ take 16 ck_prime @ take 32 shared_secret;
          input = ascii (''EAP-AKA'' @ [CHR 0x27] @ '' FS'') @ identity
      in if \<not> mem then Some None else ogs_calculate_prf_prime H key input 208)"

definition ogs_kdf_prf_prime_fs_hpqc ::
  "(bytes \<Rightarrow> bytes \<Rightarrow> bytes) \<Rightarrow> (bytes \<Rightarrow> bytes) \<Rightarrow> bool \<Rightarrow> bytes \<Rightarrow> bytes \<Rightarrow> bytes \<Rightarrow> bytes \<Rightarrow> bytes option option" where
  "ogs_kdf_prf_prime_fs_hpqc H S mem ik_prime ck_prime shared_secret identity =
     (let key_final = S (take 16 ik_prime @ take 16 ck_prime @ take 64 shared_secret);
          input = ascii (''EAP-AKA'' @ [CHR 0x27] @ '' FS'') @ identity
      in if \<not> mem then Some None else ogs_calculate_prf_prime H key_final input 208)"

end
