(* ===== verification/Ausf.thy ===== *)
theory Ausf
  imports Ogs_Kdf
begin

text \<open>
  The network's side of EAP-AKA' with forward secrecy: the authentication vector of the UDM (\<open>src/open5gs/src/udm/nudr-handler.c\<close>),
  the challenge the AUSF builds from it (\<open>src/ausf/nudm-handler.c\<close>) and its check of the UE's response
  (\<open>src/ausf/nausf-handler.c\<close>).  The hexadecimal and Base64 strings of the service interfaces are taken as the octets they
  stand for.  \<open>None\<close> of a handler is undefined behaviour: a null pointer or a read outside a packet.
\<close>

section \<open>Primitives\<close>

text \<open>The functions of \<open>lib/crypt\<close> that the handlers call: HMAC-SHA256, SHA-256, X25519 (scalar, point), ML-KEM-768,
  \<open>ogs_random\<close>, the outputs of Milenage for OPc, K, RAND, SQN and AMF, and OPc from OP and K.\<close>

record milenage_out =
  mil_res :: bytes
  mil_ck :: bytes
  mil_ik :: bytes
  mil_ak :: bytes
  mil_ak_r :: bytes
  mil_mac_a :: bytes
  mil_mac_s :: bytes

record 'r aka_prims =
  hmac_sha256 :: "bytes \<Rightarrow> bytes \<Rightarrow> bytes"
  sha256_fn :: "bytes \<Rightarrow> bytes"
  x25519 :: "bytes \<Rightarrow> bytes \<Rightarrow> bytes"
  kem_keygen :: "'r \<Rightarrow> (bytes \<times> bytes) \<times> 'r"
  kem_enc :: "bytes \<Rightarrow> 'r \<Rightarrow> (bytes \<times> bytes) \<times> 'r"
  kem_dec :: "bytes \<Rightarrow> bytes \<Rightarrow> bytes"
  ogs_random :: "nat \<Rightarrow> 'r \<Rightarrow> bytes \<times> 'r"
  milenage :: "bytes \<Rightarrow> bytes \<Rightarrow> bytes \<Rightarrow> bytes \<Rightarrow> bytes \<Rightarrow> milenage_out"
  calculate_opc :: "bytes \<Rightarrow> bytes \<Rightarrow> bytes"

definition x25519_base :: bytes where
  "x25519_base = 9 # zeros 31"

text \<open>The clamping of RFC 7748.\<close>

definition clamp :: "bytes \<Rightarrow> bytes" where
  "clamp k = (k[0 := k ! 0 AND 248])[31 := (k ! 31 AND 127) OR 64]"

section \<open>Packets\<close>

definition build_eap_aka_prime_header :: "byte \<Rightarrow> byte \<Rightarrow> bytes" where
  "build_eap_aka_prime_header cd identifier = [cd, identifier, 0x00, 0x00, 0x32, 0x01, 0x00, 0x00]"

definition add_at_rand :: "bytes \<Rightarrow> bytes \<Rightarrow> bytes" where
  "add_at_rand payload rand = payload @ [0x01, 0x05, 0x00, 0x00] @ take 16 rand"

definition add_at_autn :: "bytes \<Rightarrow> bytes \<Rightarrow> bytes" where
  "add_at_autn payload autn = payload @ [0x02, 0x05, 0x00, 0x00] @ take 16 autn"

definition add_at_kdf :: "bytes \<Rightarrow> nat \<Rightarrow> bytes" where
  "add_at_kdf payload kdf_id = payload @ [0x18, 0x01] @ be16 kdf_id"

text \<open>The length counts 4-octet words but the value is not padded.\<close>

definition add_at_kdf_input :: "bytes \<Rightarrow> string \<Rightarrow> bytes" where
  "add_at_kdf_input payload snn =
     (let snn_len = length snn; attr_len = (2 + snn_len + 3) div 4
      in if snn_len > 255 then payload
         else payload @ [0x17, of_nat attr_len] @ be16 snn_len @ ascii snn)"

text \<open>The packet and the offset of the value, for \<open>mac_ptr\<close>.\<close>

definition add_at_mac :: "bytes \<Rightarrow> bytes \<times> nat" where
  "add_at_mac payload = (payload @ [0x0B, 0x05, 0x00, 0x00] @ zeros 16, length payload + 4)"

definition add_at_kdf_fs :: "bytes \<Rightarrow> byte \<Rightarrow> bytes" where
  "add_at_kdf_fs payload fs_kdf_id = payload @ [0x99, 0x01, fs_kdf_id, 0x00]"

definition add_at_pub_hybrid :: "bytes \<Rightarrow> bytes \<Rightarrow> bytes \<Rightarrow> bytes" where
  "add_at_pub_hybrid payload mlkem_pub_key x25519_pub_key =
     payload @ [0xA0] @ be16 ((4 + (1184 + 32)) div 4) @ [0x00] @ take 1184 mlkem_pub_key @ take 32 x25519_pub_key"

text \<open>The search for AT_MAC looks at every offset, not only at those where an attribute starts.\<close>

definition at_mac_offset :: "bytes \<Rightarrow> nat option" where
  "at_mac_offset payload =
     find (\<lambda>i. payload ! i = 0x0B \<and> payload ! (i + 1) = 5) [0..<length payload - 2]"

text \<open>The octets under the MAC, \<open>None\<close> if there is no AT_MAC or it does not fit.\<close>

definition ausf_mac_input :: "bytes \<Rightarrow> bytes option" where
  "ausf_mac_input payload =
     (case at_mac_offset payload of
        None \<Rightarrow> None
      | Some offset \<Rightarrow> if offset + 20 > length payload then None else Some (poke payload (offset + 4) (zeros 16)))"

definition CalculateMacForEapAkaPrime :: "(bytes \<Rightarrow> bytes \<Rightarrow> bytes) \<Rightarrow> bool \<Rightarrow> bytes \<Rightarrow> bytes \<Rightarrow> bytes option" where
  "CalculateMacForEapAkaPrime H mem mk payload =
     (if length payload > 2048 then None
      else if \<not> mem then None
      else map_option (\<lambda>input. take 16 (H mk input)) (ausf_mac_input payload))"

text \<open>The response.  An attribute is a position in the packet (the C code keeps pointers), with a fixed length whatever
  the packet says.\<close>

record eap_message =
  msg_res :: "nat option"
  msg_mac :: "nat option"
  msg_kdf :: "nat option"
  msg_pub_ecdhe :: "nat option"
  msg_pub_hybrid :: "nat option"

function parse_while :: "bytes \<Rightarrow> nat \<Rightarrow> eap_message \<Rightarrow> eap_message" where
  "parse_while eap_payload pos msg =
     (if pos < length eap_payload then
        let t = eap_payload ! pos; pos = pos + 1
        in if t = 0x03 then parse_while eap_payload (pos + 3 + 7) (msg\<lparr>msg_res := Some (pos + 3)\<rparr>)
           else if t = 0x0B then parse_while eap_payload (pos + 3 + 13) (msg\<lparr>msg_mac := Some (pos + 3)\<rparr>)
           else if t = 0x18 then parse_while eap_payload (pos + 3) (msg\<lparr>msg_kdf := Some pos\<rparr>)
           else if t = 0x98 then parse_while eap_payload (pos + 1 + 36) (msg\<lparr>msg_pub_ecdhe := Some (pos + 1)\<rparr>)
           else if t = 0xA0 then parse_while eap_payload (pos + 2 + 1120) (msg\<lparr>msg_pub_hybrid := Some (pos + 2)\<rparr>)
           else parse_while eap_payload pos msg
      else msg)"
  by pat_completeness auto
termination by (relation "measure (\<lambda>(p, pos, msg). length p - pos)") auto

declare parse_while.simps [simp del]

definition parse_eap_aka_prime :: "bytes \<Rightarrow> eap_message" where
  "parse_eap_aka_prime eap_payload =
     parse_while eap_payload 7
       \<lparr>msg_res = None, msg_mac = None, msg_kdf = None, msg_pub_ecdhe = None, msg_pub_hybrid = None\<rparr>"

definition build_eap_success :: "byte \<Rightarrow> bytes" where
  "build_eap_success identifier = [0x03, 0x01, 0x00, 0x04]"

section \<open>The authentication vector\<close>

datatype auth_kind = FIVE_G_AKA | EAP_AKA_PRIME | Other_kind

record auth_vector =
  av_type :: auth_kind
  av_rand :: "bytes option"
  av_autn :: "bytes option"
  av_xres_star :: "bytes option"
  av_kausf :: "bytes option"
  av_xres :: "bytes option"
  av_ck_prime :: "bytes option"
  av_ik_prime :: "bytes option"
  av_k_aut :: "bytes option"

record udm_ue =
  ud_supi :: string
  ud_serving_network_name :: string
  ud_k :: bytes
  ud_opc :: bytes
  ud_amf :: bytes
  ud_rand :: bytes
  ud_sqn :: bytes
  ud_k_aut :: bytes
  ud_auth_type :: auth_kind

text \<open>The vector for a subscription update that succeeded.  \<open>stk\<close> is what uninitialised or overread stack memory
  holds: \<open>milenage_generate\<close> sets 8 of the 16 octets of \<open>xres\<close>, CK' and IK' have 16 octets and are sent with 32,
  and for 5G AKA \<open>k_aut\<close> is not set at all.  \<open>mem\<close> is as in \<open>ogs_kdf_prf_prime\<close>, whose result is not checked.
  The two constants of \<open>av_type\<close> are exchanged in the code.\<close>

definition xor6 :: "bytes \<Rightarrow> bytes \<Rightarrow> bytes" where
  "xor6 a b = map (\<lambda>i. a ! i XOR b ! i) [0..<6]"

definition udm_authentication_vector ::
  "'r aka_prims \<Rightarrow> bool \<Rightarrow> (string \<Rightarrow> bytes) \<Rightarrow> udm_ue \<Rightarrow> 'r \<Rightarrow> (auth_vector \<times> udm_ue \<times> 'r) option" where
  "udm_authentication_vector P mem stk u r =
     (case ogs_random P 16 r of (rnd, r) \<Rightarrow>
      let u = u\<lparr>ud_rand := rnd\<rparr>;
          m = milenage P (ud_opc u) (ud_k u) rnd (ud_sqn u) (ud_amf u);
          sqn_xor_ak = xor6 (ud_sqn u) (mil_ak m);
          autn = sqn_xor_ak @ take 2 (ud_amf u) @ take 8 (mil_mac_a m);
          u = u\<lparr>ud_k_aut := zeros 32\<rparr>
      in case (ogs_kdf_kausf (hmac_sha256 P) (mil_ck m) (mil_ik m) (ud_serving_network_name u) autn,
               ogs_kdf_xres_star (hmac_sha256 P) (mil_ck m) (mil_ik m) (ud_serving_network_name u) rnd (take 8 (mil_res m))) of
        (Some kausf, Some xres_star) \<Rightarrow>
          if ud_auth_type u = FIVE_G_AKA then
            Some (\<lparr>av_type = EAP_AKA_PRIME, av_rand = Some rnd, av_autn = Some autn, av_xres_star = Some xres_star,
                   av_kausf = Some kausf, av_xres = None, av_ck_prime = None, av_ik_prime = None,
                   av_k_aut = Some (take 32 (stk ''k_aut''))\<rparr>, u, r)
          else
            (case ogs_kdf_ckprime_ikprime (hmac_sha256 P) (mil_ck m) (mil_ik m) (ud_serving_network_name u) sqn_xor_ak of
               None \<Rightarrow> None
             | Some (ck_prime, ik_prime) \<Rightarrow>
                 if length (ud_supi u) < 5 then None
                 else
                 let identity = ascii (drop 5 (ud_supi u));
                     mk = (case ogs_kdf_prf_prime (hmac_sha256 P) mem ik_prime ck_prime identity of
                             None \<Rightarrow> stk ''mk'' | Some mk \<Rightarrow> mk);
                     k_aut = slice 16 32 mk
                 in Some (\<lparr>av_type = FIVE_G_AKA, av_rand = Some rnd, av_autn = Some autn, av_xres_star = Some xres_star,
                           av_kausf = Some (slice 144 32 mk), av_xres = Some (take 8 (mil_res m) @ take 8 (stk ''xres'')),
                           av_ck_prime = Some (ck_prime @ take 16 (stk ''ck_prime'')),
                           av_ik_prime = Some (ik_prime @ take 16 (stk ''ik_prime'')), av_k_aut = Some k_aut\<rparr>,
                          u\<lparr>ud_k_aut := k_aut\<rparr>, r))
      | _ \<Rightarrow> None)"

section \<open>The challenge\<close>

datatype auth_result = AUTHENTICATION_SUCCESS | AUTHENTICATION_FAILURE | AUTHENTICATION_ONGOING

record ausf_ue =
  au_supi :: "string option"
  au_serving_network_name :: string
  au_auth_type :: auth_kind
  au_auth_result :: auth_result
  au_rand :: bytes
  au_xres_star :: bytes
  au_hxres_star :: bytes
  au_kausf :: bytes
  au_kseaf :: bytes
  au_ck_prime :: bytes
  au_ik_prime :: bytes
  au_k_aut :: bytes
  au_eap_payload :: bytes
  au_xres :: bytes
  au_xres_len :: nat
  au_eap_success :: "bytes option"
  au_eap_identifier :: byte
  au_priv_key :: bytes
  au_pub_key_raw :: bytes
  au_mk_ecdhe :: bytes
  au_k_re :: bytes
  au_msk :: bytes
  au_emsk :: bytes
  au_mk_hybrid :: bytes
  au_mlkem_sk :: bytes
  au_has_mlkem_sk :: bool

text \<open>What a handler sends: an error status, the challenge (201), the 5G AKA data (201), or the confirmation to the UDM.\<close>

datatype ausf_out =
    Error_response nat
  | Eap_challenge bytes
  | Av_5g_aka bytes bytes bytes
  | Result_inform
  | Nothing_sent

record auth_info_result =
  ai_auth_type :: auth_kind
  ai_vector :: "auth_vector option"
  ai_supi :: "string option"

definition generate_x25519_keypair :: "'r aka_prims \<Rightarrow> 'r \<Rightarrow> (bytes \<times> bytes) \<times> 'r" where
  "generate_x25519_keypair P r =
     (case ogs_random P 32 r of (k, r) \<Rightarrow> ((clamp k, x25519 P (clamp k) x25519_base), r))"

text \<open>The packet up to and including an AT_MAC of zeros, with its length field set.\<close>

definition challenge_packet :: "bytes \<Rightarrow> bytes \<Rightarrow> string \<Rightarrow> bytes \<Rightarrow> bytes \<Rightarrow> bytes \<times> nat" where
  "challenge_packet rand autn snn mlkem_pk x25519_pk =
     (let p = build_eap_aka_prime_header 0x01 0x01;
          p = add_at_rand p rand;
          p = add_at_autn p autn;
          p = add_at_kdf p 1;
          p = add_at_kdf_fs p 1;
          p = add_at_kdf_input p snn;
          p = add_at_pub_hybrid p mlkem_pk x25519_pk;
          (p, mac_off) = add_at_mac p
      in (poke p 2 (be16 (length p)), mac_off))"

text \<open>The branch for EAP-AKA' of \<open>ausf_nudm_ueau_handle_get\<close>; \<open>xres\<close>, \<open>ck_prime\<close> and \<open>ik_prime\<close> are used without
  a check for null.\<close>

definition ausf_eap_challenge ::
  "'r aka_prims \<Rightarrow> bool \<Rightarrow> ausf_ue \<Rightarrow> auth_vector \<Rightarrow> 'r \<Rightarrow> (bool \<times> ausf_out \<times> ausf_ue \<times> 'r) option" where
  "ausf_eap_challenge P mem u av r =
     (case (av_rand av, av_autn av, av_k_aut av) of
        (Some rand, Some autn, Some kaut) \<Rightarrow>
          (case (av_xres av, av_ck_prime av, av_ik_prime av) of
             (Some xres, Some ck, Some ik) \<Rightarrow>
               let u = u\<lparr>au_xres := poke (au_xres u) 0 (take 16 xres), au_ck_prime := poke (au_ck_prime u) 0 (take 32 ck),
                         au_ik_prime := poke (au_ik_prime u) 0 (take 32 ik), au_k_aut := poke (au_k_aut u) 0 (take 32 kaut),
                         au_xres_len := length (take 16 xres)\<rparr>
               in if length rand < 16 \<or> length autn < 16 \<or> length kaut < 32 then Some (False, Nothing_sent, u, r)
                  else
                  (case generate_x25519_keypair P r of ((priv, pub), r) \<Rightarrow>
                   case kem_keygen P r of ((mlkem_pk, mlkem_sk), r) \<Rightarrow>
                   let u = u\<lparr>au_priv_key := priv, au_pub_key_raw := pub, au_mlkem_sk := mlkem_sk, au_has_mlkem_sk := True\<rparr>;
                       (p, mac_off) = challenge_packet rand autn (au_serving_network_name u) mlkem_pk pub
                   in if length p > 2048 then Some (False, Nothing_sent, u, r)
                      else (case CalculateMacForEapAkaPrime (hmac_sha256 P) mem (take 32 kaut) p of
                              None \<Rightarrow> Some (False, Nothing_sent, u, r)
                            | Some mac \<Rightarrow> Some (True, Eap_challenge (poke p mac_off mac), u, r)))
           | _ \<Rightarrow> None)
      | _ \<Rightarrow> Some (False, Error_response 400, u, r))"

text \<open>\<open>supi_hash\<close> maps a SUPI to the context, here by its SUCI.\<close>

definition ausf_nudm_ueau_handle_get ::
  "'r aka_prims \<Rightarrow> bool \<Rightarrow> string \<Rightarrow> (string \<rightharpoonup> string) \<Rightarrow> ausf_ue \<Rightarrow> auth_info_result option \<Rightarrow> 'r \<Rightarrow>
   (bool \<times> ausf_out \<times> (string \<rightharpoonup> string) \<times> ausf_ue \<times> 'r) option" where
  "ausf_nudm_ueau_handle_get P mem suci supi_hash u info r =
     (let refuse = (\<lambda>status. Some (False, Error_response status, supi_hash, u, r)) in
      case info of None \<Rightarrow> refuse 400
      | Some i \<Rightarrow>
      if ai_auth_type i \<noteq> FIVE_G_AKA \<and> ai_auth_type i \<noteq> EAP_AKA_PRIME then refuse 501
      else case ai_vector i of None \<Rightarrow> refuse 400
      | Some av \<Rightarrow>
      if av_type av \<noteq> FIVE_G_AKA \<and> av_type av \<noteq> EAP_AKA_PRIME then refuse 403
      else case (av_rand av, av_xres_star av, av_autn av, av_kausf av, ai_supi i) of
        (Some rand, Some xres_star, Some autn, Some kausf, Some supi) \<Rightarrow>
          let hash = (case au_supi u of None \<Rightarrow> supi_hash | Some s \<Rightarrow> supi_hash(s := None));
              hash = hash(supi \<mapsto> suci);
              u = u\<lparr>au_supi := Some supi, au_auth_type := ai_auth_type i, au_rand := poke (au_rand u) 0 (take 16 rand),
                    au_xres_star := poke (au_xres_star u) 0 (take 16 xres_star), au_kausf := poke (au_kausf u) 0 (take 32 kausf)\<rparr>
          in if ai_auth_type i = EAP_AKA_PRIME then
               (case ausf_eap_challenge P mem u av r of
                  None \<Rightarrow> None
                | Some (ok, out, u, r) \<Rightarrow> Some (ok, out, hash, u, r))
             else
               let u = u\<lparr>au_hxres_star := ogs_kdf_hxres_star (sha256_fn P) (au_rand u) (au_xres_star u)\<rparr>
               in Some (True, Av_5g_aka rand autn (au_hxres_star u), hash, u, r)
      | _ \<Rightarrow> refuse 400)"

section \<open>The response\<close>

text \<open>The log of the handler prints the attributes it found, with their assumed lengths.\<close>

definition logged :: "bytes \<Rightarrow> nat option \<Rightarrow> nat \<Rightarrow> bool" where
  "logged p pos n = (case pos of None \<Rightarrow> True | Some i \<Rightarrow> i + n \<le> length p)"

text \<open>An array read through a pointer into the packet.\<close>

definition read_at :: "bytes \<Rightarrow> nat \<Rightarrow> nat \<Rightarrow> bytes option" where
  "read_at p pos n = (if pos + n \<le> length p then Some (slice pos n p) else None)"

text \<open>The keys both forward-secret branches store.\<close>

definition store_fs_keys :: "ausf_ue \<Rightarrow> bytes \<Rightarrow> ausf_ue" where
  "store_fs_keys u mk =
     u\<lparr>au_k_re := slice 0 32 mk, au_msk := poke (au_msk u) 0 (slice 32 64 mk),
       au_emsk := poke (au_emsk u) 0 (slice 96 64 mk), au_kausf := slice 96 32 mk\<rparr>"

text \<open>The identity skips the prefix of the SUPI without looking at it; the result of the derivation is
  not checked, so a failing one leaves the old master key.\<close>

definition ausf_fs_master ::
  "'r aka_prims \<Rightarrow> bool \<Rightarrow> ausf_ue \<Rightarrow> bytes \<Rightarrow> bytes \<Rightarrow> bytes option" where
  "ausf_fs_master P mem u shared old =
     (case au_supi u of
        None \<Rightarrow> None
      | Some supi \<Rightarrow>
          if length supi < 5 then None
          else (case ogs_kdf_prf_prime_fs (hmac_sha256 P) mem (take 16 (au_ik_prime u)) (take 16 (au_ck_prime u)) shared
                       (ascii (drop 5 supi)) of
                  None \<Rightarrow> None
                | Some None \<Rightarrow> Some old
                | Some (Some mk) \<Rightarrow> Some mk))"

text \<open>The comparison of the MAC, common to the three branches.\<close>

definition ausf_check_mac :: "'r aka_prims \<Rightarrow> bool \<Rightarrow> ausf_ue \<Rightarrow> bytes \<Rightarrow> eap_message \<Rightarrow> (bool \<times> ausf_ue) option" where
  "ausf_check_mac P mem u p msg =
     (let mac = CalculateMacForEapAkaPrime (hmac_sha256 P) mem (au_k_aut u) p
      in case msg_mac msg of
           None \<Rightarrow> None
         | Some pos \<Rightarrow>
             (case read_at p pos 16 of
                None \<Rightarrow> None
              | Some received \<Rightarrow>
                  (case mac of
                     None \<Rightarrow> Some (False, u)
                   | Some mac \<Rightarrow> if received \<noteq> mac then Some (False, u\<lparr>au_auth_result := AUTHENTICATION_FAILURE\<rparr>) else Some (True, u))))"

text \<open>The keys of a response with forward secrecy; one without keeps those of the vector.\<close>

definition ausf_forward_secrecy :: "'r aka_prims \<Rightarrow> bool \<Rightarrow> ausf_ue \<Rightarrow> bytes \<Rightarrow> eap_message \<Rightarrow> ausf_ue option" where
  "ausf_forward_secrecy P mem u p msg =
     (case msg_pub_ecdhe msg of
        Some pos \<Rightarrow>
          (case read_at p (pos + 4) 32 of
             None \<Rightarrow> None
           | Some ue_pub \<Rightarrow>
               (case ausf_fs_master P mem u (x25519 P (au_priv_key u) ue_pub) (au_mk_ecdhe u) of
                  None \<Rightarrow> None
                | Some mk \<Rightarrow> Some (store_fs_keys (u\<lparr>au_mk_ecdhe := mk\<rparr>) mk)))
      | None \<Rightarrow>
          (case msg_pub_hybrid msg of
             Some pos \<Rightarrow>
               (case (read_at p pos 1088, read_at p (pos + 1088) 32) of
                  (Some ct_m, Some ue_pub) \<Rightarrow>
                    (case ausf_fs_master P mem u
                            (take 32 (kem_dec P ct_m (au_mlkem_sk u)) @ take 32 (x25519 P (au_priv_key u) ue_pub)) (au_mk_hybrid u) of
                       None \<Rightarrow> None
                     | Some mk \<Rightarrow> Some (store_fs_keys (u\<lparr>au_mk_hybrid := mk\<rparr>) mk))
                | _ \<Rightarrow> None)
           | None \<Rightarrow> Some u))"

definition ausf_check_response :: "'r aka_prims \<Rightarrow> bool \<Rightarrow> ausf_ue \<Rightarrow> bytes \<Rightarrow> (bool \<times> ausf_out \<times> ausf_ue) option" where
  "ausf_check_response P mem u p =
     (let u = u\<lparr>au_eap_payload := p\<rparr>;
          msg = parse_eap_aka_prime p
      in if \<not> (logged p (msg_res msg) 7 \<and> logged p (msg_pub_ecdhe msg) 36 \<and> logged p (msg_pub_hybrid msg) 1120) then None
         else case ausf_forward_secrecy P mem u p msg of
           None \<Rightarrow> None
         | Some u \<Rightarrow>
             (case ausf_check_mac P mem u p msg of
                None \<Rightarrow> None
              | Some (False, u) \<Rightarrow> Some (False, Nothing_sent, u)
              | Some (True, u) \<Rightarrow>
                  (case (case msg_res msg of None \<Rightarrow> Some [] | Some pos \<Rightarrow> read_at p pos 7) of
                     None \<Rightarrow> None
                   | Some res \<Rightarrow>
                       if res \<noteq> take (length res) (au_xres u) then
                         Some (True, Result_inform, u\<lparr>au_auth_result := AUTHENTICATION_FAILURE\<rparr>)
                       else
                         Some (True, Result_inform,
                           u\<lparr>au_auth_result := AUTHENTICATION_SUCCESS, au_eap_success := Some (build_eap_success (au_eap_identifier u)),
                             au_auth_type := EAP_AKA_PRIME\<rparr>))))"

text \<open>The confirmation of the AMF: RES* (mandatory for both methods) and, for EAP-AKA', the packet.  The buffers
  for RES* and for the decoded packet have 33 and 2048 octets; \<open>stk\<close> is what the first holds before.\<close>

record confirmation_data =
  cd_res_star :: "bytes option"
  cd_eap_payload :: "bytes option"

definition ausf_nausf_auth_handle_authenticate_confirmation ::
  "'r aka_prims \<Rightarrow> bool \<Rightarrow> bytes \<Rightarrow> ausf_ue \<Rightarrow> confirmation_data option \<Rightarrow> (bool \<times> ausf_out \<times> ausf_ue) option" where
  "ausf_nausf_auth_handle_authenticate_confirmation P mem stk u d =
     (case d of None \<Rightarrow> Some (False, Error_response 400, u)
      | Some d \<Rightarrow>
      case cd_res_star d of None \<Rightarrow> Some (False, Error_response 400, u)
      | Some res_star \<Rightarrow>
      if au_auth_type u = EAP_AKA_PRIME then
        (case cd_eap_payload d of
           None \<Rightarrow> Some (False, Nothing_sent, u)
         | Some p \<Rightarrow>
             if p = [] then Some (False, Nothing_sent, u)
             else if length p + 1 > 2048 then None
             else ausf_check_response P mem u p)
      else
        let res = take 16 (poke stk 0 (take 33 res_star))
        in Some (True, Result_inform,
             u\<lparr>au_auth_result := (if res \<noteq> au_xres_star u then AUTHENTICATION_FAILURE else AUTHENTICATION_SUCCESS)\<rparr>))"

text \<open>The answer of the UDM to the confirmation: the stored result and \<open>K_SEAF\<close>.\<close>

definition ausf_derive_kseaf :: "'r aka_prims \<Rightarrow> ausf_ue \<Rightarrow> ausf_ue option" where
  "ausf_derive_kseaf P u =
     map_option (\<lambda>k. u\<lparr>au_kseaf := k\<rparr>) (ogs_kdf_kseaf (hmac_sha256 P) (au_serving_network_name u) (au_kausf u))"

end
