(* ===== verification/Ue_Aka.thy ===== *)
theory Ue_Aka
  imports Ue_Keys Ausf
begin

text \<open>
  The UE's side of EAP-AKA': the sequence numbers of the USIM (\<open>src/UERANSIM/src/ue/nas/usim/sqn_mng.cpp\<close>) and the
  handler of Authentication Requests that carry EAP (\<open>src/ue/nas/mm/auth.cpp\<close>).
\<close>

section \<open>Sequence numbers\<close>

type_synonym u64 = "64 word"

record sqn_mng =
  m_indBitLen :: nat
  m_wrappingDelta :: u64
  m_sqnArr :: "u64 list"

text \<open>\<open>None\<close> is the exception of the constructor.\<close>

definition SqnManager :: "nat \<Rightarrow> u64 \<Rightarrow> sqn_mng option" where
  "SqnManager indBitLen wrappingDelta =
     (if indBitLen < 2 \<or> indBitLen > 16 then None
      else Some \<lparr>m_indBitLen = indBitLen, m_wrappingDelta = wrappingDelta, m_sqnArr = replicate (2 ^ indBitLen) 0\<rparr>)"

definition getSeqFromSqn :: "sqn_mng \<Rightarrow> u64 \<Rightarrow> u64" where
  "getSeqFromSqn m sqn = drop_bit (m_indBitLen m) (sqn AND NOT (mask (m_indBitLen m))) AND mask 48"

definition getIndFromSqn :: "sqn_mng \<Rightarrow> u64 \<Rightarrow> u64" where
  "getIndFromSqn m sqn = sqn AND mask (m_indBitLen m)"

definition getSqnMs :: "sqn_mng \<Rightarrow> u64" where
  "getSqnMs m = Max (set (m_sqnArr m))"

definition getSeqMs :: "sqn_mng \<Rightarrow> u64" where
  "getSeqMs m = getSeqFromSqn m (getSqnMs m)"

definition checkSqn :: "sqn_mng \<Rightarrow> u64 \<Rightarrow> bool \<times> sqn_mng" where
  "checkSqn m sqn =
     (let seq = getSeqFromSqn m sqn; ind = unat (getIndFromSqn m sqn)
      in if seq - getSeqMs m > m_wrappingDelta m then (False, m)
         else if seq \<le> getSeqFromSqn m (m_sqnArr m ! ind) then (False, m)
         else (True, m\<lparr>m_sqnArr := (m_sqnArr m)[ind := sqn]\<rparr>))"

text \<open>The 48-bit number as six octets.\<close>

definition sqn_of_octets :: "bytes \<Rightarrow> u64" where
  "sqn_of_octets s = foldl (\<lambda>a b. push_bit 8 a OR ucast b) 0 s"

definition octets_of_sqn :: "u64 \<Rightarrow> bytes" where
  "octets_of_sqn w = map (\<lambda>i. ucast (drop_bit (8 * i) w)) [5, 4, 3, 2, 1, 0]"

definition getSqn :: "sqn_mng \<Rightarrow> bytes" where
  "getSqn m = octets_of_sqn (getSqnMs m)"

section \<open>State\<close>

record ns_ctx =
  ns_mapped :: bool
  ns_ngKsi :: int
  ns_keys :: ue_keys

record ue_mm =
  m_rand :: bytes
  m_resStar :: bytes
  m_currentNsCtx :: "ns_ctx option"
  m_nonCurrentNsCtx :: "ns_ctx option"
  m_sqnMng :: sqn_mng
  m_eccPrivKey :: bytes
  m_eccPubKey :: bytes
  m_mlkemCiphertext :: bytes
  m_nwConsecutiveAuthFailure :: int
  m_t3516 :: bool
  m_t3520 :: bool
  m_cm_connected :: bool

record ue_config =
  cf_supi :: string
  cf_key :: bytes
  cf_opc_or_op :: bytes
  cf_is_opc :: bool
  cf_amf :: bytes
  cf_plmn :: "(nat \<times> nat) option"

datatype EMmCause = SEMANTICALLY_INCORRECT_MESSAGE | UNSPECIFIED_PROTOCOL_ERROR | NGKSI_ALREADY_IN_USE

datatype mm_out = Mm_status EMmCause | Auth_response eap_pdu | Auth_failure EMmCause | Local_release

record auth_request =
  rq_eap :: "eap_pdu option"
  rq_mapped :: bool
  rq_ksi :: int
  rq_abba :: bytes

section \<open>AUTN\<close>

datatype autn_check = Autn_ok | Autn_mac_failure | Autn_sep_bit | Autn_sync

definition calculateMilenage :: "'r aka_prims \<Rightarrow> ue_config \<Rightarrow> bytes \<Rightarrow> bytes \<Rightarrow> bool \<Rightarrow> milenage_out" where
  "calculateMilenage P cf sqn rand dummyAmf =
     milenage P (if cf_is_opc cf then cf_opc_or_op cf else calculate_opc P (cf_opc_or_op cf) (cf_key cf)) (cf_key cf) rand sqn
       (if dummyAmf then zeros 2 else cf_amf cf)"

definition validateAutn :: "'r aka_prims \<Rightarrow> ue_config \<Rightarrow> sqn_mng \<Rightarrow> bytes \<Rightarrow> bytes \<Rightarrow> autn_check \<times> sqn_mng" where
  "validateAutn P cf s rand autn =
     (let receivedAMF = slice 6 2 autn
      in if receivedAMF ! 0 AND 0x80 = 0 then (Autn_sep_bit, s)
         else
         let receivedSQN = xor_octets (take 6 autn) (mil_ak (calculateMilenage P cf (getSqn s) rand False));
             (sqn_ok, s) = checkSqn s (sqn_of_octets receivedSQN);
             mil = calculateMilenage P cf receivedSQN rand False
         in if slice 8 8 autn \<noteq> mil_mac_a mil then (Autn_mac_failure, s)
            else if \<not> sqn_ok then (Autn_sync, s)
            else (Autn_ok, s))"

section \<open>Failures\<close>

definition aka_packet :: "eap_pdu \<Rightarrow> byte \<Rightarrow> eap_attributes \<Rightarrow> eap_pdu" where
  "aka_packet rq subType a = \<lparr>eap_code = RESPONSE, eap_pdu_id = eap_pdu_id rq, eap_body = EapAkaPrime subType a\<rparr>"

definition sendEapFailure :: "eap_pdu \<Rightarrow> ue_mm \<Rightarrow> mm_out list \<times> ue_mm" where
  "sendEapFailure p u = ([Auth_response p], u\<lparr>m_rand := [], m_resStar := [], m_t3516 := False\<rparr>)"

definition sendAuthFailure :: "EMmCause \<Rightarrow> ue_mm \<Rightarrow> mm_out list \<times> ue_mm" where
  "sendAuthFailure c u = ([Auth_failure c], u\<lparr>m_rand := [], m_resStar := [], m_t3516 := False\<rparr>)"

text \<open>\<open>networkFailingTheAuthCheck(true)\<close>, followed by \<open>f\<close> if the UE goes on.\<close>

definition networkFailingTheAuthCheck :: "ue_mm \<Rightarrow> (ue_mm \<Rightarrow> mm_out list \<times> ue_mm) \<Rightarrow> mm_out list \<times> ue_mm" where
  "networkFailingTheAuthCheck u f =
     (let n = m_nwConsecutiveAuthFailure u; u = u\<lparr>m_nwConsecutiveAuthFailure := n + 1\<rparr>
      in if n < 3 then f (u\<lparr>m_t3520 := True\<rparr>)
         else (if m_cm_connected u then [Local_release] else [], u\<lparr>m_t3520 := False\<rparr>))"

section \<open>Forward secrecy\<close>

text \<open>The private keys are made by \<open>c25519_prepare\<close>, which only clamps the array it is given: \<open>stk\<close> is what
  the uninitialised arrays hold.\<close>

definition CalculateX25519SharedSecret :: "'r aka_prims \<Rightarrow> bytes \<Rightarrow> bytes \<Rightarrow> bytes cpp" where
  "CalculateX25519SharedSecret P privKey pubKey =
     (if length pubKey < 32 then Undefined else Return (x25519 P privKey (take 32 pubKey)))"

text \<open>\<open>isFs\<close> and \<open>isHPQC\<close>.\<close>

definition fs_offered :: "byte \<Rightarrow> eap_attributes \<Rightarrow> bool" where
  "fs_offered t a \<longleftrightarrow> getAttribute t a \<noteq> [] \<and> getAttribute AT_KDF_FS a \<noteq> [] \<and> hd (getAttribute AT_KDF_FS a) = 1"

text \<open>\<open>substr(5)\<close> on the configured SUPI, for the log only, throws if it is shorter.\<close>

definition aka_fs ::
  "'r aka_prims \<Rightarrow> (string \<Rightarrow> bytes) \<Rightarrow> ue_config \<Rightarrow> ue_mm \<Rightarrow> bytes \<Rightarrow> bytes \<Rightarrow> eap_attributes \<Rightarrow> (bytes \<times> ue_mm) cpp" where
  "aka_fs P stk cf u ikPrime ckPrime a =
     (let priv = clamp (stk ''priv'');
          u = u\<lparr>m_eccPrivKey := priv, m_eccPubKey := x25519 P priv x25519_base\<rparr>
      in cpp_bind (subCopy_rest 2 (getAttribute AT_PUB_ECDHE a)) (\<lambda>pub.
         cpp_bind (CalculateX25519SharedSecret P priv pub) (\<lambda>shared.
         if length (cf_supi cf) < 5 then Throws
         else cpp_bind (CalculateMkFs (hmac_sha256 P) ikPrime ckPrime shared (cf_supi cf)) (\<lambda>mk. Return (mk, u)))))"

definition MlkemEncapsulate :: "'r aka_prims \<Rightarrow> bytes \<Rightarrow> 'r \<Rightarrow> (bytes \<times> bytes) \<times> 'r" where
  "MlkemEncapsulate P pkM r = (if length pkM \<noteq> 1184 then ((zeros 1088, zeros 32), r) else kem_enc P pkM r)"

definition aka_hpqc ::
  "'r aka_prims \<Rightarrow> (string \<Rightarrow> bytes) \<Rightarrow> ue_config \<Rightarrow> ue_mm \<Rightarrow> bytes \<Rightarrow> bytes \<Rightarrow> eap_attributes \<Rightarrow> 'r \<Rightarrow> (bytes \<times> ue_mm \<times> 'r) cpp" where
  "aka_hpqc P stk cf u ikPrime ckPrime a r =
     cpp_bind (subCopy 1 1184 (getAttribute AT_PUB_HYBRID a)) (\<lambda>pkM.
     cpp_bind (subCopy 1185 32 (getAttribute AT_PUB_HYBRID a)) (\<lambda>pkX.
     let priv = clamp (stk ''priv_X25519'');
         ((ctM, ssM), r) = MlkemEncapsulate P pkM r;
         u = u\<lparr>m_eccPrivKey := priv, m_eccPubKey := x25519 P priv x25519_base, m_mlkemCiphertext := take 1088 ctM\<rparr>
     in cpp_bind (CalculateX25519SharedSecret P priv pkX) (\<lambda>shared.
        if length (cf_supi cf) < 5 then Throws
        else cpp_bind (CalculateMkFs (hmac_sha256 P) ikPrime ckPrime (take 32 ssM @ shared) (cf_supi cf)) (\<lambda>mk. Return (mk, u, r)))))"

section \<open>The response\<close>

definition aka_response :: "'r aka_prims \<Rightarrow> eap_pdu \<Rightarrow> bytes \<Rightarrow> bytes \<Rightarrow> bool \<Rightarrow> bool \<Rightarrow> ue_mm \<Rightarrow> eap_pdu \<times> ue_mm" where
  "aka_response P rq kaut res isFs isHPQC u =
     (let a = putKdf 1 (putMac (zeros 16) (putRes res empty_attributes));
          (a, u) = (if isFs then (putRawAttribute AT_PUB_ECDHE (poke (zeros 36) 4 (m_eccPubKey u)) a, u\<lparr>m_eccPrivKey := [], m_eccPubKey := []\<rparr>)
                    else (a, u));
          (a, u) = (if isHPQC then (putRawAttributeWith2ByteLength AT_PUB_HYBRID (m_mlkemCiphertext u @ m_eccPubKey u) a,
                                    u\<lparr>m_eccPrivKey := [], m_eccPubKey := []\<rparr>)
                    else (a, u))
      in (aka_packet rq 1 (replaceMac (ue_CalculateMac (hmac_sha256 P) kaut RESPONSE (eap_pdu_id rq) 1 a) a), u))"

text \<open>The part of the handler after AUTN was accepted.\<close>

definition aka_accept ::
  "'r aka_prims \<Rightarrow> (string \<Rightarrow> bytes) \<Rightarrow> ue_config \<Rightarrow> string \<Rightarrow> auth_request \<Rightarrow> eap_pdu \<Rightarrow> eap_attributes \<Rightarrow> ue_mm \<Rightarrow> 'r \<Rightarrow>
   (mm_out list \<times> ue_mm \<times> 'r) cpp" where
  "aka_accept P stk cf snn rq p a u r =
     (let rand = getReserved AT_RAND a;
          mil = calculateMilenage P cf (getSqn (m_sqnMng u)) rand False;
          sqnXorAk = xor_octets (getSqn (m_sqnMng u)) (mil_ak mil);
          (ckPrime, ikPrime) = CalculateCkPrimeIkPrime (hmac_sha256 P) (mil_ck mil) (mil_ik mil) snn sqnXorAk;
          isFs = fs_offered AT_PUB_ECDHE a;
          isHPQC = fs_offered AT_PUB_HYBRID a
      in cpp_bind (if isFs then aka_fs P stk cf u ikPrime ckPrime a else Return ([], u)) (\<lambda>(mk_ecdhe, u).
         cpp_bind (if isHPQC then aka_hpqc P stk cf u ikPrime ckPrime a r else Return ([], u, r)) (\<lambda>(mk_Hybrid, u, r).
         cpp_bind (CalculateMk (hmac_sha256 P) ckPrime ikPrime (cf_supi cf)) (\<lambda>mk.
         cpp_bind (subCopy 16 32 mk) (\<lambda>kaut.
         if ue_CalculateMac (hmac_sha256 P) kaut (eap_code p) (eap_pdu_id p) 1 a \<noteq> getReserved AT_MAC a then
           (case networkFailingTheAuthCheck u (sendEapFailure (aka_packet p 14 (putClientErrorCode 0 empty_attributes))) of
              (out, u) \<Rightarrow> Return (out, u, r))
         else
           cpp_bind (if isFs then CalculateKAusfForEapAkaPrimeFs mk_ecdhe
                     else if isHPQC then CalculateKAusfForEapAkaPrimeFs mk_Hybrid
                     else CalculateKAusfForEapAkaPrime mk) (\<lambda>kausf.
           let keys = DeriveKeysSeafAmf (hmac_sha256 P) (cf_supi cf) snn
                 \<lparr>keys_abba = rq_abba rq, kAusf = kausf, kSeaf = [], kAmf = [], kNasInt = [], kNasEnc = []\<rparr>;
               u = u\<lparr>m_rand := rand, m_resStar := [],
                     m_nonCurrentNsCtx := Some \<lparr>ns_mapped = rq_mapped rq, ns_ngKsi = rq_ksi rq, ns_keys = keys\<rparr>,
                     m_nwConsecutiveAuthFailure := 0, m_t3520 := False\<rparr>;
               (resp, u) = aka_response P p kaut (mil_res mil) isFs isHPQC u
           in Return ([Auth_response resp], u, r)))))))"

text \<open>\<open>receiveAuthenticationRequestEap\<close>.\<close>

definition ksi_in_use :: "int \<Rightarrow> ue_mm \<Rightarrow> bool" where
  "ksi_in_use k u \<longleftrightarrow>
     (case m_currentNsCtx u of None \<Rightarrow> False | Some c \<Rightarrow> ns_ngKsi c = k) \<or>
     (case m_nonCurrentNsCtx u of None \<Rightarrow> False | Some c \<Rightarrow> ns_ngKsi c = k)"

definition receiveAuthenticationRequestEap ::
  "'r aka_prims \<Rightarrow> (string \<Rightarrow> bytes) \<Rightarrow> ue_config \<Rightarrow> auth_request \<Rightarrow> ue_mm \<Rightarrow> 'r \<Rightarrow> (mm_out list \<times> ue_mm \<times> 'r) cpp" where
  "receiveAuthenticationRequestEap P stk cf rq u r =
     (let stop = (\<lambda>(out, u). Return (out, u, r));
          status = stop ([Mm_status SEMANTICALLY_INCORRECT_MESSAGE], u)
      in case cf_plmn cf of None \<Rightarrow> stop ([], u)
      | Some (mcc, mnc) \<Rightarrow>
      case rq_eap rq of None \<Rightarrow> status
      | Some p \<Rightarrow>
      case eap_body p of
        EapAkaPrime subType a \<Rightarrow>
          if subType \<noteq> 1 then status
          else if length (getReserved AT_RAND a) \<noteq> 16 \<or> length (getReserved AT_AUTN a) \<noteq> 16 \<or> length (getReserved AT_MAC a) \<noteq> 16 then status
          else if getKdf a \<noteq> 1 then stop (networkFailingTheAuthCheck u (sendEapFailure (aka_packet p 2 empty_attributes)))
          else cpp_bind (ConstructServingNetworkName mcc mnc) (\<lambda>snn.
          if getKdfInput a \<noteq> ascii snn then stop (sendEapFailure (aka_packet p 2 empty_attributes) u)
          else if rq_mapped rq then stop (sendAuthFailure UNSPECIFIED_PROTOCOL_ERROR u)
          else if rq_ksi rq = 7 then stop (sendAuthFailure UNSPECIFIED_PROTOCOL_ERROR u)
          else if ksi_in_use (rq_ksi rq) u then stop (networkFailingTheAuthCheck u (sendAuthFailure NGKSI_ALREADY_IN_USE))
          else
          case validateAutn P cf (m_sqnMng u) (getReserved AT_RAND a) (getReserved AT_AUTN a) of (res, s) \<Rightarrow>
          let u = u\<lparr>m_sqnMng := s, m_t3516 := True\<rparr>
          in case res of
               Autn_ok \<Rightarrow> aka_accept P stk cf snn rq p a u r
             | Autn_mac_failure \<Rightarrow> stop (networkFailingTheAuthCheck u (sendEapFailure (aka_packet p 2 empty_attributes)))
             | Autn_sync \<Rightarrow>
                 let mil = calculateMilenage P cf (getSqn s) (getReserved AT_RAND a) True
                 in stop (networkFailingTheAuthCheck u (sendEapFailure
                      (aka_packet p 4 (putAuts (CalculateAuts (getSqn s) (mil_ak_r mil) (mil_mac_s mil)) empty_attributes))))
             | Autn_sep_bit \<Rightarrow> stop (networkFailingTheAuthCheck u (sendEapFailure (aka_packet p 14 (putClientErrorCode 0 empty_attributes)))))
      | _ \<Rightarrow> status)"

end
