(* ===== verification/Kdf_Agree.thy ===== *)
theory Kdf_Agree
  imports Ogs_Kdf Ue_Keys
begin

text \<open>
  The key derivations of the network and of the UE compute the same keys; the PRF' of EAP-AKA' is the
  expansion of RFC 5869.
\<close>

section \<open>The PRF'\<close>

text \<open>The loop that fills the blocks of the PRF' one after the other, as both programs have it.\<close>

locale prf_loop =
  fixes go :: "(bytes \<Rightarrow> bytes) \<Rightarrow> bytes \<Rightarrow> nat \<Rightarrow> nat \<Rightarrow> bytes list \<Rightarrow> bytes list"
  assumes go_turn: "i < n \<Longrightarrow> go h input n i T =
      go h input n (i + 1) (T @ [h ((if i = 0 then [] else T ! (i - 1)) @ input @ [of_nat (i + 1)])])"
    and go_exit: "\<not> i < n \<Longrightarrow> go h input n i T = T"
begin

lemma go_from:
  "i \<le> n \<Longrightarrow> go h input n i (map (rfc5869_T h input) [1..<Suc i]) = map (rfc5869_T h input) [1..<Suc n]"
proof (induction "n - i" arbitrary: i)
  case 0
  then show ?case by (simp add: go_exit)
next
  case (Suc k)
  then have "i < n" by simp
  let ?T = "map (rfc5869_T h input) [1..<Suc i]"
  have "(if i = 0 then [] else ?T ! (i - 1)) = rfc5869_T h input i"
    by (cases i) (simp_all add: nth_append)
  moreover have "map (rfc5869_T h input) [1..<Suc (Suc i)] = ?T @ [rfc5869_T h input (Suc i)]" by simp
  ultimately have "go h input n i ?T = go h input n (Suc i) (map (rfc5869_T h input) [1..<Suc (Suc i)])"
    using go_turn [OF \<open>i < n\<close>, of h input ?T] by (simp only: rfc5869_T.simps flip: Suc_eq_plus1)
  also have "\<dots> = map (rfc5869_T h input) [1..<Suc n]" by (rule Suc.hyps) (use Suc \<open>i < n\<close> in simp_all)
  finally show ?case .
qed

lemma go_blocks: "concat (go h input n 0 []) = rfc5869_blocks h input 0 n"
  using go_from [of 0 n] by (simp add: rfc5869_blocks_def)

lemma go_sized: "(\<And>m. length (h m) = 32) \<Longrightarrow> t \<in> set (go h input n 0 []) \<Longrightarrow> length t = 32"
  using go_from [of 0 n h input] by (auto simp: rfc5869_T_len)

end

interpretation net: prf_loop prf_blocks_while
  by unfold_locales (subst prf_blocks_while.simps, simp)+

interpretation ue: prf_loop CalculatePrfPrime_while
  by unfold_locales (subst CalculatePrfPrime_while.simps, simp)+

lemma prf_copy_take:
  "(\<And>t. t \<in> set T \<Longrightarrow> length t = 32) \<Longrightarrow> out_pos \<le> L \<Longrightarrow>
    prf_copy L T out_pos out = out @ take (L - out_pos) (concat T)"
proof (induction L T out_pos out rule: prf_copy.induct)
  case (2 L t T out_pos out)
  then show ?case by (cases "out_pos + 32 > L") (simp_all add: Let_def)
qed simp

lemma prf_while_turn:
  assumes "\<And>m. length (h m) = 32" "offset + 32 \<le> 208" "round \<noteq> 1"
  shows "prf_while h input offset round T out =
     prf_while h input (offset + 32) (round + 1) (h (T @ input @ [round])) (out @ h (T @ input @ [round]))"
proof -
  have "(if 208 - offset > 32 then 32 else 208 - offset) = 32" "offset < 208" using assms(2) by auto
  then show ?thesis using prf_while.simps [of h input offset round T out] assms(1,3) by (simp add: Let_def)
qed

lemma prf_while_ends:
  "prf_while h input 0 1 T out = prf_while h input 32 2 (h (input @ [1])) (out @ take 32 (h (input @ [1])))"
  "prf_while h input 192 7 T out = out @ take 16 (h (T @ input @ [7]))"
  using prf_while.simps [of h input 0 1 T out] prf_while.simps [of h input 192 7 T out]
    prf_while.simps [of h input 208 8 "h (T @ input @ [7])" "out @ take 16 (h (T @ input @ [7]))"]
  by (simp_all add: Let_def)

lemma rfc5869_T_numeral: "rfc5869_T h input (numeral k) = h (rfc5869_T h input (pred_numeral k) @ input @ [numeral k])"
  unfolding numeral_eq_Suc [of k] rfc5869_T.simps by (simp flip: numeral_eq_Suc)

lemma prf_while_blocks:
  assumes "\<And>m. length (h m) = 32"
  shows "prf_while h input 0 1 T0 [] = take 208 (rfc5869_blocks h input 0 7)"
proof -
  have "[Suc 0..<8] = [1, 2, 3, 4, 5, 6, 7]" by (simp add: upt_rec)
  then show ?thesis
    using assms by (simp add: rfc5869_blocks_def prf_while_turn prf_while_ends rfc5869_T_numeral)
qed

lemma ogs_prf_blocks:
  assumes "\<And>m. length (H key m) = 32" "length key = 32 \<or> length key = 64" "L div 32 < 254" "length input \<le> 4063"
  shows "ogs_calculate_prf_prime H key input L = Some (Some (take L (rfc5869_blocks (H key) input 0 (L div 32 + 1))))"
  using assms prf_copy_take [of "prf_blocks_while (H key) input (L div 32 + 1) 0 []" 0 L "[]"] net.go_sized [of "H key"]
  by (auto simp: ogs_calculate_prf_prime_def Let_def net.go_blocks)

lemma ue_prf_blocks:
  assumes "length key = 32 \<or> length key = 64" "L div 32 < 254"
  shows "CalculatePrfPrime H key input L = Return (rfc5869_blocks (H key) input 0 (L div 32 + 1))"
  using assms by (auto simp: CalculatePrfPrime_def Let_def ue.go_blocks)

text \<open>The master keys: the network's 208 octets are the first 208 of the UE's 224.\<close>

lemma mk_agrees:
  assumes H: "\<And>k m. length (H k m) = 32" and len: "length ik' = 16" "length ck' = 16"
  obtains mk where "CalculateMk H ck' ik' supi = Return mk" "length mk = 224"
    "ogs_kdf_prf_prime H True ik' ck' (ascii supi) = Some (take 208 mk)"
proof -
  let ?i = "ascii (''EAP-AKA'' @ [CHR 0x27] @ supi)"
  let ?b = "rfc5869_blocks (H (ik' @ ck')) ?i 0 7"
  have "CalculateMk H ck' ik' supi = Return ?b"
    using len ue_prf_blocks [of "ik' @ ck'" 208 H ?i] by (simp add: CalculateMk_def)
  moreover have "length ?b = 224" using length_rfc5869_blocks [of "H (ik' @ ck')" 0 7 ?i] H by simp
  moreover have "ogs_kdf_prf_prime H True ik' ck' (ascii supi) = Some (take 208 ?b)"
    using len H prf_while_blocks [of "H (ik' @ ck')"] by (simp add: ogs_kdf_prf_prime_def ascii_def)
  ultimately show thesis by (rule that)
qed

lemma mk_fs_agrees:
  assumes H: "\<And>k m. length (H k m) = 32" and len: "length ik' = 16" "length ck' = 16" "32 \<le> length ss" "length supi \<le> 4000"
  obtains mk where "CalculateMkFs H ik' ck' ss supi = Return mk" "length mk = 224"
    "ogs_kdf_prf_prime_fs H True ik' ck' ss (ascii supi) = Some (Some (take 208 mk))"
proof -
  let ?i = "ascii (''EAP-AKA'' @ [CHR 0x27] @ '' FS'' @ supi)" and ?k = "(ik' @ ck') @ take 32 ss"
  let ?b = "rfc5869_blocks (H ?k) ?i 0 7"
  have "CalculateMkFs H ik' ck' ss supi = Return ?b"
    using len ue_prf_blocks [of ?k 208 H ?i] by (simp add: CalculateMkFs_def subCopy_def)
  moreover have "length ?b = 224" using length_rfc5869_blocks [of "H ?k" 0 7 ?i] H by simp
  moreover have "ogs_kdf_prf_prime_fs H True ik' ck' ss (ascii supi) = Some (Some (take 208 ?b))"
    using len H ogs_prf_blocks [of H ?k 208 ?i] by (simp add: ogs_kdf_prf_prime_fs_def ascii_def)
  ultimately show thesis by (rule that)
qed

section \<open>The KDF\<close>

lemma kdf_common_agrees:
  assumes "key \<noteq> []" "fc \<noteq> 0" "ps \<noteq> []" "length ps \<le> 16" "\<And>p. p \<in> set ps \<Longrightarrow> p \<noteq> [] \<and> length p < 65536"
  shows "ogs_kdf_common H key fc ps = Some (CalculateKdfKey H key fc ps)"
proof -
  have l: "kdf_len p = length p" "length p \<noteq> 0" if "p \<in> set ps" for p using assms(5) [OF that] by (simp_all add: kdf_len_def)
  have "takeWhile (\<lambda>p. kdf_len p \<noteq> 0) (take 16 ps) = ps" using assms(4) l by (simp add: takeWhile_eq_all_conv)
  moreover have "map (\<lambda>p. take (kdf_len p) p @ be16 (kdf_len p)) ps = map (\<lambda>p. p @ be16 (length p)) ps" using l by simp
  moreover have "kdf_len (hd ps) \<noteq> 0" using assms(3) l hd_in_set by metis
  ultimately show ?thesis using assms(1-3) unfolding ogs_kdf_common_def CalculateKdfKey_def by (simp only: simp_thms if_False)
qed

lemma ckprime_agrees:
  assumes "\<And>k m. length (H k m) = 32" "length ck = 16" "length ik = 16" "length s = 6" "length snn \<le> 900"
  shows "ogs_kdf_ckprime_ikprime H ck ik snn s = Some (CalculateCkPrimeIkPrime H ck ik snn s)"
proof -
  have "be16 6 = [0, 6]" by (simp add: be16_def)
  then show ?thesis
    using assms by (simp add: ogs_kdf_ckprime_ikprime_def CalculateCkPrimeIkPrime_def CalculateKdfKey_def Let_def slice_whole_drop)
qed

lemma id_value:
  "CHR ''-'' \<notin> set v \<Longrightarrow> ogs_id_get_value (''imsi-'' @ v) = Some v"
  by (simp add: ogs_id_get_value_def takeWhile_eq_all_conv) metis

text \<open>
  C25.  UE and network derive the same keys.  From the same CK, IK, serving network name, RAND, SQN and SUPI, where both programs
  use the same HMAC-SHA256: \<open>K_AUSF\<close> and RES* of 5G AKA; CK' and IK'; the master keys of EAP-AKA' and of its
  forward-secret variant, of which the UE computes 16 octets more; \<open>K_SEAF\<close> and \<open>K_AMF\<close> from \<open>K_AUSF\<close>; and the NAS
  keys.  None of the assertions of the network's functions fails.
\<close>

theorem kdf_agree:
  fixes H :: "bytes \<Rightarrow> bytes \<Rightarrow> bytes"
  assumes H: "\<And>k m. length (H k m) = 32" and k: "length ck = 16" "length ik = 16" and snn: "snn \<noteq> []" "length snn \<le> 255"
    and autn: "length autn = 16" and rand: "length rand = 16" and res: "res \<noteq> []" "length res \<le> 16"
    and ss: "32 \<le> length ss" and id: "ident \<noteq> []" "CHR ''-'' \<notin> set ident" "length ident \<le> 15"
    and abba: "keys_abba K \<noteq> []" "length (keys_abba K) \<le> 255" and ka: "length (kAusf K) = 32" and km: "length (kAmf K) = 32"
  shows "ogs_kdf_kausf H ck ik snn autn = Some (CalculateKAusfFor5gAka H ck ik snn (take 6 autn)) \<and>
    ogs_kdf_xres_star H ck ik snn rand res = Some (CalculateResStar H (ck @ ik) snn rand res) \<and>
    ogs_kdf_ckprime_ikprime H ck ik snn (take 6 autn) = Some (CalculateCkPrimeIkPrime H ck ik snn (take 6 autn)) \<and>
    (\<exists>mk. CalculateMk H ck ik ident = Return mk \<and> ogs_kdf_prf_prime H True ik ck (ascii ident) = Some (take 208 mk)) \<and>
    (\<exists>mk. CalculateMkFs H ik ck ss ident = Return mk \<and>
       ogs_kdf_prf_prime_fs H True ik ck ss (ascii ident) = Some (Some (take 208 mk))) \<and>
    ogs_kdf_kseaf H snn (kAusf K) = Some (kSeaf (DeriveKeysSeafAmf H ident snn K)) \<and>
    ogs_kdf_kamf H (''imsi-'' @ ident) (keys_abba K) (kSeaf (DeriveKeysSeafAmf H ident snn K)) =
      Some (kAmf (DeriveKeysSeafAmf H ident snn K)) \<and>
    ogs_kdf_nas_5gs H 1 alg (kAmf K) = Some (kNasEnc (DeriveNasKeys H alg alg' K)) \<and>
    ogs_kdf_nas_5gs H 2 alg' (kAmf K) = Some (kNasInt (DeriveNasKeys H alg alg' K))"
proof (intro conjI)
  let ?K = "DeriveKeysSeafAmf H ident snn K"
  have e: "ascii snn \<noteq> []" "ascii ident \<noteq> []" using snn id by (simp_all add: ascii_def)
  have n: "take 32 (kAusf K) \<noteq> []" "take 32 (kAmf K) \<noteq> []" "ck @ ik \<noteq> []" using ka km k by auto
  have seaf: "length (kSeaf ?K) = 32" by (simp add: DeriveKeysSeafAmf_def CalculateKdfKey_def H Let_def)
  have "ogs_kdf_common H (ck @ ik) 0x6A [ascii snn, take 6 autn] = Some (CalculateKdfKey H (ck @ ik) 0x6A [ascii snn, take 6 autn])"
    using k e n autn snn by (intro kdf_common_agrees) auto
  then show "ogs_kdf_kausf H ck ik snn autn = Some (CalculateKAusfFor5gAka H ck ik snn (take 6 autn))"
    using k by (simp add: ogs_kdf_kausf_def CalculateKAusfFor5gAka_def)
  show "ogs_kdf_xres_star H ck ik snn rand res = Some (CalculateResStar H (ck @ ik) snn rand res)"
  proof -
    have "ogs_kdf_common H (ck @ ik) 0x6B [ascii snn, rand, res] = Some (CalculateKdfKey H (ck @ ik) 0x6B [ascii snn, rand, res])"
      using k e n rand res snn by (intro kdf_common_agrees) auto
    then show ?thesis
      using k rand res H by (simp add: ogs_kdf_xres_star_def CalculateResStar_def Let_def CalculateKdfKey_def slice_whole_drop)
  qed
  show "ogs_kdf_ckprime_ikprime H ck ik snn (take 6 autn) = Some (CalculateCkPrimeIkPrime H ck ik snn (take 6 autn))"
    using ckprime_agrees [of H ck ik "take 6 autn" snn] H k autn snn by simp
  show "\<exists>mk. CalculateMk H ck ik ident = Return mk \<and> ogs_kdf_prf_prime H True ik ck (ascii ident) = Some (take 208 mk)"
    using mk_agrees [of H ik ck ident] H k by metis
  show "\<exists>mk. CalculateMkFs H ik ck ss ident = Return mk \<and> ogs_kdf_prf_prime_fs H True ik ck ss (ascii ident) = Some (Some (take 208 mk))"
    using mk_fs_agrees [of H ik ck ss ident] H k ss id by (rule_tac mk_fs_agrees [of H ik ck ss ident]) auto
  show "ogs_kdf_kseaf H snn (kAusf K) = Some (kSeaf ?K)"
    unfolding ogs_kdf_kseaf_def using ka e n snn by (subst kdf_common_agrees) (auto simp: DeriveKeysSeafAmf_def Let_def)
  show "ogs_kdf_kamf H (''imsi-'' @ ident) (keys_abba K) (kSeaf ?K) = Some (kAmf ?K)"
    unfolding ogs_kdf_kamf_def using id_value [OF id(2)] abba seaf e id
    by (simp, subst kdf_common_agrees) (auto simp: DeriveKeysSeafAmf_def Let_def)
  show "ogs_kdf_nas_5gs H 1 alg (kAmf K) = Some (kNasEnc (DeriveNasKeys H alg alg' K))"
    unfolding ogs_kdf_nas_5gs_def using km n by (subst kdf_common_agrees) (auto simp: DeriveNasKeys_def)
  show "ogs_kdf_nas_5gs H 2 alg' (kAmf K) = Some (kNasInt (DeriveNasKeys H alg alg' K))"
    unfolding ogs_kdf_nas_5gs_def using km n by (subst kdf_common_agrees) (auto simp: DeriveNasKeys_def)
qed

theorem kdf_agree_witness:
  "\<exists>kausf. ogs_kdf_kausf (\<lambda>k m. replicate 32 (of_nat (length m))) (zeros 16) (zeros 16) ''5G:mnc070.mcc999.3gppnetwork.org'' (zeros 16) =
     Some kausf"
proof -
  let ?K = "\<lparr>keys_abba = [0, 0], kAusf = zeros 32, kSeaf = [], kAmf = zeros 32, kNasInt = [], kNasEnc = []\<rparr>"
  show ?thesis
    using kdf_agree [of "\<lambda>k m. replicate 32 (of_nat (length m))" "zeros 16" "zeros 16" "''5G:mnc070.mcc999.3gppnetwork.org''"
        "zeros 16" "zeros 16" "zeros 8" "zeros 64" "''999700000000001''" ?K] by simp
qed

end
