(* ===== verification/Aka_Wire.thy ===== *)
theory Aka_Wire
  imports Ue_Aka Kdf_Agree Ue_Eap_Props
begin

text \<open>
  EAP-AKA' packets on the wire: the UE decodes every packet whose attributes fill whole words, encodes it again to
  the same octets, and so computes the MAC over the octets the network computed it over.
\<close>

section \<open>Packets of whole attributes\<close>

text \<open>An attribute is its type and its value; AT_PUB_HYBRID has a length field of two octets.\<close>

type_synonym attr = "byte \<times> bytes"

definition attr_wf :: "attr \<Rightarrow> bool" where
  "attr_wf x \<longleftrightarrow> (case x of (t, v) \<Rightarrow>
     if t = AT_PUB_HYBRID then (length v + 3) mod 4 = 0 \<and> length v + 3 < 262144
     else (length v + 2) mod 4 = 0 \<and> length v + 2 < 1024)"

definition attr_wire :: "attr \<Rightarrow> bytes" where
  "attr_wire x = (case x of (t, v) \<Rightarrow>
     t # (if t = AT_PUB_HYBRID then be16 ((length v + 5) div 4) else [of_nat ((length v + 5) div 4)]) @ v)"

definition attrs_of :: "attr list \<Rightarrow> eap_attributes" where
  "attrs_of xs = foldl (\<lambda>a (t, v). putRawAttribute t v a) empty_attributes xs"

definition aka_wire :: "byte \<Rightarrow> byte \<Rightarrow> byte \<Rightarrow> attr list \<Rightarrow> bytes" where
  "aka_wire cd ident subType xs =
     (let b = concat (map attr_wire xs) in [cd, ident] @ be16 (8 + length b) @ [50, subType, 0, 0] @ b)"

lemma attr_wire_simps [simp]:
  "length (attr_wire (t, v)) = length v + (if t = AT_PUB_HYBRID then 3 else 2)"
  "attr_wire x \<noteq> []"
  by (simp_all add: attr_wire_def split: prod.split)

lemma length_aka_wire: "length (aka_wire cd ident subType xs) = 8 + length (concat (map attr_wire xs))"
  by (simp add: aka_wire_def Let_def)

section \<open>Decoding\<close>

lemma view_read_append [simp]: "view_read (pre @ x # xs) (length pre) = Some x"
  by (simp add: view_read_def)

lemma read_octets:
  assumes "i = length pre" "int (length v) = n" "i + length v \<le> sz" "v \<noteq> [] \<or> n = 0"
  shows "readOctetString (pre @ v @ rest) sz i n = Some (Some v)"
  using assms by (auto simp: readOctetString_def slice_def)

lemma attributes_step:
  assumes wf: "attr_wf (t, v)" and i: "i = length pre" and rb: "rb < inner" and sz: "i + length (attr_wire (t, v)) \<le> sz"
  shows "attributes_while (pre @ attr_wire (t, v) @ rest) sz inner i rb a =
    attributes_while (pre @ attr_wire (t, v) @ rest) sz inner (i + length (attr_wire (t, v))) (rb + int (length (attr_wire (t, v))))
      (putRawAttribute t v a)"
proof (cases "t = AT_PUB_HYBRID")
  case True
  let ?k = "(length v + 5) div 4"
  from True wf have "(length v + 3) mod 4 = 0" "length v + 3 < 262144" by (auto simp: attr_wf_def)
  then have k: "?k < 65536" "4 * ?k = length v + 3" by presburger+
  obtain hi lo where b: "be16 ?k = [hi, lo]" "unat hi * 256 + unat lo = ?k" using be16_octets [OF k(1)] by auto
  let ?m = "pre @ t # hi # lo # v @ rest"
  have w: "pre @ attr_wire (t, v) @ rest = ?m" using True b by (simp add: attr_wire_def)
  have r: "view_read ?m i = Some t" "view_read ?m (i + 1) = Some hi" "view_read ?m (i + 2) = Some lo"
    using i by (simp_all add: view_read_def nth_append)
  have "readOctetString ((pre @ [t, hi, lo]) @ v @ rest) sz (i + 3) (4 * int ?k - 3) = Some (Some v)"
    by (rule read_octets) (use i sz True k(2) in auto)
  then have o: "readOctetString ?m sz (i + 3) (4 * int ?k - 3) = Some (Some v)" by simp
  show ?thesis
    unfolding w using rb True r b(2) o
    by (subst attributes_while.simps) (simp add: Let_def algebra_simps)
next
  case False
  let ?k = "(length v + 5) div 4" and ?l = "of_nat ((length v + 5) div 4) :: byte"
  from False wf have "(length v + 2) mod 4 = 0" "length v + 2 < 1024" by (auto simp: attr_wf_def)
  then have k: "?k < 256" "4 * ?k = length v + 2" by presburger+
  have u: "unat ?l = ?k" using k(1) by (simp add: unat_byte_of_nat)
  let ?m = "pre @ t # ?l # v @ rest"
  have w: "pre @ attr_wire (t, v) @ rest = ?m" using False by (simp add: attr_wire_def)
  have r: "view_read ?m i = Some t" "view_read ?m (i + 1) = Some ?l"
    using i by (simp_all add: view_read_def nth_append)
  have "readOctetString ((pre @ [t, ?l]) @ v @ rest) sz (i + 2) (4 * int ?k - 2) = Some (Some v)"
    by (rule read_octets) (use i sz False k(2) in auto)
  then have o: "readOctetString ?m sz (i + 2) (4 * int (unat ?l) - 2) = Some (Some v)" unfolding u by simp
  show ?thesis
    unfolding w using rb False r o
    by (subst attributes_while.simps) (simp add: Let_def algebra_simps)
qed

lemma attributes_all:
  assumes "\<And>x. x \<in> set xs \<Longrightarrow> attr_wf x" "i = length pre" "sz = length pre + length (concat (map attr_wire xs))"
    "inner = rb + int (length (concat (map attr_wire xs)))"
  shows "attributes_while (pre @ concat (map attr_wire xs)) sz inner i rb a =
    Some (Some (foldl (\<lambda>a (t, v). putRawAttribute t v a) a xs, inner))"
  using assms
proof (induction xs arbitrary: pre i rb a)
  case Nil
  then show ?case by (simp add: attributes_while.simps)
next
  case (Cons x xs)
  obtain t v where x: "x = (t, v)" by (cases x)
  let ?w = "attr_wire (t, v)" and ?r = "concat (map attr_wire xs)"
  have "attributes_while (pre @ ?w @ ?r) sz inner i rb a =
      attributes_while (pre @ ?w @ ?r) sz inner (i + length ?w) (rb + int (length ?w)) (putRawAttribute t v a)"
    by (rule attributes_step) (use Cons.prems x in auto)
  also have "\<dots> = attributes_while ((pre @ ?w) @ ?r) sz inner (i + length ?w) (rb + int (length ?w)) (putRawAttribute t v a)" by simp
  also have "\<dots> = Some (Some (foldl (\<lambda>a (t, v). putRawAttribute t v a) (putRawAttribute t v a) xs, inner))"
    by (rule Cons.IH) (use Cons.prems x in auto)
  finally show ?case using x by simp
qed

lemma aka_wire_decodes:
  assumes wf: "\<And>x. x \<in> set xs \<Longrightarrow> attr_wf x" and st: "1 \<le> subType" "subType \<le> 14" and c: "code_of cd = Some code"
    and len: "length (aka_wire cd ident subType xs) < 65536"
  shows "DecodeEapPdu (aka_wire cd ident subType xs) (length (aka_wire cd ident subType xs)) =
    Some (Some \<lparr>eap_code = code, eap_pdu_id = ident, eap_body = EapAkaPrime subType (attrs_of xs)\<rparr>)"
proof -
  let ?b = "concat (map attr_wire xs)"
  obtain hi lo where b: "be16 (8 + length ?b) = [hi, lo]" "unat hi * 256 + unat lo = 8 + length ?b"
    using be16_octets [of "8 + length ?b"] len by (auto simp: length_aka_wire)
  have w: "aka_wire cd ident subType xs = [cd, ident, hi, lo, 50, subType, 0, 0] @ ?b"
    using b by (simp add: aka_wire_def Let_def)
  have a: "attributes_while ([cd, ident, hi, lo, 50, subType, 0, 0] @ ?b) (8 + length ?b) (3 + int (length ?b)) 8 3 empty_attributes =
      Some (Some (attrs_of xs, 3 + int (length ?b)))"
    unfolding attrs_of_def by (rule attributes_all) (use wf in auto)
  have s: "\<not> (subType < 1 \<or> 14 < subType)" using st by auto
  have i: "int (unat hi * 256 + unat lo) - 1 - 1 - 2 - 1 = 3 + int (length ?b)" using b(2) by simp
  have l: "length ([cd, ident, hi, lo, 50, subType, 0, 0] @ ?b) = 8 + length ?b" by simp
  show ?thesis
    unfolding w l using a s i b(2) c by (simp add: DecodeEapPdu_def Let_def)
qed

section \<open>Encoding\<close>

lemma attrs_of_fields:
  "attributes (attrs_of xs) = map_of (rev xs)" "order_received (attrs_of xs) = map fst xs" "twoByteLengthAttributes (attrs_of xs) = {}"
proof -
  have "attributes (foldl (\<lambda>a (t, v). putRawAttribute t v a) a xs) = attributes a ++ map_of (rev xs) \<and>
      order_received (foldl (\<lambda>a (t, v). putRawAttribute t v a) a xs) = order_received a @ map fst xs \<and>
      twoByteLengthAttributes (foldl (\<lambda>a (t, v). putRawAttribute t v a) a xs) = twoByteLengthAttributes a" for a
    by (induction xs arbitrary: a) (auto simp: putRawAttribute_def)
  then show "attributes (attrs_of xs) = map_of (rev xs)" "order_received (attrs_of xs) = map fst xs"
    "twoByteLengthAttributes (attrs_of xs) = {}"
    by (simp_all add: attrs_of_def empty_attributes_def)
qed

lemma attribute_of: "distinct (map fst xs) \<Longrightarrow> (t, v) \<in> set xs \<Longrightarrow> attributes (attrs_of xs) t = Some v"
  by (subst attrs_of_fields, subst map_of_eq_Some_iff) (simp_all add: rev_map [symmetric])

text \<open>A store that holds the attributes \<open>xs\<close>, whatever it notes about lengths of two octets.\<close>

definition holds :: "eap_attributes \<Rightarrow> attr list \<Rightarrow> bool" where
  "holds a xs \<longleftrightarrow> order_received a = map fst xs \<and> (\<forall>(t, v) \<in> set xs. attributes a t = Some v)"

lemma copy_of:
  assumes "holds a xs"
  shows "holds (copy_attributes a) xs \<and> (\<forall>t \<in> fst ` set xs. t \<in> twoByteLengthAttributes (copy_attributes a) \<longleftrightarrow> t = AT_PUB_HYBRID)"
proof -
  let ?f = "\<lambda>c t. case attributes a t of None \<Rightarrow> c
      | Some v \<Rightarrow> if t = AT_PUB_HYBRID then putRawAttributeWith2ByteLength t v c else putRawAttribute t v c"
  have "order_received (foldl ?f c ts) = order_received c @ ts \<and>
      (\<forall>t. attributes (foldl ?f c ts) t = (if t \<in> set ts then attributes a t else attributes c t)) \<and>
      twoByteLengthAttributes (foldl ?f c ts) = twoByteLengthAttributes c \<union> (set ts \<inter> {AT_PUB_HYBRID})"
    if "\<And>t. t \<in> set ts \<Longrightarrow> attributes a t \<noteq> None" for c ts
    using that
  proof (induction ts arbitrary: c)
    case (Cons t ts)
    then obtain v where "attributes a t = Some v" by fastforce
    with Cons show ?case by (auto simp: putRawAttributeWith2ByteLength_def putRawAttribute_def)
  qed simp
  note fold = this [of "order_received a" empty_attributes]
  have "attributes a t \<noteq> None" if "t \<in> set (order_received a)" for t using assms that by (force simp: holds_def)
  note f = fold [OF this, folded copy_attributes_def]
  have o: "order_received a = map fst xs" and v: "\<And>t v. (t, v) \<in> set xs \<Longrightarrow> attributes a t = Some v"
    using assms by (auto simp: holds_def)
  have "attributes (copy_attributes a) t = Some v" if "(t, v) \<in> set xs" for t v
    using f o v [OF that] that by force
  moreover have "order_received (copy_attributes a) = map fst xs" "twoByteLengthAttributes (copy_attributes a) = fst ` set xs \<inter> {AT_PUB_HYBRID}"
    using f o by (simp_all add: empty_attributes_def)
  ultimately show ?thesis by (auto simp: holds_def)
qed

lemma encode_of:
  assumes "holds a xs" "\<And>t. t \<in> fst ` set xs \<Longrightarrow> t \<in> twoByteLengthAttributes a \<longleftrightarrow> t = AT_PUB_HYBRID"
  shows "concat (map (encode_attribute a) (order_received a)) = concat (map attr_wire xs)"
proof -
  have "encode_attribute a (fst x) = attr_wire x" if x: "x \<in> set xs" for x
  proof (cases x)
    case (Pair t v)
    have m: "attributes a t = Some v" using assms(1) x Pair by (auto simp: holds_def)
    have "t \<in> twoByteLengthAttributes a \<longleftrightarrow> t = AT_PUB_HYBRID" using assms(2) x Pair by force
    with m Pair show ?thesis by (simp add: encode_attribute_def attr_wire_def add.commute)
  qed
  then show ?thesis using assms(1) by (simp add: holds_def comp_def cong: map_cong)
qed

definition blank_mac :: "attr \<Rightarrow> attr" where
  "blank_mac x = (if fst x = AT_MAC then (AT_MAC, be16 0 @ zeros 16) else x)"

lemma mac_input_wire:
  assumes h: "holds a xs"
  shows "mac_input cd ident st a = aka_wire (code_octet cd) ident st (map blank_mac xs)"
proof -
  let ?c = "copy_attributes a"
  let ?a = "replaceMac (zeros 16) ?c"
  note c = copy_of [OF h]
  have "holds ?a (map blank_mac xs)"
    using c by (auto simp: holds_def replaceMac_def blank_mac_def)
  moreover have "t \<in> twoByteLengthAttributes ?a \<longleftrightarrow> t = AT_PUB_HYBRID" if "t \<in> fst ` set (map blank_mac xs)" for t
  proof -
    have "fst \<circ> blank_mac = fst" by (auto simp: blank_mac_def fun_eq_iff)
    then have "fst ` set (map blank_mac xs) = fst ` set xs" by (metis image_comp set_map)
    with that have "t \<in> fst ` set xs" by simp
    with c show ?thesis by (auto simp: replaceMac_def)
  qed
  ultimately have "concat (map (encode_attribute ?a) (order_received ?a)) = concat (map attr_wire (map blank_mac xs))"
    by (intro encode_of) blast+
  then show ?thesis
    by (simp add: mac_input_def EncodeEapPdu_def aka_wire_def Let_def numeral_eq_Suc)
qed

lemma attrs_of_holds: "distinct (map fst xs) \<Longrightarrow> holds (attrs_of xs) xs"
  by (auto simp: holds_def attribute_of attrs_of_fields(2))

section \<open>The element of the NAS message\<close>

text \<open>The dump of the element walks over a packet of whole attributes from one attribute to the next and ends behind
  the last.\<close>

lemma ie_total_len_attr:
  assumes wf: "attr_wf (t, v)" and i: "i = length pre"
  shows "ie_total_len (pre @ attr_wire (t, v) @ rest) i = Some (length (attr_wire (t, v)))"
proof (cases "t = AT_PUB_HYBRID")
  case True
  let ?k = "(length v + 5) div 4"
  from True wf have "(length v + 3) mod 4 = 0" "length v + 3 < 262144" by (auto simp: attr_wf_def)
  then have k: "?k < 65536" "4 * ?k = length v + 3" by presburger+
  obtain hi lo where "be16 ?k = [hi, lo]" "unat hi * 256 + unat lo = ?k" using be16_octets [OF k(1)] by auto
  with True k(2) i show ?thesis by (simp add: ie_total_len_def attr_wire_def view_read_def nth_append)
next
  case False
  let ?k = "(length v + 5) div 4"
  from False wf have "(length v + 2) mod 4 = 0" "length v + 2 < 1024" by (auto simp: attr_wf_def)
  then have k: "?k < 256" "4 * ?k = length v + 2" by presburger+
  then have "unat (of_nat ?k :: byte) = ?k" by (simp add: unat_byte_of_nat)
  with False k(2) i show ?thesis by (simp add: ie_total_len_def attr_wire_def view_read_def nth_append)
qed

lemma walk_attrs:
  "\<lbrakk>\<And>x. x \<in> set xs \<Longrightarrow> attr_wf x; i = length pre; len = i + length (concat (map attr_wire xs))\<rbrakk> \<Longrightarrow>
    walk_end (pre @ concat (map attr_wire xs)) len i = len"
proof (induction xs arbitrary: pre i)
  case Nil
  then show ?case by (simp add: walk_end.simps)
next
  case (Cons x xs)
  obtain t v where x: "x = (t, v)" by (cases x)
  let ?w = "attr_wire (t, v)" and ?r = "concat (map attr_wire xs)"
  have "ie_total_len (pre @ ?w @ ?r) i = Some (length ?w)" by (rule ie_total_len_attr) (use Cons.prems x in auto)
  moreover have "2 \<le> length ?w" by simp
  ultimately have "walk_end (pre @ ?w @ ?r) len i = walk_end ((pre @ ?w) @ ?r) len (i + length ?w)"
    using Cons.prems x by (subst walk_end.simps) auto
  also have "\<dots> = len" by (rule Cons.IH) (use Cons.prems x in auto)
  finally show ?case using x by simp
qed

lemma ie_aka_decodes:
  assumes wf: "\<And>x. x \<in> set xs \<Longrightarrow> attr_wf x" and st: "1 \<le> subType" "subType \<le> 14" and c: "code_of cd = Some code"
    and len: "length (aka_wire cd ident subType xs) < 65536"
  shows "IEEapMessage_Decode (aka_wire cd ident subType xs) (length (aka_wire cd ident subType xs)) =
    Some (Some (Some \<lparr>eap_code = code, eap_pdu_id = ident, eap_body = EapAkaPrime subType (attrs_of xs)\<rparr>))"
proof -
  let ?b = "concat (map attr_wire xs)" and ?h = "[cd, ident] @ be16 (8 + length (concat (map attr_wire xs))) @ [50, subType, 0, 0]"
  have w: "aka_wire cd ident subType xs = ?h @ ?b" by (simp add: aka_wire_def Let_def)
  have "walk_end (?h @ ?b) (length (?h @ ?b)) 8 = length (?h @ ?b)" by (rule walk_attrs) (use wf in auto)
  then have "dump_ies (?h @ ?b) (length (?h @ ?b)) 8 = Some Dumped" by (simp add: dump_ies_walk Let_def)
  with aka_wire_decodes [OF assms] show ?thesis unfolding w by (simp add: IEEapMessage_Decode_def)
qed

end
