(* ===== verification/Aka_Props.thy ===== *)
theory Aka_Props
  imports Ue_Aka
begin

text \<open>
  What each side of EAP-AKA' has checked when it accepts the other: the sequence number and the MAC of AUTN in the UE,
  the MAC and the response in the AUSF.
\<close>

section \<open>Sequence numbers\<close>

text \<open>The states of the sequence number manager after any calls of \<open>checkSqn\<close>; \<open>A\<close> is the set of numbers it
  has accepted.\<close>

inductive sqn_reach :: "nat \<Rightarrow> u64 \<Rightarrow> u64 set \<Rightarrow> sqn_mng \<Rightarrow> bool" for n :: nat and d :: u64 where
  sqn_boot: "SqnManager n d = Some m \<Longrightarrow> sqn_reach n d {} m"
| sqn_accept: "sqn_reach n d A m \<Longrightarrow> checkSqn m sqn = (True, m') \<Longrightarrow> sqn_reach n d (insert sqn A) m'"
| sqn_refuse: "sqn_reach n d A m \<Longrightarrow> checkSqn m sqn = (False, m') \<Longrightarrow> sqn_reach n d A m'"

lemma checkSqn_refused: "checkSqn m sqn = (False, m') \<Longrightarrow> m' = m"
  by (auto simp: checkSqn_def Let_def split: if_splits)

lemma checkSqn_accepted:
  assumes "checkSqn m sqn = (True, m')"
  shows "getSeqFromSqn m sqn - getSeqMs m \<le> m_wrappingDelta m"
    "getSeqFromSqn m (m_sqnArr m ! unat (getIndFromSqn m sqn)) < getSeqFromSqn m sqn"
    "m' = m\<lparr>m_sqnArr := (m_sqnArr m)[unat (getIndFromSqn m sqn) := sqn]\<rparr>"
  using assms by (auto simp: checkSqn_def Let_def not_less not_le split: if_splits)

lemma seq_params [simp]:
  "getSeqFromSqn (m\<lparr>m_sqnArr := a\<rparr>) = getSeqFromSqn m" "getIndFromSqn (m\<lparr>m_sqnArr := a\<rparr>) = getIndFromSqn m"
  by (simp_all add: getSeqFromSqn_def getIndFromSqn_def fun_eq_iff)

lemma unat_and_mask: "unat (w AND mask k :: u64) < 2 ^ k"
  by (simp add: unsigned_take_bit_eq take_bit_nat_less_exp flip: take_bit_eq_mask)

lemma ind_bound: "unat (getIndFromSqn m sqn) < 2 ^ m_indBitLen m"
  by (simp add: getIndFromSqn_def unat_and_mask)

text \<open>The array has an entry for every index, and the entry of an index is at least every number accepted for it.\<close>

lemma sqn_reach_inv:
  "sqn_reach n d A m \<Longrightarrow>
    m_indBitLen m = n \<and> n \<le> 16 \<and> m_wrappingDelta m = d \<and> length (m_sqnArr m) = 2 ^ n \<and>
    (\<forall>s \<in> A. getSeqFromSqn m s \<le> getSeqFromSqn m (m_sqnArr m ! unat (getIndFromSqn m s)))"
proof (induction rule: sqn_reach.induct)
  case (sqn_boot m)
  then show ?case by (auto simp: SqnManager_def split: if_splits)
next
  case (sqn_accept A m sqn m')
  note acc = checkSqn_accepted [OF sqn_accept.hyps(2)]
  have i: "unat (getIndFromSqn m s) < length (m_sqnArr m)" for s using ind_bound [of m s] sqn_accept.IH by simp
  have "getSeqFromSqn m s \<le> getSeqFromSqn m (m_sqnArr m' ! unat (getIndFromSqn m s))" if "s \<in> insert sqn A" for s
    using acc i sqn_accept.IH that by (cases "getIndFromSqn m s = getIndFromSqn m sqn") (auto simp: nth_list_update)
  with sqn_accept.IH acc(3) show ?case by simp
next
  case (sqn_refuse A m sqn m')
  then show ?case by (auto dest: checkSqn_refused)
qed

lemma accepted_is_fresh:
  assumes "sqn_reach n d A m" "checkSqn m sqn = (True, m')" "s \<in> A" "getIndFromSqn m s = getIndFromSqn m sqn"
  shows "getSeqFromSqn m s < getSeqFromSqn m sqn"
  using sqn_reach_inv [OF assms(1)] checkSqn_accepted(2) [OF assms(2)] assms(3,4) by fastforce

text \<open>Sequence numbers have 48 bits, so the unsigned difference is also a lower bound.\<close>

lemma window:
  assumes "getSeqFromSqn m sqn - getSeqMs m \<le> d" "unat d < 2 ^ 63"
  shows "getSeqMs m \<le> getSeqFromSqn m sqn" "unat (getSeqFromSqn m sqn) \<le> unat (getSeqMs m) + unat d"
proof -
  have s: "unat (getSeqFromSqn m sqn) < 2 ^ 48" "unat (getSeqMs m) < 2 ^ 48"
    unfolding getSeqMs_def getSeqFromSqn_def by (rule unat_and_mask)+
  have u: "unat (getSeqFromSqn m sqn - getSeqMs m) \<le> unat d" using assms(1) by (simp add: word_le_nat_alt)
  show le: "getSeqMs m \<le> getSeqFromSqn m sqn"
  proof (rule ccontr)
    assume "\<not> ?thesis"
    then have "unat (getSeqFromSqn m sqn - getSeqMs m) = 2 ^ 64 + unat (getSeqFromSqn m sqn) - unat (getSeqMs m)"
      by (simp add: unat_sub_if_size word_size word_le_nat_alt)
    with s u assms(2) show False by simp
  qed
  show "unat (getSeqFromSqn m sqn) \<le> unat (getSeqMs m) + unat d"
    using u le by (simp add: unat_sub word_le_nat_alt)
qed

section \<open>Primitives for the witnesses\<close>

text \<open>Functions of the right lengths whose octets are all zero, and a USIM at its start.\<close>

definition toy_aka :: "unit aka_prims" where
  "toy_aka = \<lparr>hmac_sha256 = (\<lambda>k m. zeros 32), sha256_fn = (\<lambda>m. zeros 32), x25519 = (\<lambda>k u. zeros 32),
     kem_keygen = (\<lambda>r. ((zeros 1184, zeros 2400), r)), kem_enc = (\<lambda>pk r. ((zeros 1088, zeros 32), r)), kem_dec = (\<lambda>ct sk. zeros 32),
     ogs_random = (\<lambda>n r. (zeros n, r)),
     milenage = (\<lambda>opc k rand sqn amf. \<lparr>mil_res = zeros 8, mil_ck = zeros 16, mil_ik = zeros 16, mil_ak = zeros 6, mil_ak_r = zeros 6,
       mil_mac_a = zeros 8, mil_mac_s = zeros 8\<rparr>),
     calculate_opc = (\<lambda>op k. zeros 16)\<rparr>"

definition toy_ue :: ue_config where
  "toy_ue = \<lparr>cf_supi = ''00101'', cf_key = zeros 16, cf_opc_or_op = zeros 16, cf_is_opc = True, cf_amf = [0x80, 0], cf_plmn = Some (1, 1)\<rparr>"

definition toy_sqn :: sqn_mng where
  "toy_sqn = \<lparr>m_indBitLen = 2, m_wrappingDelta = 100, m_sqnArr = [0, 0, 0, 0]\<rparr>"

section \<open>AUTN\<close>

text \<open>The number in AUTN as the UE reads it.\<close>

definition received_sqn :: "'r aka_prims \<Rightarrow> ue_config \<Rightarrow> sqn_mng \<Rightarrow> bytes \<Rightarrow> bytes \<Rightarrow> bytes" where
  "received_sqn P cf m rand autn = xor_octets (take 6 autn) (mil_ak (calculateMilenage P cf (getSqn m) rand False))"

lemma validateAutn_cases:
  "validateAutn P cf m rand autn =
    (if slice 6 2 autn ! 0 AND 0x80 = 0 then (Autn_sep_bit, m)
     else case checkSqn m (sqn_of_octets (received_sqn P cf m rand autn)) of (ok, m') \<Rightarrow>
       (if slice 8 8 autn \<noteq> mil_mac_a (calculateMilenage P cf (received_sqn P cf m rand autn) rand False) then Autn_mac_failure
        else if ok then Autn_ok else Autn_sync, m'))"
  by (simp add: validateAutn_def received_sqn_def Let_def split: prod.splits)

text \<open>
  C21.  A challenge whose AUTN the UE accepts, after any history of the USIM: its MAC-A is right for the number and
  RAND in it, its separation bit is set, its sequence number was not accepted before, is above every number accepted
  for its index and not below the highest, but at most the configured delta above.  The new state is again such a
  history, with the number recorded.\<close>

theorem autn_accepted_fresh:
  assumes "sqn_reach n d A m" "unat d < 2 ^ 63" "validateAutn P cf m rand autn = (Autn_ok, m')"
  shows "\<exists>octets sqn. octets = received_sqn P cf m rand autn \<and> sqn = sqn_of_octets octets \<and>
    slice 8 8 autn = mil_mac_a (calculateMilenage P cf octets rand False) \<and> slice 6 2 autn ! 0 AND 0x80 \<noteq> 0 \<and>
    sqn \<notin> A \<and> (\<forall>s \<in> A. getIndFromSqn m s = getIndFromSqn m sqn \<longrightarrow> getSeqFromSqn m s < getSeqFromSqn m sqn) \<and>
    getSeqMs m \<le> getSeqFromSqn m sqn \<and> unat (getSeqFromSqn m sqn) \<le> unat (getSeqMs m) + unat d \<and>
    sqn_reach n d (insert sqn A) m'"
proof -
  let ?o = "received_sqn P cf m rand autn" and ?s = "sqn_of_octets (received_sqn P cf m rand autn)"
  have c: "checkSqn m ?s = (True, m')" and a: "slice 8 8 autn = mil_mac_a (calculateMilenage P cf ?o rand False)"
    "slice 6 2 autn ! 0 AND 0x80 \<noteq> 0"
    using assms(3) by (auto simp: validateAutn_cases split: if_splits prod.splits)
  note fresh = accepted_is_fresh [OF assms(1) c]
  have "m_wrappingDelta m = d" using sqn_reach_inv [OF assms(1)] by simp
  then have "getSeqFromSqn m ?s - getSeqMs m \<le> d" using checkSqn_accepted(1) [OF c] by simp
  note w = window [OF this assms(2)]
  have "sqn_reach n d (insert ?s A) m'" by (rule sqn_accept [OF assms(1) c])
  with a fresh w show ?thesis by blast
qed

theorem autn_accepted_fresh_witness:
  "\<exists>sqn. sqn = sqn_of_octets (received_sqn toy_aka toy_ue toy_sqn [] ([0, 0, 0, 0, 0, 4, 128, 0] @ zeros 8)) \<and>
    getSeqMs toy_sqn \<le> getSeqFromSqn toy_sqn sqn"
proof -
  have "SqnManager 2 100 = Some toy_sqn" by (simp add: SqnManager_def toy_sqn_def numeral_eq_Suc)
  then have "sqn_reach 2 100 {} toy_sqn" by (rule sqn_boot)
  moreover have "validateAutn toy_aka toy_ue toy_sqn [] ([0, 0, 0, 0, 0, 4, 128, 0] @ zeros 8) = (Autn_ok, toy_sqn\<lparr>m_sqnArr := [4, 0, 0, 0]\<rparr>)"
    by code_simp
  ultimately show ?thesis using autn_accepted_fresh [of 2 100 "{}" toy_sqn toy_aka toy_ue "[]"] by auto
qed



section \<open>The UE's decision\<close>

lemma cpp_bind_Return: "cpp_bind x f = Return z \<longleftrightarrow> (\<exists>y. x = Return y \<and> f y = Return z)"
  by (cases x) auto

lemma failures_keep [simp]:
  "m_nonCurrentNsCtx (snd (sendEapFailure p u)) = m_nonCurrentNsCtx u" "m_nonCurrentNsCtx (snd (sendAuthFailure c u)) = m_nonCurrentNsCtx u"
  by (simp_all add: sendEapFailure_def sendAuthFailure_def)

lemma check_keeps [simp]:
  "(\<And>v. m_nonCurrentNsCtx (snd (f v)) = m_nonCurrentNsCtx v) \<Longrightarrow> m_nonCurrentNsCtx (snd (networkFailingTheAuthCheck u f)) = m_nonCurrentNsCtx u"
  by (simp add: networkFailingTheAuthCheck_def Let_def)

lemma fs_keeps:
  "aka_fs P stk cf u ik ck a = Return (mk, v) \<Longrightarrow> m_nonCurrentNsCtx v = m_nonCurrentNsCtx u \<and> m_sqnMng v = m_sqnMng u"
  "aka_hpqc P stk cf u ik ck a r = Return (mk, v, r') \<Longrightarrow> m_nonCurrentNsCtx v = m_nonCurrentNsCtx u \<and> m_sqnMng v = m_sqnMng u"
  by (auto simp: aka_fs_def aka_hpqc_def cpp_bind_Return Let_def split_beta split: if_splits)

lemma response_keeps [simp]: "m_sqnMng (snd (aka_response P rq kaut res isFs isHPQC u)) = m_sqnMng u"
  by (simp add: aka_response_def Let_def)

text \<open>The key under which the UE checks AT_MAC, for the highest number its USIM accepted.\<close>

definition ue_kaut :: "'r aka_prims \<Rightarrow> ue_config \<Rightarrow> string \<Rightarrow> sqn_mng \<Rightarrow> bytes \<Rightarrow> bytes cpp" where
  "ue_kaut P cf snn s rand =
     (let mil = calculateMilenage P cf (getSqn s) rand False;
          (ckPrime, ikPrime) = CalculateCkPrimeIkPrime (hmac_sha256 P) (mil_ck mil) (mil_ik mil) snn (xor_octets (getSqn s) (mil_ak mil))
      in cpp_bind (CalculateMk (hmac_sha256 P) ckPrime ikPrime (cf_supi cf)) (subCopy 16 32))"

lemma accept_installs:
  assumes "aka_accept P stk cf snn rq p a u r = Return (out, u', r')" "m_nonCurrentNsCtx u' \<noteq> m_nonCurrentNsCtx u"
  shows "\<exists>kaut. ue_kaut P cf snn (m_sqnMng u) (getReserved AT_RAND a) = Return kaut \<and>
    ue_CalculateMac (hmac_sha256 P) kaut (eap_code p) (eap_pdu_id p) 1 a = getReserved AT_MAC a \<and> m_sqnMng u' = m_sqnMng u"
proof -
  let ?mil = "calculateMilenage P cf (getSqn (m_sqnMng u)) (getReserved AT_RAND a) False"
  obtain ck ik where ck: "CalculateCkPrimeIkPrime (hmac_sha256 P) (mil_ck ?mil) (mil_ik ?mil) snn (xor_octets (getSqn (m_sqnMng u)) (mil_ak ?mil)) = (ck, ik)"
    by fastforce
  note h = assms(1) [unfolded aka_accept_def Let_def ck prod.case cpp_bind_Return split_paired_Ex]
  then obtain mk1 u1 mk2 u2 r2 mk kaut where
    u1: "(if fs_offered AT_PUB_ECDHE a then aka_fs P stk cf u ik ck a else Return ([], u)) = Return (mk1, u1)" and
    u2: "(if fs_offered AT_PUB_HYBRID a then aka_hpqc P stk cf u1 ik ck a r else Return ([], u1, r)) = Return (mk2, u2, r2)" and
    mk: "CalculateMk (hmac_sha256 P) ck ik (cf_supi cf) = Return mk" "subCopy 16 32 mk = Return kaut" and
    fail: "ue_CalculateMac (hmac_sha256 P) kaut (eap_code p) (eap_pdu_id p) 1 a \<noteq> getReserved AT_MAC a \<Longrightarrow>
      u' = snd (networkFailingTheAuthCheck u2 (sendEapFailure (aka_packet p 14 (putClientErrorCode 0 empty_attributes))))" and
    ok: "ue_CalculateMac (hmac_sha256 P) kaut (eap_code p) (eap_pdu_id p) 1 a = getReserved AT_MAC a \<Longrightarrow> m_sqnMng u' = m_sqnMng u2"
    by (force simp: split_beta cpp_bind_Return)
  have "m_nonCurrentNsCtx u1 = m_nonCurrentNsCtx u \<and> m_sqnMng u1 = m_sqnMng u" using u1 fs_keeps(1) by (fastforce split: if_splits)
  moreover have "m_nonCurrentNsCtx u2 = m_nonCurrentNsCtx u1 \<and> m_sqnMng u2 = m_sqnMng u1" using u2 fs_keeps(2) by (fastforce split: if_splits)
  moreover have "ue_kaut P cf snn (m_sqnMng u) (getReserved AT_RAND a) = Return kaut" using mk ck by (simp add: ue_kaut_def Let_def)
  ultimately show ?thesis using fail ok assms(2) by force
qed

section \<open>The AUSF's decision\<close>

lemma forward_secrecy_keeps:
  "ausf_forward_secrecy P mem u p msg = Some v \<Longrightarrow>
    au_k_aut v = au_k_aut u \<and> au_xres v = au_xres u \<and> au_eap_identifier v = au_eap_identifier u"
  by (auto simp: ausf_forward_secrecy_def store_fs_keys_def split: option.splits)

lemma check_mac_True:
  "ausf_check_mac P mem u p msg = Some (True, v) \<Longrightarrow>
    v = u \<and> (\<exists>pos input. msg_mac msg = Some pos \<and> pos + 16 \<le> length p \<and> ausf_mac_input p = Some input \<and>
      slice pos 16 p = take 16 (hmac_sha256 P (au_k_aut u) input))"
  by (auto simp: ausf_check_mac_def CalculateMacForEapAkaPrime_def read_at_def Let_def split: option.splits if_splits)


definition toy_ausf :: ausf_ue where
  "toy_ausf = \<lparr>au_supi = Some ''imsi-00101'', au_serving_network_name = ''5G:mnc001.mcc001.3gppnetwork.org'', au_auth_type = EAP_AKA_PRIME,
     au_auth_result = AUTHENTICATION_ONGOING, au_rand = zeros 16, au_xres_star = zeros 16, au_hxres_star = zeros 16, au_kausf = zeros 32,
     au_kseaf = zeros 32, au_ck_prime = zeros 32, au_ik_prime = zeros 32, au_k_aut = zeros 32, au_eap_payload = [], au_xres = zeros 16,
     au_xres_len = 16, au_eap_success = None, au_eap_identifier = 0, au_priv_key = zeros 32, au_pub_key_raw = zeros 32,
     au_mk_ecdhe = zeros 208, au_k_re = zeros 32, au_msk = zeros 64, au_emsk = zeros 64, au_mk_hybrid = zeros 208, au_mlkem_sk = zeros 2400,
     au_has_mlkem_sk = False\<rparr>"


section \<open>The hybrid key\<close>

lemma fs_first_32: "take 32 ss = take 32 ss' \<Longrightarrow> ausf_fs_master P mem u ss old = ausf_fs_master P mem u ss' old"
  by (simp add: ausf_fs_master_def ogs_kdf_prf_prime_fs_def Let_def split: option.splits)

lemma mkfs_first_32: "32 \<le> length ss \<Longrightarrow> 32 \<le> length ss' \<Longrightarrow> take 32 ss = take 32 ss' \<Longrightarrow>
    CalculateMkFs H ik ck ss supi = CalculateMkFs H ik ck ss' supi"
  by (simp add: CalculateMkFs_def subCopy_def)

lemma fs_master_x25519 [simp]: "ausf_fs_master (P\<lparr>x25519 := f\<rparr>) = ausf_fs_master P"
  by (simp add: ausf_fs_master_def fun_eq_iff split: option.splits)

text \<open>
  C26.  The key of the hybrid exchange does not depend on X25519: both sides derive it from the first 32 octets of the two
  concatenated secrets, which are those of ML-KEM.  Whatever function stands for X25519, the AUSF derives the same \<open>K_AUSF\<close> from a
  response with AT_PUB_HYBRID, and the UE the same master key from a challenge.\<close>

theorem hybrid_ignores_x25519:
  assumes "msg_pub_ecdhe msg = None" "\<And>ct sk. length (kem_dec P ct sk) = 32"
    and enc: "\<And>pk s. length (snd (fst (kem_enc P pk s))) = 32"
  shows "map_option au_kausf (ausf_forward_secrecy (P\<lparr>x25519 := f\<rparr>) mem u p msg) = map_option au_kausf (ausf_forward_secrecy P mem u p msg) \<and>
    (aka_hpqc P stk cf m ik' ck' a r = Return (mk, m', r') \<longrightarrow>
      (\<exists>m''. aka_hpqc (P\<lparr>x25519 := f\<rparr>) stk cf m ik' ck' a r = Return (mk, m'', r')))"
proof (intro conjI impI)
  have "ausf_fs_master P mem u (take 32 (kem_dec P ct sk) @ take 32 (f k v)) old =
      ausf_fs_master P mem u (take 32 (kem_dec P ct sk) @ take 32 (x25519 P k v)) old" for ct sk k v old
    by (rule fs_first_32) (simp add: assms(2))
  then show "map_option au_kausf (ausf_forward_secrecy (P\<lparr>x25519 := f\<rparr>) mem u p msg) = map_option au_kausf (ausf_forward_secrecy P mem u p msg)"
    using assms(1) by (simp add: ausf_forward_secrecy_def split: option.splits)
next
  assume h: "aka_hpqc P stk cf m ik' ck' a r = Return (mk, m', r')"
  obtain pkM where M: "subCopy 1 1184 (getAttribute AT_PUB_HYBRID a) = Return pkM"
    using h by (cases "subCopy 1 1184 (getAttribute AT_PUB_HYBRID a)") (auto simp: aka_hpqc_def)
  obtain pkX where X: "subCopy 1185 32 (getAttribute AT_PUB_HYBRID a) = Return pkX"
    using h M by (cases "subCopy 1185 32 (getAttribute AT_PUB_HYBRID a)") (auto simp: aka_hpqc_def)
  obtain ct ss s where E: "MlkemEncapsulate P pkM r = ((ct, ss), s)" "MlkemEncapsulate (P\<lparr>x25519 := f\<rparr>) pkM r = ((ct, ss), s)"
    by (cases "MlkemEncapsulate P pkM r") (auto simp: MlkemEncapsulate_def split: if_splits)
  have "length ss = 32" using E(1) enc [of pkM r] by (auto simp: MlkemEncapsulate_def split: if_splits)
  then have "CalculateMkFs (hmac_sha256 P) ik' ck' (ss @ f k v) supi = CalculateMkFs (hmac_sha256 P) ik' ck' (ss @ x25519 P k v) supi" for k v supi
    by (intro mkfs_first_32) simp_all
  with h M X E \<open>length ss = 32\<close> show "\<exists>m''. aka_hpqc (P\<lparr>x25519 := f\<rparr>) stk cf m ik' ck' a r = Return (mk, m'', r')"
    by (cases "CalculateMkFs (hmac_sha256 P) ik' ck' (ss @ x25519 P (clamp (stk ''priv_X25519'')) (take 32 pkX)) (cf_supi cf)")
      (auto simp: aka_hpqc_def CalculateX25519SharedSecret_def Let_def split: if_splits)
qed

theorem hybrid_ignores_x25519_witness:
  "map_option au_kausf (ausf_forward_secrecy (toy_aka\<lparr>x25519 := \<lambda>k x. replicate 32 1\<rparr>) True toy_ausf (zeros 1167)
      \<lparr>msg_res = None, msg_mac = None, msg_kdf = None, msg_pub_ecdhe = None, msg_pub_hybrid = Some 47\<rparr>) =
   map_option au_kausf (ausf_forward_secrecy toy_aka True toy_ausf (zeros 1167)
      \<lparr>msg_res = None, msg_mac = None, msg_kdf = None, msg_pub_ecdhe = None, msg_pub_hybrid = Some 47\<rparr>)"
  by (rule hybrid_ignores_x25519 [THEN conjunct1]) (simp_all add: toy_aka_def)

end
