(* ===== verification/Aka_Run.thy ===== *)
theory Aka_Run
  imports Aka_Wire Aka_Props
begin

text \<open>
  A run of EAP-AKA' with the hybrid key exchange between the UDM, the AUSF and the UE.
\<close>

section \<open>The place of AT_MAC\<close>

lemma at_mac_offset_iff:
  "at_mac_offset p = Some k \<longleftrightarrow>
    k < length p - 2 \<and> p ! k = 0x0B \<and> p ! (k + 1) = 5 \<and> (\<forall>i < k. \<not> (p ! i = 0x0B \<and> p ! (i + 1) = 5))"
  unfolding at_mac_offset_def find_Some_iff by auto

lemma at_mac_offset_prefix:
  assumes "at_mac_offset p = Some k" "take (k + 4) q = take (k + 4) p" "length q = length p"
  shows "at_mac_offset q = Some k"
proof -
  have "q ! i = p ! i" if "i < k + 4" for i using assms(2) that by (metis nth_take)
  with assms(1,3) show ?thesis by (simp add: at_mac_offset_iff)
qed

text \<open>AT_MAC between other attributes, and the packet with another value in it.\<close>

lemma mac_split:
  obtains pre post where "length pre = 12 + length (concat (map attr_wire xs))"
    "\<And>m. length m = 16 \<Longrightarrow> aka_wire cd ident st (xs @ (0x0B, 0 # 0 # m) # ys) = pre @ m @ post"
proof -
  let ?x = "concat (map attr_wire xs)" and ?y = "concat (map attr_wire ys)"
  let ?pre = "[cd, ident] @ be16 (28 + (length ?x + length ?y)) @ [50, st, 0, 0] @ ?x @ [11, 5, 0, 0]"
  have "length ?pre = 12 + length ?x" by simp
  moreover have "aka_wire cd ident st (xs @ (0x0B, 0 # 0 # m) # ys) = ?pre @ m @ ?y" if "length m = 16" for m
    using that by (simp add: aka_wire_def attr_wire_def Let_def)
  ultimately show thesis by (rule that)
qed

lemma poke_mac:
  assumes "length m = 16" "length z = 16"
  shows "poke (aka_wire cd ident st (xs @ (0x0B, 0 # 0 # m) # ys)) (12 + length (concat (map attr_wire xs))) z =
    aka_wire cd ident st (xs @ (0x0B, 0 # 0 # z) # ys)"
  using assms by (rule_tac mac_split [of xs cd ident st ys]) (simp add: poke_def)

lemma mac_at:
  assumes "length m = 16"
  shows "slice (12 + length (concat (map attr_wire xs))) 16 (aka_wire cd ident st (xs @ (0x0B, 0 # 0 # m) # ys)) = m"
  using assms by (rule_tac mac_split [of xs cd ident st ys]) (simp add: slice_def)

lemma mac_elsewhere:
  assumes "length m = 16" "length z = 16" "k = 8 + length (concat (map attr_wire xs))"
    "at_mac_offset (aka_wire cd ident st (xs @ (0x0B, 0 # 0 # m) # ys)) = Some k"
  shows "at_mac_offset (aka_wire cd ident st (xs @ (0x0B, 0 # 0 # z) # ys)) = Some k"
  using assms by (rule_tac mac_split [of xs cd ident st ys], rule_tac at_mac_offset_prefix) (auto simp: algebra_simps)

lemma be16_0: "be16 0 = [0, 0]" by (simp add: be16_def)

text \<open>The MAC the network computes over a packet in which it finds AT_MAC at its place.\<close>

lemma network_mac:
  assumes m: "length m = 16" and k: "k = 8 + length (concat (map attr_wire xs))"
    and off: "at_mac_offset (aka_wire cd ident st (xs @ (0x0B, 0 # 0 # m) # ys)) = Some k"
    and len: "length (aka_wire cd ident st (xs @ (0x0B, 0 # 0 # m) # ys)) \<le> 2048"
  shows "CalculateMacForEapAkaPrime H True key (aka_wire cd ident st (xs @ (0x0B, 0 # 0 # m) # ys)) =
    Some (take 16 (H key (aka_wire cd ident st (xs @ (0x0B, 0 # 0 # zeros 16) # ys))))"
proof -
  let ?p = "aka_wire cd ident st (xs @ (0x0B, 0 # 0 # m) # ys)"
  have "k + 20 \<le> length ?p" using m k by (simp add: length_aka_wire)
  moreover have "poke ?p (k + 4) (zeros 16) = aka_wire cd ident st (xs @ (0x0B, 0 # 0 # zeros 16) # ys)"
    using poke_mac [of m "zeros 16" cd ident st xs ys] m k by (simp add: algebra_simps)
  ultimately show ?thesis using off len by (simp add: CalculateMacForEapAkaPrime_def ausf_mac_input_def)
qed

section \<open>The packets\<close>

definition challenge_attrs :: "bytes \<Rightarrow> bytes \<Rightarrow> string \<Rightarrow> bytes \<Rightarrow> bytes \<Rightarrow> attr list" where
  "challenge_attrs rand autn snn pkM pkX =
     [(0x01, 0 # 0 # rand), (0x02, 0 # 0 # autn), (0x18, [0, 1]), (0x99, [1, 0]), (0x17, [0, 32] @ ascii snn), (0xA0, 0 # pkM @ pkX)]"

definition challenge_wire :: "bytes \<Rightarrow> bytes \<Rightarrow> string \<Rightarrow> bytes \<Rightarrow> bytes \<Rightarrow> bytes \<Rightarrow> bytes" where
  "challenge_wire rand autn snn pkM pkX mac = aka_wire 1 1 1 (challenge_attrs rand autn snn pkM pkX @ [(0x0B, 0 # 0 # mac)])"

definition response_wire :: "byte \<Rightarrow> bytes \<Rightarrow> bytes \<Rightarrow> bytes \<Rightarrow> bytes \<Rightarrow> bytes" where
  "response_wire ident res mac ct pub =
     aka_wire 2 ident 1 ([(0x03, [0, 64] @ res)] @ (0x0B, 0 # 0 # mac) # [(0x18, [0, 1]), (0xA0, ct @ pub)])"

lemma challenge_attrs_len:
  assumes "length rand = 16" "length autn = 16" "length snn = 32" "length pkM = 1184" "length pkX = 32"
  shows "length (concat (map attr_wire (challenge_attrs rand autn snn pkM pkX))) = 1304"
    "length mac = 16 \<Longrightarrow> length (challenge_wire rand autn snn pkM pkX mac) = 1332"
  using assms by (simp_all add: challenge_attrs_def challenge_wire_def length_aka_wire)

lemma challenge_packet_wire:
  assumes "length rand = 16" "length autn = 16" "length snn = 32" "length pkM = 1184" "length pkX = 32"
  shows "challenge_packet rand autn snn pkM pkX = (challenge_wire rand autn snn pkM pkX (zeros 16), 1316)"
proof -
  have "be16 32 = [0, 32]" "be16 1 = [0, 1]" by (simp_all add: be16_def)
  with assms show ?thesis
    by (simp add: challenge_packet_def build_eap_aka_prime_header_def add_at_rand_def add_at_autn_def add_at_kdf_def
        add_at_kdf_fs_def add_at_kdf_input_def add_at_pub_hybrid_def add_at_mac_def challenge_wire_def challenge_attrs_def
        aka_wire_def attr_wire_def poke_def Let_def)
qed

section \<open>What the run relies on\<close>

text \<open>Documented behaviour of the primitives: the lengths of their outputs, that ML-KEM decapsulates what was encapsulated for its
  key, and that in Milenage only MAC-A and MAC-S depend on SQN and AMF.\<close>

definition aka_ok :: "'r aka_prims \<Rightarrow> bool" where
  "aka_ok P \<longleftrightarrow>
     (\<forall>k m. length (hmac_sha256 P k m) = 32) \<and> (\<forall>k x. length (x25519 P k x) = 32) \<and> (\<forall>n r. length (fst (ogs_random P n r)) = n) \<and>
     (\<forall>r pk sk r' s ct ss s'. kem_keygen P r = ((pk, sk), r') \<longrightarrow> kem_enc P pk s = ((ct, ss), s') \<longrightarrow>
        length pk = 1184 \<and> length ct = 1088 \<and> length ss = 32 \<and> kem_dec P ct sk = ss) \<and>
     (\<forall>opc k rand sqn amf. let m = milenage P opc k rand sqn amf in
        length (mil_res m) = 8 \<and> length (mil_ck m) = 16 \<and> length (mil_ik m) = 16 \<and> length (mil_ak m) = 6 \<and> length (mil_mac_a m) = 8) \<and>
     (\<forall>opc k rand sqn amf sqn' amf'. mil_ak (milenage P opc k rand sqn amf) = mil_ak (milenage P opc k rand sqn' amf'))"

lemma aka_okD:
  assumes "aka_ok P"
  shows "length (hmac_sha256 P k m) = 32" "length (x25519 P k x) = 32" "length (fst (ogs_random P n r)) = n"
    "length (mil_res (milenage P opc k rand sqn amf)) = 8" "length (mil_ck (milenage P opc k rand sqn amf)) = 16"
    "length (mil_ik (milenage P opc k rand sqn amf)) = 16" "length (mil_ak (milenage P opc k rand sqn amf)) = 6"
    "length (mil_mac_a (milenage P opc k rand sqn amf)) = 8"
    "mil_ak (milenage P opc k rand sqn amf) = mil_ak (milenage P opc k rand sqn' amf')"
    "kem_keygen P r = ((pk, sk), r') \<Longrightarrow> kem_enc P pk s = ((ct, ss), s') \<Longrightarrow>
      length pk = 1184 \<and> length ct = 1088 \<and> length ss = 32 \<and> kem_dec P ct sk = ss"
  using assms unfolding aka_ok_def Let_def by metis+

lemma kem_pk_len: "aka_ok P \<Longrightarrow> kem_keygen P r = ((pk, sk), r') \<Longrightarrow> length pk = 1184"
  using aka_okD(10) by (metis prod.exhaust)

text \<open>The UDM and the UE have the same subscription, and the two network functions the serving network of the UE.\<close>

definition same_subscription :: "udm_ue \<Rightarrow> ausf_ue \<Rightarrow> ue_config \<Rightarrow> bool" where
  "same_subscription u a cf \<longleftrightarrow>
     ud_supi u = ''imsi-'' @ cf_supi cf \<and> 5 \<le> length (cf_supi cf) \<and> length (cf_supi cf) \<le> 15 \<and> ud_auth_type u = EAP_AKA_PRIME \<and>
     cf_key cf = ud_k u \<and> cf_is_opc cf \<and> cf_opc_or_op cf = ud_opc u \<and>
     cf_amf cf = ud_amf u \<and> length (ud_amf u) = 2 \<and> ud_amf u ! 0 AND 0x80 \<noteq> 0 \<and> length (ud_sqn u) = 6 \<and>
     au_serving_network_name a = ud_serving_network_name u \<and> length (au_k_aut a) = 32 \<and>
     (case cf_plmn cf of None \<Rightarrow> False | Some (mcc, mnc) \<Rightarrow> ConstructServingNetworkName mcc mnc = Return (ud_serving_network_name u))"

lemma network_name_len: "ConstructServingNetworkName mcc mnc = Return s \<Longrightarrow> length s = 32"
  unfolding ConstructServingNetworkName_def Let_def by (metis cpp.distinct(1,3) cpp.inject)

lemma subscription_snn: "same_subscription u a cf \<Longrightarrow> length (ud_serving_network_name u) = 32"
  by (auto simp: same_subscription_def network_name_len split: option.splits)

section \<open>The vector\<close>

lemma xor6_octets: "length a = 6 \<Longrightarrow> length b = 6 \<Longrightarrow> xor6 a b = xor_octets a b"
  by (rule nth_equalityI) (simp_all add: xor6_def xor_octets_def)

lemma xor_octets_twice: "length a = length b \<Longrightarrow> xor_octets (xor_octets a b) b = a"
  by (rule nth_equalityI) (simp_all add: xor_octets_def xor.assoc)

lemma length_xor_octets [simp]: "length (xor_octets a b) = min (length a) (length b)"
  by (simp add: xor_octets_def)

lemma udm_vector:
  assumes ok: "aka_ok P" and prov: "same_subscription u a cf"
  obtains rnd r' M ck' ik' mk av u' where "length rnd = 16" "M = milenage P (ud_opc u) (ud_k u) rnd (ud_sqn u) (ud_amf u)"
    "CalculateCkPrimeIkPrime (hmac_sha256 P) (mil_ck M) (mil_ik M) (ud_serving_network_name u) (xor_octets (ud_sqn u) (mil_ak M)) = (ck', ik')"
    "length ck' = 16" "length ik' = 16" "CalculateMk (hmac_sha256 P) ck' ik' (cf_supi cf) = Return mk" "length mk = 224"
    "udm_authentication_vector P True stk u r = Some (av, u', r')"
    "av_type av = FIVE_G_AKA" "av_rand av = Some rnd" "av_autn av = Some (xor_octets (ud_sqn u) (mil_ak M) @ ud_amf u @ mil_mac_a M)"
    "av_xres av = Some (mil_res M @ take 8 (stk ''xres''))" "av_xres_star av \<noteq> None" "av_kausf av \<noteq> None"
    "av_ck_prime av = Some (ck' @ take 16 (stk ''ck_prime''))" "av_ik_prime av = Some (ik' @ take 16 (stk ''ik_prime''))"
    "av_k_aut av = Some (slice 16 32 mk)"
proof -
  let ?H = "hmac_sha256 P" and ?snn = "ud_serving_network_name u"
  note d = aka_okD [OF ok] and snn = subscription_snn [OF prov]
  obtain rnd r' where r: "ogs_random P 16 r = (rnd, r')" by (cases "ogs_random P 16 r")
  then have rnd: "length rnd = 16" using d(3) [of 16 r] by simp
  define M where "M = milenage P (ud_opc u) (ud_k u) rnd (ud_sqn u) (ud_amf u)"
  have M: "length (mil_res M) = 8" "length (mil_ck M) = 16" "length (mil_ik M) = 16" "length (mil_ak M) = 6" "length (mil_mac_a M) = 8"
    unfolding M_def by (rule d)+
  let ?x = "xor_octets (ud_sqn u) (mil_ak M)"
  let ?autn = "?x @ ud_amf u @ mil_mac_a M"
  have p: "length (ud_sqn u) = 6" "length (ud_amf u) = 2" "ud_auth_type u = EAP_AKA_PRIME" "ud_supi u = ''imsi-'' @ cf_supi cf"
    using prov by (auto simp: same_subscription_def)
  obtain ck' ik' where ck: "CalculateCkPrimeIkPrime ?H (mil_ck M) (mil_ik M) ?snn ?x = (ck', ik')"
    by (cases "CalculateCkPrimeIkPrime ?H (mil_ck M) (mil_ik M) ?snn ?x")
  then have len: "length ck' = 16" "length ik' = 16"
    using M d(1) by (auto simp: CalculateCkPrimeIkPrime_def CalculateKdfKey_def Let_def)
  have ckp: "ogs_kdf_ckprime_ikprime ?H (mil_ck M) (mil_ik M) ?snn ?x = Some (ck', ik')"
    using ckprime_agrees [of ?H "mil_ck M" "mil_ik M" ?x ?snn] ck M p d(1) snn by simp
  obtain mk where mk: "CalculateMk ?H ck' ik' (cf_supi cf) = Return mk" "length mk = 224"
    "ogs_kdf_prf_prime ?H True ik' ck' (ascii (cf_supi cf)) = Some (take 208 mk)"
    using mk_agrees [of ?H ik' ck' "cf_supi cf"] d(1) len by metis
  have e: "ascii ?snn \<noteq> []" using snn by (auto simp: ascii_def)
  have key: "mil_ck M @ mil_ik M \<noteq> []" using M by auto
  have res0: "mil_res M \<noteq> []" using M by auto
  have x: "?x \<noteq> []" "length ?x = 6" using M p by (auto simp flip: length_greater_0_conv)
  have "ogs_kdf_common ?H (mil_ck M @ mil_ik M) 0x6A [ascii ?snn, ?x] = Some (CalculateKdfKey ?H (mil_ck M @ mil_ik M) 0x6A [ascii ?snn, ?x])"
    using e key x snn by (intro kdf_common_agrees) auto
  then obtain kausf where ka: "ogs_kdf_kausf ?H (mil_ck M) (mil_ik M) ?snn ?autn = Some kausf"
    using M x by (simp add: ogs_kdf_kausf_def)
  have "ogs_kdf_common ?H (mil_ck M @ mil_ik M) 0x6B [ascii ?snn, rnd, mil_res M] =
      Some (CalculateKdfKey ?H (mil_ck M @ mil_ik M) 0x6B [ascii ?snn, rnd, mil_res M])"
    using e key res0 rnd M snn by (intro kdf_common_agrees) auto
  then obtain xs where xs: "ogs_kdf_xres_star ?H (mil_ck M) (mil_ik M) ?snn rnd (mil_res M) = Some xs"
    using M rnd res0 by (simp add: ogs_kdf_xres_star_def)
  have v: "\<exists>av u'. udm_authentication_vector P True stk u r = Some (av, u', r') \<and>
    av_type av = FIVE_G_AKA \<and> av_rand av = Some rnd \<and> av_autn av = Some ?autn \<and>
    av_xres av = Some (mil_res M @ take 8 (stk ''xres'')) \<and> av_xres_star av \<noteq> None \<and> av_kausf av \<noteq> None \<and>
    av_ck_prime av = Some (ck' @ take 16 (stk ''ck_prime'')) \<and> av_ik_prime av = Some (ik' @ take 16 (stk ''ik_prime'')) \<and>
    av_k_aut av = Some (slice 16 32 mk)"
    using r M p ka xs ckp mk
    by (simp add: udm_authentication_vector_def Let_def xor6_octets slice_def drop_take flip: M_def)
  then show thesis using that [OF rnd M_def ck len mk(1,2)] by blast
qed

section \<open>The challenge\<close>

text \<open>The AUSF always finds some AT_MAC in its challenge, so a MAC is computed and sent.\<close>

lemma challenge_has_mac:
  assumes "length rand = 16" "length autn = 16" "length snn = 32" "length pkM = 1184" "length pkX = 32"
  shows "\<exists>input. ausf_mac_input (challenge_wire rand autn snn pkM pkX (zeros 16)) = Some input"
proof -
  let ?p = "challenge_wire rand autn snn pkM pkX (zeros 16)"
  note len = challenge_attrs_len [OF assms]
  obtain pre where pre: "length pre = 1312" "?p = pre @ [0x0B, 5] @ [0, 0] @ zeros 16"
  proof
    let ?c = "concat (map attr_wire (challenge_attrs rand autn snn pkM pkX))"
    show "length ([1, 1] @ be16 (28 + length ?c) @ [50, 1, 0, 0] @ ?c) = 1312" using len by simp
    show "?p = ([1, 1] @ be16 (28 + length ?c) @ [50, 1, 0, 0] @ ?c) @ [0x0B, 5] @ [0, 0] @ zeros 16"
      by (simp add: challenge_wire_def aka_wire_def attr_wire_def Let_def)
  qed
  have at: "?p ! 1312 = 0x0B" "?p ! (1312 + 1) = 5" using pre by (simp_all add: nth_append)
  have lp: "length ?p = 1332" using len by simp
  let ?Q = "\<lambda>i. ?p ! i = 0x0B \<and> ?p ! (i + 1) = 5"
  define k where "k = (LEAST i. ?Q i)"
  have k: "?Q k" "k \<le> 1312" "\<And>i. i < k \<Longrightarrow> \<not> ?Q i"
    unfolding k_def using at by (metis (mono_tags, lifting) LeastI, metis (mono_tags, lifting) Least_le, metis (mono_tags, lifting) not_less_Least)
  then have "at_mac_offset ?p = Some k" using lp by (simp add: at_mac_offset_iff)
  then show ?thesis using k(2) lp by (simp add: ausf_mac_input_def)
qed

lemma ausf_challenge:
  assumes ok: "aka_ok P" and len: "length rnd = 16" "length autn = 16" "length (au_serving_network_name a) = 32" "length (au_k_aut a) = 32"
    "length kaut = 32" "length ck' = 16" "length ik' = 16" "length res = 8"
    and av: "av_type av = FIVE_G_AKA" "av_rand av = Some rnd" "av_autn av = Some autn" "av_xres av = Some (res @ junk1)"
      "av_xres_star av \<noteq> None" "av_kausf av \<noteq> None" "av_ck_prime av = Some (ck' @ junk2)" "av_ik_prime av = Some (ik' @ junk3)"
      "av_k_aut av = Some kaut"
  obtains p hash a' r' s pkM pkX mac where
    "ausf_nudm_ueau_handle_get P True suci supi_hash a (Some \<lparr>ai_auth_type = EAP_AKA_PRIME, ai_vector = Some av, ai_supi = Some supi\<rparr>) r =
       Some (True, Eap_challenge p, hash, a', r')"
    "p = challenge_wire rnd autn (au_serving_network_name a) pkM pkX mac" "length pkM = 1184" "length pkX = 32" "length mac = 16"
    "at_mac_offset p = Some 1312 \<longrightarrow> mac = take 16 (hmac_sha256 P kaut (challenge_wire rnd autn (au_serving_network_name a) pkM pkX (zeros 16)))"
    "kem_keygen P s = ((pkM, au_mlkem_sk a'), r')" "au_supi a' = Some supi" "take 16 (au_ik_prime a') = ik'" "take 16 (au_ck_prime a') = ck'"
    "au_k_aut a' = kaut" "take 7 (au_xres a') = take 7 res" "au_auth_type a' = EAP_AKA_PRIME"
    "au_serving_network_name a' = au_serving_network_name a"
proof -
  let ?snn = "au_serving_network_name a" and ?H = "hmac_sha256 P"
  obtain priv pkX s where x: "generate_x25519_keypair P r = ((priv, pkX), s)"
    by (cases "generate_x25519_keypair P r") auto
  have lx: "length pkX = 32" using x aka_okD(2) [OF ok] by (auto simp: generate_x25519_keypair_def split: prod.splits)
  obtain pkM sk r' where m: "kem_keygen P s = ((pkM, sk), r')" by (cases "kem_keygen P s") auto
  have lm: "length pkM = 1184" by (rule kem_pk_len [OF ok m])
  note pl = len(1-3) lm lx
  let ?pz = "challenge_wire rnd autn ?snn pkM pkX (zeros 16)" and ?p = "challenge_wire rnd autn ?snn pkM pkX"
  obtain input where i: "ausf_mac_input ?pz = Some input" using challenge_has_mac [OF pl] by blast
  let ?mac = "take 16 (?H kaut input)"
  have lmac: "length ?mac = 16" using aka_okD(1) [OF ok] by simp
  have c: "CalculateMacForEapAkaPrime ?H True kaut ?pz = Some ?mac"
    using i challenge_attrs_len(2) [OF pl, of "zeros 16"] by (simp add: CalculateMacForEapAkaPrime_def)
  have pk: "poke ?pz 1316 ?mac = ?p ?mac"
    using poke_mac [of "zeros 16" ?mac 1 1 1 "challenge_attrs rnd autn ?snn pkM pkX" "[]"] challenge_attrs_len(1) [OF pl] lmac
    by (simp add: challenge_wire_def)
  have mac: "?mac = take 16 (?H kaut ?pz)" if "at_mac_offset (?p ?mac) = Some 1312"
  proof -
    have "at_mac_offset ?pz = Some 1312"
      unfolding challenge_wire_def
      by (rule mac_elsewhere [of ?mac]) (use that lmac challenge_attrs_len(1) [OF pl] in \<open>simp_all add: challenge_wire_def\<close>)
    then show ?thesis
      using network_mac [of "zeros 16" 1312 "challenge_attrs rnd autn ?snn pkM pkX" 1 1 1 "[]" ?H kaut] c challenge_attrs_len [OF pl]
      by (simp add: challenge_wire_def)
  qed
  obtain xs kausf where av': "av_xres_star av = Some xs" "av_kausf av = Some kausf" using av(5,6) by blast
  let ?u = "a\<lparr>au_supi := Some supi, au_auth_type := EAP_AKA_PRIME, au_rand := poke (au_rand a) 0 (take 16 rnd),
              au_xres_star := poke (au_xres_star a) 0 (take 16 xs), au_kausf := poke (au_kausf a) 0 (take 32 kausf),
              au_xres := poke (au_xres a) 0 (take 16 (res @ junk1)), au_ck_prime := poke (au_ck_prime a) 0 (take 32 (ck' @ junk2)),
              au_ik_prime := poke (au_ik_prime a) 0 (take 32 (ik' @ junk3)), au_k_aut := kaut, au_xres_len := length (take 16 (res @ junk1)),
              au_priv_key := priv, au_pub_key_raw := pkX, au_mlkem_sk := sk, au_has_mlkem_sk := True\<rparr>"
  have ka: "poke (au_k_aut a) 0 kaut = kaut" using len by (simp add: poke_def)
  have "\<exists>hash. ausf_nudm_ueau_handle_get P True suci supi_hash a
      (Some \<lparr>ai_auth_type = EAP_AKA_PRIME, ai_vector = Some av, ai_supi = Some supi\<rparr>) r = Some (True, Eap_challenge (?p ?mac), hash, ?u, r')"
    using av av' len x m c pk ka challenge_packet_wire [OF pl] challenge_attrs_len(2) [OF pl, of "zeros 16"]
    by (simp add: ausf_nudm_ueau_handle_get_def ausf_eap_challenge_def Let_def)
  then obtain hash where h: "ausf_nudm_ueau_handle_get P True suci supi_hash a
      (Some \<lparr>ai_auth_type = EAP_AKA_PRIME, ai_vector = Some av, ai_supi = Some supi\<rparr>) r = Some (True, Eap_challenge (?p ?mac), hash, ?u, r')" ..
  show thesis
    by (rule that [OF h refl lm lx lmac impI [OF mac], of s]) (use m len in \<open>simp_all add: poke_def\<close>)
qed

section \<open>The UE\<close>

abbreviation (input) challenge_pdu :: "bytes \<Rightarrow> bytes \<Rightarrow> string \<Rightarrow> bytes \<Rightarrow> bytes \<Rightarrow> bytes \<Rightarrow> eap_pdu" where
  "challenge_pdu rnd autn snn pkM pkX mac \<equiv>
     \<lparr>eap_code = REQUEST, eap_pdu_id = 1,
      eap_body = EapAkaPrime 1 (attrs_of (challenge_attrs rnd autn snn pkM pkX @ [(0x0B, 0 # 0 # mac)]))\<rparr>"

lemma challenge_decodes:
  assumes "length rnd = 16" "length autn = 16" "length snn = 32" "length pkM = 1184" "length pkX = 32" "length mac = 16"
  shows "IEEapMessage_Decode (challenge_wire rnd autn snn pkM pkX mac) (length (challenge_wire rnd autn snn pkM pkX mac)) =
    Some (Some (Some (challenge_pdu rnd autn snn pkM pkX mac)))"
  unfolding challenge_wire_def
  by (rule ie_aka_decodes)
    (use assms challenge_attrs_len(2) [OF assms(1-5), of mac] in \<open>auto simp: challenge_attrs_def attr_wf_def code_of_def challenge_wire_def\<close>)

lemma challenge_fields:
  fixes rnd autn pkM pkX mac :: bytes and snn :: string
  assumes "length snn = 32"
  defines "a \<equiv> attrs_of (challenge_attrs rnd autn snn pkM pkX @ [(0x0B, 0 # 0 # mac)])"
  shows "getReserved AT_RAND a = rnd" "getReserved AT_AUTN a = autn" "getReserved AT_MAC a = mac" "getKdf a = 1"
    "getKdfInput a = ascii snn" "getAttribute AT_PUB_HYBRID a = 0 # pkM @ pkX" "fs_offered AT_PUB_HYBRID a" "\<not> fs_offered AT_PUB_ECDHE a"
  using assms(1) unfolding a_def
  by (simp_all add: getReserved_def getKdf_def getKdfInput_def getAttribute_def fs_offered_def attrs_of_fields challenge_attrs_def get16_def
      slice_def)

lemma challenge_mac:
  "ue_CalculateMac H kaut REQUEST 1 1 (attrs_of (challenge_attrs rnd autn snn pkM pkX @ [(0x0B, 0 # 0 # mac)])) =
    take 16 (H kaut (challenge_wire rnd autn snn pkM pkX (zeros 16)))"
proof -
  let ?x = "challenge_attrs rnd autn snn pkM pkX @ [(0x0B, 0 # 0 # mac)]"
  have "holds (attrs_of ?x) ?x" by (rule attrs_of_holds) (simp add: challenge_attrs_def)
  moreover have "map blank_mac ?x = challenge_attrs rnd autn snn pkM pkX @ [(0x0B, 0 # 0 # zeros 16)]"
    by (simp add: challenge_attrs_def blank_mac_def be16_0)
  ultimately show ?thesis by (simp add: ue_CalculateMac_def mac_input_wire challenge_wire_def)
qed

lemma autn_valid:
  assumes ok: "aka_ok P" and prov: "same_subscription u a cf" and M: "M = milenage P (ud_opc u) (ud_k u) rnd (ud_sqn u) (ud_amf u)"
    and sqn: "checkSqn s (sqn_of_octets (ud_sqn u)) = (True, s')"
  shows "validateAutn P cf s rnd (xor_octets (ud_sqn u) (mil_ak M) @ ud_amf u @ mil_mac_a M) = (Autn_ok, s')"
proof -
  let ?x = "xor_octets (ud_sqn u) (mil_ak M)"
  let ?autn = "?x @ ud_amf u @ mil_mac_a M"
  note p = prov [unfolded same_subscription_def]
  have cm: "calculateMilenage P cf q rnd False = milenage P (ud_opc u) (ud_k u) rnd q (ud_amf u)" for q
    using p by (simp add: calculateMilenage_def)
  have len: "length (mil_ak M) = 6" "length (mil_mac_a M) = 8" unfolding M by (rule aka_okD [OF ok])+
  have "mil_ak (calculateMilenage P cf (getSqn s) rnd False) = mil_ak M" unfolding cm M by (rule aka_okD(9) [OF ok])
  then have r: "received_sqn P cf s rnd ?autn = ud_sqn u"
    using p len by (simp add: received_sqn_def xor_octets_twice)
  have "slice 6 2 ?autn = ud_amf u" "slice 8 8 ?autn = mil_mac_a M" using p len by (simp_all add: slice_def)
  then show ?thesis using p sqn by (simp add: validateAutn_cases r cm flip: M)
qed

lemma encode_aka:
  assumes "holds a xs" "\<And>t. t \<in> fst ` set xs \<Longrightarrow> t \<in> twoByteLengthAttributes a \<longleftrightarrow> t = AT_PUB_HYBRID"
  shows "EncodeEapPdu \<lparr>eap_code = cd, eap_pdu_id = ident, eap_body = EapAkaPrime st a\<rparr> = aka_wire (code_octet cd) ident st xs"
  using encode_of [OF assms] by (simp add: EncodeEapPdu_def aka_wire_def Let_def numeral_eq_Suc)

lemma response_encodes:
  assumes res: "length res = 8" and hyb: "m_mlkemCiphertext u = ct" "m_eccPubKey u = pub"
    and r: "aka_response P p kaut res False True u = (resp, u')"
  shows "EncodeEapPdu resp = response_wire (eap_pdu_id p)
      res (take 16 (hmac_sha256 P kaut (response_wire (eap_pdu_id p) res (zeros 16) ct pub))) ct pub"
    "u' = u\<lparr>m_eccPrivKey := [], m_eccPubKey := []\<rparr>"
proof -
  let ?a = "putRawAttributeWith2ByteLength AT_PUB_HYBRID (ct @ pub) (putKdf 1 (putMac (zeros 16) (putRes res empty_attributes)))"
  let ?x = "\<lambda>m. [(0x03, [0, 64] @ res)] @ (0x0B, 0 # 0 # m) # [(0x18, [0, 1]), (0xA0, ct @ pub)]"
  let ?m = "ue_CalculateMac (hmac_sha256 P) kaut RESPONSE (eap_pdu_id p) 1 ?a"
  have b: "be16 64 = [0, 64]" "be16 (Suc 0) = [0, 1]" by (simp_all add: be16_def)
  have h: "holds (replaceMac m ?a) (?x m)" for m
    using res by (simp add: holds_def replaceMac_def putRawAttributeWith2ByteLength_def putKdf_def putMac_def putRes_def putRawAttribute_def
        empty_attributes_def b be16_0)
  have two: "twoByteLengthAttributes (replaceMac m ?a) = {0xA0}" for m
    by (simp add: replaceMac_def putRawAttributeWith2ByteLength_def putKdf_def putMac_def putRes_def putRawAttribute_def empty_attributes_def)
  have "replaceMac (zeros 16) ?a = ?a"
    by (simp add: replaceMac_def putRawAttributeWith2ByteLength_def putKdf_def putMac_def putRes_def putRawAttribute_def empty_attributes_def fun_eq_iff)
  then have "holds ?a (?x (zeros 16))" using h [of "zeros 16"] by simp
  then have m: "?m = take 16 (hmac_sha256 P kaut (response_wire (eap_pdu_id p) res (zeros 16) ct pub))"
    by (simp add: ue_CalculateMac_def mac_input_wire blank_mac_def response_wire_def be16_0)
  have e: "resp = aka_packet p 1 (replaceMac ?m ?a)" and "u' = u\<lparr>m_eccPrivKey := [], m_eccPubKey := []\<rparr>"
    using r hyb by (simp_all add: aka_response_def Let_def)
  then show "u' = u\<lparr>m_eccPrivKey := [], m_eccPubKey := []\<rparr>" by blast
  show "EncodeEapPdu resp = response_wire (eap_pdu_id p)
      res (take 16 (hmac_sha256 P kaut (response_wire (eap_pdu_id p) res (zeros 16) ct pub))) ct pub"
  proof -
    have "EncodeEapPdu resp = aka_wire 2 (eap_pdu_id p) 1 (?x ?m)"
      unfolding e aka_packet_def using encode_aka [OF h, of ?m RESPONSE "eap_pdu_id p" 1] unfolding two by auto
    then show ?thesis unfolding m unfolding response_wire_def .
  qed
qed

lemma hybrid_keys:
  assumes ok: "aka_ok P" and pk: "length pkM = 1184" "length pkX = 32" "getAttribute AT_PUB_HYBRID a = 0 # pkM @ pkX"
    and enc: "kem_enc P pkM r = ((ct, ss), r')" "length ct = 1088" "length ss = 32"
    and len: "length ck' = 16" "length ik' = 16" "5 \<le> length (cf_supi cf)" "length (cf_supi cf) \<le> 15"
  obtains x pub mkf m' where "aka_hpqc P stk cf m ik' ck' a r = Return (mkf, m', r')" "length x = 32" "length pub = 32" "length mkf = 224"
    "ogs_kdf_prf_prime_fs (hmac_sha256 P) True ik' ck' (ss @ x) (ascii (cf_supi cf)) = Some (Some (take 208 mkf))"
    "m_mlkemCiphertext m' = ct" "m_eccPubKey m' = pub" "m_nonCurrentNsCtx m' = m_nonCurrentNsCtx m"
proof -
  let ?priv = "clamp (stk ''priv_X25519'')"
  let ?x = "x25519 P ?priv pkX" and ?pub = "x25519 P ?priv x25519_base"
  have l: "length ?x = 32" "length ?pub = 32" by (rule aka_okD(2) [OF ok])+
  have s: "subCopy 1 1184 (0 # pkM @ pkX) = Return pkM" "subCopy 1185 32 (0 # pkM @ pkX) = Return pkX"
    using pk by (simp_all add: subCopy_def slice_def)
  obtain mkf where mkf: "CalculateMkFs (hmac_sha256 P) ik' ck' (ss @ ?x) (cf_supi cf) = Return mkf" "length mkf = 224"
    "ogs_kdf_prf_prime_fs (hmac_sha256 P) True ik' ck' (ss @ ?x) (ascii (cf_supi cf)) = Some (Some (take 208 mkf))"
    using aka_okD(1) [OF ok] len enc by (rule_tac mk_fs_agrees [of "hmac_sha256 P" ik' ck' "ss @ ?x" "cf_supi cf"]) auto
  let ?m = "m\<lparr>m_eccPrivKey := ?priv, m_eccPubKey := ?pub, m_mlkemCiphertext := ct\<rparr>"
  have "aka_hpqc P stk cf m ik' ck' a r = Return (mkf, ?m, r')"
    using pk s enc mkf(1) len l by (simp add: aka_hpqc_def MlkemEncapsulate_def CalculateX25519SharedSecret_def Let_def)
  then show thesis by (rule that [OF _ l mkf(2,3)]) simp_all
qed

lemma ue_accepts:
  assumes ok: "aka_ok P" and prov: "same_subscription u a cf" and M: "M = milenage P (ud_opc u) (ud_k u) rnd (ud_sqn u) (ud_amf u)"
    and ck: "CalculateCkPrimeIkPrime (hmac_sha256 P) (mil_ck M) (mil_ik M) (ud_serving_network_name u) (xor_octets (ud_sqn u) (mil_ak M)) = (ck', ik')"
      "length ck' = 16" "length ik' = 16" "CalculateMk (hmac_sha256 P) ck' ik' (cf_supi cf) = Return mk" "length mk = 224"
    and len: "length rnd = 16" "length pkM = 1184" "length pkX = 32" "length mac = 16"
    and autn: "autn = xor_octets (ud_sqn u) (mil_ak M) @ ud_amf u @ mil_mac_a M" and snn: "snn = ud_serving_network_name u"
    and mac: "mac = take 16 (hmac_sha256 P (slice 16 32 mk) (challenge_wire rnd autn snn pkM pkX (zeros 16)))"
    and enc: "kem_enc P pkM r = ((ct, ss), r')" "length ct = 1088" "length ss = 32"
    and sqn: "checkSqn (m_sqnMng m) (sqn_of_octets (ud_sqn u)) = (True, s')" "getSqn s' = ud_sqn u"
    and rq: "rq_eap rq = Some (challenge_pdu rnd autn snn pkM pkX mac)" "\<not> rq_mapped rq" "rq_ksi rq \<noteq> 7" "\<not> ksi_in_use (rq_ksi rq) m"
  obtains resp m' ctx x pub mkf where
    "receiveAuthenticationRequestEap P stk cf rq m r = Return ([Auth_response resp], m', r')" "m_nonCurrentNsCtx m' = Some ctx"
    "EncodeEapPdu resp = response_wire 1 (mil_res M)
       (take 16 (hmac_sha256 P (slice 16 32 mk) (response_wire 1 (mil_res M) (zeros 16) ct pub))) ct pub"
    "length x = 32" "length pub = 32" "length mkf = 224"
    "ogs_kdf_prf_prime_fs (hmac_sha256 P) True ik' ck' (ss @ x) (ascii (cf_supi cf)) = Some (Some (take 208 mkf))"
    "kAusf (ns_keys ctx) = slice 96 32 mkf"
    "kSeaf (ns_keys ctx) = CalculateKdfKey (hmac_sha256 P) (slice 96 32 mkf) 0x6C [ascii snn]"
proof -
  let ?a = "attrs_of (challenge_attrs rnd autn snn pkM pkX @ [(0x0B, 0 # 0 # mac)])" and ?kaut = "slice 16 32 mk"
  let ?m = "m\<lparr>m_sqnMng := s', m_t3516 := True\<rparr>"
  note p = prov [unfolded same_subscription_def]
  have ls: "length snn = 32" using subscription_snn [OF prov] snn by simp
  note f = challenge_fields [OF ls, of rnd autn pkM pkX mac]
  have res: "length (mil_res M) = 8" "length (mil_ak M) = 6" "length (mil_mac_a M) = 8" unfolding M by (rule aka_okD [OF ok])+
  then have la: "length autn = 16" using autn p by simp
  have cm: "calculateMilenage P cf (ud_sqn u) rnd False = M" using p by (simp add: calculateMilenage_def M)
  obtain mcc mnc where plmn: "cf_plmn cf = Some (mcc, mnc)" "ConstructServingNetworkName mcc mnc = Return snn"
    using p snn by (auto split: option.splits)
  have v: "validateAutn P cf (m_sqnMng m) rnd autn = (Autn_ok, s')" unfolding autn by (rule autn_valid [OF ok prov M sqn(1)])
  have "5 \<le> length (cf_supi cf)" "length (cf_supi cf) \<le> 15" using p by auto
  then obtain x pub mkf mh where h: "aka_hpqc P stk cf ?m ik' ck' ?a r = Return (mkf, mh, r')" "length x = 32" "length pub = 32" "length mkf = 224"
    "ogs_kdf_prf_prime_fs (hmac_sha256 P) True ik' ck' (ss @ x) (ascii (cf_supi cf)) = Some (Some (take 208 mkf))"
    "m_mlkemCiphertext mh = ct" "m_eccPubKey mh = pub"
    by (rule hybrid_keys [OF ok len(2,3) f(6) enc ck(2,3), of cf stk ?m])
  define K where "K = DeriveKeysSeafAmf (hmac_sha256 P) (cf_supi cf) snn
      \<lparr>keys_abba = rq_abba rq, kAusf = slice 96 32 mkf, kSeaf = [], kAmf = [], kNasInt = [], kNasEnc = []\<rparr>"
  define mr where "mr = mh\<lparr>m_rand := rnd, m_resStar := [],
      m_nonCurrentNsCtx := Some \<lparr>ns_mapped = rq_mapped rq, ns_ngKsi = rq_ksi rq, ns_keys = K\<rparr>,
      m_nwConsecutiveAuthFailure := 0, m_t3520 := False\<rparr>"
  let ?pdu = "challenge_pdu rnd autn snn pkM pkX mac"
  obtain resp m' where r: "aka_response P ?pdu ?kaut (mil_res M) False True mr = (resp, m')" by fastforce
  have hyb: "m_mlkemCiphertext mr = ct" "m_eccPubKey mr = pub" using h by (simp_all add: mr_def)
  note e = response_encodes [OF res(1) hyb r]
  have k: "subCopy 16 32 mk = Return ?kaut" "CalculateKAusfForEapAkaPrimeFs mkf = Return (slice 96 32 mkf)"
    using ck(5) h(4) by (simp_all add: subCopy_def CalculateKAusfForEapAkaPrimeFs_def slice_def)
  have acc: "aka_accept P stk cf snn rq ?pdu ?a ?m r = Return ([Auth_response resp], m', r')"
    using ck sqn(2) h(1) k r
    by (simp add: aka_accept_def f cm challenge_mac mac [symmetric] Let_def snn [symmetric] flip: K_def mr_def)
  have recv: "receiveAuthenticationRequestEap P stk cf rq m r = Return ([Auth_response resp], m', r')"
    using plmn rq v acc by (simp add: receiveAuthenticationRequestEap_def f len la Let_def)
  obtain ctx where ctx: "m_nonCurrentNsCtx m' = Some ctx" "ns_keys ctx = K" using e(2) by (simp add: mr_def)
  have "kAusf (ns_keys ctx) = slice 96 32 mkf" "kSeaf (ns_keys ctx) = CalculateKdfKey (hmac_sha256 P) (slice 96 32 mkf) 0x6C [ascii snn]"
    unfolding ctx(2) K_def by (simp_all add: DeriveKeysSeafAmf_def Let_def)
  with e(1) show thesis by (intro that [OF recv ctx(1) _ h(2-5)]) simp
qed

section \<open>The confirmation\<close>

lemma response_octets:
  assumes "length res = 8" "length mac = 16" "length ct = 1088" "length pub = 32"
  obtains hi lo hi' lo' where "response_wire ident res mac ct pub =
    [2, ident, hi, lo, 50, 1, 0, 0, 3, 3, 0, 64] @ res @ [11, 5, 0, 0] @ mac @ [24, 1, 0, 1, 160, hi', lo'] @ ct @ pub"
proof -
  obtain hi lo where "be16 1167 = [hi, lo]" by (simp add: be16_def)
  moreover obtain hi' lo' where "be16 281 = [hi', lo']" by (simp add: be16_def)
  ultimately show thesis
    using assms by (intro that) (simp add: response_wire_def aka_wire_def attr_wire_def Let_def)
qed

text \<open>The parser steps over the last octet of RES and the last three of the MAC as if they were types of attributes; it finds
  the attributes if none of these four octets is such a type.\<close>

definition attribute_types :: "byte list" where
  "attribute_types = [0x03, 0x0B, 0x18, 0x98, 0xA0]"

definition parses :: "bytes \<Rightarrow> bool" where
  "parses q \<longleftrightarrow> at_mac_offset q = Some 20 \<and> list_all (\<lambda>i. q ! i \<notin> set attribute_types) [19, 37, 38, 39]"

lemma parse_response:
  assumes len: "length res = 8" "length mac = 16" "length ct = 1088" "length pub = 32" and q: "q = response_wire ident res mac ct pub"
    and p: "parses q"
  shows "parse_eap_aka_prime q = \<lparr>msg_res = Some 12, msg_mac = Some 24, msg_kdf = Some 41, msg_pub_ecdhe = None, msg_pub_hybrid = Some 47\<rparr>"
    "length q = 1167" "slice 12 7 q = take 7 res" "slice 24 16 q = mac" "slice 47 1088 q = ct" "slice 1135 32 q = pub"
proof -
  obtain hi lo hi' lo' where w: "q = [2, ident, hi, lo, 50, 1, 0, 0, 3, 3, 0, 64] @ res @ [11, 5, 0, 0] @ mac @ [24, 1, 0, 1, 160, hi', lo'] @ ct @ pub"
    using response_octets [OF len] q by metis
  show l: "length q = 1167" using w len by simp
  show "slice 12 7 q = take 7 res" "slice 24 16 q = mac" "slice 47 1088 q = ct" "slice 1135 32 q = pub"
    using w len by (simp_all add: slice_def)
  have t: "q ! 7 = 0" "q ! 8 = 3" "q ! 20 = 11" "q ! 40 = 24" "q ! 44 = 160" using w len by (simp_all add: nth_append)
  have skip: "parse_while q i msg = parse_while q (i + 1) msg" if "i < 1167" "q ! i \<notin> set attribute_types" for i msg
    using that l by (subst parse_while.simps) (simp add: attribute_types_def)
  have f: "q ! 19 \<notin> set attribute_types" "q ! 37 \<notin> set attribute_types" "q ! 38 \<notin> set attribute_types" "q ! 39 \<notin> set attribute_types"
    using p by (simp_all add: parses_def)
  let ?m0 = "\<lparr>msg_res = None, msg_mac = None, msg_kdf = None, msg_pub_ecdhe = None, msg_pub_hybrid = None\<rparr>"
  have "parse_while q 7 ?m0 = parse_while q 8 ?m0" using skip [of 7] t by (simp add: attribute_types_def)
  also have "\<dots> = parse_while q 19 (?m0\<lparr>msg_res := Some 12\<rparr>)" using l t by (subst parse_while.simps) simp
  also have "\<dots> = parse_while q 20 (?m0\<lparr>msg_res := Some 12\<rparr>)" using skip [of 19] f by simp
  also have "\<dots> = parse_while q 37 (?m0\<lparr>msg_res := Some 12, msg_mac := Some 24\<rparr>)" using l t by (subst parse_while.simps) simp
  also have "\<dots> = parse_while q 40 (?m0\<lparr>msg_res := Some 12, msg_mac := Some 24\<rparr>)" using skip [of 37] skip [of 38] skip [of 39] f by simp
  also have "\<dots> = parse_while q 44 (?m0\<lparr>msg_res := Some 12, msg_mac := Some 24, msg_kdf := Some 41\<rparr>)"
    using l t by (subst parse_while.simps) simp
  also have "\<dots> = parse_while q 1167 (?m0\<lparr>msg_res := Some 12, msg_mac := Some 24, msg_kdf := Some 41, msg_pub_hybrid := Some 47\<rparr>)"
    using l t by (subst parse_while.simps) simp
  also have "\<dots> = \<lparr>msg_res = Some 12, msg_mac = Some 24, msg_kdf = Some 41, msg_pub_ecdhe = None, msg_pub_hybrid = Some 47\<rparr>"
    using l by (subst parse_while.simps) simp
  finally show "parse_eap_aka_prime q = \<lparr>msg_res = Some 12, msg_mac = Some 24, msg_kdf = Some 41, msg_pub_ecdhe = None, msg_pub_hybrid = Some 47\<rparr>"
    by (simp add: parse_eap_aka_prime_def)
qed

lemma kseaf_agrees:
  assumes "length snn = 32" "length k = 32"
  shows "ogs_kdf_kseaf H snn k = Some (CalculateKdfKey H k 0x6C [ascii snn])"
proof -
  have "k \<noteq> []" "ascii snn \<noteq> []" using assms by (auto simp: ascii_def)
  then show ?thesis using assms by (auto simp: ogs_kdf_kseaf_def intro: kdf_common_agrees)
qed

lemma ausf_confirms:
  assumes ok: "aka_ok P" and len: "length res = 8" "length ct = 1088" "length pub = 32" "length ss = 32" "length x = 32" "length mkf = 224"
    and mac: "mac = take 16 (hmac_sha256 P kaut (response_wire ident res (zeros 16) ct pub))"
    and q: "q = response_wire ident res mac ct pub" "parses q"
    and a: "au_auth_type a = EAP_AKA_PRIME" "au_k_aut a = kaut" "take 7 (au_xres a) = take 7 res" "kem_dec P ct (au_mlkem_sk a) = ss"
      "au_supi a = Some (''imsi-'' @ supi)" "length (au_serving_network_name a) = 32" "take 16 (au_ik_prime a) = ik'" "take 16 (au_ck_prime a) = ck'"
    and mkf: "ogs_kdf_prf_prime_fs (hmac_sha256 P) True ik' ck' (ss @ x) (ascii supi) = Some (Some (take 208 mkf))"
  shows "\<exists>a'. ausf_nausf_auth_handle_authenticate_confirmation P True stk a (Some \<lparr>cd_res_star = Some rs, cd_eap_payload = Some q\<rparr>) =
      Some (True, Result_inform, a') \<and> au_auth_result a' = AUTHENTICATION_SUCCESS \<and> au_kausf a' = slice 96 32 mkf \<and>
    map_option au_kseaf (ausf_derive_kseaf P a') = Some (CalculateKdfKey (hmac_sha256 P) (slice 96 32 mkf) 0x6C [ascii (au_serving_network_name a)])"
proof -
  have lmac: "length mac = 16" using mac aka_okD(1) [OF ok] by simp
  note p = parse_response [OF len(1) lmac len(2,3) q]
  let ?msg = "parse_eap_aka_prime q"
  have r: "read_at q 47 1088 = Some ct" "read_at q 1135 32 = Some pub" "read_at q 24 16 = Some mac" "read_at q 12 7 = Some (take 7 res)"
    using p by (simp_all add: read_at_def)
  let ?y = "x25519 P (au_priv_key a) pub"
  have "ogs_kdf_prf_prime_fs (hmac_sha256 P) True ik' ck' (ss @ ?y) (ascii supi) = Some (Some (take 208 mkf))"
    using mkf len by (simp add: ogs_kdf_prf_prime_fs_def)
  then have m': "ausf_fs_master P True (a\<lparr>au_eap_payload := q\<rparr>) (ss @ ?y) old = Some (take 208 mkf)" for old
    using a by (simp add: ausf_fs_master_def)
  have y: "take 32 ?y = ?y" using aka_okD(2) [OF ok] by simp
  let ?v = "store_fs_keys (a\<lparr>au_eap_payload := q, au_mk_hybrid := take 208 mkf\<rparr>) (take 208 mkf)"
  have fs: "ausf_forward_secrecy P True (a\<lparr>au_eap_payload := q\<rparr>) q ?msg = Some ?v"
    using r m' y a len unfolding p(1) by (simp add: ausf_forward_secrecy_def)
  have "CalculateMacForEapAkaPrime (hmac_sha256 P) True kaut q = Some mac"
    using network_mac [of mac 20 "[(0x03, [0, 64] @ res)]" 2 ident 1 "[(0x18, [0, 1]), (0xA0, ct @ pub)]" "hmac_sha256 P" kaut] lmac q p(2) len mac
    by (simp add: response_wire_def parses_def)
  then have cm: "ausf_check_mac P True ?v q ?msg = Some (True, ?v)"
    using a r unfolding p(1) by (simp add: ausf_check_mac_def store_fs_keys_def)
  have "au_xres ?v = au_xres a" by (simp add: store_fs_keys_def)
  then have "ausf_check_response P True a q = Some (True, Result_inform,
      ?v\<lparr>au_auth_result := AUTHENTICATION_SUCCESS, au_eap_success := Some (build_eap_success (au_eap_identifier ?v)), au_auth_type := EAP_AKA_PRIME\<rparr>)"
    using fs cm r a len p(2) unfolding p(1) by (simp add: ausf_check_response_def p(1) logged_def)
  moreover have "q \<noteq> []" using p(2) by auto
  moreover have "ogs_kdf_kseaf (hmac_sha256 P) snn (slice 96 32 mkf) = Some (CalculateKdfKey (hmac_sha256 P) (slice 96 32 mkf) 0x6C [ascii snn])"
    if "length snn = 32" for snn
    using kseaf_agrees [of snn "slice 96 32 mkf" "hmac_sha256 P"] len that by simp
  ultimately show ?thesis
    using a p(2) by (simp add: ausf_nausf_auth_handle_authenticate_confirmation_def ausf_derive_kseaf_def store_fs_keys_def slice_def drop_take)
qed

section \<open>The run\<close>

text \<open>The AUSF accepts the packet \<open>q\<close> and has the keys of the UE's security context \<open>ctx\<close>.\<close>

definition keys_confirmed :: "'r aka_prims \<Rightarrow> bytes \<Rightarrow> bytes \<Rightarrow> ausf_ue \<Rightarrow> bytes \<Rightarrow> ns_ctx \<Rightarrow> bool" where
  "keys_confirmed P stk rs a q ctx \<longleftrightarrow>
     (case ausf_nausf_auth_handle_authenticate_confirmation P True stk a (Some \<lparr>cd_res_star = Some rs, cd_eap_payload = Some q\<rparr>) of
        Some (True, Result_inform, a') \<Rightarrow>
          au_auth_result a' = AUTHENTICATION_SUCCESS \<and> au_kausf a' = kAusf (ns_keys ctx) \<and>
          map_option au_kseaf (ausf_derive_kseaf P a') = Some (kSeaf (ns_keys ctx))
      | _ \<Rightarrow> False)"


section \<open>A run with the toy primitives\<close>

definition toy_udm :: udm_ue where
  "toy_udm = \<lparr>ud_supi = ''imsi-00101'', ud_serving_network_name = ''5G:mnc001.mcc001.3gppnetwork.org'', ud_k = zeros 16, ud_opc = zeros 16,
     ud_amf = [0x80, 0], ud_rand = [], ud_sqn = [0, 0, 0, 0, 0, 4], ud_k_aut = [], ud_auth_type = EAP_AKA_PRIME\<rparr>"

definition toy_mm :: ue_mm where
  "toy_mm = \<lparr>m_rand = [], m_resStar = [], m_currentNsCtx = None, m_nonCurrentNsCtx = None, m_sqnMng = toy_sqn, m_eccPrivKey = [],
     m_eccPubKey = [], m_mlkemCiphertext = [], m_nwConsecutiveAuthFailure = 0, m_t3516 = False, m_t3520 = False, m_cm_connected = True\<rparr>"

lemma toy_aka_ok: "aka_ok toy_aka"
  by (auto simp: aka_ok_def toy_aka_def)

lemma toy_subscription: "same_subscription toy_udm toy_ausf toy_ue"
proof -
  have "ConstructServingNetworkName 1 1 = Return ''5G:mnc001.mcc001.3gppnetwork.org''" by code_simp
  then show ?thesis by (simp add: same_subscription_def toy_udm_def toy_ausf_def toy_ue_def)
qed

lemma toy_fresh: "checkSqn (m_sqnMng toy_mm) (sqn_of_octets (ud_sqn toy_udm)) = (True, toy_sqn\<lparr>m_sqnArr := [4, 0, 0, 0]\<rparr>)"
  "getSqn (toy_sqn\<lparr>m_sqnArr := [4, 0, 0, 0]\<rparr>) = ud_sqn toy_udm"
  by code_simp+

definition toy_av :: auth_vector where
  "toy_av = \<lparr>av_type = FIVE_G_AKA, av_rand = Some (zeros 16), av_autn = Some ([0, 0, 0, 0, 0, 4, 0x80, 0] @ zeros 8),
     av_xres_star = Some (zeros 16), av_kausf = Some (zeros 32), av_xres = Some (zeros 16), av_ck_prime = Some (zeros 32),
     av_ik_prime = Some (zeros 32), av_k_aut = Some (zeros 32)\<rparr>"

lemma toy_vector: "\<exists>u'. udm_authentication_vector toy_aka True (\<lambda>_. zeros 16) toy_udm () = Some (toy_av, u', ())"
proof -
  let ?H = "hmac_sha256 toy_aka" and ?snn = "''5G:mnc001.mcc001.3gppnetwork.org''"
  have H: "?H = (\<lambda>k m. zeros 32)" by (simp add: toy_aka_def)
  have kausf: "ogs_kdf_kausf ?H (zeros 16) (zeros 16) ?snn ([0, 0, 0, 0, 0, 4, 0x80, 0] @ zeros 8) = Some (zeros 32)"
    unfolding H by (simp add: ogs_kdf_kausf_def ogs_kdf_common_def kdf_len_def)
  have xres: "ogs_kdf_xres_star ?H (zeros 16) (zeros 16) ?snn (zeros 16) (zeros 8) = Some (zeros 16)"
    unfolding H by (simp add: ogs_kdf_xres_star_def ogs_kdf_common_def kdf_len_def slice_def)
  have ck: "ogs_kdf_ckprime_ikprime ?H (zeros 16) (zeros 16) ?snn [0, 0, 0, 0, 0, 4] = Some (zeros 16, zeros 16)"
    unfolding H by (simp add: ogs_kdf_ckprime_ikprime_def Let_def slice_def)
  have mk: "ogs_kdf_prf_prime ?H True (zeros 16) (zeros 16) (ascii ''00101'') = Some (zeros 208)" by code_simp
  have x: "xor6 [0, 0, 0, 0, 0, 4] (zeros 6) = [0, 0, 0, 0, 0, 4]" by code_simp
  have m: "ogs_random toy_aka 16 () = (zeros 16, ())" "milenage toy_aka opc k rand sqn amf =
      \<lparr>mil_res = zeros 8, mil_ck = zeros 16, mil_ik = zeros 16, mil_ak = zeros 6, mil_ak_r = zeros 6, mil_mac_a = zeros 8, mil_mac_s = zeros 8\<rparr>"
    for opc k rand sqn amf by (simp_all add: toy_aka_def)
  show ?thesis
    using kausf xres ck mk by (simp add: udm_authentication_vector_def toy_udm_def toy_av_def m x Let_def slice_def flip: replicate_add)
qed

lemma at_mac_first:
  assumes "p = pre @ [0x0B, 5] @ post" "0x0B \<notin> set pre" "post \<noteq> []" "k = length pre"
  shows "at_mac_offset p = Some k"
proof -
  have "p ! i \<noteq> 0x0B" if "i < k" for i using assms that by (metis nth_append nth_mem)
  then show ?thesis using assms by (auto simp: at_mac_offset_iff nth_append neq_Nil_conv)
qed

lemma toy_challenge:
  obtains hash a' where "ausf_nudm_ueau_handle_get toy_aka True [] Map.empty toy_ausf
      (Some \<lparr>ai_auth_type = EAP_AKA_PRIME, ai_vector = Some toy_av, ai_supi = Some (ud_supi toy_udm)\<rparr>) () =
    Some (True, Eap_challenge (challenge_wire (zeros 16) ([0, 0, 0, 0, 0, 4, 0x80, 0] @ zeros 8) (au_serving_network_name toy_ausf)
      (zeros 1184) (zeros 32) (zeros 16)), hash, a', ())"
    "at_mac_offset (challenge_wire (zeros 16) ([0, 0, 0, 0, 0, 4, 0x80, 0] @ zeros 8) (au_serving_network_name toy_ausf)
      (zeros 1184) (zeros 32) (zeros 16)) = Some 1312"
proof -
  let ?autn = "[0, 0, 0, 0, 0, 4, 0x80, 0] @ zeros 8 :: bytes" and ?snn = "au_serving_network_name toy_ausf"
  let ?x = "challenge_attrs (zeros 16) ?autn ?snn (zeros 1184) (zeros 32)"
  let ?p = "challenge_wire (zeros 16) ?autn ?snn (zeros 1184) (zeros 32) (zeros 16)"
  have l: "length (zeros 16 :: bytes) = 16" "length ?autn = 16" "length ?snn = 32" "length (zeros 1184 :: bytes) = 1184" "length (zeros 32 :: bytes) = 32"
    by (simp_all add: toy_ausf_def)
  note len = challenge_attrs_len [OF l]
  have off: "at_mac_offset ?p = Some 1312"
  proof (rule at_mac_first)
    let ?pre = "[1, 1] @ be16 1332 @ [50, 1, 0, 0] @ concat (map attr_wire ?x)"
    show "?p = ?pre @ [0x0B, 5] @ [0, 0] @ zeros 16"
      using len(1) by (simp add: challenge_wire_def aka_wire_def attr_wire_def Let_def)
    have "0x0B \<notin> set (concat (map attr_wire ?x))"
      by (simp add: challenge_attrs_def attr_wire_def toy_ausf_def ascii_def be16_def)
    then show "0x0B \<notin> set ?pre" by (simp add: be16_def)
    show "1312 = length ?pre" using len(1) by simp
  qed simp
  have "CalculateMacForEapAkaPrime (hmac_sha256 toy_aka) True (zeros 32) ?p = Some (zeros 16)"
    using network_mac [of "zeros 16" 1312 ?x 1 1 1 "[]" "hmac_sha256 toy_aka" "zeros 32"] off len
    by (simp add: challenge_wire_def toy_aka_def)
  moreover have "poke ?p 1316 (zeros 16) = ?p"
    using poke_mac [of "zeros 16" "zeros 16" 1 1 1 ?x "[]"] len(1) by (simp add: challenge_wire_def)
  moreover have "generate_x25519_keypair toy_aka () = ((clamp (zeros 32), zeros 32), ())" "kem_keygen toy_aka () = ((zeros 1184, zeros 2400), ())"
    by (simp_all add: generate_x25519_keypair_def toy_aka_def)
  ultimately have "\<exists>hash a'. ausf_nudm_ueau_handle_get toy_aka True [] Map.empty toy_ausf
      (Some \<lparr>ai_auth_type = EAP_AKA_PRIME, ai_vector = Some toy_av, ai_supi = Some (ud_supi toy_udm)\<rparr>) () = Some (True, Eap_challenge ?p, hash, a', ())"
    using challenge_packet_wire [OF l] len(2) [of "zeros 16"]
    by (simp add: ausf_nudm_ueau_handle_get_def ausf_eap_challenge_def toy_av_def Let_def)
  with off show thesis using that by blast
qed

lemma toy_response:
  assumes "length ct = 1088" "length pub = 32"
  shows "parses (response_wire 1 (zeros 8) (zeros 16) ct pub)"
proof -
  let ?q = "response_wire 1 (zeros 8) (zeros 16) ct pub"
  have l: "length (zeros 8 :: bytes) = 8" "length (zeros 16 :: bytes) = 16" by simp_all
  have q: "?q = ([2, 1, 4, 143, 50, 1, 0, 0, 3, 3, 0, 64] @ zeros 8) @ [0x0B, 5] @ ([0, 0] @ zeros 16 @ [24, 1, 0, 1, 160] @ be16 281 @ ct @ pub)"
    using assms by (simp add: response_wire_def aka_wire_def attr_wire_def Let_def be16_def)
  have "at_mac_offset ?q = Some 20" by (rule at_mac_first [OF q]) simp_all
  moreover have "?q ! i = 0" if "i \<in> {19, 37, 38, 39}" for i using that unfolding q by (auto simp: nth_append)
  ultimately show ?thesis by (simp add: parses_def attribute_types_def)
qed

lemma toy_answer:
  fixes rq
  defines "pdu \<equiv> challenge_pdu (zeros 16) ([0, 0, 0, 0, 0, 4, 0x80, 0] @ zeros 8) (au_serving_network_name toy_ausf) (zeros 1184) (zeros 32) (zeros 16)"
  assumes rq: "\<not> rq_mapped rq" "rq_ksi rq \<noteq> 7" "\<not> ksi_in_use (rq_ksi rq) toy_mm"
  shows "\<exists>resp m' r'. receiveAuthenticationRequestEap toy_aka stk toy_ue (rq\<lparr>rq_eap := Some pdu\<rparr>) toy_mm () = Return ([Auth_response resp], m', r') \<and>
    parses (EncodeEapPdu resp) \<and> m_nonCurrentNsCtx m' \<noteq> None"
proof -
  let ?H = "hmac_sha256 toy_aka"
  have H: "?H k m = zeros 32" for k m by (simp add: toy_aka_def)
  obtain rnd r' M ck' ik' mk av u' where v: "length rnd = 16" "M = milenage toy_aka (ud_opc toy_udm) (ud_k toy_udm) rnd (ud_sqn toy_udm) (ud_amf toy_udm)"
    "CalculateCkPrimeIkPrime ?H (mil_ck M) (mil_ik M) (ud_serving_network_name toy_udm) (xor_octets (ud_sqn toy_udm) (mil_ak M)) = (ck', ik')"
    "length ck' = 16" "length ik' = 16" "CalculateMk ?H ck' ik' (cf_supi toy_ue) = Return mk" "length mk = 224"
    "udm_authentication_vector toy_aka True (\<lambda>_. zeros 16) toy_udm () = Some (av, u', r')"
    "av_rand av = Some rnd" "av_autn av = Some (xor_octets (ud_sqn toy_udm) (mil_ak M) @ ud_amf toy_udm @ mil_mac_a M)"
    by (rule udm_vector [OF toy_aka_ok toy_subscription, of "\<lambda>_. zeros 16" "()"])
  have av: "av = toy_av" using v(8) toy_vector by auto
  have rnd: "rnd = zeros 16" and autn: "[0, 0, 0, 0, 0, 4, 0x80, 0] @ zeros 8 = xor_octets (ud_sqn toy_udm) (mil_ak M) @ ud_amf toy_udm @ mil_mac_a M"
    using v(9,10) unfolding av by (simp_all add: toy_av_def)
  have snn: "au_serving_network_name toy_ausf = ud_serving_network_name toy_udm" by (simp add: toy_ausf_def toy_udm_def)
  have res: "mil_res M = zeros 8" by (simp add: v(2) toy_aka_def)
  have enc: "kem_enc toy_aka (zeros 1184) () = ((zeros 1088, zeros 32), ())" by (simp add: toy_aka_def)
  let ?rq = "rq\<lparr>rq_eap := Some pdu\<rparr>"
  have rq': "rq_eap ?rq = Some pdu" "\<not> rq_mapped ?rq" "rq_ksi ?rq \<noteq> 7" "\<not> ksi_in_use (rq_ksi ?rq) toy_mm" using rq by simp_all
  have mac: "zeros 16 = take 16 (?H (slice 16 32 mk) x)" for x by (simp add: H)
  have l: "length (zeros 16 :: bytes) = 16" "length (zeros 1184 :: bytes) = 1184" "length (zeros 32 :: bytes) = 32" "length (zeros 1088 :: bytes) = 1088"
    by simp_all
  obtain resp m' pub ctx where "receiveAuthenticationRequestEap toy_aka stk toy_ue ?rq toy_mm () = Return ([Auth_response resp], m', ())"
    "m_nonCurrentNsCtx m' = Some ctx"
    "EncodeEapPdu resp = response_wire 1 (mil_res M) (take 16 (?H (slice 16 32 mk) (response_wire 1 (mil_res M) (zeros 16) (zeros 1088) pub))) (zeros 1088) pub"
    "length pub = 32"
    by (rule ue_accepts [OF toy_aka_ok toy_subscription v(2) [unfolded rnd] v(3-7) l(1,2,3,1) autn snn mac enc l(4,3) toy_fresh rq' [unfolded pdu_def], of stk, folded pdu_def])
  then show ?thesis using toy_response [of "zeros 1088" pub] by (auto simp: H res)
qed


section \<open>The UE's decision\<close>

text \<open>
  C8.  The UE replaces its stored security context only on a challenge it has authenticated: an EAP-AKA' challenge for KDF 1 and
  the name of the UE's serving network, under a key set identifier not in use, with an AUTN the USIM accepts and an AT_MAC that is right under
  the \<open>K_aut\<close> of the UE's own key.\<close>

theorem ue_context_authenticated:
  assumes "receiveAuthenticationRequestEap P stk cf rq m r = Return (out, m', r')" "m_nonCurrentNsCtx m' \<noteq> m_nonCurrentNsCtx m"
  shows "\<exists>p a mcc mnc snn s kaut. rq_eap rq = Some p \<and> eap_body p = EapAkaPrime 1 a \<and> getKdf a = 1 \<and>
    cf_plmn cf = Some (mcc, mnc) \<and> ConstructServingNetworkName mcc mnc = Return snn \<and> getKdfInput a = ascii snn \<and>
    \<not> rq_mapped rq \<and> rq_ksi rq \<noteq> 7 \<and> \<not> ksi_in_use (rq_ksi rq) m \<and>
    validateAutn P cf (m_sqnMng m) (getReserved AT_RAND a) (getReserved AT_AUTN a) = (Autn_ok, s) \<and> m_sqnMng m' = s \<and>
    ue_kaut P cf snn s (getReserved AT_RAND a) = Return kaut \<and>
    getReserved AT_MAC a = take 16 (hmac_sha256 P kaut (mac_input (eap_code p) (eap_pdu_id p) 1 a))"
proof -
  obtain p a mcc mnc where p: "rq_eap rq = Some p" "eap_body p = EapAkaPrime 1 a" "cf_plmn cf = Some (mcc, mnc)"
    using assms by (auto simp: receiveAuthenticationRequestEap_def Let_def split: option.splits eap_body.splits if_splits)
  let ?v = "validateAutn P cf (m_sqnMng m) (getReserved AT_RAND a) (getReserved AT_AUTN a)"
  obtain snn s where g: "getKdf a = 1"
    "ConstructServingNetworkName mcc mnc = Return snn" "getKdfInput a = ascii snn" "\<not> rq_mapped rq" "rq_ksi rq \<noteq> 7" "\<not> ksi_in_use (rq_ksi rq) m"
    "fst ?v = Autn_ok" "s = snd ?v"
    "aka_accept P stk cf snn rq p a (m\<lparr>m_sqnMng := s, m_t3516 := True\<rparr>) r = Return (out, m', r')"
    using assms p
    by (auto simp: receiveAuthenticationRequestEap_def cpp_bind_Return Let_def split_beta split: if_splits autn_check.splits)
  have "m_nonCurrentNsCtx m' \<noteq> m_nonCurrentNsCtx (m\<lparr>m_sqnMng := s, m_t3516 := True\<rparr>)" using assms(2) by simp
  from accept_installs [OF g(9) this] p g(1-8) show ?thesis by (auto simp: ue_CalculateMac_def prod_eq_iff)
qed

theorem ue_context_authenticated_witness:
  "\<exists>(rq :: auth_request) p a s out m' r'. receiveAuthenticationRequestEap toy_aka (\<lambda>_. []) toy_ue rq toy_mm () = Return (out, m', r') \<and>
    rq_eap rq = Some p \<and> eap_body p = EapAkaPrime 1 a \<and>
    validateAutn toy_aka toy_ue toy_sqn (getReserved AT_RAND a) (getReserved AT_AUTN a) = (Autn_ok, s) \<and> m_sqnMng m' = s"
proof -
  let ?rq = "\<lparr>rq_eap = None, rq_mapped = False, rq_ksi = 0, rq_abba = [0, 0]\<rparr>"
  have "\<not> rq_mapped ?rq" "rq_ksi ?rq \<noteq> 7" "\<not> ksi_in_use (rq_ksi ?rq) toy_mm" by (simp_all add: ksi_in_use_def toy_mm_def)
  from toy_answer [OF this, of "\<lambda>_. []"] obtain rq out m' r' where
    r: "receiveAuthenticationRequestEap toy_aka (\<lambda>_. []) toy_ue rq toy_mm () = Return (out, m', r')" "m_nonCurrentNsCtx m' \<noteq> None" by blast
  have "m_nonCurrentNsCtx m' \<noteq> m_nonCurrentNsCtx toy_mm" using r(2) by (simp add: toy_mm_def)
  moreover have "m_sqnMng toy_mm = toy_sqn" by (simp add: toy_mm_def)
  ultimately show ?thesis using ue_context_authenticated [OF r(1)] r(1) by metis
qed

end
