(* ===== verification/Spec2Isabelle.thy ===== *)
theory Spec2Isabelle
  imports Bootstrap Provision Bench_Radius Ue_Nas Aka_Run
begin

text \<open>
  \<^bold>\<open>EdhocSecondaryAuth\<close>: secondary authentication of a 5G PDU session with EAP-EDHOC.

  \<^bold>\<open>The program.\<close>  A UE that has a PDU session authenticates a second time, to the AAA server of the
  data network.  The SMF (\<open>src/open5gs/src/smf\<close>) starts the dialogue when the session's resources
  are set up and carries EAP packets between the UE, in NAS messages that the AMF forwards, and the
  UPF (\<open>src/open5gs/src/upf/eap-relay.c\<close>), which turns them into RADIUS requests.  The FreeRADIUS sub-module
  \<open>rlm_eap_edhoc\<close> runs the responder of EDHOC: methods 0 to 3 (\<open>src/edhoc4/edhoc03.c\<close>) and a
  post-quantum method 4 (\<open>src/edhoc4/edhoc4.c\<close>), fragmented into EAP packets.  The initiator is the UE
  (\<open>src/UERANSIM/src/ue/nas/sm/transport.cpp\<close>, method 4 only) or the benchmark client
  (\<open>src/benchmark/e2e_radius_bench.c\<close>).  From the exported EMSK,
  \<open>src/bootstrap/bootstrap.c\<close> derives the OSCORE contexts of the application.  Before any of this the UE has
  authenticated to the core network, for which the project extends EAP-AKA' by forward secrecy, with X25519 or in a hybrid with
  ML-KEM, in the UDM and the AUSF (\<open>src/open5gs/src/udm\<close>, \<open>src/open5gs/src/ausf\<close>) and in the UE
  (\<open>src/UERANSIM/src/ue/nas/mm/auth.cpp\<close>).

  \<^bold>\<open>Conventions.\<close>  Octets are \<open>8 word\<close>, octet strings lists; a C array that is filled from its start is
  the list of the octets written, a fixed array that is updated is a list of fixed length and
  \<open>memcpy\<close> into it is \<open>poke\<close>; C structures are records with the C names (prefixed where two
  structures share a name).  Code outside the repository (libsodium, PQClean, OpenSSL, sockets, the
  environment, \<open>rand\<close>, the file system, allocation) is a parameter of the definitions; what is assumed
  of the primitives is \<open>crypto_ok\<close>, and \<open>toy\<close> is an instance of it for the witnesses; for primary authentication, whose
  primitives are vendored code (HMAC-SHA256, Milenage, X25519, ML-KEM), these are \<open>aka_ok\<close> and \<open>toy_aka\<close>.  A return
  code is a value; \<open>None\<close> of a protocol handler is a write past a stack buffer.

  \<^bold>\<open>Theories.\<close>
  \<^item> \<open>Prelude\<close>: octets, sub-ranges, 16-bit fields, files, and the calculus \<open>sat\<close> that takes a
    handler apart branch by branch.  \<open>Primitives\<close>: the record of primitives, its laws, the AEAD interface
    \<open>aead_channel\<close>.  \<open>Kdf\<close>: the interface of the HKDF expansion loops against RFC 5869.
  \<^item> \<open>Edhoc4_Core\<close>, \<open>Edhoc4\<close>, \<open>Edhoc4_Run\<close>, \<open>Edhoc4_Props\<close>: \<open>edhoc4.c\<close>.  The handshake of provisioned
    peers succeeds and agrees; a message is accepted only after AEAD, MAC and signature verified;
    return codes, credentials on disk, HKDF, and exactly which lengths overrun a buffer.
  \<^item> \<open>Edhoc03\<close>, \<open>Edhoc03_Props\<close>: the same for \<open>edhoc03.c\<close>, with pinned keys.
  \<^item> \<open>Bootstrap\<close>: \<open>bootstrap.c\<close> and its self-test; USRK and DSRK against RFC 5295, the info
    structure against CBOR, mirrored contexts.
  \<^item> \<open>Md5\<close>, \<open>Radius\<close>, \<open>Radius_Props\<close>, \<open>Relay\<close>, \<open>Smf_Client\<close>: \<open>eap-relay.c\<close> and \<open>radius-client.c\<close>.  MD5 and
    HMAC against RFC 1321 and RFC 2104; requests are well formed; a reply is accepted exactly when it
    is authentic; SMF and relay understand each other; the life cycle of the relay thread.
  \<^item> \<open>Nas\<close>, \<open>Nas_Props\<close>: the three PDU session authentication messages of \<open>lib/nas/5gs\<close> (encoder, decoder, packet
    buffer), and that they are read back unchanged.
  \<^item> \<open>Smf_Auth\<close>, \<open>Smf_Auth_Props\<close>: the state \<open>sec_auth\<close> and the functions of \<open>gsm-sm.c\<close> and \<open>gsm-build.c\<close>, the
    N1-only branch of the AMF's \<open>namf-handler.c\<close>.  The functions simulate an abstract machine over the busy flag and the
    RADIUS state; reachable states by rule induction; every message reaches the UE; every EAP
    payload comes from an authentic RADIUS reply.
  \<^item> \<open>Frag\<close>: fragmentation as interfaces (\<open>frag_sender\<close>, \<open>frag_queue\<close>, \<open>frag_receiver\<close>, \<open>frag_link\<close>,
    \<open>lockstep\<close>), interpreted on the functions of the module, of the engine and of the UE.
  \<^item> \<open>Rlm_Edhoc\<close>, \<open>Rlm_Props\<close>: the FreeRADIUS sub-module.  Session invariant, EAP-Success only after
    authentication, error behaviour, instantiation.
  \<^item> \<open>Eng\<close>, \<open>Eng_Props\<close>, \<open>Bench_Radius\<close>: the engine of the benchmark client, its RADIUS packets and its
    retransmission.
  \<^item> \<open>Eap_Peer\<close>: an initiator in conversation with the module (\<open>converse_by\<close>), whatever program it is.  The interface
    \<open>m4_peer\<close> says what a method-4 initiator does with a Start request, a fragment and the messages 2 and 4; that
    such a peer reaches EAP-Success is proved there once.  \<open>Eap_Run\<close>, \<open>Eap_Success\<close>: the engine as such a peer, and the
    methods 0 to 3; \<open>Provision\<close>: the key generators.
  \<^item> \<open>Ue_Eap\<close>, \<open>Ue_Eap_Props\<close>: the UE's EAP codec and the EAP element of its NAS messages
    (\<open>lib/nas/eap.cpp\<close>, \<open>ie6.cpp\<close>): round trip, and exactly when the element is decoded, which a
    debugging dump can prevent.  \<open>Ue\<close>, \<open>Ue_Props\<close>: the EAP-EDHOC state of \<open>NasSm\<close> and the handler of PDU Session
    Authentication Commands; reachable states by rule induction, the handshake behind each of them,
    the answer to every command, the UE as \<open>m4_peer\<close>, and that it authenticates only once.  \<open>Ue_Nas\<close>: the UE's NAS
    codec (\<open>encode.cpp\<close>, \<open>msg.cpp\<close>, \<open>base.hpp\<close>) against that of the network.
  \<^item> \<open>Ogs_Kdf\<close>, \<open>Ue_Keys\<close>, \<open>Kdf_Agree\<close>: the key derivations of the network (\<open>ogs-kdf.c\<close>) and of the UE
    (\<open>crypt.cpp\<close>, \<open>keys.cpp\<close>), and that they agree; the interface \<open>prf_loop\<close> of their PRF' is interpreted on
    both.  \<open>Ausf\<close>: the authentication vector of the UDM, the challenge of the AUSF and its check of the response.
    \<open>Ue_Aka\<close>: the sequence numbers of the USIM and the UE's handler of Authentication Requests with EAP.
    \<open>Aka_Props\<close>, \<open>Aka_Wire\<close>, \<open>Aka_Run\<close>: what each side has checked when it accepts, freshness over every history of
    the USIM by rule induction, the packets octet by octet, and the run of UDM, AUSF and UE that ends with equal keys.
  \<^item> This theory: the whole path from provisioning to application keys.

  \<^bold>\<open>Bounds.\<close>  Loops of the C code are recursive functions with termination proofs, so no fuel is needed for them.
  The one exception is \<open>dump_ies\<close>, a loop of the UE that may not end: a \<open>partial_function\<close> whose \<open>None\<close> is that
  case.  \<open>converse_by\<close>, the conversation of two programs, takes the number of round trips as its fuel; that 16 for
  method 4 and 2 for the other methods are enough is what the success theorems state, since they
  prove the result and not only its correctness.  The reachable states of the relay, of a session and of
  the UE are inductive and unbounded.

  \<^bold>\<open>Not modelled.\<close>  The upstream code of Open5GS, FreeRADIUS and UERANSIM around the functions above (transport, databases,
  the other messages and states), PQClean and libsodium (parameters), the benchmarks that only time
  cryptographic libraries or EAP-TLS, the Python and shell tools, log output, the ProVerif
  models.  Secrecy is outside a functional model; what is proved of authentication is which checks
  precede acceptance.
\<close>

section \<open>From provisioning to application keys\<close>

text \<open>The configuration of the module for the files of one directory, as \<open>cf_section_parse\<close>
  leaves it in the zeroed instance.\<close>

definition configured :: "string \<Rightarrow> rlm_eap_edhoc_t" where
  "configured dir =
     \<lparr>creds_path = Some (cred_path dir ''server.creds''), peer_pub_path = Some (cred_path dir ''ue.pub''),
      creds03_path = Some (cred_path dir ''server03.creds''), peer_pub03_path = Some (cred_path dir ''ue03.pub''),
      server = zero_creds, ue_pub = zeros E4_XWING_PK, server03 = zero_creds03,
      ue03_pub = \<lparr>pub_sig_vk = zeros E3_ED_PK, pub_dh_pk = zeros E3_X_PK\<rparr>, have03 = 0\<rparr>"

text \<open>The contents of a directory after both provisioning tools ran.\<close>

definition provisioned :: "'r crypto \<Rightarrow> fsys \<Rightarrow> string \<Rightarrow> edhoc4_creds \<Rightarrow> edhoc4_creds \<Rightarrow> edhoc03_creds \<Rightarrow> edhoc03_creds \<Rightarrow> bool" where
  "provisioned C fs dir srv ue srv3 ue3 \<longleftrightarrow>
     creds_ok C srv \<and> creds_ok C ue \<and> creds03_ok C srv3 \<and> creds03_ok C ue3 \<and>
     files fs (cred_path dir ''server.creds'') = Some (creds_bytes srv) \<and>
     files fs (cred_path dir ''server.pub'') = Some (edhoc4_creds.kem_pk srv) \<and>
     files fs (cred_path dir ''ue.creds'') = Some (creds_bytes ue) \<and>
     files fs (cred_path dir ''ue.pub'') = Some (edhoc4_creds.kem_pk ue) \<and>
     files fs (cred_path dir ''server03.creds'') = Some (creds03_bytes srv3) \<and>
     files fs (cred_path dir ''server03.pub'') = Some (peer03_bytes (pub_of srv3)) \<and>
     files fs (cred_path dir ''ue03.creds'') = Some (creds03_bytes ue3) \<and>
     files fs (cred_path dir ''ue03.pub'') = Some (peer03_bytes (pub_of ue3))"

lemma keygens_provision:
  assumes ok: "crypto_ok C" and fs: "\<And>p. writable fs p" "7523 \<le> room fs" and dir: "length dir \<le> 400"
    and k: "keygen C fs (Some dir) k1 k2 r = ((rc, fs1), r1)" "keygen03 C fs1 (Some dir) k3 k4 r1 = ((rc', fs2), r2)"
  obtains srv ue srv3 ue3 where "rc = 0" "rc' = 0" "provisioned C fs2 dir srv ue srv3 ue3"
proof -
  obtain srv ue r' where a: "creds_ok C srv" "creds_ok C ue"
    "keygen C fs (Some dir) k1 k2 r = ((0, fs\<lparr>files := (files fs)(
       cred_path dir ''server.creds'' \<mapsto> creds_bytes srv, cred_path dir ''server.pub'' \<mapsto> edhoc4_creds.kem_pk srv,
       cred_path dir ''ue.creds'' \<mapsto> creds_bytes ue, cred_path dir ''ue.pub'' \<mapsto> edhoc4_creds.kem_pk ue)\<rparr>), r')"
    by (rule keygen_stores [OF ok fs])
  have "\<And>p. writable fs1 p" "7523 \<le> room fs1" using a(3) k(1) fs by auto
  then obtain srv3 ue3 r'' where b: "creds03_ok C srv3" "creds03_ok C ue3"
    "keygen03 C fs1 (Some dir) k3 k4 r1 = ((0, fs1\<lparr>files := (files fs1)(
       cred_path dir ''server03.creds'' \<mapsto> creds03_bytes srv3, cred_path dir ''server03.pub'' \<mapsto> peer03_bytes (pub_of srv3),
       cred_path dir ''ue03.creds'' \<mapsto> creds03_bytes ue3, cred_path dir ''ue03.pub'' \<mapsto> peer03_bytes (pub_of ue3))\<rparr>), r'')"
    by (rule keygen03_stores [OF ok])
  have "rc = 0" "rc' = 0" using a(3) b(3) k by simp_all
  moreover have "provisioned C fs2 dir srv ue srv3 ue3"
    using a b k dir by (auto simp: provisioned_def cred_path_inj)
  ultimately show thesis by (rule that)
qed

lemma zero_creds_sized: "creds_sized zero_creds" "length (creds03_bytes zero_creds03) = 163"
  "length (peer03_bytes \<lparr>pub_sig_vk = zeros E3_ED_PK, pub_dh_pk = zeros E3_X_PK\<rparr>) = 64"
  by (simp_all add: creds_sized_def zero_creds_def creds03_bytes_def zero_creds03_def peer03_bytes_def)

lemma provisioned_instance:
  assumes ok: "crypto_ok C" and pr: "provisioned C fs dir srv ue srv3 ue3"
  shows "mod_instantiate fs (configured dir) = Some ((configured dir)\<lparr>server := srv, ue_pub := edhoc4_creds.kem_pk ue,
    server03 := srv3, ue03_pub := pub_of ue3, have03 := 1\<rparr>)"
proof -
  have p: "creds_sized srv" "creds_sized ue" "creds03_ok C srv3" "creds03_ok C ue3"
    using pr creds_ok_sized [OF ok] by (simp_all add: provisioned_def)
  have "edhoc4_creds_load fs (Some (cred_path dir ''server.creds'')) (Some zero_creds) = (E4_OK, Some srv)"
    "edhoc4_pub_load fs (Some (cred_path dir ''ue.pub'')) (Some (zeros 1216)) = (E4_OK, Some (edhoc4_creds.kem_pk ue))"
    using pr p zero_creds_sized by (simp_all add: load_creds_exact load_pub_exact provisioned_def creds_sized_def)
  moreover have "edhoc03_creds_load fs (Some (cred_path dir ''server03.creds'')) (Some zero_creds03) = (E3_OK, Some srv3)"
    "edhoc03_pub_load fs (Some (cred_path dir ''ue03.pub'')) (Some \<lparr>pub_sig_vk = zeros 32, pub_dh_pk = zeros 32\<rparr>) = (E3_OK, Some (pub_of ue3))"
    using pr zero_creds_sized creds03_ok_bytes [OF ok p(3)] creds03_ok_bytes [OF ok p(4)]
    by (simp_all add: load_creds03_exact load_pub03_exact provisioned_def)
  ultimately show ?thesis by (simp add: mod_instantiate_def configured_def)
qed

text \<open>What the engine's locals held before loading has the sizes of the types.\<close>

definition stack_sized :: "edhoc03_creds \<Rightarrow> edhoc03_peer \<Rightarrow> edhoc4_creds \<Rightarrow> bytes \<Rightarrow> bool" where
  "stack_sized s3 p3 s4 p4 \<longleftrightarrow>
     length (creds03_bytes s3) = 163 \<and> length (peer03_bytes p3) = 64 \<and> creds_sized s4 \<and> length p4 = E4_XWING_PK"

lemma provisioned_engine:
  assumes ok: "crypto_ok C" and pr: "provisioned C fs dir srv ue srv3 ue3" and st: "stack_sized s3 p3 s4 p4" and m: "0 \<le> m" "m \<le> 4"
  shows "load_creds fs dir s3 p3 s4 p4 (eng_zero m) =
    Some (if m = 4 then m4_engine ue (edhoc4_creds.kem_pk srv) else m03_engine m ue3 (pub_of srv3))"
proof -
  have p: "creds_sized srv" "creds_sized ue" "creds03_ok C srv3" "creds03_ok C ue3"
    using pr creds_ok_sized [OF ok] by (simp_all add: provisioned_def)
  have "edhoc4_creds_load fs (Some (cred_path dir ''ue.creds'')) (Some s4) = (E4_OK, Some ue)"
    "edhoc4_pub_load fs (Some (cred_path dir ''server.pub'')) (Some p4) = (E4_OK, Some (edhoc4_creds.kem_pk srv))"
    using pr p st by (simp_all add: load_creds_exact load_pub_exact provisioned_def creds_sized_def stack_sized_def)
  moreover have "edhoc03_creds_load fs (Some (cred_path dir ''ue03.creds'')) (Some s3) = (E3_OK, Some ue3)"
    "edhoc03_pub_load fs (Some (cred_path dir ''server03.pub'')) (Some p3) = (E3_OK, Some (pub_of srv3))"
    using pr st creds03_ok_bytes [OF ok p(3)] creds03_ok_bytes [OF ok p(4)]
    by (simp_all add: load_creds03_exact load_pub03_exact provisioned_def stack_sized_def)
  ultimately show ?thesis
    using m by (auto simp: load_creds_def m4_engine_def m03_engine_def eng_zero_def)
qed

text \<open>The EMSK each side holds at the end of a conversation of method \<open>m\<close>.\<close>

definition eng_emsk :: "int \<Rightarrow> eng_t \<Rightarrow> bytes" where
  "eng_emsk m e = (if m = 4 then edhoc4_ctx.emsk (eng_c4 e) else edhoc03_ctx.emsk (eng_c3 e))"

definition sess_emsk :: "int \<Rightarrow> edhoc_session_t \<Rightarrow> bytes" where
  "sess_emsk m s = (if m = 4 then edhoc4_ctx.emsk (sess_ctx s) else edhoc03_ctx.emsk (sess_ctx03 s))"

lemma provisioned_conversation:
  assumes ok: "crypto_ok C" and pr: "provisioned C fs dir srv ue srv3 ue3" and m: "0 \<le> m" "m \<le> 4"
    and inst: "inst = (configured dir)\<lparr>server := srv, ue_pub := edhoc4_creds.kem_pk ue, server03 := srv3, ue03_pub := pub_of ue3, have03 := 1\<rparr>"
    and e0: "e0 = (if m = 4 then m4_engine ue (edhoc4_creds.kem_pk srv) else m03_engine m ue3 (pub_of srv3))"
  obtains e s rq' r' where "converse C inst rq (if m = 4 then 16 else 2) e0 zero_session [1] r = Some (e, s, rq', r')"
    "code rq' = PW_EAP_SUCCESS" "reply_attrs rq' = reply_attrs rq @ mppe (eng_msk e)"
    "eng_emsk m e = sess_emsk m s" "length (eng_emsk m e) = 64"
proof (cases "m = 4")
  case True
  have "creds_ok C ue" "creds_ok C (server inst)" "ue_pub inst = edhoc4_creds.kem_pk ue" using pr by (simp_all add: provisioned_def inst)
  from m4_converses [OF ok this, of rq r] show ?thesis
    using that True by (auto simp: e0 inst eng_emsk_def sess_emsk_def)
next
  case False
  have "creds03_ok C ue3" "creds03_ok C (server03 inst)" "edhoc03_method_valid m" "ue03_pub inst = pub_of ue3" "have03 inst \<noteq> 0"
    using pr m False by (simp_all add: provisioned_def inst edhoc03_method_valid_def)
  from m03_converses [OF ok this, of rq r] show ?thesis
    using that False by (auto simp: e0 inst eng_emsk_def sess_emsk_def)
qed

text \<open>
  C1.  Secondary authentication as a whole.  Provision a directory with both key generators,
  configure the FreeRADIUS module with it and let the UE's engine load its half.  Then for every
  method from 0 to 4 the module instantiates, the engine loads its credentials and the
  conversation reaches EAP-Success, after 16 round trips for method 4 and two for the others;
  the reply carries the halves of the UE's MSK, both ends hold the same 64-octet EMSK, and
  the key schedule turns the EMSK of each end into OSCORE contexts of UE and application server that
  mirror each other.
\<close>

theorem secondary_authentication:
  assumes ok: "crypto_ok C" and fs: "\<And>p. writable fs p" "7523 \<le> room fs" and dir: "length dir \<le> 400"
    and k: "keygen C fs (Some dir) k1 k2 r = ((rc, fs1), r1)" "keygen03 C fs1 (Some dir) k3 k4 r1 = ((rc', fs2), r2)"
    and m: "0 \<le> m" "m \<le> 4" and st: "stack_sized s3 p3 s4 p4"
  shows "rc = 0 \<and> rc' = 0 \<and>
    (\<exists>inst e0 e s rq' r' ue as. mod_instantiate fs2 (configured dir) = Some inst \<and>
       load_creds fs2 dir s3 p3 s4 p4 (eng_zero m) = Some e0 \<and>
       converse C inst rq (if m = 4 then 16 else 2) e0 zero_session [1] r2 = Some (e, s, rq', r') \<and>
       code rq' = PW_EAP_SUCCESS \<and> reply_attrs rq' = reply_attrs rq @ mppe (eng_msk e) \<and>
       eng_emsk m e = sess_emsk m s \<and> length (eng_emsk m e) = BK_EMSK_LEN \<and>
       ue = fst (bootstrap_selftest C (eng_emsk m e) stk c d) \<and>
       as = fst (snd (bootstrap_selftest C (sess_emsk m s) stk' c' d')) \<and>
       sender_key ue = recipient_key as \<and> recipient_key ue = sender_key as \<and> common_iv ue = common_iv as)"
proof -
  obtain srv ue srv3 ue3 where rc: "rc = 0" "rc' = 0" and pr: "provisioned C fs2 dir srv ue srv3 ue3"
    by (rule keygens_provision [OF ok fs dir k])
  obtain e s rq' r' where x: "converse C ((configured dir)\<lparr>server := srv, ue_pub := edhoc4_creds.kem_pk ue, server03 := srv3,
        ue03_pub := pub_of ue3, have03 := 1\<rparr>) rq (if m = 4 then 16 else 2)
        (if m = 4 then m4_engine ue (edhoc4_creds.kem_pk srv) else m03_engine m ue3 (pub_of srv3)) zero_session [1] r2 = Some (e, s, rq', r')"
    "code rq' = PW_EAP_SUCCESS" "reply_attrs rq' = reply_attrs rq @ mppe (eng_msk e)"
    "eng_emsk m e = sess_emsk m s" "length (eng_emsk m e) = 64"
    by (rule provisioned_conversation [OF ok pr m refl refl, of rq r2])
  obtain u a u' a' where b: "bootstrap_selftest C (eng_emsk m e) stk c d = (u, a, True)"
    "bootstrap_selftest C (eng_emsk m e) stk' c' d' = (u', a', True)"
    "sender_key u = recipient_key a'" "recipient_key u = sender_key a'" "common_iv u = common_iv a'"
    by (rule bootstrap_selftest_mirror [OF crypto_okD(1) [OF ok], of "eng_emsk m e" stk c d stk' c' d']) (use x(5) in simp_all)
  with rc x b provisioned_instance [OF ok pr] provisioned_engine [OF ok pr st m] show ?thesis by auto
qed

theorem secondary_authentication_witness:
  "\<exists>fs2 r2 inst e0 e s rq' r'. mod_instantiate fs2 (configured ''/etc/edhoc'') = Some inst \<and>
     load_creds fs2 ''/etc/edhoc'' zero_creds03 (pub_of (toy_creds03 1)) zero_creds (zeros 1216) (eng_zero 4) = Some e0 \<and>
     converse toy inst toy_rq 16 e0 zero_session [1] r2 = Some (e, s, rq', r') \<and>
     code rq' = PW_EAP_SUCCESS \<and> reply_attrs rq' = mppe (eng_msk e)"
proof -
  let ?fs = "\<lparr>files = (\<lambda>_. None), writable = (\<lambda>_. True), room = 8000\<rparr>" and ?d = "''/etc/edhoc''"
  obtain rc fs1 r1 where a: "keygen toy ?fs (Some ?d) zero_creds zero_creds () = ((rc, fs1), r1)" by (metis surj_pair)
  obtain rc' fs2 r2 where b: "keygen03 toy fs1 (Some ?d) zero_creds03 zero_creds03 r1 = ((rc', fs2), r2)" by (metis surj_pair)
  have "stack_sized zero_creds03 (pub_of (toy_creds03 1)) zero_creds (zeros 1216)"
    using zero_creds_sized by (simp add: stack_sized_def peer03_bytes_def pub_of_def toy_creds03_def)
  from secondary_authentication [OF toy_ok _ _ _ a b _ _ this, of 4 toy_rq "\<lambda>_. []" empty_oscore_ctx empty_oscore_ctx
      "\<lambda>_. []" empty_oscore_ctx empty_oscore_ctx]
  obtain inst e0 e s rq' r' where "mod_instantiate fs2 (configured ?d) = Some inst"
    "load_creds fs2 ?d zero_creds03 (pub_of (toy_creds03 1)) zero_creds (zeros 1216) (eng_zero 4) = Some e0"
    "converse toy inst toy_rq 16 e0 zero_session [1] r2 = Some (e, s, rq', r')" "code rq' = PW_EAP_SUCCESS"
    "reply_attrs rq' = reply_attrs toy_rq @ mppe (eng_msk e)" by auto
  moreover have "reply_attrs toy_rq = []" by (simp add: toy_rq_def)
  ultimately show ?thesis by (metis append_Nil)
qed

section \<open>The UE\<close>

lemma provisioned_ue:
  assumes ok: "crypto_ok C" and pr: "provisioned C fs dir srv ue srv3 ue3"
    and inst: "server inst = srv" "ue_pub inst = edhoc4_creds.kem_pk ue"
    and E: "ue_files E = fs" "env_ue_creds E = Some (cred_path dir ''ue.creds'')" "env_srv_pub E = Some (cred_path dir ''server.pub'')"
  obtains u s rq' r' where "converse_by (ue_react C E) C inst rq 16 nas_sm_init zero_session [1] r = Some (u, s, rq', r')"
    "code rq' = PW_EAP_SUCCESS" "reply_attrs rq' = reply_attrs rq @ mppe (edhoc4_ctx.msk (m_edhocCtx u))" "m_edhocRound u = 3"
    "edhoc4_ctx.emsk (m_edhocCtx u) = edhoc4_ctx.emsk (sess_ctx s)" "length (edhoc4_ctx.emsk (m_edhocCtx u)) = 64"
proof -
  have "creds_ok C ue" "creds_ok C (server inst)" using pr inst by (simp_all add: provisioned_def)
  moreover have "files (ue_files E) (creds_file E) = Some (creds_bytes ue)"
    "files (ue_files E) (pub_file E) = Some (edhoc4_creds.kem_pk (server inst))"
    using pr E inst by (simp_all add: provisioned_def creds_file_def pub_file_def)
  ultimately show thesis using ue_converses [OF ok _ _ inst(2), of E rq r] that by fastforce
qed



end
